(* ===== verification/Prelude.thy ===== *)
theory Prelude
  imports Main "HOL-Library.AList" "HOL-Library.State_Monad"
begin

text \<open>
  Shared vocabulary of the development. It holds the Go values that every component uses
  (errors, results of fallible functions, string maps), the collections of lemmas the
  component proofs draw on, a small logic for effectful code (\<open>wp\<close>, \<open>keeps\<close>) and the
  interface of a transition system with an invariant.

  Strings are byte strings. A Go \<open>map[string]T\<close> is an association list with distinct
  keys whose order is the order in which one \<open>range\<close> loop visits it: Go leaves that order
  open, so theorems hold for every order of the list.
\<close>

section \<open>Errors and results\<close>

text \<open>
  Error values. \<open>ApiErr\<close> is an error of the Kubernetes API with its reason,
  \<open>GrpcErr\<close> a gRPC status error, \<open>OsErr\<close> an error of the operating system,
  \<open>MsgErr\<close> an error built with \<open>fmt.Errorf\<close> or \<open>errors.New\<close>.
\<close>

datatype api_reason = NotFound | Conflict | Timeout | AlreadyExists | OtherReason string

datatype grpc_code = InvalidArgument | Internal | Aborted | GrpcNotFound | GrpcAlreadyExists | Unimplemented | Unavailable

datatype os_reason = NotExist | OsOther string

datatype err =
    ApiErr api_reason string
  | GrpcErr grpc_code string
  | OsErr os_reason
  | MsgErr string
  | CtxCanceled
  | CtxDeadlineExceeded

definition IsNotFound :: "err option \<Rightarrow> bool" where
  "IsNotFound e = (case e of Some (ApiErr NotFound _) \<Rightarrow> True | _ \<Rightarrow> False)"

definition IsTimeout :: "err option \<Rightarrow> bool" where
  "IsTimeout e = (case e of Some (ApiErr Timeout _) \<Rightarrow> True | _ \<Rightarrow> False)"

definition IsConflict :: "err option \<Rightarrow> bool" where
  "IsConflict e = (case e of Some (ApiErr Conflict _) \<Rightarrow> True | _ \<Rightarrow> False)"

definition IsAlreadyExists :: "err option \<Rightarrow> bool" where
  "IsAlreadyExists e = (case e of Some (ApiErr AlreadyExists _) \<Rightarrow> True | _ \<Rightarrow> False)"

definition IsNotExist :: "err option \<Rightarrow> bool" where
  "IsNotExist e = (case e of Some (OsErr NotExist) \<Rightarrow> True | _ \<Rightarrow> False)"

text \<open>The text of an error, as \<open>err.Error()\<close> gives it.\<close>

fun code_str :: "grpc_code \<Rightarrow> string" where
  "code_str InvalidArgument = ''InvalidArgument''"
| "code_str Internal = ''Internal''"
| "code_str Aborted = ''Aborted''"
| "code_str GrpcNotFound = ''NotFound''"
| "code_str GrpcAlreadyExists = ''AlreadyExists''"
| "code_str Unimplemented = ''Unimplemented''"
| "code_str Unavailable = ''Unavailable''"

fun err_str :: "err \<Rightarrow> string" where
  "err_str (ApiErr _ msg) = msg"
| "err_str (GrpcErr c msg) = ''rpc error: code = '' @ code_str c @ '' desc = '' @ msg"
| "err_str (OsErr NotExist) = ''no such file or directory''"
| "err_str (OsErr (OsOther msg)) = msg"
| "err_str (MsgErr msg) = msg"
| "err_str CtxCanceled = ''context canceled''"
| "err_str CtxDeadlineExceeded = ''context deadline exceeded''"

text \<open>
  The outcome of a Go function that returns a value and an error: a value, an error, a
  run-time panic (index out of range, nil dereference), or, for a loop that a model runs
  with fuel, no return within the fuel.
\<close>

datatype 'a result = Ok 'a | Err err | Panic | OutOfFuel

fun result_of :: "err option \<Rightarrow> unit result" where
  "result_of None = Ok ()"
| "result_of (Some e) = Err e"

fun err_of :: "'a result \<Rightarrow> err option" where
  "err_of (Err e) = Some e"
| "err_of _ = None"

definition bindR :: "'a result \<Rightarrow> ('a \<Rightarrow> 'b result) \<Rightarrow> 'b result" where
  "bindR r f = (case r of Ok x \<Rightarrow> f x | Err e \<Rightarrow> Err e | Panic \<Rightarrow> Panic | OutOfFuel \<Rightarrow> OutOfFuel)"

lemma bindR_simps [simp]:
  "bindR (Ok x) f = f x" "bindR (Err e) f = Err e" "bindR Panic f = Panic"
  "bindR OutOfFuel f = OutOfFuel"
  by (simp_all add: bindR_def)

lemma bindR_Ok_iff: "bindR r f = Ok y \<longleftrightarrow> (\<exists>x. r = Ok x \<and> f x = Ok y)"
  by (cases r) auto

section \<open>String maps\<close>

type_synonym 'v smap = "(string \<times> 'v) list"

text \<open>Reading a missing key of a \<open>map[string]string\<close> gives the empty string.\<close>

definition mget :: "string smap \<Rightarrow> string \<Rightarrow> string" where
  "mget m k = (case map_of m k of None \<Rightarrow> '''' | Some v \<Rightarrow> v)"

definition mhas :: "'v smap \<Rightarrow> string \<Rightarrow> bool" where
  "mhas m k = (case map_of m k of None \<Rightarrow> False | Some _ \<Rightarrow> True)"

abbreviation mput :: "'v smap \<Rightarrow> string \<Rightarrow> 'v \<Rightarrow> 'v smap" where
  "mput m k v \<equiv> AList.update k v m"

abbreviation mdel :: "'v smap \<Rightarrow> string \<Rightarrow> 'v smap" where
  "mdel m k \<equiv> AList.delete k m"

text \<open>\<open>for k, v := range src { dst[k] = v }\<close>\<close>

definition mputs :: "'v smap \<Rightarrow> 'v smap \<Rightarrow> 'v smap" where
  "mputs dst src = fold (\<lambda>(k, v) m. mput m k v) src dst"

text \<open>Well-formed maps have each key once.\<close>

definition wf_map :: "'v smap \<Rightarrow> bool" where
  "wf_map m \<longleftrightarrow> distinct (map fst m)"

lemma mhas_iff: "mhas m k \<longleftrightarrow> k \<in> fst ` set m"
  by (simp add: mhas_def map_of_eq_None_iff split: option.split) (metis map_of_eq_None_iff option.distinct(1))

lemma mget_put [simp]: "mget (mput m k v) k' = (if k' = k then v else mget m k')"
  by (simp add: mget_def AList.update_conv')

lemma mget_del [simp]: "mget (mdel m k) k' = (if k' = k then '''' else mget m k')"
  by (simp add: mget_def AList.delete_conv')

lemma mhas_put [simp]: "mhas (mput m k v) k' \<longleftrightarrow> k' = k \<or> mhas m k'"
  by (simp add: mhas_def AList.update_conv' split: option.split)

lemma mhas_del [simp]: "mhas (mdel m k) k' \<longleftrightarrow> k' \<noteq> k \<and> mhas m k'"
  by (simp add: mhas_def AList.delete_conv' split: option.split)

lemma wf_map_Nil [simp]: "wf_map []"
  by (simp add: wf_map_def)

lemma wf_map_put [simp, intro]: "wf_map m \<Longrightarrow> wf_map (mput m k v)"
  by (simp add: wf_map_def AList.distinct_update)

lemma wf_map_del [simp, intro]: "wf_map m \<Longrightarrow> wf_map (mdel m k)"
  by (simp add: wf_map_def AList.distinct_delete)

lemma mputs_Nil [simp]: "mputs m [] = m"
  by (simp add: mputs_def)

lemma mputs_Cons [simp]: "mputs m ((k, v) # ps) = mputs (mput m k v) ps"
  by (simp add: mputs_def)

lemma wf_map_puts [simp, intro]: "wf_map m \<Longrightarrow> wf_map (mputs m ps)"
proof (induction ps arbitrary: m)
  case Nil
  then show ?case by simp
next
  case (Cons p ps)
  then show ?case by (cases p) (simp only: mputs_Cons wf_map_put)
qed

lemma map_of_mputs: "wf_map ps \<Longrightarrow> map_of (mputs m ps) = map_of m ++ map_of ps"
proof (induction ps arbitrary: m)
  case Nil
  then show ?case by simp
next
  case (Cons p ps)
  obtain k v where p: "p = (k, v)" by (cases p)
  from Cons.prems p have wf: "wf_map ps" and k: "map_of ps k = None"
    by (auto simp: wf_map_def map_of_eq_None_iff)
  have "map_of (mputs m (p # ps)) = (map_of m)(k \<mapsto> v) ++ map_of ps"
    using Cons.IH [OF wf] p by (simp add: AList.update_conv' fun_upd_def)
  also have "\<dots> = map_of m ++ map_of (p # ps)"
    using k p by (auto simp: map_add_def fun_eq_iff split: option.splits)
  finally show ?case .
qed

section \<open>Effectful code\<close>

text \<open>
  Code with effects is a state monad over the world of the process. \<open>wp m Q\<close> says: from
  every state, running \<open>m\<close> extends the trace \<open>tr\<close> of the state by events \<open>es\<close> and
  returns a value \<open>r\<close> with \<open>Q es r\<close>. \<open>keeps sel m\<close> says that \<open>m\<close> never changes
  the part \<open>sel\<close> of the state.
\<close>

abbreviation return :: "'a \<Rightarrow> ('s, 'a) state" where
  "return \<equiv> State_Monad.return"

definition wp :: "('s \<Rightarrow> 'e list) \<Rightarrow> ('s, 'a) state \<Rightarrow> ('e list \<Rightarrow> 'a \<Rightarrow> bool) \<Rightarrow> bool" where
  "wp tr m Q \<longleftrightarrow>
     (\<forall>s. \<exists>es. tr (snd (run_state m s)) = tr s @ es \<and> Q es (fst (run_state m s)))"

definition keeps :: "('s \<Rightarrow> 'x) \<Rightarrow> ('s, 'a) state \<Rightarrow> bool" where
  "keeps sel m \<longleftrightarrow> (\<forall>s. sel (snd (run_state m s)) = sel s)"

named_theorems wp_rules \<open>introduction rules for trace properties of effectful code\<close>
named_theorems keeps_rules \<open>introduction rules for state kept by effectful code\<close>
named_theorems model_defs \<open>definitions unfolded in proofs about a component\<close>

lemma wp_return [wp_rules]: "Q [] x \<Longrightarrow> wp tr (State_Monad.return x) Q"
  by (simp add: wp_def)

lemma wp_bind [wp_rules]:
  assumes "wp tr m (\<lambda>es a. wp tr (f a) (\<lambda>es'. Q (es @ es')))"
  shows "wp tr (State_Monad.bind m f) Q"
  unfolding wp_def
proof
  fix s
  obtain a s' where m: "run_state m s = (a, s')" by (cases "run_state m s")
  from assms m obtain es where es: "tr s' = tr s @ es"
    and f: "wp tr (f a) (\<lambda>es'. Q (es @ es'))"
    unfolding wp_def by (metis fst_conv snd_conv)
  from f obtain es' where
    "tr (snd (run_state (f a) s')) = tr s' @ es'" and "Q (es @ es') (fst (run_state (f a) s'))"
    unfolding wp_def by blast
  with es m show "\<exists>es. tr (snd (run_state (State_Monad.bind m f) s)) = tr s @ es \<and>
      Q es (fst (run_state (State_Monad.bind m f) s))"
    by (intro exI [of _ "es @ es'"]) simp
qed

lemma wp_mono: "wp tr m P \<Longrightarrow> (\<And>es r. P es r \<Longrightarrow> Q es r) \<Longrightarrow> wp tr m Q"
  unfolding wp_def by blast

lemma wp_conj: "wp tr m P \<Longrightarrow> wp tr m Q \<Longrightarrow> wp tr m (\<lambda>es r. P es r \<and> Q es r)"
  unfolding wp_def by (metis append_same_eq same_append_eq)

lemma wpD:
  assumes "wp tr m Q" and "run_state m s = (r, s')"
  shows "\<exists>es. tr s' = tr s @ es \<and> Q es r"
  using assms unfolding wp_def by (metis fst_conv snd_conv)

lemma keeps_return [keeps_rules]: "keeps sel (State_Monad.return x)"
  by (simp add: keeps_def)

lemma keeps_bind [keeps_rules]:
  "keeps sel m \<Longrightarrow> (\<And>a. keeps sel (f a)) \<Longrightarrow> keeps sel (State_Monad.bind m f)"
  unfolding keeps_def by (simp add: case_prod_unfold)

lemma keepsD: "keeps sel m \<Longrightarrow> run_state m s = (r, s') \<Longrightarrow> sel s' = sel s"
  unfolding keeps_def by (metis snd_conv)

section \<open>Transition systems with an invariant\<close>

text \<open>
  The interface of a component that evolves by steps: an initial state, a step relation
  and an invariant that the initial state has and every step keeps. Everything reachable
  then has the invariant.
\<close>

inductive reachable :: "('s \<Rightarrow> bool) \<Rightarrow> ('s \<Rightarrow> 's \<Rightarrow> bool) \<Rightarrow> 's \<Rightarrow> bool"
  for init :: "'s \<Rightarrow> bool" and step :: "'s \<Rightarrow> 's \<Rightarrow> bool" where
  reach_init: "init s \<Longrightarrow> reachable init step s"
| reach_step: "reachable init step s \<Longrightarrow> step s t \<Longrightarrow> reachable init step t"

locale invariant_system =
  fixes init :: "'s \<Rightarrow> bool"
    and step :: "'s \<Rightarrow> 's \<Rightarrow> bool"
    and inv :: "'s \<Rightarrow> bool"
  assumes inv_init: "init s \<Longrightarrow> inv s"
    and inv_step: "inv s \<Longrightarrow> step s t \<Longrightarrow> inv t"
begin

lemma reachable_inv: "reachable init step s \<Longrightarrow> inv s"
  by (induction rule: reachable.induct) (blast intro: inv_init inv_step)+

end

end
