(* ===== verification/GoStrings.thy ===== *)
theory GoStrings
  imports Prelude
begin

text \<open>
  The functions of Go's \<open>strings\<close> and \<open>strconv\<close> packages that the driver uses, on byte
  strings: prefix and substring tests, \<open>Index\<close>, \<open>Split\<close>, \<open>Join\<close>, trimming, \<open>Fields\<close>,
  \<open>ReplaceAll\<close> and decimal printing, with the laws the parsers of the driver rely on.
  White space is the ASCII white space of \<open>unicode.IsSpace\<close>.
\<close>

section \<open>Tests and search\<close>

definition HasPrefix :: "string \<Rightarrow> string \<Rightarrow> bool" where
  "HasPrefix s p \<longleftrightarrow> take (length p) s = p"

definition HasSuffix :: "string \<Rightarrow> string \<Rightarrow> bool" where
  "HasSuffix s p \<longleftrightarrow> length p \<le> length s \<and> drop (length s - length p) s = p"

fun Contains :: "string \<Rightarrow> string \<Rightarrow> bool" where
  "Contains [] sub = (sub = [])"
| "Contains (c # cs) sub = (HasPrefix (c # cs) sub \<or> Contains cs sub)"

fun Index :: "string \<Rightarrow> string \<Rightarrow> int" where
  "Index [] sub = (if sub = [] then 0 else -1)"
| "Index (c # cs) sub =
     (if HasPrefix (c # cs) sub then 0
      else let r = Index cs sub in if r < 0 then -1 else r + 1)"

text \<open>\<open>strings.LastIndex\<close> for a separator of one byte.\<close>

fun LastIndexByte :: "string \<Rightarrow> char \<Rightarrow> int" where
  "LastIndexByte [] c = -1"
| "LastIndexByte (x # xs) c =
     (let r = LastIndexByte xs c in if 0 \<le> r then r + 1 else if x = c then 0 else -1)"

lemma HasPrefix_iff: "HasPrefix s p \<longleftrightarrow> (\<exists>t. s = p @ t)"
  unfolding HasPrefix_def by (metis append_eq_conv_conj append_take_drop_id)

lemma HasPrefix_append [simp]: "HasPrefix (p @ t) p"
  by (auto simp: HasPrefix_iff)

lemma HasPrefix_Nil [simp]: "HasPrefix s []"
  by (simp add: HasPrefix_def)

lemma HasPrefix_Cons [simp]:
  "HasPrefix (c # cs) (p # ps) \<longleftrightarrow> c = p \<and> HasPrefix cs ps" "\<not> HasPrefix [] (p # ps)"
  by (auto simp: HasPrefix_def)

lemma Contains_iff: "Contains s sub \<longleftrightarrow> (\<exists>a b. s = a @ sub @ b)"
proof (induction s)
  case Nil
  then show ?case by auto
next
  case (Cons c cs)
  have "(\<exists>a b. c # cs = a @ sub @ b) \<longleftrightarrow> HasPrefix (c # cs) sub \<or> (\<exists>a b. cs = a @ sub @ b)"
    by (auto simp: HasPrefix_iff Cons_eq_append_conv)
  with Cons show ?case by simp
qed

lemma Contains_singleton [simp]: "Contains s [c] \<longleftrightarrow> c \<in> set s"
  by (induction s) auto

lemma Index_neg_iff: "Index s sub < 0 \<longleftrightarrow> \<not> Contains s sub"
  by (induction s) (auto simp: Let_def)

lemma Index_ge: "Index s sub \<ge> -1"
  by (induction s) (auto simp: Let_def)

lemma Index_le_length: "Index s sub \<le> int (length s)"
  by (induction s) (auto simp: Let_def)

lemma Index_found:
  "0 \<le> Index s sub \<Longrightarrow>
     s = take (nat (Index s sub)) s @ sub @ drop (nat (Index s sub) + length sub) s"
proof (induction s)
  case Nil
  then show ?case by (simp split: if_splits)
next
  case (Cons c cs)
  show ?case
  proof (cases "HasPrefix (c # cs) sub")
    case True
    then show ?thesis by (auto simp: HasPrefix_iff)
  next
    case False
    with Cons.prems have r: "0 \<le> Index cs sub" and i: "Index (c # cs) sub = Index cs sub + 1"
      by (auto simp: Let_def split: if_splits)
    from r have "nat (Index cs sub + 1) = Suc (nat (Index cs sub))" by simp
    with Cons.IH [OF r] i show ?thesis by simp
  qed
qed

lemma Index_char_notin: "c \<notin> set s \<Longrightarrow> Index s [c] = -1"
  by (induction s) auto

lemma Index_char_append: "c \<notin> set a \<Longrightarrow> Index (a @ c # b) [c] = int (length a)"
  by (induction a) (auto simp: Let_def)

lemma LastIndexByte_notin: "c \<notin> set s \<Longrightarrow> LastIndexByte s c = -1"
  by (induction s) auto

lemma LastIndexByte_append:
  "c \<notin> set b \<Longrightarrow> LastIndexByte (a @ c # b) c = int (length a)"
  by (induction a) (auto simp: Let_def LastIndexByte_notin)

section \<open>Splitting and joining\<close>

text \<open>
  \<open>strings.Split(s, sep)\<close> for a non-empty separator: the pieces between successive
  non-overlapping occurrences of \<open>sep\<close>. The accumulator is the piece read so far.
\<close>

function split_go :: "string \<Rightarrow> string \<Rightarrow> string \<Rightarrow> string list" where
  "split_go sep acc s =
     (if sep = [] then [acc @ s]
      else if HasPrefix s sep then acc # split_go sep [] (drop (length sep) s)
      else case s of [] \<Rightarrow> [acc] | c # cs \<Rightarrow> split_go sep (acc @ [c]) cs)"
  by pat_completeness auto
termination
  by (relation "measure (\<lambda>(sep, acc, s). length s)")
     (auto simp: HasPrefix_iff)

declare split_go.simps [simp del]

definition Split :: "string \<Rightarrow> string \<Rightarrow> string list" where
  "Split s sep = split_go sep [] s"

text \<open>\<open>strings.SplitN(s, sep, 2)\<close>.\<close>

definition SplitN2 :: "string \<Rightarrow> string \<Rightarrow> string list" where
  "SplitN2 s sep =
     (let i = Index s sep in
      if i < 0 then [s] else [take (nat i) s, drop (nat i + length sep) s])"

fun Join :: "string list \<Rightarrow> string \<Rightarrow> string" where
  "Join [] sep = []"
| "Join [x] sep = x"
| "Join (x # y # ys) sep = x @ sep @ Join (y # ys) sep"

lemma split_go_nonempty: "split_go sep acc s \<noteq> []"
  by (induction sep acc s rule: split_go.induct) (subst split_go.simps, auto split: list.split)

lemma Split_nonempty [simp]: "Split s sep \<noteq> []"
  by (simp add: Split_def split_go_nonempty)

lemma Join_Cons: "ys \<noteq> [] \<Longrightarrow> Join (x # ys) sep = x @ sep @ Join ys sep"
  by (cases ys) auto

lemma Join_split_go: "sep \<noteq> [] \<Longrightarrow> Join (split_go sep acc s) sep = acc @ s"
proof (induction sep acc s rule: split_go.induct)
  case (1 sep acc s)
  show ?case
  proof (cases "HasPrefix s sep")
    case True
    then obtain t where s: "s = sep @ t" by (auto simp: HasPrefix_iff)
    have "split_go sep acc s = acc # split_go sep [] t"
      using True "1.prems" s by (subst split_go.simps) simp
    with "1.IH"(1) True "1.prems" s show ?thesis
      by (simp add: Join_Cons split_go_nonempty)
  next
    case False
    show ?thesis
    proof (cases s)
      case Nil
      with False "1.prems" show ?thesis by (subst split_go.simps) simp
    next
      case (Cons c cs)
      with False "1.prems" have "split_go sep acc s = split_go sep (acc @ [c]) cs"
        by (subst split_go.simps) simp
      with "1.IH"(2) [OF _ False Cons] Cons "1.prems" show ?thesis by simp
    qed
  qed
qed

lemma Join_Split: "sep \<noteq> [] \<Longrightarrow> Join (Split s sep) sep = s"
  by (simp add: Split_def Join_split_go)

lemma split_go_no_occurrence:
  "sep \<noteq> [] \<Longrightarrow> \<not> Contains s sep \<Longrightarrow> split_go sep acc s = [acc @ s]"
proof (induction s arbitrary: acc)
  case Nil
  then show ?case by (subst split_go.simps) (cases sep; simp)
next
  case (Cons c cs)
  then show ?case by (subst split_go.simps) simp
qed

lemma Split_no_occurrence: "sep \<noteq> [] \<Longrightarrow> \<not> Contains s sep \<Longrightarrow> Split s sep = [s]"
  by (simp add: Split_def split_go_no_occurrence)

text \<open>A separator whose first occurrence in \<open>a @ sep\<close> is at the end of \<open>a\<close>.\<close>

definition first_at :: "string \<Rightarrow> string \<Rightarrow> bool" where
  "first_at a sep \<longleftrightarrow> (\<forall>i < length a. \<not> HasPrefix (drop i (a @ sep)) sep)"

lemma split_go_first:
  assumes "sep \<noteq> []" and "\<forall>i < length a. \<not> HasPrefix (drop i (a @ sep @ b)) sep"
  shows "split_go sep acc (a @ sep @ b) = (acc @ a) # split_go sep [] b"
  using assms(2)
proof (induction a arbitrary: acc)
  case Nil
  with assms(1) show ?case by (subst split_go.simps) simp
next
  case (Cons c cs)
  from Cons.prems have "\<not> HasPrefix ((c # cs) @ sep @ b) sep"
    by (metis drop0 length_greater_0_conv list.distinct(1))
  moreover have "\<forall>i < length cs. \<not> HasPrefix (drop i (cs @ sep @ b)) sep"
    using Cons.prems by (metis (no_types) append_Cons drop_Suc_Cons length_Cons Suc_less_eq)
  ultimately show ?case
    using Cons.IH [of "acc @ [c]"] assms(1) by (subst split_go.simps) simp
qed

lemma first_at_append: "first_at a sep \<Longrightarrow>
    \<forall>i < length a. \<not> HasPrefix (drop i (a @ sep @ b)) sep"
proof (intro allI impI)
  fix i assume f: "first_at a sep" and i: "i < length a"
  have "take (length sep) (drop i (a @ sep @ b)) = take (length sep) (drop i (a @ sep))"
    using i by (simp add: take_append)
  with f i show "\<not> HasPrefix (drop i (a @ sep @ b)) sep"
    by (auto simp: first_at_def HasPrefix_def)
qed

lemma Split_first:
  "sep \<noteq> [] \<Longrightarrow> first_at a sep \<Longrightarrow> Split (a @ sep @ b) sep = a # Split b sep"
  using split_go_first [OF _ first_at_append, where acc = "[]" and b = b]
  by (simp add: Split_def)

text \<open>A byte of the separator that the text before it does not have makes it the first.\<close>

lemma first_at_marker:
  assumes "sep = u @ x # v" and "x \<notin> set (a @ u)"
  shows "first_at a sep"
  unfolding first_at_def
proof (intro allI impI notI)
  fix i assume i: "i < length a" and p: "HasPrefix (drop i (a @ sep)) sep"
  from p obtain t where t: "drop i (a @ sep) = sep @ t" by (auto simp: HasPrefix_iff)
  then have "drop i (a @ sep) ! length u = x"
    by (simp add: assms(1) nth_append)
  moreover have "drop i (a @ sep) ! length u = (a @ sep) ! (i + length u)"
    using i by (subst nth_drop) (auto simp: assms(1))
  moreover have "(a @ sep) ! (i + length u) = (a @ u) ! (i + length u)"
    using i by (auto simp: assms(1) nth_append)
  moreover have "(a @ u) ! (i + length u) \<in> set (a @ u)"
    using i by (intro nth_mem) simp
  ultimately show False using assms(2) by simp
qed

lemma Split_char_Cons: "c \<notin> set a \<Longrightarrow> Split (a @ c # b) [c] = a # Split b [c]"
  using Split_first [of "[c]" a b] first_at_marker [of "[c]" "[]" c "[]" a] by simp

lemma Split_char_single: "c \<notin> set a \<Longrightarrow> Split a [c] = [a]"
  by (rule Split_no_occurrence) auto

lemma Split_char_pieces: "p \<in> set (Split s [c]) \<Longrightarrow> c \<notin> set p"
proof -
  have main: "c \<notin> set acc \<Longrightarrow> p \<in> set (split_go [c] acc s) \<Longrightarrow> c \<notin> set p" for acc
  proof (induction "[c]" acc s rule: split_go.induct)
    case (1 acc s)
    show ?case
    proof (cases s)
      case Nil
      with "1.prems" show ?thesis by (simp add: split_go.simps [of _ _ "[]"])
    next
      case (Cons d ds)
      show ?thesis
      proof (cases "d = c")
        case True
        with Cons have "split_go [c] acc s = acc # split_go [c] [] ds"
          by (subst split_go.simps) simp
        with "1.prems" "1.hyps"(1) True Cons show ?thesis by auto
      next
        case False
        with Cons have "split_go [c] acc s = split_go [c] (acc @ [d]) ds"
          by (subst split_go.simps) simp
        with "1.prems" "1.hyps"(2) False Cons show ?thesis by auto
      qed
    qed
  qed
  from main [of "[]"] show "p \<in> set (Split s [c]) \<Longrightarrow> c \<notin> set p" by (simp add: Split_def)
qed

lemma SplitN2_char: "c \<notin> set a \<Longrightarrow> SplitN2 (a @ c # b) [c] = [a, b]"
  by (simp add: SplitN2_def Index_char_append)

lemma SplitN2_char_single: "c \<notin> set a \<Longrightarrow> SplitN2 a [c] = [a]"
  by (simp add: SplitN2_def Index_char_notin)

section \<open>Trimming, fields, replacement\<close>

definition TrimPrefix :: "string \<Rightarrow> string \<Rightarrow> string" where
  "TrimPrefix s p = (if HasPrefix s p then drop (length p) s else s)"

definition TrimSuffix :: "string \<Rightarrow> string \<Rightarrow> string" where
  "TrimSuffix s p = (if HasSuffix s p then take (length s - length p) s else s)"

definition TrimLeftFunc :: "string \<Rightarrow> (char \<Rightarrow> bool) \<Rightarrow> string" where
  "TrimLeftFunc s f = dropWhile f s"

definition TrimFunc :: "string \<Rightarrow> (char \<Rightarrow> bool) \<Rightarrow> string" where
  "TrimFunc s f = rev (dropWhile f (rev (dropWhile f s)))"

definition Trim :: "string \<Rightarrow> string \<Rightarrow> string" where
  "Trim s cutset = TrimFunc s (\<lambda>c. c \<in> set cutset)"

definition is_space :: "char \<Rightarrow> bool" where
  "is_space c \<longleftrightarrow> c \<in> {CHR '' '', CHR 0x09, CHR 0x0A, CHR 0x0B, CHR 0x0C, CHR 0x0D}"

definition TrimSpace :: "string \<Rightarrow> string" where
  "TrimSpace s = TrimFunc s is_space"

text \<open>\<open>strings.Fields\<close>: the maximal runs of bytes that are not white space.\<close>

fun fields_go :: "string \<Rightarrow> string \<Rightarrow> string list" where
  "fields_go acc [] = (if acc = [] then [] else [acc])"
| "fields_go acc (c # cs) =
     (if is_space c then (if acc = [] then fields_go [] cs else acc # fields_go [] cs)
      else fields_go (acc @ [c]) cs)"

definition Fields :: "string \<Rightarrow> string list" where
  "Fields s = fields_go [] s"

text \<open>\<open>strings.ReplaceAll(s, old, new)\<close> for a non-empty \<open>old\<close>.\<close>

definition ReplaceAll :: "string \<Rightarrow> string \<Rightarrow> string \<Rightarrow> string" where
  "ReplaceAll s old new = Join (Split s old) new"

lemma HasSuffix_iff: "HasSuffix s p \<longleftrightarrow> (\<exists>t. s = t @ p)"
  unfolding HasSuffix_def
  by (metis append_eq_conv_conj append_take_drop_id diff_add_inverse2 le_add2 length_append)

lemma TrimSuffix_append [simp]: "TrimSuffix (s @ p) p = s"
  by (auto simp: TrimSuffix_def HasSuffix_iff)

lemma TrimPrefix_append [simp]: "TrimPrefix (p @ s) p = s"
  by (simp add: TrimPrefix_def)

lemma HasSuffix_snoc [simp]: "HasSuffix (s @ [c]) [c]"
  by (auto simp: HasSuffix_iff)

lemma is_space_iff: "is_space c \<longleftrightarrow> c = CHR '' '' \<or> c = CHR 0x09 \<or> c = CHR 0x0A \<or> c = CHR 0x0B
    \<or> c = CHR 0x0C \<or> c = CHR 0x0D"
  by (simp add: is_space_def)

lemma fields_go_pieces: "p \<in> set (fields_go acc s) \<Longrightarrow> list_all (\<lambda>c. \<not> is_space c) acc \<Longrightarrow>
    p \<noteq> [] \<and> list_all (\<lambda>c. \<not> is_space c) p"
  by (induction acc s rule: fields_go.induct) (auto split: if_splits)

lemma Fields_pieces: "p \<in> set (Fields s) \<Longrightarrow> p \<noteq> [] \<and> list_all (\<lambda>c. \<not> is_space c) p"
  using fields_go_pieces [of p "[]" s] by (simp add: Fields_def)

lemma TrimFunc_idem: "TrimFunc (TrimFunc s f) f = TrimFunc s f"
proof -
  have last: "TrimFunc s f \<noteq> [] \<Longrightarrow> \<not> f (last (TrimFunc s f))"
    unfolding TrimFunc_def by (metis hd_dropWhile last_rev rev_is_Nil_conv)
  have hd: "TrimFunc s f \<noteq> [] \<Longrightarrow> \<not> f (hd (TrimFunc s f))"
  proof -
    assume ne: "TrimFunc s f \<noteq> []"
    let ?d = "dropWhile f s"
    obtain t where "?d = TrimFunc s f @ t"
      unfolding TrimFunc_def
      by (metis rev_append rev_rev_ident takeWhile_dropWhile_id)
    with ne have "hd ?d = hd (TrimFunc s f)" and "?d \<noteq> []" by auto
    then show "\<not> f (hd (TrimFunc s f))" by (metis hd_dropWhile)
  qed
  show ?thesis
  proof (cases "TrimFunc s f")
    case Nil
    have "TrimFunc [] f = []" by (simp add: TrimFunc_def)
    with Nil show ?thesis by simp
  next
    case (Cons c cs)
    with hd have "dropWhile f (TrimFunc s f) = TrimFunc s f" by simp
    moreover have "\<not> f (hd (rev (TrimFunc s f)))"
      unfolding hd_rev by (rule last) (simp add: Cons)
    then have "dropWhile f (rev (TrimFunc s f)) = rev (TrimFunc s f)"
      unfolding dropWhile_eq_self_iff by blast
    ultimately show ?thesis by (metis TrimFunc_def rev_rev_ident)
  qed
qed

section \<open>Decimal printing\<close>

fun nat_digits :: "nat \<Rightarrow> nat list" where
  "nat_digits n = (if n < 10 then [n] else nat_digits (n div 10) @ [n mod 10])"

declare nat_digits.simps [simp del]

definition digit_char :: "nat \<Rightarrow> char" where
  "digit_char d = ''0123456789'' ! d"

definition nat_str :: "nat \<Rightarrow> string" where
  "nat_str n = map digit_char (nat_digits n)"

definition int_str :: "int \<Rightarrow> string" where
  "int_str i = (if i < 0 then CHR ''-'' # nat_str (nat (- i)) else nat_str (nat i))"

definition digits_val :: "nat list \<Rightarrow> nat" where
  "digits_val ds = foldl (\<lambda>a d. 10 * a + d) 0 ds"

lemma digits_val_nat_digits: "digits_val (nat_digits n) = n"
proof (induction n rule: nat_digits.induct)
  case (1 n)
  then show ?case
    by (cases "n < 10") (auto simp: nat_digits.simps [of n] digits_val_def)
qed

lemma nat_digits_lt: "d \<in> set (nat_digits n) \<Longrightarrow> d < 10"
proof (induction n rule: nat_digits.induct)
  case (1 n)
  then show ?case
    by (cases "n < 10") (auto simp: nat_digits.simps [of n])
qed

lemma digit_char_inj: "d < 10 \<Longrightarrow> e < 10 \<Longrightarrow> digit_char d = digit_char e \<Longrightarrow> d = e"
proof -
  assume d: "d < 10" and e: "e < 10" and eq: "digit_char d = digit_char e"
  have "distinct ''0123456789''" by simp
  with d e eq show "d = e"
    unfolding digit_char_def by (simp add: nth_eq_iff_index_eq)
qed

lemma nat_str_inj: "nat_str m = nat_str n \<Longrightarrow> m = n"
proof -
  assume "nat_str m = nat_str n"
  then have "nat_digits m = nat_digits n"
    unfolding nat_str_def
    by (rule map_inj_on) (auto simp: inj_on_def dest: nat_digits_lt digit_char_inj)
  then show "m = n" by (metis digits_val_nat_digits)
qed

end
