(* ===== verification/Digest.thy ===== *)
theory Digest
  imports GoStrings "HOL-Library.Word"
begin

unbundle bit_operations_syntax

text \<open>
  The two hash functions of Go's standard library that name Kubernetes objects and pick
  locks: FNV-1a on 32 bits (\<open>hash/fnv\<close>, used by \<open>GetPodLock\<close>) and SHA-256
  (\<open>crypto/sha256\<close>, used for reference keys, job names and node ports), with hexadecimal
  printing. Both are executable definitions on machine words.
\<close>

type_synonym u8 = "8 word"
type_synonym u32 = "32 word"
type_synonym u64 = "64 word"

definition byte_of :: "char \<Rightarrow> u8" where
  "byte_of c = of_char c"

section \<open>FNV-1a\<close>

definition fnv32a :: "string \<Rightarrow> u32" where
  "fnv32a s = foldl (\<lambda>h c. (h XOR ucast (byte_of c)) * 16777619) 2166136261 s"

section \<open>SHA-256\<close>

definition sha256_k :: "u32 list" where
  "sha256_k =
    [1116352408, 1899447441, 3049323471, 3921009573, 961987163, 1508970993, 2453635748, 2870763221,
     3624381080, 310598401, 607225278, 1426881987, 1925078388, 2162078206, 2614888103, 3248222580,
     3835390401, 4022224774, 264347078, 604807628, 770255983, 1249150122, 1555081692, 1996064986,
     2554220882, 2821834349, 2952996808, 3210313671, 3336571891, 3584528711, 113926993, 338241895,
     666307205, 773529912, 1294757372, 1396182291, 1695183700, 1986661051, 2177026350, 2456956037,
     2730485921, 2820302411, 3259730800, 3345764771, 3516065817, 3600352804, 4094571909, 275423344,
     430227734, 506948616, 659060556, 883997877, 958139571, 1322822218, 1537002063, 1747873779,
     1955562222, 2024104815, 2227730452, 2361852424, 2428436474, 2756734187, 3204031479, 3329325298]"

definition sha256_init :: "u32 list" where
  "sha256_init =
    [1779033703, 3144134277, 1013904242, 2773480762, 1359893119, 2600822924, 528734635, 1541459225]"

definition rotr32 :: "nat \<Rightarrow> u32 \<Rightarrow> u32" where
  "rotr32 n x = drop_bit n x OR push_bit (32 - n) x"

text \<open>Padding: the byte 0x80, zero bytes up to 56 modulo 64, the bit length on 64 bits.\<close>

definition sha256_pad :: "u8 list \<Rightarrow> u8 list" where
  "sha256_pad m =
     (let n = length m;
          z = (119 - n mod 64) mod 64;
          len = (of_nat (8 * n) :: u64)
      in m @ [0x80] @ replicate z 0 @ map (\<lambda>i. ucast (drop_bit (8 * i) len)) (rev [0..<8]))"

definition be_word :: "u8 list \<Rightarrow> u32" where
  "be_word bs = foldl (\<lambda>a b. push_bit 8 a OR ucast b) 0 bs"

fun chunks :: "nat \<Rightarrow> 'a list \<Rightarrow> nat \<Rightarrow> 'a list list" where
  "chunks 0 xs k = []"
| "chunks (Suc n) xs k = take k xs # chunks n (drop k xs) k"

text \<open>The message schedule, newest word first.\<close>

fun sha256_schedule :: "nat \<Rightarrow> u32 list \<Rightarrow> u32 list" where
  "sha256_schedule 0 ws = ws"
| "sha256_schedule (Suc n) ws =
     (let s0 = (let x = ws ! 14 in rotr32 7 x XOR rotr32 18 x XOR drop_bit 3 x);
          s1 = (let x = ws ! 1 in rotr32 17 x XOR rotr32 19 x XOR drop_bit 10 x)
      in sha256_schedule n ((ws ! 15 + s0 + ws ! 6 + s1) # ws))"

fun sha256_round :: "u32 list \<Rightarrow> u32 \<times> u32 \<Rightarrow> u32 list" where
  "sha256_round [a, b, c, d, e, f, g, h] (k, w) =
     (let s1 = rotr32 6 e XOR rotr32 11 e XOR rotr32 25 e;
          ch = (e AND f) XOR (NOT e AND g);
          t1 = h + s1 + ch + k + w;
          s0 = rotr32 2 a XOR rotr32 13 a XOR rotr32 22 a;
          maj = (a AND b) XOR (a AND c) XOR (b AND c)
      in [t1 + (s0 + maj), a, b, c, d + t1, e, f, g])"
| "sha256_round st _ = st"

definition sha256_block :: "u32 list \<Rightarrow> u8 list \<Rightarrow> u32 list" where
  "sha256_block hs block =
     (let w16 = map be_word (chunks 16 block 4);
          ws = rev (sha256_schedule 48 (rev w16))
      in map2 (+) hs (foldl sha256_round hs (zip sha256_k ws)))"

definition sha256 :: "string \<Rightarrow> u8 list" where
  "sha256 s =
     (let m = sha256_pad (map byte_of s);
          hs = foldl sha256_block sha256_init (chunks (length m div 64) m 64)
      in concat (map (\<lambda>w. map (\<lambda>i. ucast (drop_bit (8 * i) w)) (rev [0..<4])) hs))"

section \<open>Hexadecimal printing\<close>

definition hex_digit :: "nat \<Rightarrow> char" where
  "hex_digit d = ''0123456789abcdef'' ! d"

definition hex_byte :: "u8 \<Rightarrow> string" where
  "hex_byte b = [hex_digit (unat b div 16), hex_digit (unat b mod 16)]"

definition hex :: "u8 list \<Rightarrow> string" where
  "hex bs = concat (map hex_byte bs)"

section \<open>Sizes\<close>

lemma length_sha256_round: "length st = 8 \<Longrightarrow> length (sha256_round st kw) = 8"
  by (cases "(st, kw)" rule: sha256_round.cases) (auto simp: Let_def)

lemma length_foldl_round: "length st = 8 \<Longrightarrow> length (foldl sha256_round st kws) = 8"
  by (induction kws arbitrary: st) (simp_all add: length_sha256_round)

lemma length_sha256_block: "length hs = 8 \<Longrightarrow> length (sha256_block hs b) = 8"
  by (simp add: sha256_block_def Let_def length_foldl_round)

lemma length_foldl_block: "length hs = 8 \<Longrightarrow> length (foldl sha256_block hs bs) = 8"
  by (induction bs arbitrary: hs) (simp_all add: length_sha256_block)

lemma length_sha256 [simp]: "length (sha256 s) = 32"
proof -
  have "length (foldl sha256_block sha256_init bs) = 8" for bs
    by (rule length_foldl_block) (simp add: sha256_init_def)
  then show ?thesis
    by (simp add: sha256_def Let_def length_concat comp_def sum_list_triv)
qed

lemma length_hex [simp]: "length (hex bs) = 2 * length bs"
  by (induction bs) (simp_all add: hex_def hex_byte_def)

lemma hex_digit_mem: "d < 16 \<Longrightarrow> hex_digit d \<in> set ''0123456789abcdef''"
  unfolding hex_digit_def by (rule nth_mem) simp

lemma hex_chars: "c \<in> set (hex bs) \<Longrightarrow> c \<in> set ''0123456789abcdef''"
proof -
  have b: "unat b div 16 < 16" "unat b mod 16 < 16" for b :: u8
    using unsigned_less [of b, where ?'a = nat] by simp_all
  assume "c \<in> set (hex bs)"
  then obtain b where "c \<in> set (hex_byte b)"
    by (auto simp: hex_def)
  then show ?thesis
    using hex_digit_mem [OF b(1)] hex_digit_mem [OF b(2)] unfolding hex_byte_def by auto
qed

end
