(* ===== verification/Util.thy ===== *)
theory Util
  imports Digest "HOL-Library.Signed_Division"
begin

unbundle bit_operations_syntax

text \<open>
  The helper packages of the driver: \<open>pkg/util/util.go\<close> (names and locks derived from
  hashes, option filters, shell quoting, parsers for volume identifiers and
  \<open>/proc/mounts\<close>), \<open>pkg/util/dev_monitor.go\<close> (device numbers) and
  \<open>pkg/util/security/escape.go\<close> (quoting for bash).
\<close>

section \<open>Definitions\<close>

subsection \<open>Strings and options (util.go)\<close>

definition valid_char :: "char \<Rightarrow> bool" where
  "valid_char c \<longleftrightarrow>
     (let n = (of_char c :: nat) in
      (65 \<le> n \<and> n \<le> 90) \<or> (97 \<le> n \<and> n \<le> 122) \<or> (48 \<le> n \<and> n \<le> 57)
      \<or> c \<in> set ''=._@:~/-'')"

fun ValidateCharacter :: "string list \<Rightarrow> bool" where
  "ValidateCharacter [] = True"
| "ValidateCharacter (input # inputs) =
     (if \<not> list_all valid_char input then False else ValidateCharacter inputs)"

definition ByteToGB :: "int \<Rightarrow> int" where
  "ByteToGB bytes = bytes sdiv (1024 * 1024 * 1024)"

definition ParseBool :: "string \<Rightarrow> bool" where
  "ParseBool s \<longleftrightarrow> s = ''true''"

fun ContainsPrefix :: "string list \<Rightarrow> string \<Rightarrow> bool" where
  "ContainsPrefix [] s = False"
| "ContainsPrefix (item # items) s = (if HasPrefix item s then True else ContainsPrefix items s)"

fun ContainsString :: "string list \<Rightarrow> string \<Rightarrow> bool" where
  "ContainsString [] s = False"
| "ContainsString (item # items) s = (if item = s then True else ContainsString items s)"

fun strip_ro :: "string list \<Rightarrow> string list \<Rightarrow> string list" where
  "strip_ro news [] = news"
| "strip_ro news (opt # options) =
     (if opt \<noteq> ''ro'' \<and> opt \<noteq> ''read-only'' then strip_ro (news @ [opt]) options
      else strip_ro news options)"

definition StripReadonlyOption :: "string list \<Rightarrow> string list" where
  "StripReadonlyOption options = strip_ro [] options"

definition CheckExpectValue :: "string smap \<Rightarrow> string \<Rightarrow> string \<Rightarrow> bool" where
  "CheckExpectValue m key targetValue =
     (if length m = 0 then False
      else case map_of m key of Some v \<Rightarrow> v = targetValue | None \<Rightarrow> False)"

definition QuoteForShell :: "string \<Rightarrow> string" where
  "QuoteForShell cmd =
     (let cmd = (if Contains cmd ''('' then ReplaceAll cmd ''('' (CHR 0x5C # ''('') else cmd);
          cmd = (if Contains cmd '')'' then ReplaceAll cmd '')'' (CHR 0x5C # '')'') else cmd)
      in cmd)"

text \<open>
  Slices of a Go string panic when the bound is past the end; \<open>slice_from\<close> is \<open>s[i:]\<close>.
\<close>

definition slice_from :: "string \<Rightarrow> int \<Rightarrow> string result" where
  "slice_from s i = (if i < 0 \<or> int (length s) < i then Panic else Ok (drop (nat i) s))"

definition StripPasswd :: "string \<Rightarrow> string result" where
  "StripPasswd uri =
     (let p = Index uri ''@'' in
      if p < 0 then Ok uri
      else let sp = Index uri ''://'' in
        bindR (slice_from uri (sp + 3)) (\<lambda>rest.
          let cp = Index rest '':'' in
          if cp < 0 \<or> sp + 3 + cp > p then Ok uri
          else Ok (take (nat (sp + 3 + cp)) uri @ '':****'' @ drop (nat p) uri)))"

subsection \<open>Hash-derived names and locks (util.go)\<close>

definition GetReferenceKey :: "string \<Rightarrow> string" where
  "GetReferenceKey target = take 63 (''dingofs-'' @ hex (sha256 target))"

text \<open>The index of the mutex of \<open>PodLocks\<close> that guards a pod hash.\<close>

definition PodLocks_size :: nat where
  "PodLocks_size = 1024"

definition GetPodLock :: "string \<Rightarrow> nat" where
  "GetPodLock podHashVal = unat (fnv32a podHashVal mod 1024)"

text \<open>\<open>regexp.Match("pvc-\w{8}(-\w{4}){3}-\w{12}", name)\<close>: the expression is not anchored.\<close>

definition word_char :: "char \<Rightarrow> bool" where
  "word_char c \<longleftrightarrow>
     (let n = (of_char c :: nat) in
      (65 \<le> n \<and> n \<le> 90) \<or> (97 \<le> n \<and> n \<le> 122) \<or> (48 \<le> n \<and> n \<le> 57) \<or> n = 95)"

fun uuid_groups :: "nat list \<Rightarrow> string \<Rightarrow> bool" where
  "uuid_groups [] s = True"
| "uuid_groups [n] s = (length (take n s) = n \<and> list_all word_char (take n s))"
| "uuid_groups (n # m # ns) s =
     (length (take n s) = n \<and> list_all word_char (take n s) \<and>
      HasPrefix (drop n s) ''-'' \<and> uuid_groups (m # ns) (drop (n + 1) s))"

definition pvc_at :: "string \<Rightarrow> bool" where
  "pvc_at s \<longleftrightarrow> HasPrefix s ''pvc-'' \<and> uuid_groups [8, 4, 4, 4, 12] (drop 4 s)"

fun CheckDynamicPV :: "string \<Rightarrow> bool" where
  "CheckDynamicPV [] = False"
| "CheckDynamicPV (c # cs) = (pvc_at (c # cs) \<or> CheckDynamicPV cs)"

subsection \<open>Volume identifiers and mounted file systems (util.go)\<close>

record DfsVol =
  FsName :: string
  DfsMountPath :: string

definition GetDfsInfo :: "string \<Rightarrow> DfsVol result" where
  "GetDfsInfo vID =
     (case Split vID '';'' of
        [fsNameInfo, mountPathInfo] \<Rightarrow>
          (let fsNameSplit = Split fsNameInfo ''='';
               mountPathSplit = Split mountPathInfo ''=''
           in if length fsNameSplit < 2 \<or> length mountPathSplit < 2
              then Err (GrpcErr Internal (''Invalid Volume info : ['' @ vID @ '']''))
              else Ok \<lparr>FsName = fsNameSplit ! 1, DfsMountPath = mountPathSplit ! 1\<rparr>)
      | _ \<Rightarrow> Err (GrpcErr Internal (''Invalid Volume info : ['' @ vID @ '']'')))"

definition MountPathLength :: nat where
  "MountPathLength = 6"

text \<open>
  The lines of \<open>cat /proc/mounts | grep "dingofs"\<close>: \<open>None\<close> is a failed command.
\<close>

fun dfs_path_lines :: "string list \<Rightarrow> string list" where
  "dfs_path_lines [] = []"
| "dfs_path_lines (out # outs) =
     (let finalOutput = Split out '' '' in
      if length finalOutput = MountPathLength \<and> finalOutput ! 1 \<noteq> '''' \<and>
         (finalOutput ! 2 = ''fuse'' \<or> finalOutput ! 2 = ''fuse.dingofs'')
      then finalOutput ! 1 # dfs_path_lines outs
      else dfs_path_lines outs)"

definition getDfsPaths :: "string option \<Rightarrow> string list" where
  "getDfsPaths output =
     (case output of None \<Rightarrow> [] | Some out \<Rightarrow> dfs_path_lines (Split out [CHR 0x0A]))"

fun is_dfs_path :: "string list \<Rightarrow> string \<Rightarrow> bool" where
  "is_dfs_path [] path = False"
| "is_dfs_path (dfsPath # ps) path = (if HasPrefix path dfsPath then True else is_dfs_path ps path)"

definition CheckDfsType :: "string option \<Rightarrow> string \<Rightarrow> unit result" where
  "CheckDfsType mounts path =
     (if \<not> is_dfs_path (getDfsPaths mounts) path
      then Err (MsgErr (''checkDfsType: the path ['' @ path @ ''] is not a valid dingofs path ''))
      else Ok ())"

text \<open>Sizes of a file system, in bytes and inodes; a failed \<open>statfs\<close> reports ones.\<close>

record Statfs_t =
  Bsize :: u64
  Blocks :: u64
  Bfree :: u64
  Files :: u64
  Ffree :: u64

definition GetDiskUsage :: "Statfs_t option \<Rightarrow> u64 \<times> u64 \<times> u64 \<times> u64" where
  "GetDiskUsage st =
     (case st of
        Some s \<Rightarrow> (Bsize s * Blocks s, Bsize s * Bfree s, Files s, Ffree s)
      | None \<Rightarrow> (1, 1, 1, 1))"

subsection \<open>Device numbers (dev\_monitor.go)\<close>

definition DevMinor :: "u64 \<Rightarrow> u32" where
  "DevMinor dev =
     (let minor = dev AND 0xff;
          minor = minor OR (drop_bit 12 dev AND 0xffffff00)
      in ucast minor)"

definition DevMinorTableStore :: "u32 smap \<Rightarrow> string \<Rightarrow> u64 \<Rightarrow> u32 smap" where
  "DevMinorTableStore t k dev = mput t k (DevMinor dev)"

definition DevMinorTableDelete :: "u32 smap \<Rightarrow> string \<Rightarrow> u32 smap" where
  "DevMinorTableDelete t k = mdel t k"

definition DevMinorTableLoad :: "u32 smap \<Rightarrow> string \<Rightarrow> u32 \<times> bool" where
  "DevMinorTableLoad t k = (case map_of t k of None \<Rightarrow> (0, False) | Some v \<Rightarrow> (v, True))"

subsection \<open>Quoting for bash (escape.go)\<close>

definition bash_special :: string where
  "bash_special = ''$`&;>|()''"

fun containsOne :: "string \<Rightarrow> string \<Rightarrow> bool" where
  "containsOne [] chars = False"
| "containsOne (s # target) chars = (if s \<in> set chars then True else containsOne target chars)"

definition EscapeBashStr :: "string \<Rightarrow> string" where
  "EscapeBashStr s =
     (if \<not> containsOne s bash_special then s
      else let s = ReplaceAll s [CHR 0x5C] [CHR 0x5C, CHR 0x5C];
               s = ReplaceAll s [CHR 0x27] [CHR 0x5C, CHR 0x27]
           in [CHR ''$'', CHR 0x27] @ s @ [CHR 0x27])"

section \<open>Lemmas\<close>

subsection \<open>Lists\<close>

lemma ContainsString_iff [simp]: "ContainsString xs s \<longleftrightarrow> s \<in> set xs"
  by (induction xs) auto

lemma ContainsPrefix_iff: "ContainsPrefix xs s \<longleftrightarrow> (\<exists>x \<in> set xs. HasPrefix x s)"
  by (induction xs) auto

lemma strip_ro_eq: "strip_ro news xs = news @ filter (\<lambda>x. x \<noteq> ''ro'' \<and> x \<noteq> ''read-only'') xs"
  by (induction news xs rule: strip_ro.induct) auto

lemma StripReadonlyOption_eq:
  "StripReadonlyOption xs = filter (\<lambda>x. x \<noteq> ''ro'' \<and> x \<noteq> ''read-only'') xs"
  by (simp add: StripReadonlyOption_def strip_ro_eq)

lemma containsOne_iff: "containsOne s cs \<longleftrightarrow> set s \<inter> set cs \<noteq> {}"
  by (induction s) auto

subsection \<open>Replacing one byte\<close>

lemma split_go_char:
  "split_go [c] acc s = (acc @ hd (split_go [c] [] s)) # tl (split_go [c] [] s)"
proof (induction s arbitrary: acc)
  case Nil
  show ?case by (simp add: split_go.simps [of _ _ "[]"])
next
  case (Cons d ds)
  show ?case
  proof (cases "d = c")
    case True
    have "split_go [c] a (d # ds) = a # split_go [c] [] ds" for a
      by (subst split_go.simps) (simp add: True)
    then show ?thesis by simp
  next
    case False
    have e: "split_go [c] a (d # ds) = split_go [c] (a @ [d]) ds" for a
      by (subst split_go.simps) (simp add: False)
    show ?thesis
      unfolding e using Cons.IH [of "acc @ [d]"] Cons.IH [of "[d]"] by simp
  qed
qed

lemma Split_char_simps:
  "Split [] [c] = [[]]"
  "Split (c # s) [c] = [] # Split s [c]"
  "d \<noteq> c \<Longrightarrow> Split (d # s) [c] = (d # hd (Split s [c])) # tl (Split s [c])"
proof -
  show "Split [] [c] = [[]]" by (simp add: Split_def split_go.simps)
  show "Split (c # s) [c] = [] # Split s [c]"
    unfolding Split_def by (subst split_go.simps) simp
  assume "d \<noteq> c"
  then have "split_go [c] [] (d # s) = split_go [c] [d] s"
    by (subst split_go.simps) simp
  then show "Split (d # s) [c] = (d # hd (Split s [c])) # tl (Split s [c])"
    unfolding Split_def using split_go_char [of c "[d]" s] by simp
qed

lemma Join_hd_Cons: "xs \<noteq> [] \<Longrightarrow> Join ((d # hd xs) # tl xs) sep = d # Join xs sep"
  by (cases xs) (auto, metis Join.simps(2,3) append_Cons list.exhaust)

lemma ReplaceAll_char:
  "ReplaceAll s [c] new = concat (map (\<lambda>x. if x = c then new else [x]) s)"
proof (induction s)
  case Nil
  show ?case by (simp add: ReplaceAll_def Split_char_simps)
next
  case (Cons d ds)
  then show ?case
    by (cases "d = c") (auto simp: ReplaceAll_def Split_char_simps Join_Cons Join_hd_Cons)
qed

subsection \<open>Reference keys\<close>

lemma GetReferenceKey_eq: "GetReferenceKey t = ''dingofs-'' @ take 55 (hex (sha256 t))"
  by (simp add: GetReferenceKey_def)

lemma length_GetReferenceKey [simp]: "length (GetReferenceKey t) = 63"
  by (simp add: GetReferenceKey_eq)

lemma GetReferenceKey_neq_length: "length k \<noteq> 63 \<Longrightarrow> GetReferenceKey t \<noteq> k"
  by (metis length_GetReferenceKey)

subsection \<open>Quoting\<close>

text \<open>
  How bash reads a word that \<open>EscapeBashStr\<close> produces, from the manual page the source
  cites: inside \<open>$'...'\<close> a backslash escapes a backslash or a quote, stays in place before a
  parenthesis, and an unescaped quote ends the word; every other escape sequence is outside
  this reader. A word without quotes stands for itself when it has no special byte.
\<close>

fun ansi_body :: "string \<Rightarrow> string option" where
  "ansi_body [] = None"
| "ansi_body [c] = (if c = CHR 0x27 then Some [] else None)"
| "ansi_body (c # d # rest) =
     (if c = CHR 0x27 then None
      else if c = CHR 0x5C then
        (if d = CHR 0x5C \<or> d = CHR 0x27 then map_option (Cons d) (ansi_body rest)
         else if d = CHR ''('' \<or> d = CHR '')'' then map_option (\<lambda>r. c # d # r) (ansi_body rest)
         else None)
      else map_option (Cons c) (ansi_body (d # rest)))"

definition bash_word :: "string \<Rightarrow> string option" where
  "bash_word w =
     (if HasPrefix w [CHR ''$'', CHR 0x27] then ansi_body (drop 2 w)
      else if containsOne w bash_special then None else Some w)"

definition esc_byte :: "char \<Rightarrow> string" where
  "esc_byte x = (if x = CHR 0x5C then [CHR 0x5C, CHR 0x5C]
                 else if x = CHR 0x27 then [CHR 0x5C, CHR 0x27] else [x])"

lemma EscapeBashStr_eq:
  "EscapeBashStr s =
     (if containsOne s bash_special
      then [CHR ''$'', CHR 0x27] @ concat (map esc_byte s) @ [CHR 0x27] else s)"
proof -
  have "concat (map (\<lambda>x. if x = CHR 0x27 then [CHR 0x5C, CHR 0x27] else [x])
          (concat (map (\<lambda>x. if x = CHR 0x5C then [CHR 0x5C, CHR 0x5C] else [x]) s))) =
        concat (map esc_byte s)"
    by (induction s) (auto simp: esc_byte_def)
  then show ?thesis by (simp add: EscapeBashStr_def ReplaceAll_char)
qed

lemma ansi_body_esc: "ansi_body (concat (map esc_byte s) @ [CHR 0x27]) = Some s"
proof (induction s)
  case Nil
  show ?case by simp
next
  case (Cons c cs)
  obtain d ds where "concat (map esc_byte cs) @ [CHR 0x27] = d # ds"
    by (cases "concat (map esc_byte cs) @ [CHR 0x27]") auto
  with Cons show ?case by (cases "c = CHR 0x5C \<or> c = CHR 0x27") (auto simp: esc_byte_def [of c])
qed

section \<open>Properties\<close>


text \<open>Shell quoting applied on top of bash quoting breaks the round trip. \<open>getJobCommand\<close>
  and \<open>genMountFSCommand\<close> call \<open>QuoteForShell\<close> on a command whose options
  \<open>EscapeBashStr\<close> has quoted already; an option with a parenthesis is then read by bash with
  a backslash that the option does not have.\<close>

lemma QuoteForShell_after_Escape_adds_backslash:
  "bash_word (EscapeBashStr ''a(b'') = Some ''a(b'' \<and>
   bash_word (QuoteForShell (EscapeBashStr ''a(b'')) = Some [CHR ''a'', CHR 0x5C, CHR ''('', CHR ''b'']"
  by (intro conjI; code_simp)

text \<open>A reference key has exactly 63 bytes, the longest name Kubernetes accepts for an
  annotation, starts with \<open>dingofs-\<close> and goes on with hexadecimal digits, so it is different
  from every fixed annotation key of the driver.\<close>

lemma GetReferenceKey_shape:
  "length (GetReferenceKey t) = 63 \<and> HasPrefix (GetReferenceKey t) ''dingofs-''
     \<and> list_all (\<lambda>c. c \<in> set ''0123456789abcdef'') (drop 8 (GetReferenceKey t))
     \<and> GetReferenceKey t \<notin> {''dingofs-delete-at'', ''dingofs-delete-delay'', ''dingofs-uniqueid'',
          ''dingofs-clean-cache'', ''dingfs-fsid''}"
proof -
  have "drop 8 (GetReferenceKey t) = take 55 (hex (sha256 t))" by (simp add: GetReferenceKey_eq)
  then have "c \<in> set ''0123456789abcdef''" if "c \<in> set (drop 8 (GetReferenceKey t))" for c
    using that in_set_takeD hex_chars by metis
  moreover have "GetReferenceKey t \<noteq> k" if "length k < 63" for k
    using that length_GetReferenceKey [of t] by auto
  moreover have "HasPrefix (GetReferenceKey t) ''dingofs-''"
    unfolding GetReferenceKey_eq by (rule HasPrefix_append)
  ultimately show ?thesis unfolding list_all_iff by (intro conjI ballI) (blast | simp)+
qed

text \<open>The mutex that \<open>GetPodLock\<close> picks lies inside the array \<open>PodLocks\<close>, so the
  indexing never panics.\<close>

lemma GetPodLock_in_bounds: "GetPodLock h < PodLocks_size"
proof -
  have "fnv32a h mod 1024 < (1024 :: u32)"
    by (rule word_mod_less_divisor) simp
  then show ?thesis
    by (simp add: GetPodLock_def PodLocks_size_def word_less_nat_alt)
qed

text \<open>Volume identifiers of the form \<open>fsname=F;path=P\<close> are read back exactly, for names
  and paths without the two separators.\<close>

lemma GetDfsInfo_roundtrip:
  assumes "set f \<inter> {CHR '';'', CHR ''=''} = {}" and "set p \<inter> {CHR '';'', CHR ''=''} = {}"
  shows "GetDfsInfo (''fsname='' @ f @ '';path='' @ p) = Ok \<lparr>FsName = f, DfsMountPath = p\<rparr>"
proof -
  have "Split ((''fsname='' @ f) @ CHR '';'' # (''path='' @ p)) '';'' =
        [''fsname='' @ f, ''path='' @ p]"
    using assms by (subst Split_char_Cons) (auto intro!: Split_char_single)
  moreover have "Split (''fsname'' @ CHR ''='' # f) ''='' = [''fsname'', f]"
    using assms by (subst Split_char_Cons) (auto intro!: Split_char_single)
  moreover have "Split (''path'' @ CHR ''='' # p) ''='' = [''path'', p]"
    using assms by (subst Split_char_Cons) (auto intro!: Split_char_single)
  ultimately show ?thesis by (simp add: GetDfsInfo_def)
qed

lemma GetDfsInfo_roundtrip_witness:
  "set ''fs1'' \<inter> {CHR '';'', CHR ''=''} = {} \<and> set ''/data'' \<inter> {CHR '';'', CHR ''=''} = {} \<and>
   GetDfsInfo ''fsname=fs1;path=/data'' = Ok \<lparr>FsName = ''fs1'', DfsMountPath = ''/data''\<rparr>"
  using GetDfsInfo_roundtrip [of "''fs1''" "''/data''"] by simp

text \<open>
  Linux packs a device number into 64 bits: the low 8 bits of the minor number, 12 bits of
  the major number, the other 24 bits of the minor number, and the rest of the major number.
\<close>

definition makedev :: "u32 \<Rightarrow> u32 \<Rightarrow> u64" where
  "makedev major minor =
     (ucast minor AND 0xff) OR push_bit 8 (ucast major AND 0xfff)
     OR push_bit 12 (ucast minor AND 0xffffff00) OR push_bit 32 (ucast major AND 0xfffff000)"

text \<open>\<open>DevMinor\<close> reads back the minor number that Linux packed into a device number,
  whatever the major number, over all 32 bits.\<close>

lemma DevMinor_makedev: "DevMinor (makedev major minor) = minor"
proof -
  have m: "(0xff :: u64) = mask 8" "(0xfff :: u64) = mask 12"
    "(0xffffff00 :: u64) = push_bit 8 (mask 24)" "(0xfffff000 :: u64) = push_bit 12 (mask 20)"
    by (simp_all add: mask_eq_exp_minus_1 push_bit_eq_mult)
  show ?thesis
    unfolding DevMinor_def makedev_def Let_def m
  proof (rule bit_word_eqI, goal_cases)
    case (1 n)
    then show ?case by (cases "n < 8") (auto simp: bit_simps)
  qed
qed

text \<open>\<open>StripPasswd\<close> panics on an address with an \<open>@\<close> that is shorter than two bytes
  and has no scheme: the missing \<open>://\<close> gives -1 and the slice starts past the end.\<close>

lemma StripPasswd_panics: "StripPasswd ''@'' = Panic"
  by code_simp

end
