(* ===== verification/Kube.thy ===== *)
theory Kube
  imports Util
begin

text \<open>
  The outside world of the driver. The first part has the Kubernetes objects the driver
  reads and writes, with the fields it uses. The second part is the interface to code that is
  not part of the repository: the API server behind client-go, the operating system, the
  mount utilities and the clock are fields of the record \<open>env\<close>, arbitrary functions on an
  arbitrary state \<open>'w\<close>; other actors of the cluster are part of that state, so a theorem
  about a call holds however the cluster changes between two calls. The third part has the
  client of \<open>pkg/k8sclient/client.go\<close> on top of it. Every call appends an event with its
  answer to the trace of the process; mutexes and goroutines appear in the trace too.
\<close>

section \<open>Kubernetes objects\<close>

record PodCondition =
  cond_Type :: string
  cond_Status :: string
  cond_Reason :: string
  cond_Message :: string

record Terminated =
  ExitCode :: int
  term_Reason :: string
  FinishedAt :: int

record ContainerStatus =
  cs_Name :: string
  cs_Ready :: bool
  cs_Waiting :: "string option"
  cs_Running :: bool
  cs_Terminated :: "Terminated option"

datatype VolumeSource =
    HostPath string "string option"
  | SecretVolume string "(string \<times> string) list"
  | ConfigMapVolume string int
  | ClaimVolume string bool
  | EmptyDirVolume string int
  | CSIVolume string
  | OtherVolume string

record Volume =
  vol_Name :: string
  vol_Source :: VolumeSource

record VolumeMount =
  vm_Name :: string
  vm_MountPath :: string
  vm_ReadOnly :: bool
  vm_Propagation :: "string option"

type_synonym Probe = string
type_synonym Quantity = int

record Container =
  c_Name :: string
  c_Image :: string
  c_Command :: "string list"
  c_Env :: "(string \<times> string) list"
  c_EnvFrom :: "string list"
  c_Requests :: "Quantity smap"
  c_Limits :: "Quantity smap"
  c_VolumeMounts :: "VolumeMount list"
  c_VolumeDevices :: "string list"
  c_PreStop :: "string list option"
  c_StartupProbe :: "Probe option"
  c_LivenessProbe :: "Probe option"
  c_ReadinessProbe :: "Probe option"
  c_Privileged :: bool
  c_RunAsUser :: "int option"

record PodSpec =
  Containers :: "Container list"
  Volumes :: "Volume list"
  spec_NodeName :: string
  NodeSelector :: "string smap"
  RestartPolicy :: string
  PriorityClassName :: string
  Hostname :: string
  HostNetwork :: bool
  HostPID :: bool
  HostIPC :: bool
  HostAliases :: "string list"
  DNSConfig :: "string option"
  DNSPolicy :: string
  ServiceAccountName :: string
  ImagePullSecrets :: "string list"
  PreemptionPolicy :: "string option"
  Tolerations :: "string list"
  Affinity :: "string option"
  SchedulerName :: string
  TerminationGracePeriodSeconds :: "int option"

record Pod =
  pod_Name :: string
  pod_Namespace :: string
  pod_UID :: string
  pod_Labels :: "string smap"
  pod_Annotations :: "string smap option"
  pod_Finalizers :: "string list"
  pod_DeletionTimestamp :: "int option"
  pod_ResourceVersion :: string
  pod_Spec :: PodSpec
  pod_Phase :: string
  pod_Reason :: string
  pod_Message :: string
  pod_Conditions :: "PodCondition list"
  pod_ContainerStatuses :: "ContainerStatus list"
  pod_InitContainerStatuses :: "ContainerStatus list"

text \<open>Zero values of composite literals.\<close>

definition zero_Container :: Container where
  "zero_Container = \<lparr>c_Name = '''', c_Image = '''', c_Command = [], c_Env = [], c_EnvFrom = [],
     c_Requests = [], c_Limits = [], c_VolumeMounts = [], c_VolumeDevices = [], c_PreStop = None,
     c_StartupProbe = None, c_LivenessProbe = None, c_ReadinessProbe = None, c_Privileged = False,
     c_RunAsUser = None\<rparr>"

definition zero_PodSpec :: PodSpec where
  "zero_PodSpec = \<lparr>Containers = [], Volumes = [], spec_NodeName = '''', NodeSelector = [],
     RestartPolicy = '''', PriorityClassName = '''', Hostname = '''', HostNetwork = False,
     HostPID = False, HostIPC = False, HostAliases = [], DNSConfig = None, DNSPolicy = '''',
     ServiceAccountName = '''', ImagePullSecrets = [], PreemptionPolicy = None, Tolerations = [],
     Affinity = None, SchedulerName = '''', TerminationGracePeriodSeconds = None\<rparr>"

definition zero_Pod :: Pod where
  "zero_Pod = \<lparr>pod_Name = '''', pod_Namespace = '''', pod_UID = '''', pod_Labels = [],
     pod_Annotations = None, pod_Finalizers = [], pod_DeletionTimestamp = None,
     pod_ResourceVersion = '''', pod_Spec = zero_PodSpec, pod_Phase = '''', pod_Reason = '''', pod_Message = '''',
     pod_Conditions = [], pod_ContainerStatuses = [], pod_InitContainerStatuses = []\<rparr>"

text \<open>The annotations as a map: ranging over and reading a nil map is as for an empty one.\<close>

definition annos :: "Pod \<Rightarrow> string smap" where
  "annos pod = (case pod_Annotations pod of None \<Rightarrow> [] | Some m \<Rightarrow> m)"

record JobCondition =
  jc_Type :: string
  jc_Status :: string

record Job =
  job_Name :: string
  job_Namespace :: string
  job_UID :: string
  job_Labels :: "string smap"
  job_TTLSecondsAfterFinished :: "int option"
  job_CompletionTime :: "int option"
  job_DeletionTimestamp :: "int option"
  job_ResourceVersion :: string
  job_Conditions :: "JobCondition list"
  job_PodSpec :: PodSpec

record OwnerReference =
  own_APIVersion :: string
  own_Kind :: string
  own_Name :: string
  own_UID :: string
  own_Controller :: bool

record Secret =
  sec_Name :: string
  sec_Namespace :: string
  sec_Labels :: "string smap"
  sec_Data :: "string smap"
  sec_StringData :: "string smap"
  sec_OwnerReferences :: "OwnerReference list"
  sec_Finalizers :: "string list"
  sec_CreationTimestamp :: int
  sec_ResourceVersion :: string

record CSISource =
  csi_Driver :: string
  csi_VolumeHandle :: string
  csi_VolumeAttributes :: "string smap"
  csi_NodePublishSecretRef :: "(string \<times> string) option"
  csi_ControllerExpandSecretRef :: "(string \<times> string) option"
  csi_ReadOnly :: bool
  csi_FSType :: string

record PersistentVolume =
  pv_Name :: string
  pv_UID :: string
  pv_DeletionTimestamp :: "int option"
  pv_StorageClassName :: string
  pv_CSI :: "CSISource option"
  pv_ClaimRef :: "(string \<times> string) option"
  pv_MountOptions :: "string list"
  pv_ReclaimPolicy :: string
  pv_Capacity :: "Quantity smap"
  pv_AccessModes :: "string list"
  pv_VolumeMode :: "string option"

record PersistentVolumeClaim =
  pvc_Name :: string
  pvc_Namespace :: string
  pvc_UID :: string
  pvc_Labels :: "string smap"
  pvc_Annotations :: "string smap"
  pvc_StorageClassName :: "string option"
  pvc_VolumeName :: string
  pvc_Selector :: "string option"
  pvc_AccessModes :: "string list"
  pvc_VolumeMode :: "string option"
  pvc_Requests :: "Quantity smap"

record Service =
  svc_Name :: string
  svc_Namespace :: string
  svc_Labels :: "string smap"
  svc_Selector :: "string smap"
  svc_NodePort :: int

text \<open>The payload of a patch, as \<open>json.Marshal\<close> gets it.\<close>

datatype PatchOp =
    PatchListValue string string "string list"
  | PatchMapValue string string "string smap"
  | PatchDelValue string string

datatype Patch =
    JSONPatch "PatchOp list"
  | StrategicMergePatch string "string smap"

section \<open>Files and mounts\<close>

record MountInfo =
  MountPoint :: string
  Root :: string
  Minor :: int

record FileInfo =
  fi_Ino :: nat
  fi_Dev :: u64
  fi_IsDir :: bool
  fi_Perm :: nat

text \<open>How a call under a timeout ended: it finished, the parent context ended, or the timer fired.\<close>

datatype wait_end = Finished | ParentDone err | TimerFired

section \<open>The interface to the outside\<close>

record 'w env =
  cfg_NodeName :: string
  cfg_Namespace :: string
  cfg_DriverName :: string
  cfg_Provisioner :: bool
  cfg_LocalPV :: bool
  cfg_Immutable :: bool
  cfg_CSIPod :: Pod
  cfg_ConflictRetries :: nat
  t_parse_duration :: "string \<Rightarrow> int option"
  t_format :: "int \<Rightarrow> string"
  t_parse :: "string \<Rightarrow> int option"
  mnt_corrupted :: "err \<Rightarrow> bool"
  k_pod_get :: "string \<Rightarrow> string \<Rightarrow> 'w \<Rightarrow> Pod option result \<times> 'w"
  k_pod_create :: "Pod \<Rightarrow> 'w \<Rightarrow> Pod result \<times> 'w"
  k_pod_patch :: "string \<Rightarrow> string \<Rightarrow> Patch \<Rightarrow> 'w \<Rightarrow> err option \<times> 'w"
  k_pod_delete :: "string \<Rightarrow> string \<Rightarrow> 'w \<Rightarrow> err option \<times> 'w"
  k_pod_list :: "string \<Rightarrow> string smap \<Rightarrow> string smap \<Rightarrow> 'w \<Rightarrow> Pod list result \<times> 'w"
  k_pod_list_exists :: "string \<Rightarrow> string \<Rightarrow> string smap \<Rightarrow> 'w \<Rightarrow> Pod list result \<times> 'w"
  k_kubelet_pods :: "'w \<Rightarrow> Pod list result \<times> 'w"
  k_pod_log :: "string \<Rightarrow> string \<Rightarrow> string \<Rightarrow> 'w \<Rightarrow> string result \<times> 'w"
  k_node_list :: "string smap \<Rightarrow> 'w \<Rightarrow> string list result \<times> 'w"
  k_service_create :: "Service \<Rightarrow> 'w \<Rightarrow> err option \<times> 'w"
  k_service_delete :: "string \<Rightarrow> string \<Rightarrow> 'w \<Rightarrow> err option \<times> 'w"
  k_secret_get :: "string \<Rightarrow> string \<Rightarrow> 'w \<Rightarrow> Secret result \<times> 'w"
  k_secret_create :: "Secret \<Rightarrow> 'w \<Rightarrow> err option \<times> 'w"
  k_secret_update :: "Secret \<Rightarrow> 'w \<Rightarrow> err option \<times> 'w"
  k_secret_patch :: "string \<Rightarrow> string \<Rightarrow> Patch \<Rightarrow> 'w \<Rightarrow> err option \<times> 'w"
  k_secret_delete :: "string \<Rightarrow> string \<Rightarrow> 'w \<Rightarrow> err option \<times> 'w"
  k_job_get :: "string \<Rightarrow> string \<Rightarrow> 'w \<Rightarrow> Job result \<times> 'w"
  k_job_create :: "Job \<Rightarrow> 'w \<Rightarrow> Job result \<times> 'w"
  k_job_delete :: "string \<Rightarrow> string \<Rightarrow> 'w \<Rightarrow> err option \<times> 'w"
  k_pv_get :: "string \<Rightarrow> 'w \<Rightarrow> PersistentVolume result \<times> 'w"
  k_pv_list :: "'w \<Rightarrow> PersistentVolume list result \<times> 'w"
  k_pvc_get :: "string \<Rightarrow> string \<Rightarrow> 'w \<Rightarrow> PersistentVolumeClaim result \<times> 'w"
  k_configmap_create :: "string \<Rightarrow> string \<Rightarrow> 'w \<Rightarrow> err option \<times> 'w"
  k_exec :: "string \<Rightarrow> string \<Rightarrow> string \<Rightarrow> string list \<Rightarrow> 'w \<Rightarrow> (string \<times> string \<times> err option) \<times> 'w"
  k_sc_get :: "string \<Rightarrow> 'w \<Rightarrow> string result \<times> 'w"
  os_stat :: "string \<Rightarrow> 'w \<Rightarrow> FileInfo result \<times> 'w"
  os_lstat :: "string \<Rightarrow> 'w \<Rightarrow> FileInfo result \<times> 'w"
  os_mkdir :: "string \<Rightarrow> 'w \<Rightarrow> err option \<times> 'w"
  os_mkdir_all :: "string \<Rightarrow> nat \<Rightarrow> 'w \<Rightarrow> err option \<times> 'w"
  os_chmod :: "string \<Rightarrow> nat \<Rightarrow> 'w \<Rightarrow> err option \<times> 'w"
  os_remove :: "string \<Rightarrow> 'w \<Rightarrow> err option \<times> 'w"
  os_remove_all :: "string \<Rightarrow> 'w \<Rightarrow> err option \<times> 'w"
  os_read_file :: "string \<Rightarrow> 'w \<Rightarrow> string result \<times> 'w"
  os_write_file :: "string \<Rightarrow> string \<Rightarrow> 'w \<Rightarrow> err option \<times> 'w"
  os_statfs :: "string \<Rightarrow> 'w \<Rightarrow> Statfs_t result \<times> 'w"
  os_lookup_env :: "string \<Rightarrow> 'w \<Rightarrow> string option \<times> 'w"
  os_umount_lazy :: "string \<Rightarrow> 'w \<Rightarrow> (string \<times> err option) \<times> 'w"
  os_exec :: "string list \<Rightarrow> 'w \<Rightarrow> (string \<times> err option) \<times> 'w"
  os_exec_env :: "string list \<Rightarrow> string list \<Rightarrow> 'w \<Rightarrow> (string \<times> err option) \<times> 'w"
  os_mkdir_temp :: "string \<Rightarrow> 'w \<Rightarrow> string result \<times> 'w"
  os_pid :: "'w \<Rightarrow> int \<times> 'w"
  go_range :: "string smap \<Rightarrow> string smap"
  os_port_free :: "int \<Rightarrow> 'w \<Rightarrow> bool \<times> 'w"
  os_intn :: "int \<Rightarrow> 'w \<Rightarrow> int \<times> 'w"
  os_now :: "'w \<Rightarrow> int \<times> 'w"
  os_wait :: "'w \<Rightarrow> wait_end \<times> 'w"
  os_ctx_err :: "'w \<Rightarrow> err option \<times> 'w"
  mnt_parse :: "'w \<Rightarrow> MountInfo list result \<times> 'w"
  mnt_path_exists :: "string \<Rightarrow> 'w \<Rightarrow> bool result \<times> 'w"
  mnt_mount :: "string \<Rightarrow> string \<Rightarrow> string \<Rightarrow> string list \<Rightarrow> 'w \<Rightarrow> err option \<times> 'w"
  mnt_unmount :: "string \<Rightarrow> 'w \<Rightarrow> err option \<times> 'w"
  mnt_is_mount_point :: "string \<Rightarrow> 'w \<Rightarrow> bool result \<times> 'w"
  mnt_is_not_mount_point :: "string \<Rightarrow> 'w \<Rightarrow> bool result \<times> 'w"
  mnt_cleanup :: "string \<Rightarrow> 'w \<Rightarrow> err option \<times> 'w"

text \<open>
  An idle outside world for witnesses: the cluster and the node are empty, nothing changes.
  Every lookup answers that the object does not exist, every other call succeeds.
\<close>

definition idle_env :: "'w env" where
  "idle_env = \<lparr>cfg_NodeName = ''node1'', cfg_Namespace = ''kube-system'',
     cfg_DriverName = ''csi.dingofs.com'', cfg_Provisioner = False, cfg_LocalPV = False,
     cfg_Immutable = False, cfg_CSIPod = zero_Pod, cfg_ConflictRetries = 0,
     t_parse_duration = (\<lambda>_. None), t_format = (\<lambda>_. ''''),
     t_parse = (\<lambda>_. None), mnt_corrupted = (\<lambda>_. False),
     k_pod_get = (\<lambda>_ _ w. (Err (ApiErr NotFound ''''), w)),
     k_pod_create = (\<lambda>_ w. (Ok zero_Pod, w)), k_pod_patch = (\<lambda>_ _ _ w. (None, w)),
     k_pod_delete = (\<lambda>_ _ w. (None, w)), k_pod_list = (\<lambda>_ _ _ w. (Ok [], w)),
     k_pod_list_exists = (\<lambda>_ _ _ w. (Ok [], w)), k_kubelet_pods = (\<lambda>w. (Ok [], w)),
     k_pod_log = (\<lambda>_ _ _ w. (Ok '''', w)), k_node_list = (\<lambda>_ w. (Ok [], w)),
     k_service_create = (\<lambda>_ w. (None, w)), k_service_delete = (\<lambda>_ _ w. (None, w)),
     k_secret_get = (\<lambda>_ _ w. (Err (ApiErr NotFound ''''), w)),
     k_secret_create = (\<lambda>_ w. (None, w)), k_secret_update = (\<lambda>_ w. (None, w)),
     k_secret_patch = (\<lambda>_ _ _ w. (None, w)),
     k_secret_delete = (\<lambda>_ _ w. (None, w)),
     k_job_get = (\<lambda>_ _ w. (Err (ApiErr NotFound ''''), w)),
     k_job_create = (\<lambda>_ w. (Err (ApiErr NotFound ''''), w)),
     k_job_delete = (\<lambda>_ _ w. (None, w)),
     k_pv_get = (\<lambda>_ w. (Err (ApiErr NotFound ''''), w)),
     k_pv_list = (\<lambda>w. (Ok [], w)),
     k_pvc_get = (\<lambda>_ _ w. (Err (ApiErr NotFound ''''), w)),
     k_configmap_create = (\<lambda>_ _ w. (None, w)),
     k_exec = (\<lambda>_ _ _ _ w. (('''', '''', None), w)),
     k_sc_get = (\<lambda>_ w. (Ok '''', w)), os_stat = (\<lambda>_ w. (Err (OsErr NotExist), w)),
     os_lstat = (\<lambda>_ w. (Err (OsErr NotExist), w)), os_mkdir = (\<lambda>_ w. (None, w)),
     os_mkdir_all = (\<lambda>_ _ w. (None, w)), os_chmod = (\<lambda>_ _ w. (None, w)),
     os_remove = (\<lambda>_ w. (None, w)), os_remove_all = (\<lambda>_ w. (None, w)),
     os_read_file = (\<lambda>_ w. (Ok '''', w)), os_write_file = (\<lambda>_ _ w. (None, w)),
     os_statfs = (\<lambda>_ w. (Err (OsErr NotExist), w)),
     os_lookup_env = (\<lambda>_ w. (None, w)),
     os_umount_lazy = (\<lambda>_ w. (('''', None), w)),
     os_exec = (\<lambda>_ w. (('''', None), w)), os_exec_env = (\<lambda>_ _ w. (('''', None), w)),
     os_mkdir_temp = (\<lambda>_ w. (Ok ''/tmp/dingofs-0'', w)), os_pid = (\<lambda>w. (1, w)), go_range = (\<lambda>m. m), os_port_free = (\<lambda>_ w. (True, w)),
     os_intn = (\<lambda>_ w. (0, w)), os_now = (\<lambda>w. (0, w)),
     os_wait = (\<lambda>w. (Finished, w)), os_ctx_err = (\<lambda>w. (None, w)),
     mnt_parse = (\<lambda>w. (Ok [], w)), mnt_path_exists = (\<lambda>_ w. (Ok False, w)),
     mnt_mount = (\<lambda>_ _ _ _ w. (None, w)), mnt_unmount = (\<lambda>_ w. (None, w)),
     mnt_is_mount_point = (\<lambda>_ w. (Ok False, w)),
     mnt_is_not_mount_point = (\<lambda>_ w. (Ok False, w)),
     mnt_cleanup = (\<lambda>_ w. (None, w))\<rparr>"

datatype event =
    EvLock nat
  | EvUnlock nat
  | EvGo string
  | EvFd string string
  | EvSleep
  | EvGetPod string string "Pod result"
  | EvCreatePod Pod "err option"
  | EvPatchPod string string Patch "err option"
  | EvDeletePod string string "err option"
  | EvListPod string "string smap" "string smap" "Pod list result"
  | EvListPodExists string string "string smap" "Pod list result"
  | EvKubeletPods "Pod list result"
  | EvPodLog string string
  | EvListNode "string list result"
  | EvCreateService Service "err option"
  | EvDeleteService string string "err option"
  | EvGetSecret string string "Secret result"
  | EvCreateSecret Secret "err option"
  | EvUpdateSecret Secret "err option"
  | EvPatchSecret string string Patch "err option"
  | EvDeleteSecret string string "err option"
  | EvGetJob string string "Job result"
  | EvCreateJob Job "Job result"
  | EvDeleteJob string string "err option"
  | EvGetPV string "PersistentVolume result"
  | EvListPV "PersistentVolume list result"
  | EvGetPVC string string "PersistentVolumeClaim result"
  | EvGetSC string
  | EvCreateConfigMap string string "err option"
  | EvExecIn string string string "string list" "err option"
  | EvStat string "err option"
  | EvLstat string "err option"
  | EvMkdir string "err option"
  | EvMkdirAll string "err option"
  | EvChmod string nat "err option"
  | EvRemove string "err option"
  | EvRemoveAll string "err option"
  | EvReadFile string "err option"
  | EvWriteFile string string "err option"
  | EvStatfs string
  | EvLookupEnv string
  | EvUmountLazy string "string \<times> err option"
  | EvExec "string list" "string \<times> err option"
  | EvExecEnv "string list" "string list" "string \<times> err option"
  | EvMkdirTemp string "string result"
  | EvPid int
  | EvPortFree int bool
  | EvRand int
  | EvNow int
  | EvWait wait_end
  | EvCtxErr "err option"
  | EvParseMountInfo "MountInfo list result"
  | EvPathExists string "bool result"
  | EvMount string string "string list" "err option"
  | EvUnmount string "err option"
  | EvIsMountPoint string "bool result"
  | EvIsNotMountPoint string "bool result"
  | EvCleanupMountPoint string "err option"

text \<open>
  The state of the process: the outside world, the trace of calls, and the package variables
  and service fields of the driver (the lock table of \<open>node.go\<close>, the table of
  \<open>dev_monitor.go\<close>, the maps \<open>vols\<close> and \<open>volLocks\<close> of the controller service).
\<close>

record 'w world =
  ext :: 'w
  trace :: "event list"
  publishLock :: "bool smap"
  devMinorTable :: "u32 smap"
  vols :: "int smap"
  volLocks :: "unit smap"

definition idle_world :: "'w \<Rightarrow> 'w world" where
  "idle_world w = \<lparr>ext = w, trace = [], publishLock = [], devMinorTable = [], vols = [], volLocks = []\<rparr>"

type_synonym ('w, 'a) io = "('w world, 'a) state"

definition call :: "('w \<Rightarrow> 'r \<times> 'w) \<Rightarrow> ('r \<Rightarrow> event) \<Rightarrow> ('w, 'r) io" where
  "call f ev = State (\<lambda>s. case f (ext s) of (r, x) \<Rightarrow> (r, s\<lparr>ext := x, trace := trace s @ [ev r]\<rparr>))"

definition emit :: "event \<Rightarrow> ('w, unit) io" where
  "emit ev = State (\<lambda>s. ((), s\<lparr>trace := trace s @ [ev]\<rparr>))"

definition gets :: "('w world \<Rightarrow> 'a) \<Rightarrow> ('w, 'a) io" where
  "gets f = State (\<lambda>s. (f s, s))"

definition modify :: "('w world \<Rightarrow> 'w world) \<Rightarrow> ('w, unit) io" where
  "modify f = State (\<lambda>s. ((), f s))"

text \<open>\<open>lock.Lock(); defer lock.Unlock()\<close> around a body.\<close>

definition locked :: "nat \<Rightarrow> ('w, 'a) io \<Rightarrow> ('w, 'a) io" where
  "locked i m = do { emit (EvLock i); r \<leftarrow> m; emit (EvUnlock i); return r }"

text \<open>Sequencing of fallible effectful code: an error, a panic or missing fuel ends it.\<close>

definition bindE :: "('w, 'a result) io \<Rightarrow> ('a \<Rightarrow> ('w, 'b result) io) \<Rightarrow> ('w, 'b result) io" where
  "bindE m f = do {
     r \<leftarrow> m;
     case r of Ok x \<Rightarrow> f x | Err e \<Rightarrow> return (Err e) | Panic \<Rightarrow> return Panic
             | OutOfFuel \<Rightarrow> return OutOfFuel }"

text \<open>
  \<open>DoWithTimeout(ctx, timeout, f)\<close>: \<open>f\<close> runs in a goroutine, the caller sees its result, the
  error of the context or a timeout, whichever comes first.
\<close>

definition DoWithTimeout :: "'w env \<Rightarrow> ('w, err option) io \<Rightarrow> ('w, err option) io" where
  "DoWithTimeout E f = do {
     e \<leftarrow> f;
     w \<leftarrow> call (os_wait E) EvWait;
     return (case w of ParentDone pe \<Rightarrow> Some pe
             | TimerFired \<Rightarrow> Some (MsgErr ''function timeout'')
             | Finished \<Rightarrow> e) }"

definition DoWithTimeoutR :: "'w env \<Rightarrow> ('w, 'a result) io \<Rightarrow> ('w, 'a result) io" where
  "DoWithTimeoutR E f = do {
     r \<leftarrow> f;
     w \<leftarrow> call (os_wait E) EvWait;
     return (case w of ParentDone pe \<Rightarrow> Err pe
             | TimerFired \<Rightarrow> Err (MsgErr ''function timeout'')
             | Finished \<Rightarrow> r) }"

text \<open>
  \<open>retry.RetryOnConflict(backoff, fn)\<close> of client-go: \<open>fn\<close> is run again while it answers with
  a conflict; how many times is a parameter.
\<close>

fun RetryOnConflict :: "nat \<Rightarrow> ('w, 'a result) io \<Rightarrow> ('w, 'a result) io" where
  "RetryOnConflict 0 fn = fn"
| "RetryOnConflict (Suc n) fn = do {
     r \<leftarrow> fn;
     if IsConflict (err_of r) then do { emit EvSleep; RetryOnConflict n fn } else return r }"

lemma wp_call [wp_rules]: "(\<And>r. Q [ev r] r) \<Longrightarrow> wp trace (call f ev) Q"
  unfolding wp_def call_def by (auto simp: case_prod_unfold)

lemma wp_emit [wp_rules]: "Q [ev] () \<Longrightarrow> wp trace (emit ev) Q"
  unfolding wp_def emit_def by auto

lemma wp_gets [wp_rules]: "(\<And>x. Q [] x) \<Longrightarrow> wp trace (gets f) Q"
  unfolding wp_def gets_def by auto

lemma wp_modify [wp_rules]: "Q [] () \<Longrightarrow> (\<And>s. trace (f s) = trace s) \<Longrightarrow> wp trace (modify f) Q"
  unfolding wp_def modify_def by auto

lemma wp_locked [wp_rules]:
  "wp trace m (\<lambda>es r. Q (EvLock i # es @ [EvUnlock i]) r) \<Longrightarrow> wp trace (locked i m) Q"
  unfolding locked_def
  by (intro wp_bind wp_emit) (auto elim!: wp_mono intro!: wp_bind wp_emit wp_return)

lemma wp_bindE [wp_rules]:
  assumes "wp trace m (\<lambda>es r. case r of
      Ok x \<Rightarrow> wp trace (f x) (\<lambda>es'. Q (es @ es'))
    | Err e \<Rightarrow> Q es (Err e) | Panic \<Rightarrow> Q es Panic | OutOfFuel \<Rightarrow> Q es OutOfFuel)"
  shows "wp trace (bindE m f) Q"
  unfolding bindE_def
  by (intro wp_bind wp_mono [OF assms]) (auto split: result.splits intro!: wp_return)

lemma wp_DoWithTimeout [wp_rules]:
  assumes "wp trace f (\<lambda>es e. \<forall>w. Q (es @ [EvWait w])
      (case w of ParentDone pe \<Rightarrow> Some pe | TimerFired \<Rightarrow> Some (MsgErr ''function timeout'')
       | Finished \<Rightarrow> e))"
  shows "wp trace (DoWithTimeout E f) Q"
  unfolding DoWithTimeout_def
  by (intro wp_bind wp_mono [OF assms] wp_call) (auto intro!: wp_return)

lemma wp_DoWithTimeoutR [wp_rules]:
  assumes "wp trace f (\<lambda>es e. \<forall>w. Q (es @ [EvWait w])
      (case w of ParentDone pe \<Rightarrow> Err pe | TimerFired \<Rightarrow> Err (MsgErr ''function timeout'')
       | Finished \<Rightarrow> e))"
  shows "wp trace (DoWithTimeoutR E f) Q"
  unfolding DoWithTimeoutR_def
  by (intro wp_bind wp_mono [OF assms] wp_call) (auto intro!: wp_return)

text \<open>
  The rule for retries: an invariant \<open>I\<close> of the events so far that an attempt ending in a
  conflict keeps, and that gives the claim when the last attempt ends.
\<close>

lemma wp_RetryOnConflict:
  assumes att: "\<And>es. I es \<Longrightarrow> wp trace fn (\<lambda>es' r. Q (es @ es') r \<and>
      (IsConflict (err_of r) \<longrightarrow> I (es @ es' @ [EvSleep])))"
  shows "I es \<Longrightarrow> wp trace (RetryOnConflict n fn) (\<lambda>es'. Q (es @ es'))"
proof (induction n arbitrary: es)
  case 0
  then show ?case by (auto elim: wp_mono [OF att])
next
  case (Suc n)
  have "wp trace fn (\<lambda>es1 r. wp trace (if IsConflict (err_of r) then do { emit EvSleep; RetryOnConflict n fn }
      else return r) (\<lambda>es2. Q (es @ es1 @ es2)))"
    by (rule wp_mono [OF att [OF Suc.prems]])
       (auto intro!: wp_bind wp_emit wp_return wp_mono [OF Suc.IH])
  then show ?case by (auto intro!: wp_bind)
qed

lemma keeps_call [keeps_rules]:
  "keeps publishLock (call f ev)" "keeps devMinorTable (call f ev)" "keeps vols (call f ev)"
  "keeps volLocks (call f ev)"
  by (auto simp: keeps_def call_def split: prod.split)

lemma keeps_emit [keeps_rules]:
  "keeps publishLock (emit ev)" "keeps devMinorTable (emit ev)" "keeps vols (emit ev)"
  "keeps volLocks (emit ev)" "keeps ext (emit ev)"
  by (auto simp: keeps_def emit_def)

lemma keeps_gets [keeps_rules]: "keeps sel (gets f)"
  by (auto simp: keeps_def gets_def)

lemma keeps_modify: "(\<And>s. sel (f s) = sel s) \<Longrightarrow> keeps sel (modify f)"
  by (auto simp: keeps_def modify_def)

lemma keeps_locked [keeps_rules]:
  "keeps publishLock m \<Longrightarrow> keeps publishLock (locked i m)"
  "keeps vols m \<Longrightarrow> keeps vols (locked i m)"
  "keeps volLocks m \<Longrightarrow> keeps volLocks (locked i m)"
  "keeps devMinorTable m \<Longrightarrow> keeps devMinorTable (locked i m)"
  unfolding locked_def by (intro keeps_bind keeps_return keeps_emit; assumption)+

lemma keeps_bindE [keeps_rules]:
  "keeps sel m \<Longrightarrow> (\<And>x. keeps sel (f x)) \<Longrightarrow> keeps sel (bindE m f)"
  unfolding bindE_def by (intro keeps_bind) (auto split: result.splits intro: keeps_return)

lemma keeps_DoWithTimeout [keeps_rules]:
  "keeps publishLock f \<Longrightarrow> keeps publishLock (DoWithTimeout E f)"
  "keeps vols f \<Longrightarrow> keeps vols (DoWithTimeout E f)"
  "keeps volLocks f \<Longrightarrow> keeps volLocks (DoWithTimeout E f)"
  "keeps devMinorTable f \<Longrightarrow> keeps devMinorTable (DoWithTimeout E f)"
  unfolding DoWithTimeout_def by (intro keeps_bind keeps_return keeps_call; assumption)+

lemma keeps_DoWithTimeoutR [keeps_rules]:
  "keeps publishLock g \<Longrightarrow> keeps publishLock (DoWithTimeoutR E g)"
  "keeps vols g \<Longrightarrow> keeps vols (DoWithTimeoutR E g)"
  "keeps volLocks g \<Longrightarrow> keeps volLocks (DoWithTimeoutR E g)"
  "keeps devMinorTable g \<Longrightarrow> keeps devMinorTable (DoWithTimeoutR E g)"
  unfolding DoWithTimeoutR_def by (intro keeps_bind keeps_return keeps_call; assumption)+

lemma keeps_RetryOnConflict [keeps_rules]:
  assumes "keeps sel fn" and "keeps sel (emit EvSleep)"
  shows "keeps sel (RetryOnConflict n fn)"
proof (induction n)
  case 0
  with assms show ?case by simp
next
  case (Suc n)
  then have "keeps sel (if c then do { emit EvSleep; RetryOnConflict n fn } else return r)" for c r
    using assms(2) by (auto intro: keeps_bind keeps_return)
  with assms(1) show ?case by (auto intro: keeps_bind)
qed

lemma run_call: "run_state (call f ev) s =
    (fst (f (ext s)), s\<lparr>ext := snd (f (ext s)), trace := trace s @ [ev (fst (f (ext s)))]\<rparr>)"
  by (simp add: call_def case_prod_unfold)

lemma run_emit: "run_state (emit ev) s = ((), s\<lparr>trace := trace s @ [ev]\<rparr>)"
  by (simp add: emit_def)

lemma run_gets [simp]: "run_state (gets f) s = (f s, s)"
  by (simp add: gets_def)

lemma run_modify [simp]: "run_state (modify f) s = ((), f s)"
  by (simp add: modify_def)

end
