(* ===== verification/Client.thy ===== *)
theory Client
  imports Kube
begin

text \<open>
  The Kubernetes client of the driver, \<open>pkg/k8sclient/client.go\<close>: thin wrappers over the
  clientset (a parameter, see \<open>env\<close>) and the metrics service that \<open>CreatePod\<close> adds for a
  mount pod, with the choice of its node port.
\<close>

section \<open>Definitions\<close>

definition GetPod :: "'w env \<Rightarrow> string \<Rightarrow> string \<Rightarrow> ('w, Pod result) io" where
  "GetPod E podName namespace =
     call (\<lambda>w. case k_pod_get E namespace podName w of (r, w') \<Rightarrow>
        ((case r of
            Ok None \<Rightarrow> Err (MsgErr (''retrieved pod is nil for name: '' @ podName @
                            '' in namespace: '' @ namespace))
          | Ok (Some p) \<Rightarrow> Ok p
          | Err e \<Rightarrow> Err e | Panic \<Rightarrow> Panic | OutOfFuel \<Rightarrow> OutOfFuel), w'))
       (EvGetPod namespace podName)"

definition ListPod :: "'w env \<Rightarrow> string \<Rightarrow> string smap \<Rightarrow> string smap \<Rightarrow> ('w, Pod list result) io" where
  "ListPod E namespace labelSelector fieldSelector =
     call (k_pod_list E namespace labelSelector fieldSelector)
       (EvListPod namespace labelSelector fieldSelector)"

text \<open>\<open>ListPod\<close> with a selector that asks for the existence of a label.\<close>

definition ListPodExists :: "'w env \<Rightarrow> string \<Rightarrow> string \<Rightarrow> string smap \<Rightarrow> ('w, Pod list result) io" where
  "ListPodExists E namespace labelKey fieldSelector =
     call (k_pod_list_exists E namespace labelKey fieldSelector)
       (EvListPodExists namespace labelKey fieldSelector)"

definition ExecuteInContainer ::
  "'w env \<Rightarrow> string \<Rightarrow> string \<Rightarrow> string \<Rightarrow> string list \<Rightarrow> ('w, string \<times> string \<times> err option) io" where
  "ExecuteInContainer E podName namespace containerName cmd = do {
     (sout, serr, e) \<leftarrow> call (k_exec E podName namespace containerName cmd)
       (\<lambda>(sout, serr, e). EvExecIn podName namespace containerName cmd e);
     return (TrimSpace sout, TrimSpace serr, e) }"

definition ListNode :: "'w env \<Rightarrow> string smap \<Rightarrow> ('w, string list result) io" where
  "ListNode E labelSelector = call (k_node_list E labelSelector) EvListNode"

definition GetPodLog :: "'w env \<Rightarrow> string \<Rightarrow> string \<Rightarrow> string \<Rightarrow> ('w, string result) io" where
  "GetPodLog E podName namespace containerName =
     call (k_pod_log E podName namespace containerName) (\<lambda>_. EvPodLog podName containerName)"

definition PatchPod :: "'w env \<Rightarrow> Pod \<Rightarrow> Patch \<Rightarrow> ('w, err option) io" where
  "PatchPod E pod data =
     call (k_pod_patch E (pod_Namespace pod) (pod_Name pod) data)
       (EvPatchPod (pod_Namespace pod) (pod_Name pod) data)"

definition DeletePod :: "'w env \<Rightarrow> Pod \<Rightarrow> ('w, err option) io" where
  "DeletePod E pod =
     call (k_pod_delete E (pod_Namespace pod) (pod_Name pod))
       (EvDeletePod (pod_Namespace pod) (pod_Name pod))"

definition GetSecret :: "'w env \<Rightarrow> string \<Rightarrow> string \<Rightarrow> ('w, Secret result) io" where
  "GetSecret E secretName namespace =
     call (k_secret_get E namespace secretName) (EvGetSecret namespace secretName)"

definition CreateSecret :: "'w env \<Rightarrow> Secret \<Rightarrow> ('w, err option) io" where
  "CreateSecret E secret = call (k_secret_create E secret) (EvCreateSecret secret)"

definition UpdateSecret :: "'w env \<Rightarrow> Secret \<Rightarrow> ('w, err option) io" where
  "UpdateSecret E secret = call (k_secret_update E secret) (EvUpdateSecret secret)"

definition PatchSecret :: "'w env \<Rightarrow> Secret \<Rightarrow> Patch \<Rightarrow> ('w, err option) io" where
  "PatchSecret E secret data =
     call (k_secret_patch E (sec_Namespace secret) (sec_Name secret) data)
       (EvPatchSecret (sec_Namespace secret) (sec_Name secret) data)"

definition DeleteSecret :: "'w env \<Rightarrow> string \<Rightarrow> string \<Rightarrow> ('w, err option) io" where
  "DeleteSecret E secretName namespace =
     call (k_secret_delete E namespace secretName) (EvDeleteSecret namespace secretName)"

definition DeleteService :: "'w env \<Rightarrow> string \<Rightarrow> string \<Rightarrow> ('w, err option) io" where
  "DeleteService E svcName namespace =
     call (k_service_delete E namespace svcName) (EvDeleteService namespace svcName)"

definition GetJob :: "'w env \<Rightarrow> string \<Rightarrow> string \<Rightarrow> ('w, Job result) io" where
  "GetJob E jobName namespace = call (k_job_get E namespace jobName) (EvGetJob namespace jobName)"

definition CreateJob :: "'w env \<Rightarrow> Job \<Rightarrow> ('w, Job result) io" where
  "CreateJob E job = call (k_job_create E job) (EvCreateJob job)"

definition DeleteJob :: "'w env \<Rightarrow> string \<Rightarrow> string \<Rightarrow> ('w, err option) io" where
  "DeleteJob E jobName namespace =
     call (k_job_delete E namespace jobName) (EvDeleteJob namespace jobName)"

definition GetPersistentVolume :: "'w env \<Rightarrow> string \<Rightarrow> ('w, PersistentVolume result) io" where
  "GetPersistentVolume E pvName = call (k_pv_get E pvName) (EvGetPV pvName)"

definition ListPersistentVolumes :: "'w env \<Rightarrow> ('w, PersistentVolume list result) io" where
  "ListPersistentVolumes E = call (k_pv_list E) EvListPV"

definition GetPersistentVolumeClaim ::
  "'w env \<Rightarrow> string \<Rightarrow> string \<Rightarrow> ('w, PersistentVolumeClaim result) io" where
  "GetPersistentVolumeClaim E pvcName namespace =
     call (k_pvc_get E namespace pvcName) (EvGetPVC namespace pvcName)"

definition GetStorageClass :: "'w env \<Rightarrow> string \<Rightarrow> ('w, string result) io" where
  "GetStorageClass E scName = call (k_sc_get E scName) (\<lambda>_. EvGetSC scName)"

subsection \<open>The metrics service of a mount pod\<close>

definition nodePortMin :: int where "nodePortMin = 31000"
definition nodePortMax :: int where "nodePortMax = 31999"

definition generateNodePort :: "string \<Rightarrow> int" where
  "generateNodePort podName =
     (let hash = sha256 podName;
          port = push_bit 8 (uint (hash ! 0)) + uint (hash ! 1)
      in nodePortMin + port mod (nodePortMax - nodePortMin))"

definition isPortAvailable :: "'w env \<Rightarrow> int \<Rightarrow> ('w, bool) io" where
  "isPortAvailable E port = call (os_port_free E port) (EvPortFree port)"

text \<open>
  Random ports are tried at most 100 times; then \<open>klog.Fatalf\<close> ends the process.
\<close>

fun random_port :: "'w env \<Rightarrow> nat \<Rightarrow> ('w, int result) io" where
  "random_port E 0 = return Panic"
| "random_port E (Suc n) = do {
     r \<leftarrow> call (os_intn E (nodePortMax - nodePortMin)) EvRand;
     let port = nodePortMin + r;
     ok \<leftarrow> isPortAvailable E port;
     if ok then return (Ok port) else random_port E n }"

definition findAvailableNodePort :: "'w env \<Rightarrow> int \<Rightarrow> ('w, int result) io" where
  "findAvailableNodePort E basePort = do {
     ok \<leftarrow> isPortAvailable E basePort;
     if ok then return (Ok basePort) else random_port E 100 }"

text \<open>\<open>s[len(s)-n:]\<close>, which panics on a shorter string.\<close>

definition last_bytes :: "nat \<Rightarrow> string \<Rightarrow> string result" where
  "last_bytes n s = (if length s < n then Panic else Ok (drop (length s - n) s))"

definition service_name :: "string \<Rightarrow> string \<Rightarrow> string" where
  "service_name nodeName uniqueId = nodeName @ ''-'' @ uniqueId @ ''-metrics''"

definition createSerivce ::
  "'w env \<Rightarrow> string \<Rightarrow> string \<Rightarrow> string \<Rightarrow> int \<Rightarrow> ('w, unit result) io" where
  "createSerivce E nodeName namespace podName metricPort =
     (case last_bytes 6 podName of
        Ok uniqueId \<Rightarrow>
          (let service = \<lparr>svc_Name = service_name nodeName uniqueId, svc_Namespace = namespace,
                 svc_Labels = [(''service-uniqueid'', uniqueId)],
                 svc_Selector = [(''pod-uniqueid'', uniqueId)], svc_NodePort = metricPort\<rparr>
           in do { e \<leftarrow> call (k_service_create E service) (EvCreateService service);
                   return (result_of e) })
      | _ \<Rightarrow> return Panic)"

definition CreatePod :: "'w env \<Rightarrow> Pod \<Rightarrow> ('w, Pod result) io" where
  "CreatePod E pod = do {
     r \<leftarrow> call (k_pod_create E pod) (\<lambda>r. EvCreatePod pod (err_of r));
     case r of
       Ok mntPod \<Rightarrow> do {
         p \<leftarrow> findAvailableNodePort E (generateNodePort (pod_Name pod));
         case p of
           Ok metricPort \<Rightarrow> do {
             s \<leftarrow> createSerivce E (mget (NodeSelector (pod_Spec pod)) ''kubernetes.io/hostname'')
                   (pod_Namespace pod) (pod_Name pod) metricPort;
             return (if s = Panic then Panic else Ok mntPod) }
         | _ \<Rightarrow> return Panic }
     | _ \<Rightarrow> return r }"

section \<open>Lemmas\<close>

lemmas client_defs [model_defs] =
  GetPod_def ListPod_def ListNode_def GetPodLog_def PatchPod_def DeletePod_def GetSecret_def
  CreateSecret_def UpdateSecret_def PatchSecret_def DeleteSecret_def DeleteService_def GetJob_def
  CreateJob_def DeleteJob_def GetPersistentVolume_def ListPersistentVolumes_def
  GetPersistentVolumeClaim_def GetStorageClass_def isPortAvailable_def

lemma wp_client_exec [wp_rules]:
  "(\<And>r. Q [EvListPodExists ns key fs r] r) \<Longrightarrow> wp trace (ListPodExists E ns key fs) Q"
  "(\<And>stdout stderr e. Q1 [EvExecIn n ns cn cmd e] (stdout, stderr, e)) \<Longrightarrow>
     wp trace (ExecuteInContainer E n ns cn cmd) Q1"
  unfolding ListPodExists_def ExecuteInContainer_def by (auto intro!: wp_call wp_bind wp_return)

lemma wp_client [wp_rules]:
  "(\<And>r. Q [EvGetPod ns n r] r) \<Longrightarrow> wp trace (GetPod E n ns) Q"
  "(\<And>r. Q1 [EvListPod ns ls fs r] r) \<Longrightarrow> wp trace (ListPod E ns ls fs) Q1"
  "(\<And>r. Q2 [EvListNode r] r) \<Longrightarrow> wp trace (ListNode E ls) Q2"
  "(\<And>r. Q3 [EvPodLog n c] r) \<Longrightarrow> wp trace (GetPodLog E n ns c) Q3"
  "(\<And>r. Q4 [EvPatchPod (pod_Namespace pod) (pod_Name pod) d r] r) \<Longrightarrow> wp trace (PatchPod E pod d) Q4"
  "(\<And>r. Q4 [EvDeletePod (pod_Namespace pod) (pod_Name pod) r] r) \<Longrightarrow> wp trace (DeletePod E pod) Q4"
  "(\<And>r. Q5 [EvGetSecret ns n r] r) \<Longrightarrow> wp trace (GetSecret E n ns) Q5"
  "(\<And>r. Q4 [EvCreateSecret sec r] r) \<Longrightarrow> wp trace (CreateSecret E sec) Q4"
  "(\<And>r. Q4 [EvUpdateSecret sec r] r) \<Longrightarrow> wp trace (UpdateSecret E sec) Q4"
  "(\<And>r. Q4 [EvPatchSecret (sec_Namespace sec) (sec_Name sec) d r] r) \<Longrightarrow> wp trace (PatchSecret E sec d) Q4"
  "(\<And>r. Q4 [EvDeleteSecret ns n r] r) \<Longrightarrow> wp trace (DeleteSecret E n ns) Q4"
  "(\<And>r. Q4 [EvDeleteService ns n r] r) \<Longrightarrow> wp trace (DeleteService E n ns) Q4"
  "(\<And>r. Q6 [EvGetJob ns n r] r) \<Longrightarrow> wp trace (GetJob E n ns) Q6"
  "(\<And>r. Q6 [EvCreateJob job r] r) \<Longrightarrow> wp trace (CreateJob E job) Q6"
  "(\<And>r. Q4 [EvDeleteJob ns n r] r) \<Longrightarrow> wp trace (DeleteJob E n ns) Q4"
  "(\<And>r. Q7 [EvGetPV n r] r) \<Longrightarrow> wp trace (GetPersistentVolume E n) Q7"
  "(\<And>r. Q8 [EvListPV r] r) \<Longrightarrow> wp trace (ListPersistentVolumes E) Q8"
  "(\<And>r. Q9 [EvGetPVC ns n r] r) \<Longrightarrow> wp trace (GetPersistentVolumeClaim E n ns) Q9"
  "(\<And>r. Q10 [EvGetSC n] r) \<Longrightarrow> wp trace (GetStorageClass E n) Q10"
  "(\<And>r. Q11 [EvPortFree p r] r) \<Longrightarrow> wp trace (isPortAvailable E p) Q11"
  unfolding client_defs by (auto intro!: wp_call)

definition client_keeps :: "('w world \<Rightarrow> 'x) \<Rightarrow> bool" where
  "client_keeps sel \<longleftrightarrow> (\<forall>s x t. sel (s\<lparr>ext := x, trace := t\<rparr>) = sel s)"

lemma client_keeps_sel [simp]:
  "client_keeps publishLock" "client_keeps devMinorTable" "client_keeps vols" "client_keeps volLocks"
  by (simp_all add: client_keeps_def)

lemma keeps_call_any: "client_keeps sel \<Longrightarrow> keeps sel (call f ev)"
  by (auto simp: client_keeps_def keeps_def call_def split: prod.split)

lemma keeps_emit_any: "client_keeps sel \<Longrightarrow> keeps sel (emit ev)"
proof -
  assume "client_keeps sel"
  then have "sel (s\<lparr>trace := t\<rparr>) = sel s" for s t
    unfolding client_keeps_def by (metis (full_types) world.surjective world.update_convs(1,2))
  then show ?thesis by (simp add: keeps_def emit_def)
qed

lemma keeps_client [keeps_rules]:
  assumes "client_keeps sel"
  shows "keeps sel (GetPod E n ns)" "keeps sel (ListPod E ns ls fs)" "keeps sel (ListNode E ls)"
    "keeps sel (GetPodLog E n ns c)" "keeps sel (PatchPod E pod d)" "keeps sel (DeletePod E pod)"
    "keeps sel (GetSecret E n ns)" "keeps sel (CreateSecret E sec)" "keeps sel (UpdateSecret E sec)"
    "keeps sel (PatchSecret E sec d)" "keeps sel (DeleteSecret E n ns)"
    "keeps sel (DeleteService E n ns)" "keeps sel (GetJob E n ns)" "keeps sel (CreateJob E job)"
    "keeps sel (DeleteJob E n ns)" "keeps sel (GetPersistentVolume E n)"
    "keeps sel (ListPersistentVolumes E)" "keeps sel (GetPersistentVolumeClaim E n ns)"
    "keeps sel (GetStorageClass E n)" "keeps sel (isPortAvailable E p)"
  unfolding client_defs by (rule keeps_call_any [OF assms])+

lemma keeps_random_port: "client_keeps sel \<Longrightarrow> keeps sel (random_port E n)"
  by (induction n) (auto intro!: keeps_bind keeps_return keeps_client keeps_call_any simp: Let_def)

lemma keeps_CreatePod [keeps_rules]: "client_keeps sel \<Longrightarrow> keeps sel (CreatePod E pod)"
  unfolding CreatePod_def findAvailableNodePort_def createSerivce_def
  by (auto intro!: keeps_bind keeps_return keeps_client keeps_call_any keeps_random_port
      simp: Let_def split: result.splits)

text \<open>The events of \<open>CreatePod\<close>: the creation first, then only port checks and the service.\<close>

definition service_event :: "event \<Rightarrow> bool" where
  "service_event e \<longleftrightarrow> (case e of EvPortFree _ _ \<Rightarrow> True | EvRand _ \<Rightarrow> True | EvCreateService _ _ \<Rightarrow> True
     | _ \<Rightarrow> False)"

lemma wp_random_port:
  "wp trace (random_port E n) (\<lambda>es r. list_all service_event es \<and> (\<forall>e. r \<noteq> Err e) \<and> r \<noteq> OutOfFuel)"
proof (induction n)
  case 0
  show ?case by (auto intro!: wp_return)
next
  case (Suc n)
  then show ?case
    by (auto intro!: wp_bind wp_call wp_client wp_return elim!: wp_mono
        simp: Let_def service_event_def)
qed

lemma wp_CreatePod:
  "wp trace (CreatePod E pod) (\<lambda>es r. \<exists>e es'. es = EvCreatePod pod e # es' \<and>
     list_all service_event es' \<and> err_of r = e)"
proof -
  have port: "wp trace (findAvailableNodePort E b)
      (\<lambda>es r. list_all service_event es \<and> (\<forall>e. r \<noteq> Err e) \<and> r \<noteq> OutOfFuel)" for b
    unfolding findAvailableNodePort_def
    by (auto intro!: wp_bind wp_client wp_return wp_mono [OF wp_random_port] simp: service_event_def)
  have svc: "wp trace (createSerivce E n ns p m) (\<lambda>es r. list_all service_event es)" for n ns p m
    unfolding createSerivce_def
    by (auto intro!: wp_bind wp_call wp_return simp: Let_def service_event_def split: result.splits)
  show ?thesis
    unfolding CreatePod_def
    by (auto intro!: wp_bind wp_call wp_return wp_mono [OF port] wp_mono [OF svc]
        simp: Let_def split: result.splits)
qed

section \<open>Properties\<close>

text \<open>The node port derived from a pod name lies in the range of the driver, from
  \<open>nodePortMin\<close> up to but not including \<open>nodePortMax\<close>.\<close>

lemma generateNodePort_bounds:
  "nodePortMin \<le> generateNodePort podName \<and> generateNodePort podName < nodePortMax"
proof -
  let ?p = "push_bit 8 (uint (sha256 podName ! 0)) + uint (sha256 podName ! 1)"
  have "0 \<le> ?p mod (nodePortMax - nodePortMin)"
    and "?p mod (nodePortMax - nodePortMin) < nodePortMax - nodePortMin"
    by (simp_all add: nodePortMin_def nodePortMax_def)
  then show ?thesis by (simp add: generateNodePort_def Let_def)
qed

end
