(* ===== verification/Config.thy ===== *)
theory Config
  imports Client
begin

text \<open>
  The constants of \<open>pkg/config/config.go\<close>: keys of labels, annotations and volume
  attributes, paths and defaults. The package variables that are set at start (node name,
  namespace, the pod of the driver and the mode switches) are the \<open>cfg_\<close> fields of \<open>env\<close>.
\<close>

definition DriverNameDefault :: string where "DriverNameDefault = ''csi.dingofs.com''"
definition PodTypeKey :: string where "PodTypeKey = ''app.kubernetes.io/name''"
definition PodTypeValue :: string where "PodTypeValue = ''dingofs-mount''"
definition JobTypeKey :: string where "JobTypeKey = ''batch.kubernetes.io/name''"
definition JobTypeValue :: string where "JobTypeValue = ''dingofs-job''"
definition CSINodeLabelKey :: string where "CSINodeLabelKey = ''app''"
definition CSINodeLabelValue :: string where "CSINodeLabelValue = ''dingofs-csi-node''"
definition PodVolumeIdLabelKey :: string where "PodVolumeIdLabelKey = ''volume-id''"
definition PodHashLabelKey :: string where "PodHashLabelKey = ''dingofs-hash''"
definition PodUniqueIdLabelKey :: string where "PodUniqueIdLabelKey = ''pod-uniqueid''"
definition DingoFSID :: string where "DingoFSID = ''dingfs-fsid''"
definition UniqueIdKey :: string where "UniqueIdKey = ''dingofs-uniqueid''"
definition DeleteDelayTimeKey :: string where "DeleteDelayTimeKey = ''dingofs-delete-delay''"
definition DeleteDelayAtKey :: string where "DeleteDelayAtKey = ''dingofs-delete-at''"
definition PodMountBase :: string where "PodMountBase = ''/dfs''"
definition TmpPodMountBase :: string where "TmpPodMountBase = ''/tmp''"
definition PodInfoName :: string where "PodInfoName = ''csi.storage.k8s.io/pod.name''"
definition PodInfoNamespace :: string where "PodInfoNamespace = ''csi.storage.k8s.io/pod.namespace''"
definition MountContainerName :: string where "MountContainerName = ''dfs-mount''"
definition MdsAddrKey :: string where "MdsAddrKey = ''mdsOpt_rpcRetryOpt_addrs''"
definition DefaultMountPodCpuLimit :: string where "DefaultMountPodCpuLimit = ''4000m''"
definition DefaultMountPodMemLimit :: string where "DefaultMountPodMemLimit = ''12Gi''"
definition DefaultMountPodCpuRequest :: string where "DefaultMountPodCpuRequest = ''2000m''"
definition DefaultMountPodMemRequest :: string where "DefaultMountPodMemRequest = ''6Gi''"
definition MountPodCpuLimitKey :: string where "MountPodCpuLimitKey = ''dingofs/mount-cpu-limit''"
definition MountPodMemLimitKey :: string where "MountPodMemLimitKey = ''dingofs/mount-memory-limit''"
definition MountPodCpuRequestKey :: string where "MountPodCpuRequestKey = ''dingofs/mount-cpu-request''"
definition MountPodMemRequestKey :: string where "MountPodMemRequestKey = ''dingofs/mount-memory-request''"
definition MountPodLabelKey :: string where "MountPodLabelKey = ''dingofs/mount-labels''"
definition MountPodAnnotationKey :: string where "MountPodAnnotationKey = ''dingofs/mount-annotations''"
definition MountPodServiceAccount :: string where "MountPodServiceAccount = ''dingofs/mount-service-account''"
definition MountPodImageKey :: string where "MountPodImageKey = ''dingofs/mount-image''"
definition CleanCacheKey :: string where "CleanCacheKey = ''dingofs/clean-cache''"
definition DeleteDelay :: string where "DeleteDelay = ''dingofs/mount-delete-delay''"
definition MountPodHostPath :: string where "MountPodHostPath = ''dingofs/host-path''"
definition DfsInsideContainer :: string where "DfsInsideContainer = ''DFS_INSIDE_CONTAINER''"
definition Finalizer :: string where "Finalizer = ''dingofs.com/finalizer''"
definition CleanCacheAnno :: string where "CleanCacheAnno = ''dingofs-clean-cache''"
definition DfsDirName :: string where "DfsDirName = ''dfs-dir''"
definition UpdateDBDirName :: string where "UpdateDBDirName = ''updatedb''"
definition UpdateDBCfgFile :: string where "UpdateDBCfgFile = ''/etc/updatedb.conf''"
definition DefaultBootstrapPath :: string where "DefaultBootstrapPath = ''/scripts''"
definition DefaultBootstrapShell :: string where "DefaultBootstrapShell = ''mountpoint.sh''"
definition DefaultClientConfPath :: string where "DefaultClientConfPath = ''/dingofs/conf/client.conf''"
definition DfsCMDPath :: string where "DfsCMDPath = ''/usr/bin/dingo''"
definition DingofsSecretLabelKey :: string where "DingofsSecretLabelKey = ''dingofs/secret''"
definition InjectSidecarDone :: string where "InjectSidecarDone = ''done.sidecar.dingofs.com/inject''"
definition InjectSidecarDisable :: string where "InjectSidecarDisable = ''disable.sidecar.dingofs.com/inject''"
definition ProvisionerSecretName :: string where "ProvisionerSecretName = ''csi.storage.k8s.io/provisioner-secret-name''"
definition ProvisionerSecretNamespace :: string where "ProvisionerSecretNamespace = ''csi.storage.k8s.io/provisioner-secret-namespace''"
definition PublishSecretName :: string where "PublishSecretName = ''csi.storage.k8s.io/node-publish-secret-name''"
definition PublishSecretNamespace :: string where "PublishSecretNamespace = ''csi.storage.k8s.io/node-publish-secret-namespace''"
definition ControllerExpandSecretName :: string where "ControllerExpandSecretName = ''csi.storage.k8s.io/controller-expand-secret-name''"
definition ControllerExpandSecretNamespace :: string where "ControllerExpandSecretNamespace = ''csi.storage.k8s.io/controller-expand-secret-namespace''"
definition DefaultS3LogPrefixKey :: string where "DefaultS3LogPrefixKey = ''s3.logPrefix''"
definition DefaultS3LogPrefixVal :: string where "DefaultS3LogPrefixVal = ''/dingofs/client/logs''"
definition DefaultClientCommonLogDirKey :: string where "DefaultClientCommonLogDirKey = ''client.common.logDir''"
definition DefaultClientCommonLogDirVal :: string where "DefaultClientCommonLogDirVal = ''/dingofs/client/logs''"
definition HostContainerDir :: string where "HostContainerDir = ''/host''"
definition DefaultHostDfsPath :: string where "DefaultHostDfsPath = ''/dingofs''"
definition hostnameLabel :: string where "hostnameLabel = ''kubernetes.io/hostname''"

lemmas config_defs =
  DriverNameDefault_def PodTypeKey_def PodTypeValue_def JobTypeKey_def JobTypeValue_def
  CSINodeLabelKey_def CSINodeLabelValue_def PodVolumeIdLabelKey_def PodHashLabelKey_def
  PodUniqueIdLabelKey_def DingoFSID_def UniqueIdKey_def DeleteDelayTimeKey_def
  DeleteDelayAtKey_def PodMountBase_def TmpPodMountBase_def PodInfoName_def
  PodInfoNamespace_def MountContainerName_def MdsAddrKey_def DefaultMountPodCpuLimit_def
  DefaultMountPodMemLimit_def DefaultMountPodCpuRequest_def DefaultMountPodMemRequest_def
  MountPodCpuLimitKey_def MountPodMemLimitKey_def MountPodCpuRequestKey_def
  MountPodMemRequestKey_def MountPodLabelKey_def MountPodAnnotationKey_def
  MountPodServiceAccount_def MountPodImageKey_def CleanCacheKey_def DeleteDelay_def
  MountPodHostPath_def DfsInsideContainer_def Finalizer_def CleanCacheAnno_def DfsDirName_def
  UpdateDBDirName_def UpdateDBCfgFile_def DefaultBootstrapPath_def DefaultBootstrapShell_def
  DefaultClientConfPath_def DfsCMDPath_def DingofsSecretLabelKey_def InjectSidecarDone_def
  InjectSidecarDisable_def ProvisionerSecretName_def ProvisionerSecretNamespace_def
  PublishSecretName_def PublishSecretNamespace_def ControllerExpandSecretName_def
  ControllerExpandSecretNamespace_def DefaultS3LogPrefixKey_def DefaultS3LogPrefixVal_def
  DefaultClientCommonLogDirKey_def DefaultClientCommonLogDirVal_def HostContainerDir_def
  DefaultHostDfsPath_def hostnameLabel_def

end
