(* ===== verification/Paths.thy ===== *)
theory Paths
  imports GoStrings
begin

text \<open>
  The lexical path functions of Go's \<open>path/filepath\<close> (on Unix) that the driver uses:
  \<open>Clean\<close>, \<open>Join\<close>, \<open>Base\<close> and \<open>Dir\<close>, with the laws for paths made of plain components.
\<close>

section \<open>Definitions\<close>

text \<open>One component of a path against the cleaned components read so far, newest first.\<close>

fun clean_step :: "bool \<Rightarrow> string \<Rightarrow> string list \<Rightarrow> string list" where
  "clean_step rooted c st =
     (if c = [] \<or> c = ''.'' then st
      else if c = ''..'' then
        (case st of
           [] \<Rightarrow> if rooted then [] else [''..'']
         | d # ds \<Rightarrow> if d = ''..'' then ''..'' # st else ds)
      else c # st)"

definition Clean :: "string \<Rightarrow> string" where
  "Clean p =
     (let rooted = HasPrefix p ''/'';
          cs = rev (fold (clean_step rooted) (Split p ''/'') [])
      in if rooted then ''/'' @ Join cs ''/'' else if cs = [] then ''.'' else Join cs ''/'')"

definition PathJoin :: "string list \<Rightarrow> string" where
  "PathJoin elems =
     (let es = filter (\<lambda>e. e \<noteq> []) elems in if es = [] then [] else Clean (Join es ''/''))"

definition strip_slashes :: "string \<Rightarrow> string" where
  "strip_slashes p = rev (dropWhile (\<lambda>c. c = CHR ''/'') (rev p))"

definition Base :: "string \<Rightarrow> string" where
  "Base p =
     (if p = [] then ''.''
      else let q = strip_slashes p in
        if q = [] then ''/'' else drop (nat (LastIndexByte q (CHR ''/'') + 1)) q)"

definition Dir :: "string \<Rightarrow> string" where
  "Dir p = Clean (take (nat (LastIndexByte p (CHR ''/'') + 1)) p)"

section \<open>Paths of plain components\<close>

text \<open>A component that \<open>Clean\<close> leaves alone.\<close>

definition plain :: "string \<Rightarrow> bool" where
  "plain c \<longleftrightarrow> c \<noteq> [] \<and> c \<noteq> ''.'' \<and> c \<noteq> ''..'' \<and> CHR ''/'' \<notin> set c"

definition abs_path :: "string list \<Rightarrow> string" where
  "abs_path cs = ''/'' @ Join cs ''/''"

lemma clean_step_plain [simp]: "plain c \<Longrightarrow> clean_step r c st = c # st"
  by (simp add: plain_def)

lemma fold_clean_plain: "list_all plain cs \<Longrightarrow> fold (clean_step r) cs st = rev cs @ st"
  by (induction cs arbitrary: st) (auto simp del: clean_step.simps)

lemma Split_Join_char:
  assumes "\<forall>p\<in>set ps. c \<notin> set p" and "ps \<noteq> []"
  shows "Split (Join ps [c]) [c] = ps"
  using assms
proof (induction ps)
  case Nil
  then show ?case by simp
next
  case (Cons p ps)
  then show ?case by (cases ps) (simp_all add: Split_char_single Split_char_Cons)
qed

lemma Split_slash_plain: "list_all plain cs \<Longrightarrow> cs \<noteq> [] \<Longrightarrow> Split (Join cs ''/'') ''/'' = cs"
  by (rule Split_Join_char) (auto simp: plain_def list_all_iff)

lemma Clean_abs_path:
  assumes "list_all plain cs" and "cs \<noteq> []"
  shows "Clean (abs_path cs) = abs_path cs"
proof -
  have "Split (abs_path cs) ''/'' = [] # cs"
    using Split_char_Cons [of "CHR ''/''" "[]" "Join cs ''/''"] Split_slash_plain [OF assms]
    by (simp add: abs_path_def)
  then show ?thesis
    using assms by (simp add: Clean_def abs_path_def fold_clean_plain del: clean_step.simps)
       (simp add: fold_clean_plain)
qed

lemma Join_append: "xs \<noteq> [] \<Longrightarrow> ys \<noteq> [] \<Longrightarrow> Join (xs @ ys) sep = Join xs sep @ sep @ Join ys sep"
proof (induction xs)
  case Nil
  then show ?case by simp
next
  case (Cons x xs)
  then show ?case by (cases xs) (simp_all add: Join_Cons)
qed

lemma PathJoin_plain:
  assumes "list_all plain cs" and "cs \<noteq> []" and "plain c"
  shows "PathJoin [abs_path cs, c] = abs_path (cs @ [c])"
proof -
  have j: "abs_path cs @ ''/'' @ c = abs_path (cs @ [c])"
    using assms Join_append [of cs "[c]"] by (simp add: abs_path_def)
  have "c \<noteq> []" using assms by (simp add: plain_def)
  moreover have "abs_path cs \<noteq> []" by (simp add: abs_path_def)
  ultimately have "PathJoin [abs_path cs, c] = Clean (abs_path (cs @ [c]))"
    using j by (simp add: PathJoin_def)
  with Clean_abs_path [of "cs @ [c]"] assms show ?thesis by simp
qed

end
