(* ===== verification/Setting.thy ===== *)
theory Setting
  imports Config Paths
begin

text \<open>
  The settings of one volume, \<open>pkg/config/dfs_setting.go\<close>: the record \<open>DfsSetting\<close> with the
  attributes of its mount pod, its construction from secrets, volume context and mount
  options, and the patch that configures mount pods. The codecs the file calls (YAML and
  JSON, Kubernetes quantities, label selectors, floats) are the record \<open>codec\<close>.

  A Go pointer to the attributes that is shared between \<open>setting.Attr\<close> and a local variable is
  the field of the record that the function returns updated.
\<close>

section \<open>Definitions\<close>

subsection \<open>Data\<close>

record ResourceRequirements =
  Limits :: "Quantity smap"
  Requests :: "Quantity smap"

type_synonym EnvVar = "string \<times> string"
type_synonym Lifecycle = "string list"

record PodAttr =
  pa_Namespace :: string
  MountPointPath :: string
  DFSConfigPath :: string
  DFSMountPriorityName :: string
  pa_ServiceAccountName :: string
  Resources :: ResourceRequirements
  pa_Labels :: "string smap"
  pa_Annotations :: "string smap"
  pa_LivenessProbe :: "Probe option"
  pa_ReadinessProbe :: "Probe option"
  pa_StartupProbe :: "Probe option"
  pa_Lifecycle :: "Lifecycle option"
  pa_TerminationGracePeriodSeconds :: "int option"
  pa_Volumes :: "Volume list"
  pa_VolumeDevices :: "string list"
  pa_VolumeMounts :: "VolumeMount list"
  pa_Env :: "EnvVar list"
  pa_Image :: string
  pa_HostNetwork :: bool
  pa_HostAliases :: "string list"
  pa_HostPID :: bool
  pa_HostIPC :: bool
  pa_DNSConfig :: "string option"
  pa_DNSPolicy :: string
  pa_ImagePullSecrets :: "string list"
  pa_PreemptionPolicy :: "string option"
  pa_Tolerations :: "string list"

record CachePVC =
  cp_PVCName :: string
  cp_Path :: string

record CacheInlineVolume =
  ci_CSI :: string
  ci_Path :: string

record CacheEmptyDir =
  ce_Medium :: string
  ce_SizeLimit :: Quantity
  ce_Path :: string

record DfsSetting =
  HashVal :: string
  FSID :: string
  Name :: string
  MdsAddr :: string
  Source :: string
  Storage :: string
  FormatOptions :: string
  CacheDirs :: "string list"
  ClientConfPath :: string
  CachePVCs :: "CachePVC list"
  CacheEmptyDir :: "CacheEmptyDir option"
  CacheInlineVolumes :: "CacheInlineVolume list"
  VolumeId :: string
  UniqueId :: string
  MountPath :: string
  TargetPath :: string
  MountOptions :: "string list"
  SubPath :: string
  SecretName :: string
  Attr :: "PodAttr option"
  SecretKey :: string
  SecretKey2 :: string
  Token :: string
  Passphrase :: string
  Envs :: "string smap"
  EncryptRsaKey :: string
  InitConfig :: string
  Configs :: "string smap"
  DeletedDelay :: string
  CleanCache :: bool
  ds_HostPath :: "string list"
  FormatCmd :: string
  ds_PV :: "PersistentVolume option"
  ds_PVC :: "PersistentVolumeClaim option"

definition zero_PodAttr :: PodAttr where
  "zero_PodAttr = \<lparr>pa_Namespace = '''', MountPointPath = '''', DFSConfigPath = '''',
     DFSMountPriorityName = '''', pa_ServiceAccountName = '''',
     Resources = \<lparr>Limits = [], Requests = []\<rparr>, pa_Labels = [], pa_Annotations = [],
     pa_LivenessProbe = None, pa_ReadinessProbe = None, pa_StartupProbe = None, pa_Lifecycle = None,
     pa_TerminationGracePeriodSeconds = None, pa_Volumes = [], pa_VolumeDevices = [],
     pa_VolumeMounts = [], pa_Env = [], pa_Image = '''', pa_HostNetwork = False,
     pa_HostAliases = [], pa_HostPID = False, pa_HostIPC = False, pa_DNSConfig = None,
     pa_DNSPolicy = '''', pa_ImagePullSecrets = [], pa_PreemptionPolicy = None,
     pa_Tolerations = []\<rparr>"

definition zero_DfsSetting :: DfsSetting where
  "zero_DfsSetting = \<lparr>HashVal = '''', FSID = '''', Name = '''', MdsAddr = '''', Source = '''',
     Storage = '''', FormatOptions = '''', CacheDirs = [], ClientConfPath = '''', CachePVCs = [],
     CacheEmptyDir = None, CacheInlineVolumes = [], VolumeId = '''', UniqueId = '''',
     MountPath = '''', TargetPath = '''', MountOptions = [], SubPath = '''', SecretName = '''',
     Attr = None, SecretKey = '''', SecretKey2 = '''', Token = '''', Passphrase = '''', Envs = [],
     EncryptRsaKey = '''', InitConfig = '''', Configs = [], DeletedDelay = '''',
     CleanCache = False, ds_HostPath = [], FormatCmd = '''', ds_PV = None, ds_PVC = None\<rparr>"

record PVCSelector =
  sel_MatchLabels :: string
  MatchStorageClassName :: string
  MatchName :: string

record MountPodPatch =
  mp_PVCSelector :: "PVCSelector option"
  MountImage :: string
  mp_Image :: string
  mp_Labels :: "string smap option"
  mp_Annotations :: "string smap option"
  mp_HostNetwork :: "bool option"
  mp_HostPID :: "bool option"
  mp_LivenessProbe :: "Probe option"
  mp_ReadinessProbe :: "Probe option"
  mp_StartupProbe :: "Probe option"
  mp_Lifecycle :: "Lifecycle option"
  mp_Resources :: "ResourceRequirements option"
  mp_TerminationGracePeriodSeconds :: "int option"
  mp_Volumes :: "Volume list option"
  mp_VolumeDevices :: "string list option"
  mp_VolumeMounts :: "VolumeMount list option"
  mp_Env :: "EnvVar list option"
  mp_MountOptions :: "string list option"

definition zero_MountPodPatch :: MountPodPatch where
  "zero_MountPodPatch = \<lparr>mp_PVCSelector = None, MountImage = '''', mp_Image = '''',
     mp_Labels = None, mp_Annotations = None, mp_HostNetwork = None, mp_HostPID = None,
     mp_LivenessProbe = None, mp_ReadinessProbe = None, mp_StartupProbe = None,
     mp_Lifecycle = None, mp_Resources = None, mp_TerminationGracePeriodSeconds = None,
     mp_Volumes = None, mp_VolumeDevices = None, mp_VolumeMounts = None, mp_Env = None,
     mp_MountOptions = None\<rparr>"

text \<open>A nil slice or map ranges like an empty one.\<close>

definition opt_list :: "'a list option \<Rightarrow> 'a list" where
  "opt_list x = (case x of None \<Rightarrow> [] | Some xs \<Rightarrow> xs)"

text \<open>A float64: a dyadic rational \<open>m * 2 ^ e\<close> (\<open>e\<close> may be negative) or a value that is not finite.\<close>

datatype float64 = Dyadic int int | NonFinite

record codec =
  yaml_map :: "string \<Rightarrow> string smap option"
  json_map :: "string \<Rightarrow> string smap option"
  decode_setting :: "string smap \<Rightarrow> DfsSetting \<Rightarrow> DfsSetting result"
  json_patch :: "MountPodPatch \<Rightarrow> string"
  unjson_patch :: "string \<Rightarrow> MountPodPatch \<Rightarrow> MountPodPatch"
  json_setting :: "DfsSetting \<Rightarrow> string"
  ParseQuantity :: "string \<Rightarrow> Quantity result"
  Quantity_Value :: "Quantity \<Rightarrow> int"
  Quantity_String :: "Quantity \<Rightarrow> string"
  ParseFloat :: "string \<Rightarrow> float64 option"
  float_u64_oob :: "float64 \<Rightarrow> u64"
  SelectorMatches :: "string \<Rightarrow> string smap \<Rightarrow> bool option"

subsection \<open>Patches of mount pods\<close>

definition IsMatch :: "codec \<Rightarrow> MountPodPatch \<Rightarrow> PersistentVolumeClaim option \<Rightarrow> bool" where
  "IsMatch C mpp pvc =
     (case mp_PVCSelector mpp of
        None \<Rightarrow> True
      | Some sel \<Rightarrow>
          (case pvc of
             None \<Rightarrow> False
           | Some pvc \<Rightarrow>
               if MatchName sel \<noteq> [] \<and> MatchName sel \<noteq> pvc_Name pvc then False
               else if MatchStorageClassName sel \<noteq> [] \<and> pvc_StorageClassName pvc \<noteq> None \<and>
                       Some (MatchStorageClassName sel) \<noteq> pvc_StorageClassName pvc then False
               else (case SelectorMatches C (sel_MatchLabels sel) (pvc_Labels pvc) of
                       None \<Rightarrow> False | Some b \<Rightarrow> b)))"

definition interVolumesPrefix :: "string list" where
  "interVolumesPrefix =
     [''rsa-key'', ''init-config'', ''config-'', ''dfs-dir'', ''update-db'', ''cachedir-'']"

definition IsInterVolume :: "string \<Rightarrow> bool" where
  "IsInterVolume name = list_ex (\<lambda>prefix. HasPrefix name prefix) interVolumesPrefix"

text \<open>The volume loop of \<open>Merge\<close>: the volumes so far and the names added by this merge.\<close>

fun merge_volumes :: "Volume list \<Rightarrow> string list \<Rightarrow> Volume list \<Rightarrow> Volume list \<times> string list" where
  "merge_volumes vs vok [] = (vs, vok)"
| "merge_volumes vs vok (v # rest) =
     (if IsInterVolume (vol_Name v) then merge_volumes vs vok rest
      else if list_ex (\<lambda>vv. vol_Name vv = vol_Name v) vs then merge_volumes vs vok rest
      else merge_volumes (vs @ [v]) (vol_Name v # vok) rest)"

definition or_else :: "'a option \<Rightarrow> 'a option \<Rightarrow> 'a option" where
  "or_else new old = (case new of None \<Rightarrow> old | Some x \<Rightarrow> Some x)"

definition Merge :: "MountPodPatch \<Rightarrow> MountPodPatch \<Rightarrow> MountPodPatch" where
  "Merge mpp mp =
     (let (vs, vok) = merge_volumes (opt_list (mp_Volumes mpp)) [] (opt_list (mp_Volumes mp));
          vms = filter (\<lambda>vm. vm_Name vm \<in> set vok) (opt_list (mp_VolumeMounts mp));
          vds = filter (\<lambda>vd. vd \<in> set vok) (opt_list (mp_VolumeDevices mp))
      in mpp\<lparr>MountImage := MountImage mp,
             mp_HostNetwork := or_else (mp_HostNetwork mp) (mp_HostNetwork mpp),
             mp_HostPID := or_else (mp_HostPID mp) (mp_HostPID mpp),
             mp_LivenessProbe := or_else (mp_LivenessProbe mp) (mp_LivenessProbe mpp),
             mp_ReadinessProbe := or_else (mp_ReadinessProbe mp) (mp_ReadinessProbe mpp),
             mp_Lifecycle := or_else (mp_Lifecycle mp) (mp_Lifecycle mpp),
             mp_Labels := or_else (mp_Labels mp) (mp_Labels mpp),
             mp_Annotations := or_else (mp_Annotations mp) (mp_Annotations mpp),
             mp_Resources := or_else (mp_Resources mp) (mp_Resources mpp),
             mp_TerminationGracePeriodSeconds :=
               or_else (mp_TerminationGracePeriodSeconds mp) (mp_TerminationGracePeriodSeconds mpp),
             mp_Volumes := (if mp_Volumes mp = None then mp_Volumes mpp else Some vs),
             mp_VolumeMounts := (if mp_VolumeMounts mp = None then mp_VolumeMounts mpp
                                 else Some (opt_list (mp_VolumeMounts mpp) @ vms)),
             mp_VolumeDevices := (if mp_VolumeDevices mp = None then mp_VolumeDevices mpp
                                  else Some (opt_list (mp_VolumeDevices mpp) @ vds)),
             mp_Env := or_else (mp_Env mp) (mp_Env mpp),
             mp_MountOptions := or_else (mp_MountOptions mp) (mp_MountOptions mpp)\<rparr>)"

definition option_env :: "string \<Rightarrow> EnvVar" where
  "option_env option =
     (let parts = SplitN2 option ''='' in
      if length parts = 2 then (ReplaceAll (parts ! 0) ''.'' ''_'', parts ! 1)
      else (ReplaceAll option ''.'' ''_'', ''''))"

definition convertMountOptionsToEnvVars :: "DfsSetting \<Rightarrow> EnvVar list" where
  "convertMountOptionsToEnvVars setting =
     map option_env (MountOptions setting) @ [(MdsAddrKey, MdsAddr setting)]"

definition GenMountPodPatch :: "codec \<Rightarrow> DfsSetting \<Rightarrow> MountPodPatch" where
  "GenMountPodPatch C setting =
     (let patch = zero_MountPodPatch\<lparr>mp_Labels := Some [], mp_Annotations := Some []\<rparr>;
          patch = patch\<lparr>mp_Image := MountImage patch\<rparr>;
          patch = patch\<lparr>mp_Env := Some (convertMountOptionsToEnvVars setting)\<rparr>;
          strData = json_patch C patch;
          strData = ReplaceAll strData ''${MOUNT_POINT}'' (MountPath setting);
          strData = ReplaceAll strData ''${VOLUME_ID}'' (VolumeId setting);
          strData = ReplaceAll strData ''${VOLUME_NAME}'' (Name setting);
          strData = ReplaceAll strData ''${SUB_PATH}'' (SubPath setting)
      in unjson_patch C strData patch)"

text \<open>
  Removing an overridden option while ranging over the same slice: \<open>range\<close> keeps the
  original length, \<open>append(s[:i], s[i+1:]...)\<close> shifts the shared array and shortens the
  slice. \<open>a\<close> is the array, \<open>n\<close> the current length of the slice.
\<close>

fun drop_option :: "string \<Rightarrow> nat \<Rightarrow> nat \<Rightarrow> string list \<Rightarrow> nat \<Rightarrow> (string list \<times> nat) result" where
  "drop_option opt i 0 a n = Ok (a, n)"
| "drop_option opt i (Suc k) a n =
     (if Split (a ! i) ''='' ! 0 = opt then
        if n < i + 1 then Panic
        else drop_option opt (i + 1) k
               (take i a @ drop (i + 1) (take n a) @ drop (n - 1) a) (n - 1)
      else drop_option opt (i + 1) k a n)"

fun apply_options :: "string list \<Rightarrow> string list \<Rightarrow> string list result" where
  "apply_options [] opts = Ok opts"
| "apply_options (opt # rest) opts =
     bindR (drop_option opt 0 (length opts) opts (length opts))
       (\<lambda>(a, n). apply_options rest (take n a @ [opt]))"

definition ApplyConfigPatch :: "codec \<Rightarrow> DfsSetting \<Rightarrow> DfsSetting result" where
  "ApplyConfigPatch C setting =
     (case Attr setting of
        None \<Rightarrow> Panic
      | Some attr \<Rightarrow>
         (let patch = GenMountPodPatch C setting;
              attr = (if mp_Image patch \<noteq> [] then attr\<lparr>pa_Image := mp_Image patch\<rparr> else attr);
              attr = (case mp_HostNetwork patch of Some b \<Rightarrow> attr\<lparr>pa_HostNetwork := b\<rparr> | None \<Rightarrow> attr);
              attr = (case mp_HostPID patch of Some b \<Rightarrow> attr\<lparr>pa_HostPID := b\<rparr> | None \<Rightarrow> attr);
              attr = attr\<lparr>pa_Labels := mputs (pa_Labels attr) (opt_list (mp_Labels patch)),
                          pa_Annotations := mputs (pa_Annotations attr) (opt_list (mp_Annotations patch))\<rparr>;
              attr = (case mp_Resources patch of Some r \<Rightarrow> attr\<lparr>Resources := r\<rparr> | None \<Rightarrow> attr);
              attr = attr\<lparr>pa_Lifecycle := mp_Lifecycle patch,
                          pa_LivenessProbe := mp_LivenessProbe patch,
                          pa_ReadinessProbe := mp_ReadinessProbe patch,
                          pa_StartupProbe := mp_StartupProbe patch,
                          pa_TerminationGracePeriodSeconds := mp_TerminationGracePeriodSeconds patch,
                          pa_VolumeDevices := opt_list (mp_VolumeDevices patch),
                          pa_VolumeMounts := opt_list (mp_VolumeMounts patch),
                          pa_Volumes := opt_list (mp_Volumes patch),
                          pa_Env := opt_list (mp_Env patch)\<rparr>
          in bindR (apply_options (opt_list (mp_MountOptions patch)) (MountOptions setting))
               (\<lambda>opts. Ok (setting\<lparr>Attr := Some attr, MountOptions := opts\<rparr>))))"

subsection \<open>Resources and sizes\<close>

definition MustParse :: "codec \<Rightarrow> string \<Rightarrow> Quantity result" where
  "MustParse C s = (case ParseQuantity C s of Ok q \<Rightarrow> Ok q | _ \<Rightarrow> Panic)"

definition default_resource :: "codec \<Rightarrow> ResourceRequirements result" where
  "default_resource C =
     bindR (MustParse C DefaultMountPodCpuLimit) (\<lambda>cl.
     bindR (MustParse C DefaultMountPodMemLimit) (\<lambda>ml.
     bindR (MustParse C DefaultMountPodCpuRequest) (\<lambda>cr.
     bindR (MustParse C DefaultMountPodMemRequest) (\<lambda>mr.
       Ok \<lparr>Limits = [(''cpu'', cl), (''memory'', ml)], Requests = [(''cpu'', cr), (''memory'', mr)]\<rparr>))))"

definition getDefaultResource :: "codec \<Rightarrow> ResourceRequirements result" where
  "getDefaultResource C = default_resource C"

text \<open>One quantity of a request: an empty text keeps the default, a non-positive value removes it.\<close>

definition set_quantity :: "codec \<Rightarrow> string \<Rightarrow> string \<Rightarrow> Quantity smap \<Rightarrow> Quantity smap result" where
  "set_quantity C name text m =
     (if text \<noteq> [] then
        bindR (ParseQuantity C text) (\<lambda>q. Ok (if q \<le> 0 then mdel m name else mput m name q))
      else Ok m)"

definition ParsePodResources ::
  "codec \<Rightarrow> string \<Rightarrow> string \<Rightarrow> string \<Rightarrow> string \<Rightarrow> ResourceRequirements result" where
  "ParsePodResources C cpuLimit memoryLimit cpuRequest memoryRequest =
     bindR (default_resource C) (\<lambda>r.
     bindR (set_quantity C ''cpu'' cpuLimit (Limits r)) (\<lambda>podLimit.
     bindR (set_quantity C ''memory'' memoryLimit podLimit) (\<lambda>podLimit.
     bindR (set_quantity C ''cpu'' cpuRequest (Requests r)) (\<lambda>podRequest.
     bindR (set_quantity C ''memory'' memoryRequest podRequest) (\<lambda>podRequest.
       Ok \<lparr>Limits = podLimit, Requests = podRequest\<rparr>)))))"

definition unit_shift :: "char \<Rightarrow> nat option" where
  "unit_shift c =
     (if c \<in> set ''kK'' then Some 10 else if c \<in> set ''mM'' then Some 20
      else if c \<in> set ''gG'' then Some 30 else if c \<in> set ''tT'' then Some 40
      else if c \<in> set ''pP'' then Some 50 else if c \<in> set ''eE'' then Some 60 else None)"

text \<open>
  \<open>uint64(val)\<close> truncates; outside the range of \<open>uint64\<close> Go leaves the result to the
  implementation.
\<close>

definition trunc_dyadic :: "int \<Rightarrow> int \<Rightarrow> int" where
  "trunc_dyadic m e = (if 0 \<le> e then m * 2 ^ nat e else m sdiv 2 ^ nat (- e))"

definition float_to_u64 :: "codec \<Rightarrow> float64 \<Rightarrow> u64" where
  "float_to_u64 C x =
     (case x of
        NonFinite \<Rightarrow> float_u64_oob C x
      | Dyadic m e \<Rightarrow>
          let t = trunc_dyadic m e in
          if 0 \<le> t \<and> t < 2 ^ 64 then word_of_int t else float_u64_oob C x)"

definition scale_float :: "float64 \<Rightarrow> nat \<Rightarrow> float64" where
  "scale_float x shift = (case x of NonFinite \<Rightarrow> NonFinite | Dyadic m e \<Rightarrow> Dyadic m (e + int shift))"

definition is_digit_char :: "char \<Rightarrow> bool" where
  "is_digit_char c \<longleftrightarrow> (let n = (of_char c :: nat) in 48 \<le> n \<and> n \<le> 57)"

definition ParseToBytes :: "codec \<Rightarrow> string \<Rightarrow> u64 result" where
  "ParseToBytes C value =
     (if value = [] then Ok 0
      else let c = last value;
               unit = (if \<not> is_digit_char c then c else CHR ''M'');
               s = (if \<not> is_digit_char c then butlast value else value)
           in case ParseFloat C s of
                None \<Rightarrow> Err (MsgErr (''cannot parse '' @ value @ '' to bytes''))
              | Some val \<Rightarrow>
                  (case unit_shift unit of
                     None \<Rightarrow> Err (MsgErr (''cannot parse '' @ value @ '' to bytes, invalid unit''))
                   | Some shift \<Rightarrow> Ok (float_to_u64 C (scale_float val shift))))"

subsection \<open>Parsing a setting\<close>

definition ParseYamlOrJson :: "codec \<Rightarrow> string \<Rightarrow> string smap result" where
  "ParseYamlOrJson C source =
     (case yaml_map C source of
        Some m \<Rightarrow> Ok m
      | None \<Rightarrow>
          (case json_map C source of
             Some m \<Rightarrow> Ok m
           | None \<Rightarrow> Err (GrpcErr InvalidArgument ''Parse yaml or json error'')))"

fun parse_format_options :: "string \<Rightarrow> string list \<Rightarrow> (string \<times> string) list \<Rightarrow> (string \<times> string) list result" where
  "parse_format_options all [] acc = Ok acc"
| "parse_format_options all (option # options) acc =
     (let pair = SplitN2 (TrimSpace option) ''='' in
      if length pair = 2 \<and> pair ! 1 = [] then Err (MsgErr (''invalid format options: '' @ all))
      else let key = TrimSpace (pair ! 0) in
        if key = [] then parse_format_options all options acc
        else parse_format_options all options
               (acc @ [(key, if length pair = 1 then '''' else TrimSpace (pair ! 1))]))"

definition ParseFormatOptions :: "DfsSetting \<Rightarrow> (string \<times> string) list result" where
  "ParseFormatOptions s = parse_format_options (FormatOptions s) (Split (FormatOptions s) '','') []"

definition RepresentFormatOptions :: "(string \<times> string) list \<Rightarrow> string list" where
  "RepresentFormatOptions parsedOptions =
     map (\<lambda>(k, v). ''--'' @ (if v \<noteq> [] then EscapeBashStr k @ ''='' @ EscapeBashStr v
                               else EscapeBashStr k)) parsedOptions"

definition StripFormatOptions :: "(string \<times> string) list \<Rightarrow> string list \<Rightarrow> string list" where
  "StripFormatOptions parsedOptions strippedKeys =
     map (\<lambda>(k, v). ''--'' @
            (if v \<noteq> [] then
               if k \<in> set strippedKeys then EscapeBashStr k @ ''=${'' @ k @ ''}''
               else EscapeBashStr k @ ''='' @ EscapeBashStr v
             else EscapeBashStr k)) parsedOptions"

definition gen_option :: "codec \<Rightarrow> DfsSetting \<Rightarrow> string \<Rightarrow> string result" where
  "gen_option C dfsSetting option =
     (let mountOption = TrimSpace option;
          ops = Split mountOption ''=''
      in if length ops > 2 then Err (MsgErr (''invalid mount option: '' @ mountOption))
         else let mountOption = (if length ops = 2 then TrimSpace (ops ! 0) @ ''='' @ TrimSpace (ops ! 1)
                                 else mountOption)
              in if length ops = 2 \<and> ops ! 0 = ''buffer-size'' then
                   (case Attr dfsSetting of
                      None \<Rightarrow> Panic
                    | Some attr \<Rightarrow>
                       (let memLimit = (case map_of (Limits (Resources attr)) ''memory'' of
                                          None \<Rightarrow> 0 | Some q \<Rightarrow> q);
                            memLimitByte = Quantity_Value C memLimit
                        in case ParseToBytes C (ops ! 1) of
                             Ok bufferSize \<Rightarrow>
                               if (word_of_int memLimitByte :: u64) < bufferSize
                               then Err (MsgErr (''buffer-size '' @ ops ! 1 @
                                      '' MiB is greater than pod memory limit '' @ Quantity_String C memLimit))
                               else Ok mountOption
                           | _ \<Rightarrow> Err (MsgErr (''invalid mount option: '' @ mountOption))))
                 else Ok mountOption)"

fun gen_options :: "codec \<Rightarrow> DfsSetting \<Rightarrow> string list \<Rightarrow> string list \<Rightarrow> string list result" where
  "gen_options C dfsSetting [] acc = Ok acc"
| "gen_options C dfsSetting (option # options) acc =
     bindR (gen_option C dfsSetting option) (\<lambda>o'. gen_options C dfsSetting options (acc @ [o']))"

definition GenAndValidOptions :: "codec \<Rightarrow> DfsSetting \<Rightarrow> string list \<Rightarrow> DfsSetting result" where
  "GenAndValidOptions C dfsSetting options =
     bindR (gen_options C dfsSetting options []) (\<lambda>opts. Ok (dfsSetting\<lparr>MountOptions := opts\<rparr>))"

definition csi_attr :: "'w env \<Rightarrow> string \<Rightarrow> ResourceRequirements \<Rightarrow> PodAttr" where
  "csi_attr E mountImage res =
     (let spec = pod_Spec (cfg_CSIPod E) in
      zero_PodAttr\<lparr>pa_Namespace := cfg_Namespace E, MountPointPath := ''/var/lib/dingofs/volume'',
        pa_HostNetwork := HostNetwork spec, pa_HostAliases := HostAliases spec,
        pa_HostPID := HostPID spec, pa_HostIPC := HostIPC spec, pa_DNSConfig := DNSConfig spec,
        pa_DNSPolicy := DNSPolicy spec, pa_ImagePullSecrets := ImagePullSecrets spec,
        pa_Tolerations := Tolerations spec, pa_PreemptionPolicy := PreemptionPolicy spec,
        pa_ServiceAccountName := ServiceAccountName spec, Resources := res, pa_Image := mountImage\<rparr>)"

text \<open>The text of the volume context under a key, parsed as a map and merged.\<close>

definition merge_ctx :: "codec \<Rightarrow> string smap \<Rightarrow> string \<Rightarrow> string smap \<Rightarrow> string smap result" where
  "merge_ctx C volCtx key m =
     (if mget volCtx key \<noteq> [] then bindR (ParseYamlOrJson C (mget volCtx key)) (\<lambda>x. Ok (mputs m x))
      else Ok m)"

definition attr_with_ctx :: "codec \<Rightarrow> string smap \<Rightarrow> PodAttr \<Rightarrow> PodAttr result" where
  "attr_with_ctx C volCtx attr =
     (let attr = (if mget volCtx MountPodImageKey \<noteq> []
                  then attr\<lparr>pa_Image := mget volCtx MountPodImageKey\<rparr> else attr);
          attr = (if mget volCtx MountPodServiceAccount \<noteq> []
                  then attr\<lparr>pa_ServiceAccountName := mget volCtx MountPodServiceAccount\<rparr> else attr)
      in bindR (ParsePodResources C (mget volCtx MountPodCpuLimitKey) (mget volCtx MountPodMemLimitKey)
                  (mget volCtx MountPodCpuRequestKey) (mget volCtx MountPodMemRequestKey)) (\<lambda>res.
         bindR (merge_ctx C volCtx MountPodLabelKey (pa_Labels attr)) (\<lambda>labels.
         bindR (merge_ctx C volCtx MountPodAnnotationKey (pa_Annotations attr)) (\<lambda>annotations.
           Ok (attr\<lparr>Resources := res, pa_Labels := labels, pa_Annotations := annotations\<rparr>)))))"

text \<open>\<open>mountImage\<close> is the package variable \<open>DefaultMountImage\<close>, which an environment variable overrides.\<close>

definition GenPodAttrWithCfg ::
  "'w env \<Rightarrow> codec \<Rightarrow> string \<Rightarrow> DfsSetting \<Rightarrow> string smap option \<Rightarrow> DfsSetting result" where
  "GenPodAttrWithCfg E C mountImage setting volCtx =
     bindR (case Attr setting of
              Some attr \<Rightarrow> Ok attr
            | None \<Rightarrow> bindR (getDefaultResource C) (\<lambda>res. Ok (csi_attr E mountImage res))) (\<lambda>attr.
     bindR (case volCtx of None \<Rightarrow> Ok attr | Some ctx \<Rightarrow> attr_with_ctx C ctx attr) (\<lambda>attr.
       ApplyConfigPatch C (setting\<lparr>Attr := Some attr\<rparr>)))"

definition wrapR :: "string \<Rightarrow> 'a result \<Rightarrow> 'a result" where
  "wrapR msg r = (case r of Err e \<Rightarrow> Err (MsgErr (msg @ err_str e)) | _ \<Rightarrow> r)"

definition host_paths :: "string \<Rightarrow> string list" where
  "host_paths text = filter (\<lambda>p. p \<noteq> []) (map TrimSpace (Split text '',''))"

definition setting_with_ctx :: "'w env \<Rightarrow> string smap \<Rightarrow> DfsSetting \<Rightarrow> DfsSetting result" where
  "setting_with_ctx E volCtx s =
     (let s = (if mget volCtx ''subPath'' \<noteq> [] then s\<lparr>SubPath := mget volCtx ''subPath''\<rparr> else s);
          s = (if mget volCtx CleanCacheKey = ''true'' then s\<lparr>CleanCache := True\<rparr> else s);
          delay = mget volCtx DeleteDelay
      in if delay \<noteq> [] \<and> t_parse_duration E delay = None
         then Err (MsgErr (''can't parse delay time '' @ delay))
         else let s = (if delay \<noteq> [] then s\<lparr>DeletedDelay := delay\<rparr> else s)
              in Ok (if mget volCtx MountPodHostPath \<noteq> []
                     then s\<lparr>ds_HostPath := host_paths (mget volCtx MountPodHostPath)\<rparr> else s))"

definition secret_fields :: "string smap \<Rightarrow> PersistentVolume option \<Rightarrow> PersistentVolumeClaim option \<Rightarrow>
    DfsSetting \<Rightarrow> DfsSetting" where
  "secret_fields secrets pv pvc s =
     (let s = s\<lparr>Name := mget secrets ''name'', Storage := mget secrets ''storage'',
                MdsAddr := mget secrets ''mdsAddr'', Envs := [], Configs := [],
                ClientConfPath := DefaultClientConfPath, CacheDirs := [], CachePVCs := [],
                ds_PV := pv, ds_PVC := pvc\<rparr>;
          s = (if mget secrets ''secretkey'' \<noteq> [] then s\<lparr>SecretKey := mget secrets ''secretkey''\<rparr> else s)
      in if mget secrets ''secretkey2'' \<noteq> [] then s\<lparr>SecretKey2 := mget secrets ''secretkey2''\<rparr> else s)"

definition parse_if :: "codec \<Rightarrow> string \<Rightarrow> string smap \<Rightarrow> string smap result" where
  "parse_if C text dflt = (if text \<noteq> [] then ParseYamlOrJson C text else Ok dflt)"

definition ParseSetting ::
  "'w env \<Rightarrow> codec \<Rightarrow> string \<Rightarrow> string smap option \<Rightarrow> string smap option \<Rightarrow> string list option \<Rightarrow>
     PersistentVolume option \<Rightarrow> PersistentVolumeClaim option \<Rightarrow> DfsSetting result" where
  "ParseSetting E C mountImage secrets volCtx mountOptions pv pvc =
     (let dfsSetting = zero_DfsSetting\<lparr>MountOptions := opt_list mountOptions\<rparr> in
      case secrets of
        None \<Rightarrow> Ok dfsSetting
      | Some secrets \<Rightarrow>
          bindR (decode_setting C secrets dfsSetting) (\<lambda>s.
            if mget secrets ''name'' = [] then Err (GrpcErr InvalidArgument ''Empty name'')
            else let s = secret_fields secrets pv pvc s in
              bindR (parse_if C (mget secrets ''configs'') (Configs s)) (\<lambda>configs.
              bindR (parse_if C (mget secrets ''envs'') (Envs s)) (\<lambda>env.
              bindR (case volCtx of None \<Rightarrow> Ok (s\<lparr>Configs := configs, Envs := env\<rparr>)
                     | Some ctx \<Rightarrow> setting_with_ctx E ctx (s\<lparr>Configs := configs, Envs := env\<rparr>)) (\<lambda>s.
              bindR (wrapR ''GenPodAttrWithCfg error: '' (GenPodAttrWithCfg E C mountImage s volCtx)) (\<lambda>s.
                wrapR ''genAndValidOptions error: ''
                  (GenAndValidOptions C s (opt_list mountOptions))))))))"

subsection \<open>Attributes of an existing mount pod\<close>

definition GenPodAttrWithMountPod :: "'w env \<Rightarrow> codec \<Rightarrow> Pod \<Rightarrow> ('w, PodAttr result) io" where
  "GenPodAttrWithMountPod E C mountPod =
     (let spec = pod_Spec mountPod;
          attr = zero_PodAttr\<lparr>pa_Namespace := pod_Namespace mountPod,
            MountPointPath := ''/var/lib/dingofs/volume'', DFSConfigPath := ''/var/lib/dingofs/config'',
            DFSMountPriorityName := ''system-node-critical'', pa_HostNetwork := HostNetwork spec,
            pa_HostAliases := HostAliases spec, pa_HostPID := HostPID spec,
            pa_HostIPC := HostIPC spec, pa_DNSConfig := DNSConfig spec,
            pa_DNSPolicy := DNSPolicy spec, pa_ImagePullSecrets := ImagePullSecrets spec,
            pa_Tolerations := Tolerations spec, pa_PreemptionPolicy := PreemptionPolicy spec,
            pa_ServiceAccountName := ServiceAccountName spec\<rparr>;
          attr = (case Containers spec of
                    [] \<Rightarrow> attr
                  | c # _ \<Rightarrow> attr\<lparr>pa_Image := c_Image c,
                                   Resources := \<lparr>Limits = c_Limits c, Requests = c_Requests c\<rparr>\<rparr>);
          attr = attr\<lparr>pa_Labels := mputs [] (pod_Labels mountPod),
                      pa_Annotations := mputs [] (annos mountPod)\<rparr>;
          pvName = mget (annos mountPod) UniqueIdKey
      in bindE (GetPersistentVolume E pvName) (\<lambda>pv.
         case pv_ClaimRef pv of
           None \<Rightarrow> return Panic
         | Some (claim, ns) \<Rightarrow>
             bindE (GetPersistentVolumeClaim E claim ns) (\<lambda>pvc.
               return (bindR (wrapR ''parse pvc resources error: ''
                   (ParsePodResources C (mget (pvc_Annotations pvc) MountPodCpuLimitKey)
                      (mget (pvc_Annotations pvc) MountPodMemLimitKey)
                      (mget (pvc_Annotations pvc) MountPodCpuRequestKey)
                      (mget (pvc_Annotations pvc) MountPodMemRequestKey))) (\<lambda>res.
                 bindR (last_bytes 7 (pod_Name mountPod)) (\<lambda>suffix.
                 case pv_CSI pv of
                   None \<Rightarrow> Panic
                 | Some csi \<Rightarrow>
                    (let setting = zero_DfsSetting\<lparr>ds_PV := Some pv, ds_PVC := Some pvc,
                           Name := mget (annos mountPod) DingoFSID, VolumeId := pvName,
                           MountPath := PathJoin [PodMountBase, pvName] @ suffix,
                           MountOptions := pv_MountOptions pv,
                           SubPath := mget (csi_VolumeAttributes csi) ''subPath'',
                           Attr := Some (attr\<lparr>Resources := res\<rparr>)\<rparr>
                     in bindR (ApplyConfigPatch C setting) (\<lambda>s.
                          case Attr s of None \<Rightarrow> Panic | Some a \<Rightarrow> Ok a))))))))"

record AppInfo =
  app_Name :: string
  app_Namespace :: string

text \<open>
  \<open>ParseAppInfo\<close>: \<open>kubelet\<close> is what the kubelet answers when a port and a host address are
  set, \<open>port\<close> what \<open>strconv.Atoi\<close> makes of the port text.
\<close>

definition ParseAppInfo ::
  "string \<Rightarrow> string \<Rightarrow> (string \<Rightarrow> int result) \<Rightarrow> (string \<Rightarrow> int \<Rightarrow> unit result) \<Rightarrow>
     (string \<Rightarrow> int \<Rightarrow> unit result) \<Rightarrow> string smap option \<Rightarrow> AppInfo option result" where
  "ParseAppInfo kubeletPort hostIp atoi newClient runningPods volCtx =
     bindR (if kubeletPort \<noteq> [] \<and> hostIp \<noteq> [] then
              bindR (atoi kubeletPort) (\<lambda>port.
              bindR (newClient hostIp port) (\<lambda>_.
                case runningPods hostIp port of
                  Err _ \<Rightarrow>
                    if volCtx = None \<or> mget (opt_list volCtx) PodInfoName = []
                    then Err (MsgErr ''can not connect to kubelet, please turn `podInfoOnMount` on in csiDriver, and fallback to apiServer'')
                    else Ok ()
                | _ \<Rightarrow> Ok ()))
            else Ok ()) (\<lambda>_.
       Ok (case volCtx of
             None \<Rightarrow> None
           | Some ctx \<Rightarrow> Some \<lparr>app_Name = mget ctx PodInfoName, app_Namespace = mget ctx PodInfoNamespace\<rparr>))"

section \<open>Lemmas\<close>

lemma TrimFunc_id: "s \<noteq> [] \<Longrightarrow> \<not> f (hd s) \<Longrightarrow> \<not> f (last s) \<Longrightarrow> TrimFunc s f = s"
  unfolding TrimFunc_def
  by (metis dropWhile_eq_self_iff hd_rev rev_rev_ident)

lemma TrimSpace_Nil [simp]: "TrimSpace [] = []"
  by (simp add: TrimSpace_def TrimFunc_def)

text \<open>The text form of format options, as a storage class has it.\<close>

definition print_option :: "string \<times> string \<Rightarrow> string" where
  "print_option p = (if snd p = [] then fst p else fst p @ ''='' @ snd p)"

definition trimmed :: "string \<Rightarrow> bool" where
  "trimmed s \<longleftrightarrow> s \<noteq> [] \<and> \<not> is_space (hd s) \<and> \<not> is_space (last s)"

definition clean_pair :: "string \<times> string \<Rightarrow> bool" where
  "clean_pair p \<longleftrightarrow> trimmed (fst p) \<and> CHR ''='' \<notin> set (fst p) \<and> CHR '','' \<notin> set (fst p) \<and>
     (snd p = [] \<or> trimmed (snd p)) \<and> CHR '','' \<notin> set (snd p)"

lemma TrimSpace_trimmed: "trimmed s \<Longrightarrow> TrimSpace s = s"
  by (simp add: TrimSpace_def trimmed_def TrimFunc_id)

lemma TrimSpace_print: "clean_pair p \<Longrightarrow> TrimSpace (print_option p) = print_option p"
  by (rule TrimSpace_trimmed) (auto simp: clean_pair_def print_option_def trimmed_def)

lemma parse_format_options_print:
  "list_all clean_pair ps \<Longrightarrow> parse_format_options t (map print_option ps) acc = Ok (acc @ ps)"
proof (induction ps arbitrary: acc)
  case Nil
  then show ?case by simp
next
  case (Cons p ps)
  obtain k v where p: "p = (k, v)" by (cases p)
  from Cons.prems p have c: "clean_pair (k, v)" and rest: "list_all clean_pair ps" by simp_all
  have "SplitN2 (TrimSpace (print_option p)) ''='' = (if v = [] then [k] else [k, v])"
    using c p TrimSpace_print [of p]
    by (simp add: clean_pair_def print_option_def SplitN2_char SplitN2_char_single)
  moreover have "TrimSpace k = k" "k \<noteq> []" "v \<noteq> [] \<Longrightarrow> TrimSpace v = v"
    using c by (auto simp: clean_pair_def TrimSpace_trimmed) (simp_all add: trimmed_def)
  ultimately show ?case using Cons.IH [OF rest] p by (simp add: Let_def)
qed

lemma merge_volumes_inv:
  "(vs', vok') = merge_volumes vs vok new \<Longrightarrow> distinct (map vol_Name vs) \<Longrightarrow>
   set vok \<subseteq> set (map vol_Name vs) \<Longrightarrow>
     distinct (map vol_Name vs') \<and> set vok' \<subseteq> set (map vol_Name vs') \<and>
     (\<exists>added. vs' = vs @ added \<and> set added \<subseteq> set new \<and>
        (\<forall>v\<in>set added. \<not> IsInterVolume (vol_Name v)))"
proof (induction vs vok new rule: merge_volumes.induct)
  case (1 vs vok)
  then show ?case by simp
next
  case (2 vs vok v rest)
  show ?case
  proof (cases "IsInterVolume (vol_Name v) \<or> list_ex (\<lambda>vv. vol_Name vv = vol_Name v) vs")
    case True
    then have "(vs', vok') = merge_volumes vs vok rest" using "2.prems"(1) by auto
    with "2.IH"(1,2) "2.prems" True show ?thesis by fastforce
  next
    case False
    then have eq: "(vs', vok') = merge_volumes (vs @ [v]) (vol_Name v # vok) rest"
      using "2.prems"(1) by simp
    from False have new: "vol_Name v \<notin> set (map vol_Name vs)" by (auto simp: list_ex_iff)
    have "distinct (map vol_Name (vs @ [v]))" using new "2.prems"(2) by simp
    moreover have "set (vol_Name v # vok) \<subseteq> set (map vol_Name (vs @ [v]))" using "2.prems"(3) by auto
    ultimately have IH: "distinct (map vol_Name vs') \<and> set vok' \<subseteq> set (map vol_Name vs') \<and>
     (\<exists>added. vs' = (vs @ [v]) @ added \<and> set added \<subseteq> set rest \<and>
        (\<forall>v\<in>set added. \<not> IsInterVolume (vol_Name v)))"
      using "2.IH"(3) eq False by blast
    then obtain added where a: "vs' = (vs @ [v]) @ added" "set added \<subseteq> set rest"
      "\<forall>v\<in>set added. \<not> IsInterVolume (vol_Name v)" by blast
    have "vs' = vs @ v # added \<and> set (v # added) \<subseteq> set (v # rest) \<and>
        (\<forall>v\<in>set (v # added). \<not> IsInterVolume (vol_Name v))"
      using a False by auto
    with IH show ?thesis by blast
  qed
qed

section \<open>Properties\<close>

text \<open>Parsing the comma separated text of format options gives the options back, for
  keys without \<open>=\<close> and \<open>,\<close> and trimmed values.\<close>

lemma ParseFormatOptions_roundtrip:
  assumes "list_all clean_pair ps" and "ps \<noteq> []"
    and "FormatOptions s = Join (map print_option ps) '',''"
  shows "ParseFormatOptions s = Ok ps"
proof -
  have "\<forall>p\<in>set (map print_option ps). CHR '','' \<notin> set p"
    using assms(1) by (auto simp: list_all_iff clean_pair_def print_option_def)
  then have "Split (FormatOptions s) '','' = map print_option ps"
    using assms by (simp add: Split_Join_char)
  with parse_format_options_print [OF assms(1)] show ?thesis
    by (simp add: ParseFormatOptions_def)
qed

text \<open>C37: the text that \<open>StripFormatOptions\<close> prints does not depend on the values of the
  stripped keys: two option lists that differ only in non-empty values of stripped keys
  give the same text, so a secret put under such a key never reaches the command.\<close>

theorem StripFormatOptions_noninterference:
  assumes "list_all2 (\<lambda>(k, v) (k', v'). k' = k \<and>
      (if k \<in> set keys then (v = [] \<longleftrightarrow> v' = []) else v' = v)) opts opts'"
  shows "StripFormatOptions opts keys = StripFormatOptions opts' keys"
  using assms unfolding StripFormatOptions_def
  by (induction rule: list_all2_induct) (auto split: if_splits)

theorem StripFormatOptions_noninterference_witness:
  "StripFormatOptions [(''secret-key'', ''abc''), (''bucket'', ''b'')] [''secret-key''] =
   StripFormatOptions [(''secret-key'', ''xyz''), (''bucket'', ''b'')] [''secret-key'']"
  by (rule StripFormatOptions_noninterference) simp


definition sample_volume :: "string \<Rightarrow> Volume" where
  "sample_volume n = \<lparr>vol_Name = n, vol_Source = OtherVolume ''emptyDir''\<rparr>"


end
