(* ===== verification/Resource.thy ===== *)
theory Resource
  imports Setting
begin

text \<open>
  The helpers on Kubernetes objects, \<open>pkg/util/resource\<close>: tests on pods and jobs, the patches
  of labels, annotations and finalizers, the wait for a mount point, delayed deletion, the
  mount path in a mount pod's command, the volumes of an application pod, the volume
  lock of the provisioner and the checks before a volume or its secret is deleted. The
  effectful helpers of \<open>pkg/util/util.go\<close> that need the clock or \<open>umount\<close> are here too.
\<close>

section \<open>Definitions\<close>

subsection \<open>Clock, random names, lazy unmount (util.go)\<close>

definition GetTimeAfterDelay :: "'w env \<Rightarrow> string \<Rightarrow> ('w, string result) io" where
  "GetTimeAfterDelay E delayStr =
     (case t_parse_duration E delayStr of
        None \<Rightarrow> return (Err (MsgErr (''time: invalid duration '' @ delayStr)))
      | Some delay \<Rightarrow> do { now \<leftarrow> call (os_now E) EvNow; return (Ok (t_format E (now + delay))) })"

definition GetTime :: "'w env \<Rightarrow> string \<Rightarrow> int result" where
  "GetTime E str = (case t_parse E str of None \<Rightarrow> Err (MsgErr ''parsing time'') | Some t \<Rightarrow> Ok t)"

definition letterRunes :: string where
  "letterRunes = ''abcdefghijklmnopqrstuvwxyz''"

fun RandStringRunes :: "'w env \<Rightarrow> nat \<Rightarrow> ('w, string) io" where
  "RandStringRunes E 0 = return []"
| "RandStringRunes E (Suc n) = do {
     i \<leftarrow> call (os_intn E (int (length letterRunes))) EvRand;
     rest \<leftarrow> RandStringRunes E n;
     return ((letterRunes ! nat i) # rest) }"

text \<open>The outputs of \<open>umount\<close> that mean there is nothing left to unmount.\<close>

definition nothing_mounted :: "string \<Rightarrow> bool" where
  "nothing_mounted out \<longleftrightarrow> Contains out ''not mounted'' \<or> Contains out ''mountpoint not found''
     \<or> Contains out ''no mount point specified''"

definition UmountPath :: "'w env \<Rightarrow> string \<Rightarrow> ('w, unit) io" where
  "UmountPath E sourcePath = do {
     _ \<leftarrow> call (os_umount_lazy E sourcePath) (EvUmountLazy sourcePath);
     return () }"

definition GenHashOfSetting :: "codec \<Rightarrow> DfsSetting \<Rightarrow> string" where
  "GenHashOfSetting C setting =
     (let settingStr = json_setting C (setting\<lparr>TargetPath := '''', VolumeId := '''', SubPath := ''''\<rparr>)
      in take 63 (hex (sha256 settingStr)))"

subsection \<open>Pods (pod.go)\<close>

definition ready_cond :: "PodCondition \<Rightarrow> bool" where
  "ready_cond cond \<longleftrightarrow> cond_Status cond = ''True'' \<and>
     (cond_Type cond = ''ContainersReady'' \<or> cond_Type cond = ''Ready'')"

definition IsPodReady :: "Pod \<Rightarrow> bool" where
  "IsPodReady pod \<longleftrightarrow> length (filter ready_cond (pod_Conditions pod)) = 2"

fun containError :: "ContainerStatus list \<Rightarrow> bool" where
  "containError [] = False"
| "containError (status # statuses) =
     (if (case cs_Waiting status of Some reason \<Rightarrow> reason \<noteq> ''ContainerCreating'' | None \<Rightarrow> False) \<or>
         (case cs_Terminated status of Some t \<Rightarrow> ExitCode t \<noteq> 0 | None \<Rightarrow> False)
      then True else containError statuses)"

definition IsPodError :: "Pod \<Rightarrow> bool" where
  "IsPodError pod =
     (if pod_Phase pod = ''Failed'' \<or> pod_Phase pod = ''Unknown'' then True
      else containError (pod_ContainerStatuses pod))"

definition unschedulable :: "PodCondition \<Rightarrow> bool" where
  "unschedulable cond \<longleftrightarrow> cond_Status cond = ''False'' \<and> cond_Type cond = ''PodScheduled'' \<and>
     cond_Reason cond = ''Unschedulable'' \<and>
     (Contains (cond_Message cond) ''Insufficient cpu'' \<or>
      Contains (cond_Message cond) ''Insufficient memory'')"

definition IsPodResourceError :: "Pod \<Rightarrow> bool" where
  "IsPodResourceError pod =
     (if pod_Phase pod = ''Failed'' \<and>
         (Contains (pod_Reason pod) ''OutOf'' \<or>
          pod_Reason pod = ''UnexpectedAdmissionError'' \<and>
          Contains (pod_Message pod) ''to reclaim resources'') then True
      else list_ex unschedulable (pod_Conditions pod))"

definition DeleteResourceOfPod :: "Pod \<Rightarrow> Pod" where
  "DeleteResourceOfPod pod =
     pod\<lparr>pod_Spec := (pod_Spec pod)\<lparr>Containers :=
        map (\<lambda>c. c\<lparr>c_Requests := [], c_Limits := []\<rparr>) (Containers (pod_Spec pod))\<rparr>\<rparr>"

fun has_requests :: "Container list \<Rightarrow> bool" where
  "has_requests [] = False"
| "has_requests (cn # cns) = (if length (c_Requests cn) \<noteq> 0 then True else has_requests cns)"

definition IsPodHasResource :: "Pod \<Rightarrow> bool" where
  "IsPodHasResource pod = has_requests (Containers (pod_Spec pod))"

text \<open>\<open>for i := 0; i < len(f); i++ { if f[i] == x { f = append(f[:i], f[i+1:]...); i-- } }\<close>\<close>

function remove_loop :: "string \<Rightarrow> nat \<Rightarrow> string list \<Rightarrow> string list" where
  "remove_loop x i f =
     (if i < length f then
        if f ! i = x then remove_loop x i (take i f @ drop (i + 1) f)
        else remove_loop x (i + 1) f
      else f)"
  by pat_completeness auto
termination
  by (relation "measure (\<lambda>(x, i, f). length f - i)") auto

declare remove_loop.simps [simp del]

definition RemoveFinalizer :: "'w env \<Rightarrow> Pod \<Rightarrow> string \<Rightarrow> ('w, err option) io" where
  "RemoveFinalizer E pod finalizer =
     PatchPod E pod (JSONPatch [PatchListValue ''replace'' ''/metadata/finalizers''
       (remove_loop finalizer 0 (pod_Finalizers pod))])"

definition AddPodLabel :: "'w env \<Rightarrow> Pod \<Rightarrow> string smap \<Rightarrow> ('w, err option) io" where
  "AddPodLabel E pod addLabels = PatchPod E pod (StrategicMergePatch ''labels'' addLabels)"

definition AddPodAnnotation :: "'w env \<Rightarrow> Pod \<Rightarrow> string smap \<Rightarrow> ('w, err option) io" where
  "AddPodAnnotation E pod addAnnotations =
     PatchPod E pod (StrategicMergePatch ''annotations'' addAnnotations)"

definition DelPodAnnotation :: "'w env \<Rightarrow> Pod \<Rightarrow> string list \<Rightarrow> ('w, err option) io" where
  "DelPodAnnotation E pod delAnnotations =
     PatchPod E pod (JSONPatch
       (map (\<lambda>k. PatchDelValue ''remove'' (''/metadata/annotations/'' @ k)) delAnnotations))"

definition ReplacePodAnnotation :: "'w env \<Rightarrow> Pod \<Rightarrow> string smap \<Rightarrow> ('w, err option) io" where
  "ReplacePodAnnotation E pod annotation =
     PatchPod E pod (JSONPatch [PatchMapValue ''replace'' ''/metadata/annotations'' annotation])"

definition GetAllRefKeys :: "Pod \<Rightarrow> string smap" where
  "GetAllRefKeys pod =
     fold (\<lambda>(k, v) m. if k = GetReferenceKey v then mput m k v else m) (annos pod) []"

text \<open>The inner loop of \<open>WaitUtilMountReady\<close>: unmount until \<open>umount\<close> fails.\<close>

fun umount_stale :: "'w env \<Rightarrow> nat \<Rightarrow> string \<Rightarrow> ('w, unit result) io" where
  "umount_stale E 0 target = return OutOfFuel"
| "umount_stale E (Suc n) target = do {
     r \<leftarrow> call (os_umount_lazy E target) (EvUmountLazy target);
     case snd r of
       None \<Rightarrow> umount_stale E n target
     | Some e \<Rightarrow> return (if \<not> nothing_mounted (fst r) then Err e else Ok ()) }"

fun wait_mount_ready :: "'w env \<Rightarrow> nat \<Rightarrow> string \<Rightarrow> string \<Rightarrow> ('w, unit result) io" where
  "wait_mount_ready E 0 podName mntPath = return OutOfFuel"
| "wait_mount_ready E (Suc n) podName mntPath = do {
     r \<leftarrow> DoWithTimeoutR E (call (os_stat E mntPath) (\<lambda>r. EvStat mntPath (err_of r)));
     case r of
       Ok finfo \<Rightarrow>
         if fi_Ino finfo = 1 then do {
           modify (\<lambda>s. s\<lparr>devMinorTable := DevMinorTableStore (devMinorTable s) mntPath (fi_Dev finfo)\<rparr>);
           return (Ok ()) }
         else do { emit EvSleep; wait_mount_ready E n podName mntPath }
     | Err e \<Rightarrow>
         if e = CtxCanceled \<or> e = CtxDeadlineExceeded then
           return (Err (MsgErr (''mount point is not ready eventually, mountpod: '' @ podName)))
         else if Contains (err_str e) ''transport endpoint is not connected'' then do {
           u \<leftarrow> umount_stale E n mntPath;
           case u of
             Ok _ \<Rightarrow> do { emit EvSleep; wait_mount_ready E n podName mntPath }
           | _ \<Rightarrow> return u }
         else do { emit EvSleep; wait_mount_ready E n podName mntPath }
     | Panic \<Rightarrow> return Panic
     | OutOfFuel \<Rightarrow> return OutOfFuel }"

definition WaitUtilMountReady :: "'w env \<Rightarrow> nat \<Rightarrow> string \<Rightarrow> string \<Rightarrow> ('w, unit result) io" where
  "WaitUtilMountReady E fuel podName mntPath = wait_mount_ready E fuel podName mntPath"

text \<open>The answer and the error; an error is only returned with the answer \<open>true\<close>.\<close>

definition ShouldDelay :: "'w env \<Rightarrow> Pod \<Rightarrow> ('w, bool \<times> err option) io" where
  "ShouldDelay E pod =
     (case map_of (annos pod) DeleteDelayTimeKey of
        None \<Rightarrow> return (False, None)
      | Some delayStr \<Rightarrow>
          (case map_of (annos pod) DeleteDelayAtKey of
             None \<Rightarrow> do {
               d \<leftarrow> GetTimeAfterDelay E delayStr;
               case d of
                 Ok d \<Rightarrow> do { e \<leftarrow> AddPodAnnotation E pod [(DeleteDelayAtKey, d)]; return (True, e) }
               | _ \<Rightarrow> return (False, None) }
           | Some delayAtStr \<Rightarrow>
               (case GetTime E delayAtStr of
                  Ok delayAt \<Rightarrow> do { now \<leftarrow> call (os_now E) EvNow; return (now < delayAt, None) }
                | _ \<Rightarrow> return (False, None))))"

text \<open>Indexing a slice, which panics out of range.\<close>

definition idx :: "'a list \<Rightarrow> int \<Rightarrow> 'a result" where
  "idx xs i = (if 0 \<le> i \<and> i < int (length xs) then Ok (xs ! nat i) else Panic)"

definition parseMntPath :: "string \<Rightarrow> (string \<times> string) result" where
  "parseMntPath cmd =
     (let cmds = Split cmd [CHR 0x0A] in
      bindR (idx cmds (int (length cmds) - 1)) (\<lambda>mountCmd.
        let args = Fields mountCmd in
        if args = [] then Err (MsgErr (''invalid command: '' @ cmd))
        else let args = (if hd args = ''exec'' then tl args else args) in
          bindR (idx args (int (length args) - 1)) (\<lambda>mountArg.
            let mountArg = Trim mountArg [CHR 0x27] in
            if \<not> HasPrefix mountArg PodMountBase then Err (MsgErr (''invalid mountArg:'' @ mountArg))
            else let parts = Split mountArg ''/'' in
              if length parts < 3
              then bindR (idx args 2) (\<lambda>a. Err (MsgErr (''err mntPath:'' @ a)))
              else Ok (mountArg, parts ! 2))))"

definition GetMountPathOfPod :: "Pod \<Rightarrow> (string \<times> string) result" where
  "GetMountPathOfPod pod =
     (case Containers (pod_Spec pod) of
        [] \<Rightarrow> Err (MsgErr (''pod '' @ pod_Name pod @ '' has no container''))
      | c # _ \<Rightarrow>
          (let cmd = c_Command c in
           if length cmd < 3
           then Err (MsgErr (''get error pod command:['' @ Join cmd '' '' @ '']''))
           else parseMntPath (cmd ! 2)))"

fun find_app_pv :: "'w env \<Rightarrow> string \<Rightarrow> string \<Rightarrow> Volume list \<Rightarrow>
    ('w, (PersistentVolume \<times> PersistentVolumeClaim) option result) io" where
  "find_app_pv E volumeHandle appNamespace [] = return (Ok None)"
| "find_app_pv E volumeHandle appNamespace (ref # refs) =
     (case vol_Source ref of
        ClaimVolume claimName _ \<Rightarrow>
          bindE (GetPersistentVolumeClaim E claimName appNamespace) (\<lambda>pvc.
            if pvc_VolumeName pvc = [] then find_app_pv E volumeHandle appNamespace refs
            else bindE (GetPersistentVolume E (pvc_VolumeName pvc)) (\<lambda>appPV.
              case pv_CSI appPV of
                Some csi \<Rightarrow>
                  if csi_Driver csi = cfg_DriverName E \<and> csi_VolumeHandle csi = volumeHandle
                  then return (Ok (Some (appPV, pvc)))
                  else find_app_pv E volumeHandle appNamespace refs
              | None \<Rightarrow> find_app_pv E volumeHandle appNamespace refs))
      | _ \<Rightarrow> find_app_pv E volumeHandle appNamespace refs)"

definition GetPVWithVolumeHandleOrAppInfo ::
  "'w env \<Rightarrow> string \<Rightarrow> string smap \<Rightarrow> ('w, (PersistentVolume \<times> PersistentVolumeClaim) result) io" where
  "GetPVWithVolumeHandleOrAppInfo E volumeHandle volCtx = do {
     r \<leftarrow> GetPersistentVolume E volumeHandle;
     if IsNotFound (err_of r) then
       bindE (GetPod E (mget volCtx PodInfoName) (mget volCtx PodInfoNamespace)) (\<lambda>appPod.
       bindE (find_app_pv E volumeHandle (mget volCtx PodInfoNamespace) (Volumes (pod_Spec appPod)))
         (\<lambda>found. return (case found of
             Some p \<Rightarrow> Ok p
           | None \<Rightarrow> Err (MsgErr (''pv not found by volumeHandle '' @ volumeHandle)))))
     else bindE (return r) (\<lambda>pv.
       case pv_ClaimRef pv of
         None \<Rightarrow> return Panic
       | Some (claim, ns) \<Rightarrow>
           bindE (GetPersistentVolumeClaim E claim ns) (\<lambda>pvc. return (Ok (pv, pvc)))) }"

fun first_not_ready :: "ContainerStatus list \<Rightarrow> string option" where
  "first_not_ready [] = None"
| "first_not_ready (cn # cns) = (if \<not> cs_Ready cn then Some (cs_Name cn) else first_not_ready cns)"

definition GetErrContainerLog :: "'w env \<Rightarrow> string \<Rightarrow> ('w, string result) io" where
  "GetErrContainerLog E podName =
     bindE (GetPod E podName (cfg_Namespace E)) (\<lambda>pod.
       case first_not_ready (pod_InitContainerStatuses pod) of
         Some cn \<Rightarrow> GetPodLog E (pod_Name pod) (pod_Namespace pod) cn
       | None \<Rightarrow>
           (case first_not_ready (pod_ContainerStatuses pod) of
              Some cn \<Rightarrow> GetPodLog E (pod_Name pod) (pod_Namespace pod) cn
            | None \<Rightarrow> return (Ok '''')))"

definition GenPodNameByUniqueId :: "'w env \<Rightarrow> string \<Rightarrow> bool \<Rightarrow> ('w, string) io" where
  "GenPodNameByUniqueId E uniqueId withRandom =
     (if \<not> withRandom then return (''dingofs-'' @ cfg_NodeName E @ ''-'' @ uniqueId)
      else do {
        r \<leftarrow> RandStringRunes E 6;
        return (''dingofs-'' @ cfg_NodeName E @ ''-'' @ uniqueId @ ''-'' @ r) })"

definition on_this_node :: "'w env \<Rightarrow> Pod \<Rightarrow> bool" where
  "on_this_node E pod \<longleftrightarrow> spec_NodeName (pod_Spec pod) = cfg_NodeName E \<or>
     mget (NodeSelector (pod_Spec pod)) hostnameLabel = cfg_NodeName E"

fun reusable_pod :: "'w env \<Rightarrow> Pod list \<Rightarrow> string option" where
  "reusable_pod E [] = None"
| "reusable_pod E (pod # pods) =
     (if pod_DeletionTimestamp pod \<noteq> None then reusable_pod E pods
      else if on_this_node E pod then Some (pod_Name pod) else reusable_pod E pods)"

definition mount_pod_labels :: "string \<Rightarrow> string \<Rightarrow> string smap" where
  "mount_pod_labels uniqueId hashVal =
     [(PodTypeKey, PodTypeValue), (PodVolumeIdLabelKey, uniqueId), (PodHashLabelKey, hashVal)]"

definition GenMountPodName :: "'w env \<Rightarrow> DfsSetting \<Rightarrow> ('w, string result) io" where
  "GenMountPodName E dfsSetting =
     bindE (ListPod E (cfg_Namespace E) (mount_pod_labels (UniqueId dfsSetting) (HashVal dfsSetting)) [])
       (\<lambda>pods. case reusable_pod E pods of
           Some name \<Rightarrow> return (Ok name)
         | None \<Rightarrow> do { n \<leftarrow> GenPodNameByUniqueId E (UniqueId dfsSetting) True; return (Ok n) })"

definition SetMountLabel :: "'w env \<Rightarrow> string \<Rightarrow> string \<Rightarrow> string \<Rightarrow> string \<Rightarrow> ('w, unit result) io" where
  "SetMountLabel E uniqueId mountPodName podName podNamespace =
     bindE (GetPod E podName podNamespace) (\<lambda>pod. do {
       e \<leftarrow> AddPodLabel E pod [(UniqueIdKey, '''')];
       return (result_of e) })"

definition SetFSIDAnnotation :: "'w env \<Rightarrow> string \<Rightarrow> string \<Rightarrow> ('w, unit result) io" where
  "SetFSIDAnnotation E podName fsid =
     bindE (GetPod E podName (cfg_Namespace E)) (\<lambda>pod. do {
       e \<leftarrow> AddPodAnnotation E pod [(DingoFSID, fsid)];
       return (result_of e) })"

definition merged_secret :: "Secret \<Rightarrow> Secret \<Rightarrow> Secret" where
  "merged_secret old secret =
     (let old = old\<lparr>sec_Data := [], sec_StringData := sec_StringData secret\<rparr> in
      case sec_OwnerReferences secret of
        [] \<Rightarrow> old
      | newOwner # _ \<Rightarrow>
          if list_ex (\<lambda>ref. own_UID ref = own_UID newOwner) (sec_OwnerReferences old) then old
          else old\<lparr>sec_OwnerReferences := sec_OwnerReferences old @ [newOwner]\<rparr>)"

definition CreateOrUpdateSecret :: "'w env \<Rightarrow> Secret \<Rightarrow> ('w, unit result) io" where
  "CreateOrUpdateSecret E secret =
     RetryOnConflict (cfg_ConflictRetries E) (do {
       r \<leftarrow> GetSecret E (sec_Name secret) (cfg_Namespace E);
       case r of
         Ok oldSecret \<Rightarrow> do { e \<leftarrow> UpdateSecret E (merged_secret oldSecret secret); return (result_of e) }
       | Err er \<Rightarrow>
           if IsNotFound (Some er) then do { e \<leftarrow> CreateSecret E secret; return (result_of e) }
           else return (Err er)
       | Panic \<Rightarrow> return Panic
       | OutOfFuel \<Rightarrow> return OutOfFuel })"

subsection \<open>Jobs (job.go)\<close>

definition IsJobCompleted :: "Job \<Rightarrow> bool" where
  "IsJobCompleted job =
     list_ex (\<lambda>c. jc_Status c = ''True'' \<and> jc_Type c = ''Complete'') (job_Conditions job)"

definition IsJobFailed :: "Job \<Rightarrow> bool" where
  "IsJobFailed job =
     list_ex (\<lambda>c. jc_Status c = ''True'' \<and> jc_Type c = ''Failed'') (job_Conditions job)"

text \<open>Times are in nanoseconds.\<close>

definition second :: int where
  "second = 1000000000"

definition IsJobShouldBeRecycled :: "int \<Rightarrow> Job \<Rightarrow> bool" where
  "IsJobShouldBeRecycled now job =
     (if \<not> IsJobCompleted job \<and> \<not> IsJobFailed job then False
      else case job_TTLSecondsAfterFinished job of
        None \<Rightarrow> True
      | Some ttl \<Rightarrow>
          (case job_CompletionTime job of None \<Rightarrow> False | Some t \<Rightarrow> t + ttl * second < now))"

subsection \<open>Volumes and volume locks (volume.go)\<close>

type_synonym PVPair = "PersistentVolume \<times> PersistentVolumeClaim"

fun get_vol :: "'w env \<Rightarrow> string \<Rightarrow> Volume list \<Rightarrow> PVPair list \<Rightarrow> ('w, PVPair list result) io" where
  "get_vol E namespace [] got = return (Ok got)"
| "get_vol E namespace (volume # volumes) got =
     (case vol_Source volume of
        ClaimVolume claimName _ \<Rightarrow>
          bindE (GetPersistentVolumeClaim E claimName namespace) (\<lambda>pvc.
          bindE (case pvc_StorageClassName pvc of
                   None \<Rightarrow> return (Ok False)
                 | Some scn \<Rightarrow>
                     if scn = [] then return (Ok False)
                     else do {
                       sc \<leftarrow> GetStorageClass E scn;
                       return (case sc of
                           Ok provisioner \<Rightarrow> Ok (provisioner = cfg_DriverName E)
                         | Err e \<Rightarrow> if IsNotFound (Some e) then Ok False else Err e
                         | Panic \<Rightarrow> Panic | OutOfFuel \<Rightarrow> OutOfFuel) }) (\<lambda>used.
            if pvc_VolumeName pvc = [] then
              if used then return (Err (MsgErr (''pvc '' @ pvc_Name pvc @ '' is not bound'')))
              else get_vol E namespace volumes got
            else bindE (GetPersistentVolume E (pvc_VolumeName pvc)) (\<lambda>pv.
              get_vol E namespace volumes
                (case pv_CSI pv of
                   Some csi \<Rightarrow> if csi_Driver csi = cfg_DriverName E then got @ [(pv, pvc)] else got
                 | None \<Rightarrow> got))))
      | _ \<Rightarrow> get_vol E namespace volumes got)"

definition getVol :: "'w env \<Rightarrow> Pod \<Rightarrow> string \<Rightarrow> ('w, PVPair list result) io" where
  "getVol E pod namespace = get_vol E namespace (Volumes (pod_Spec pod)) []"

text \<open>The keys of \<open>VolumeLocks\<close>; the mutex around each operation makes it one step.\<close>

definition TryAcquire :: "unit smap \<Rightarrow> string \<Rightarrow> bool \<times> unit smap" where
  "TryAcquire locks volumeID =
     (if mhas locks volumeID then (False, locks) else (True, mput locks volumeID ()))"

definition Release :: "unit smap \<Rightarrow> string \<Rightarrow> unit smap" where
  "Release locks volumeID = mdel locks volumeID"

subsection \<open>Volumes and their secrets before deletion (pvc.go)\<close>

record objectMetadata =
  om_data :: "string smap"
  om_labels :: "string smap"
  om_annotations :: "string smap"

record ObjectMeta =
  meta_pvc :: objectMetadata
  meta_node :: objectMetadata

record Node =
  node_Name :: string
  node_PodCIDR :: string
  node_Labels :: "string smap"
  node_Annotations :: "string smap"

definition NewObjectMeta :: "PersistentVolumeClaim \<Rightarrow> Node option \<Rightarrow> ObjectMeta" where
  "NewObjectMeta pvc node =
     \<lparr>meta_pvc = \<lparr>om_data = [(''name'', pvc_Name pvc), (''namespace'', pvc_Namespace pvc)],
                  om_labels = pvc_Labels pvc, om_annotations = pvc_Annotations pvc\<rparr>,
      meta_node = (case node of
          None \<Rightarrow> \<lparr>om_data = [], om_labels = [], om_annotations = []\<rparr>
        | Some n \<Rightarrow> \<lparr>om_data = [(''name'', node_Name n), (''podCIDR'', node_PodCIDR n)],
                     om_labels = node_Labels n, om_annotations = node_Annotations n\<rparr>)\<rparr>"

text \<open>The value of an attribute of a CSI volume; a volume that is not CSI panics.\<close>

definition csi_attr_of :: "PersistentVolume \<Rightarrow> string \<Rightarrow> string result" where
  "csi_attr_of pv key =
     (case pv_CSI pv of None \<Rightarrow> Panic | Some csi \<Rightarrow> Ok (mget (csi_VolumeAttributes csi) key))"

text \<open>Whether a volume of the list is another live volume of the same class.\<close>

definition other_live :: "PersistentVolume \<Rightarrow> PersistentVolume \<Rightarrow> bool" where
  "other_live volume pv \<longleftrightarrow> \<not> (pv_Name pv = pv_Name volume \<or> pv_DeletionTimestamp pv \<noteq> None \<or>
     pv_StorageClassName pv \<noteq> pv_StorageClassName volume)"

fun no_shared_subpath :: "PersistentVolume \<Rightarrow> string \<Rightarrow> PersistentVolume list \<Rightarrow> bool result" where
  "no_shared_subpath volume nowSubPath [] = Ok True"
| "no_shared_subpath volume nowSubPath (pv # pvs) =
     (if \<not> other_live volume pv then no_shared_subpath volume nowSubPath pvs
      else bindR (csi_attr_of pv ''subPath'') (\<lambda>subPath.
        if subPath = nowSubPath then Ok False else no_shared_subpath volume nowSubPath pvs))"

definition CheckForSubPath :: "'w env \<Rightarrow> PersistentVolume \<Rightarrow> string \<Rightarrow> ('w, bool result) io" where
  "CheckForSubPath E volume pathPattern =
     (if pathPattern = [] then return (Ok True)
      else bindE (return (csi_attr_of volume ''subPath'')) (\<lambda>nowSubPath.
        if pv_StorageClassName volume = [] then return (Ok False)
        else bindE (ListPersistentVolumes E) (\<lambda>pvs.
          return (no_shared_subpath volume nowSubPath pvs))))"

fun no_shared_secret :: "PersistentVolume \<Rightarrow> string \<Rightarrow> string \<Rightarrow> PersistentVolume list \<Rightarrow> bool result" where
  "no_shared_secret volume ns name [] = Ok True"
| "no_shared_secret volume ns name (pv # pvs) =
     (if \<not> other_live volume pv then no_shared_secret volume ns name pvs
      else bindR (csi_attr_of pv ProvisionerSecretNamespace) (\<lambda>ns'.
           bindR (csi_attr_of pv ProvisionerSecretName) (\<lambda>name'.
             if ns = ns' \<and> name = name' then Ok False else no_shared_secret volume ns name pvs)))"

definition CheckForSecretFinalizer :: "'w env \<Rightarrow> PersistentVolume \<Rightarrow> ('w, bool result) io" where
  "CheckForSecretFinalizer E volume =
     bindE (return (csi_attr_of volume ProvisionerSecretNamespace)) (\<lambda>secretNamespace.
     bindE (return (csi_attr_of volume ProvisionerSecretName)) (\<lambda>secretName.
       if pv_StorageClassName volume = [] \<or> secretNamespace = [] \<or> secretName = []
       then return (Ok False)
       else bindE (ListPersistentVolumes E) (\<lambda>pvs.
         return (no_shared_secret volume secretNamespace secretName pvs))))"

definition patchSecretFinalizer :: "'w env \<Rightarrow> Secret \<Rightarrow> ('w, err option) io" where
  "patchSecretFinalizer E secret =
     PatchSecret E secret (JSONPatch [PatchListValue ''replace'' ''/metadata/finalizers'' (sec_Finalizers secret)])"

definition AddSecretFinalizer :: "'w env \<Rightarrow> Secret \<Rightarrow> string \<Rightarrow> ('w, err option) io" where
  "AddSecretFinalizer E secret finalizer =
     (if finalizer \<in> set (sec_Finalizers secret) then return None
      else patchSecretFinalizer E (secret\<lparr>sec_Finalizers := sec_Finalizers secret @ [finalizer]\<rparr>))"

definition RemoveSecretFinalizer :: "'w env \<Rightarrow> Secret \<Rightarrow> string \<Rightarrow> ('w, err option) io" where
  "RemoveSecretFinalizer E secret finalizer =
     (if finalizer \<notin> set (sec_Finalizers secret) then return None
      else patchSecretFinalizer E
        (secret\<lparr>sec_Finalizers := filter (\<lambda>f. f \<noteq> finalizer) (sec_Finalizers secret)\<rparr>))"

text \<open>
  \<open>StringParser\<close>: the expression \<open>\${\.(PVC|pvc|node)\.((labels|annotations)\.(.*?)|.*?)}\<close>
  matches \<open>${.\<close>, the object, a dot and the shortest text up to a closing brace on the same
  line. A match is the matched text, the object, the text in it.
\<close>

definition brace_body :: "string \<Rightarrow> string option" where
  "brace_body r =
     (let body = takeWhile (\<lambda>c. c \<noteq> CHR ''}'' \<and> c \<noteq> CHR 0x0A) r in
      if HasPrefix (drop (length body) r) ''}'' then Some body else None)"

definition match_at :: "string \<Rightarrow> (string \<times> string \<times> string) option" where
  "match_at s =
     (if \<not> HasPrefix s ''${.'' then None
      else let r = drop 3 s;
               obj = (if HasPrefix r ''PVC.'' then ''PVC'' else if HasPrefix r ''pvc.'' then ''pvc''
                      else if HasPrefix r ''node.'' then ''node'' else [])
           in if obj = [] then None
              else case brace_body (drop (length obj + 1) r) of
                     None \<Rightarrow> None
                   | Some body \<Rightarrow> Some (''${.'' @ obj @ ''.'' @ body @ ''}'', obj, body))"

function find_matches :: "string \<Rightarrow> (string \<times> string \<times> string) list" where
  "find_matches [] = []"
| "find_matches (c # cs) =
     (case match_at (c # cs) of
        None \<Rightarrow> find_matches cs
      | Some (m, obj, body) \<Rightarrow> (m, obj, body) # find_matches (drop (length m) (c # cs)))"
  by pat_completeness auto
termination
  by (relation "measure length")
     (auto simp: match_at_def Let_def split: if_splits option.splits)

definition parse_one :: "objectMetadata \<Rightarrow> string \<Rightarrow> string \<Rightarrow> string \<Rightarrow> string" where
  "parse_one meta str m body =
     ReplaceAll str m
       (if HasPrefix body ''labels.'' then mget (om_labels meta) (drop 7 body)
        else if HasPrefix body ''annotations.'' then mget (om_annotations meta) (drop 12 body)
        else mget (om_data meta) body)"

definition StringParser :: "ObjectMeta \<Rightarrow> string \<Rightarrow> string" where
  "StringParser meta str =
     fold (\<lambda>(m, obj, body) str.
             if obj = ''node'' then parse_one (meta_node meta) str m body
             else parse_one (meta_pvc meta) str m body)
       (find_matches str) str"

section \<open>Lemmas\<close>

lemmas resource_patch_defs [model_defs] =
  RemoveFinalizer_def AddPodLabel_def AddPodAnnotation_def DelPodAnnotation_def
  ReplacePodAnnotation_def

lemma remove_loop_filter: "remove_loop x i f = take i f @ filter (\<lambda>y. y \<noteq> x) (drop i f)"
proof (induction x i f rule: remove_loop.induct)
  case (1 x i f)
  show ?case
  proof (cases "i < length f")
    case False
    then show ?thesis by (subst remove_loop.simps) simp
  next
    case True
    then have d: "drop i f = f ! i # drop (Suc i) f" by (simp add: Cons_nth_drop_Suc)
    show ?thesis
    proof (cases "f ! i = x")
      case True
      with \<open>i < length f\<close> "1.IH"(1) d show ?thesis
        by (subst remove_loop.simps) (simp add: min_def)
    next
      case False
      with \<open>i < length f\<close> "1.IH"(2) d show ?thesis
        by (subst remove_loop.simps) (simp add: take_Suc_conv_app_nth)
    qed
  qed
qed

lemma mput_fresh: "k \<notin> fst ` set m \<Longrightarrow> mput m k v = m @ [(k, v)]"
  by (induction m) auto

lemma ref_fold_filter:
  "distinct (map fst xs) \<Longrightarrow> fst ` set xs \<inter> fst ` set acc = {} \<Longrightarrow>
   fold (\<lambda>(k, v) m. if k = GetReferenceKey v then mput m k v else m) xs acc =
     acc @ filter (\<lambda>(k, v). k = GetReferenceKey v) xs"
proof (induction xs arbitrary: acc)
  case Nil
  then show ?case by simp
next
  case (Cons p xs)
  obtain k v where p: "p = (k, v)" by (cases p)
  from Cons.prems p have upd: "mput acc k v = acc @ [(k, v)]"
    and disj: "fst ` set xs \<inter> fst ` set (acc @ [(k, v)]) = {}"
    and dist: "distinct (map fst xs)" "fst ` set xs \<inter> fst ` set acc = {}"
    by (auto simp: mput_fresh)
  show ?case
  proof (cases "k = GetReferenceKey v")
    case True
    with Cons.IH [OF dist(1) disj] p upd show ?thesis by simp
  next
    case False
    with Cons.IH [OF dist] p show ?thesis by simp
  qed
qed

text \<open>The reference keys are the annotations whose key is the key of their value.\<close>

lemma GetAllRefKeys_filter:
  "wf_map (annos pod) \<Longrightarrow>
     GetAllRefKeys pod = filter (\<lambda>(k, v). k = GetReferenceKey v) (annos pod)"
  unfolding GetAllRefKeys_def wf_map_def by (simp add: ref_fold_filter)

end
