(* ===== verification/MountTable.thy ===== *)
theory MountTable
  imports Resource
begin

text \<open>
  The mount table of the node as the reconciler sees it, \<open>pkg/controller/mountinfo.go\<close>: the
  parsed \<open>/proc/self/mountinfo\<close>, the deletion state of the application pods, and the
  resolution of a target path to its mounts (the target itself and the sub-path mounts of
  the same volume in the same pod).
\<close>

section \<open>Definitions\<close>

datatype targetStatus =
    targetStatusNotExist
  | targetStatusMounted
  | targetStatusNotMount
  | targetStatusCorrupt
  | targetStatusUnexpect

record targetItem =
  ti_target :: string
  ti_subpath :: string
  ti_count :: nat
  ti_inconsistent :: bool
  ti_status :: targetStatus
  ti_err :: "err option"

record mountItem =
  podExist :: bool
  podDeleted :: bool
  baseTarget :: targetItem
  subPathTarget :: "targetItem list"

record mountInfoTable =
  mis :: "MountInfo list"
  deletedPods :: "bool smap"

definition newMountInfoTable :: mountInfoTable where
  "newMountInfoTable = \<lparr>mis = [], deletedPods = []\<rparr>"

definition parse :: "'w env \<Rightarrow> mountInfoTable \<Rightarrow> ('w, mountInfoTable result) io" where
  "parse E mit = bindE (call (mnt_parse E) EvParseMountInfo) (\<lambda>ms. return (Ok (mit\<lparr>mis := ms\<rparr>)))"

definition setPodStatus :: "mountInfoTable \<Rightarrow> Pod \<Rightarrow> mountInfoTable" where
  "setPodStatus mit pod =
     mit\<lparr>deletedPods := mput (deletedPods mit) (pod_UID pod) (pod_DeletionTimestamp pod \<noteq> None)\<rparr>"

definition setPodsStatus :: "mountInfoTable \<Rightarrow> Pod list option \<Rightarrow> mountInfoTable" where
  "setPodsStatus mit podList =
     (case podList of
        None \<Rightarrow> mit\<lparr>deletedPods := []\<rparr>
      | Some pods \<Rightarrow> mit\<lparr>deletedPods :=
          fold (\<lambda>pod m. mput m (pod_UID pod) (pod_DeletionTimestamp pod \<noteq> None)) pods []\<rparr>)"

definition containerSubPathDirectory :: string where
  "containerSubPathDirectory = ''volume-subpaths''"

definition containerCsiDirectory :: string where
  "containerCsiDirectory = ''volumes/kubernetes.io~csi''"

definition getPodUid :: "string \<Rightarrow> string" where
  "getPodUid target =
     (let pair = Split target containerCsiDirectory in
      if length pair \<noteq> 2 then ''''
      else let podDir = TrimSuffix (pair ! 0) ''/'';
               index = LastIndexByte podDir (CHR ''/'')
           in if index \<le> 0 then '''' else drop (nat (index + 1)) podDir)"

definition getPVName :: "string \<Rightarrow> string" where
  "getPVName target =
     (let pair = Split target containerCsiDirectory in
      if length pair \<noteq> 2 then ''''
      else let pvName = TrimPrefix (pair ! 1) ''/'';
               index = Index pvName ''/''
           in if index \<le> 0 then '''' else take (nat index) pvName)"

text \<open>The status of an item after the \<open>stat\<close> of its target answered \<open>e\<close>.\<close>

definition checked :: "'w env \<Rightarrow> bool \<Rightarrow> err option \<Rightarrow> targetItem \<Rightarrow> targetItem" where
  "checked E mounted e ti =
     (case e of
        None \<Rightarrow> ti\<lparr>ti_status := (if mounted then targetStatusMounted else targetStatusNotMount)\<rparr>
      | Some er \<Rightarrow>
          if IsNotExist e then ti\<lparr>ti_status := targetStatusNotExist\<rparr>
          else let ti = (if \<not> mounted then ti\<lparr>ti_status := targetStatusUnexpect, ti_err := e\<rparr> else ti)
               in if mnt_corrupted E er then ti\<lparr>ti_status := targetStatusCorrupt\<rparr>
                  else ti\<lparr>ti_status := targetStatusUnexpect, ti_err := e\<rparr>)"

definition check :: "'w env \<Rightarrow> bool \<Rightarrow> targetItem \<Rightarrow> ('w, targetItem) io" where
  "check E mounted ti = do {
     e \<leftarrow> DoWithTimeout E (do {
            r \<leftarrow> call (os_stat E (ti_target ti)) (\<lambda>r. EvStat (ti_target ti) (err_of r));
            return (err_of r) });
     return (checked E mounted e ti) }"

definition mi_matches :: "string \<Rightarrow> bool \<Rightarrow> MountInfo \<Rightarrow> bool" where
  "mi_matches path isPrefix mi =
     (if isPrefix then HasPrefix (MountPoint mi) path else path = MountPoint mi)"

definition mi_subpath :: "MountInfo \<Rightarrow> string" where
  "mi_subpath mi = Trim (TrimSuffix (Root mi) ''//deleted'') ''/''"

definition new_item :: "string \<Rightarrow> string \<Rightarrow> nat \<Rightarrow> targetItem" where
  "new_item target subpath count = \<lparr>ti_target = target, ti_subpath = subpath, ti_count = count,
     ti_inconsistent = False, ti_status = targetStatusNotExist, ti_err = None\<rparr>"

definition record_mount :: "MountInfo \<Rightarrow> targetItem smap \<Rightarrow> targetItem smap" where
  "record_mount mi records =
     (let subpath = mi_subpath mi in
      case map_of records (MountPoint mi) of
        None \<Rightarrow> mput records (MountPoint mi) (new_item (MountPoint mi) subpath 1)
      | Some rec \<Rightarrow>
          mput records (MountPoint mi)
            (rec\<lparr>ti_inconsistent := (ti_inconsistent rec \<or> ti_subpath rec \<noteq> subpath),
                 ti_count := ti_count rec + 1\<rparr>))"

fun check_all :: "'w env \<Rightarrow> targetItem list \<Rightarrow> ('w, targetItem list) io" where
  "check_all E [] = return []"
| "check_all E (ti # tis) = do {
     ti' \<leftarrow> check E True ti;
     tis' \<leftarrow> check_all E tis;
     return (ti' # tis') }"

definition mount_records :: "mountInfoTable \<Rightarrow> string \<Rightarrow> bool \<Rightarrow> targetItem smap" where
  "mount_records mit path isPrefix = fold record_mount (filter (mi_matches path isPrefix) (mis mit)) []"

definition resolveTargetItem :: "'w env \<Rightarrow> mountInfoTable \<Rightarrow> string \<Rightarrow> bool \<Rightarrow> ('w, targetItem list) io" where
  "resolveTargetItem E mit path isPrefix = check_all E (map snd (mount_records mit path isPrefix))"

definition subpathTargetPrefix :: "string \<Rightarrow> string" where
  "subpathTargetPrefix target =
     Join [TrimSuffix (Split target containerCsiDirectory ! 0) ''/'', containerSubPathDirectory,
           getPVName target] ''/''"

definition resolveTarget :: "'w env \<Rightarrow> mountInfoTable \<Rightarrow> string \<Rightarrow> ('w, mountItem option) io" where
  "resolveTarget E mit target =
     (let pair = Split target containerCsiDirectory in
      if length pair \<noteq> 2 then return None
      else let podUID = getPodUid target in
        if podUID = [] then return None
        else if getPVName target = [] then return None
        else do {
          iterms \<leftarrow> resolveTargetItem E mit target False;
          base \<leftarrow> (case iterms of
                      [it] \<Rightarrow> return it
                    | _ \<Rightarrow> check E False (new_item target '''' 0));
          subs \<leftarrow> resolveTargetItem E mit (subpathTargetPrefix target) True;
          return (Some \<lparr>podExist = mhas (deletedPods mit) podUID,
             podDeleted = (case map_of (deletedPods mit) podUID of None \<Rightarrow> False | Some b \<Rightarrow> b),
             baseTarget = base, subPathTarget = subs\<rparr>) })"

section \<open>Lemmas\<close>

text \<open>What the table says about one mount point: its entries, in order.\<close>

definition entries :: "string \<Rightarrow> MountInfo list \<Rightarrow> MountInfo list" where
  "entries mp ms = filter (\<lambda>m. MountPoint m = mp) ms"

text \<open>The item for the entries of a mount point.\<close>

definition item_of :: "string \<Rightarrow> MountInfo list \<Rightarrow> targetItem" where
  "item_of mp fs =
     (new_item mp (mi_subpath (hd fs)) (length fs))
       \<lparr>ti_inconsistent := (\<exists>f\<in>set fs. mi_subpath f \<noteq> mi_subpath (hd fs))\<rparr>"

lemma record_mount_map_of:
  "map_of (record_mount m records) mp =
     (if mp = MountPoint m then
        Some (case map_of records (MountPoint m) of
            None \<Rightarrow> new_item (MountPoint m) (mi_subpath m) 1
          | Some rec \<Rightarrow> rec\<lparr>ti_inconsistent := (ti_inconsistent rec \<or> ti_subpath rec \<noteq> mi_subpath m),
                           ti_count := ti_count rec + 1\<rparr>)
      else map_of records mp)"
  by (simp add: record_mount_def Let_def AList.update_conv' split: option.split)

lemma wf_record_mount: "wf_map records \<Longrightarrow> wf_map (record_mount m records)"
  by (auto simp: record_mount_def Let_def split: option.split)

lemma wf_mount_records: "wf_map (mount_records mit path isPrefix)"
proof -
  have "wf_map acc \<Longrightarrow> wf_map (fold record_mount ms acc)" for ms acc
    by (induction ms arbitrary: acc) (simp_all add: wf_record_mount)
  then show ?thesis by (simp add: mount_records_def)
qed

lemma item_of_snoc:
  "fs \<noteq> [] \<Longrightarrow> MountPoint m = mp \<Longrightarrow>
     (item_of mp fs)\<lparr>ti_inconsistent := (ti_inconsistent (item_of mp fs) \<or> ti_subpath (item_of mp fs) \<noteq> mi_subpath m),
                     ti_count := ti_count (item_of mp fs) + 1\<rparr> = item_of mp (fs @ [m])"
  by (auto simp: item_of_def new_item_def)

lemma fold_record_mount:
  "map_of (fold record_mount ms []) mp =
     (if entries mp ms = [] then None else Some (item_of mp (entries mp ms)))"
proof (induction ms rule: rev_induct)
  case Nil
  then show ?case by (simp add: entries_def)
next
  case (snoc m ms)
  have e: "entries mp (ms @ [m]) = entries mp ms @ (if MountPoint m = mp then [m] else [])"
    by (simp add: entries_def)
  show ?case
  proof (cases "MountPoint m = mp")
    case False
    with snoc e show ?thesis by (auto simp: record_mount_map_of)
  next
    case True
    show ?thesis
    proof (cases "entries mp ms = []")
      case True
      with snoc e \<open>MountPoint m = mp\<close> show ?thesis
        by (auto simp: record_mount_map_of item_of_def new_item_def)
    next
      case False
      with snoc e True item_of_snoc [OF False True] show ?thesis
        by (simp add: record_mount_map_of)
    qed
  qed
qed

text \<open>The bytes that make up a csi target: no piece has the marker of the csi directory.\<close>

definition csi_target :: "string \<Rightarrow> string \<Rightarrow> string \<Rightarrow> string \<Rightarrow> string" where
  "csi_target kubeletDir uid pv rest =
     kubeletDir @ ''/'' @ uid @ ''/'' @ containerCsiDirectory @ ''/'' @ pv @ ''/'' @ rest"

lemma Split_csi_target:
  assumes "CHR ''~'' \<notin> set (kubeletDir @ uid @ pv @ rest)"
  shows "Split (csi_target kubeletDir uid pv rest) containerCsiDirectory =
    [kubeletDir @ ''/'' @ uid @ ''/'', ''/'' @ pv @ ''/'' @ rest]"
proof -
  let ?a = "kubeletDir @ ''/'' @ uid @ ''/''" and ?b = "''/'' @ pv @ ''/'' @ rest"
  have t: "csi_target kubeletDir uid pv rest = ?a @ containerCsiDirectory @ ?b"
    by (simp add: csi_target_def)
  have s: "containerCsiDirectory = ''volumes/kubernetes.io'' @ CHR ''~'' # ''csi''"
    by (simp add: containerCsiDirectory_def)
  have "first_at ?a containerCsiDirectory"
    using assms by (intro first_at_marker [OF s]) simp
  moreover have "\<not> Contains ?b containerCsiDirectory"
  proof
    assume "Contains ?b containerCsiDirectory"
    then obtain u v where "?b = u @ containerCsiDirectory @ v" by (auto simp: Contains_iff)
    then have "CHR ''~'' \<in> set ?b" unfolding s by (metis Un_iff list.set_intros(1) set_append)
    with assms show False by simp
  qed
  ultimately show ?thesis
    unfolding t using Split_first [of containerCsiDirectory ?a ?b] Split_no_occurrence [of containerCsiDirectory ?b]
    by (simp add: containerCsiDirectory_def)
qed

section \<open>Properties\<close>

text \<open>C19: the records of a target have one item for every matching mount point of the mount
  table and for no other; the item counts the mounts stacked there, has the sub-path of
  the first one and is inconsistent exactly when two of them have different sub-paths.\<close>

theorem mount_records_spec:
  "map_of (mount_records mit path isPrefix) mp =
     (let fs = filter (\<lambda>m. MountPoint m = mp \<and> mi_matches path isPrefix m) (mis mit) in
      if fs = [] then None
      else Some \<lparr>ti_target = mp, ti_subpath = mi_subpath (hd fs), ti_count = length fs,
        ti_inconsistent = (\<exists>f\<in>set fs. mi_subpath f \<noteq> mi_subpath (hd fs)),
        ti_status = targetStatusNotExist, ti_err = None\<rparr>) \<and>
   wf_map (mount_records mit path isPrefix)"
proof -
  have "entries mp (filter (mi_matches path isPrefix) (mis mit)) =
      filter (\<lambda>m. MountPoint m = mp \<and> mi_matches path isPrefix m) (mis mit)"
    by (simp add: entries_def conj_commute)
  with fold_record_mount [of "filter (mi_matches path isPrefix) (mis mit)" mp] wf_mount_records
  show ?thesis by (simp add: mount_records_def Let_def item_of_def new_item_def)
qed

text \<open>The pod UID and the volume name are read back from a csi target path
  \<open>kubeletDir/uid/volumes/kubernetes.io~csi/pv/rest\<close>, and the prefix under which the sub-path mounts
  are looked up is that of the same pod and volume.\<close>

lemma target_ids_roundtrip:
  assumes "CHR ''~'' \<notin> set (kubeletDir @ uid @ pv @ rest)"
    and "kubeletDir \<noteq> []" and "uid \<noteq> []" "CHR ''/'' \<notin> set uid"
    and "pv \<noteq> []" "CHR ''/'' \<notin> set pv"
  shows "getPodUid (csi_target kubeletDir uid pv rest) = uid \<and>
    getPVName (csi_target kubeletDir uid pv rest) = pv \<and>
    subpathTargetPrefix (csi_target kubeletDir uid pv rest) =
      kubeletDir @ ''/'' @ uid @ ''/volume-subpaths/'' @ pv"
proof -
  note sp = Split_csi_target [OF assms(1)]
  have dir: "TrimSuffix (kubeletDir @ CHR ''/'' # uid @ ''/'') ''/'' = kubeletDir @ CHR ''/'' # uid"
    using TrimSuffix_append [of "kubeletDir @ ''/'' @ uid" "''/''"] by simp
  have u: "getPodUid (csi_target kubeletDir uid pv rest) = uid"
    using assms LastIndexByte_append [of "CHR ''/''" uid kubeletDir]
    by (simp add: getPodUid_def sp Let_def dir nat_add_distrib)
  have p: "getPVName (csi_target kubeletDir uid pv rest) = pv"
    using assms Index_char_append [of "CHR ''/''" pv rest] TrimPrefix_append [of "''/''" "pv @ ''/'' @ rest"]
    by (simp add: getPVName_def sp Let_def)
  show ?thesis
    using u p by (simp add: subpathTargetPrefix_def sp dir containerSubPathDirectory_def)
qed



end
