(* ===== verification/Builder.thy ===== *)
theory Builder
  imports Resource
begin

text \<open>
  The builders of Kubernetes objects, \<open>pkg/builder\<close>: the pod that mounts a volume
  (\<open>base.go\<close>, \<open>pod.go\<close>), the jobs that create and delete a volume, clean its cache or
  abort its fuse connection (\<open>job.go\<close>) and the secret they read (\<open>secret.go\<close>). A builder
  method that changes the setting it points to returns the changed setting.
\<close>

section \<open>Definitions\<close>

subsection \<open>Constants\<close>

definition ROConfPath :: string where "ROConfPath = ''/etc/dingofs''"
definition DfsFuseFdPathName :: string where "DfsFuseFdPathName = ''dfs-fuse-fd''"
definition DfsFuseFsPathInPod :: string where "DfsFuseFsPathInPod = ''/tmp''"
definition DfsFuseFsPathInHost :: string where "DfsFuseFsPathInHost = ''/var/run/dingofs-csi''"
definition MountPointPath_default :: string where "MountPointPath_default = ''/var/lib/dingofs/volume''"
definition checkMountScriptName :: string where "checkMountScriptName = ''check_mount.sh''"

subsection \<open>Common parts (base.go)\<close>

definition attr_of :: "DfsSetting \<Rightarrow> PodAttr result" where
  "attr_of s = (case Attr s of None \<Rightarrow> Panic | Some a \<Rightarrow> Ok a)"

text \<open>A change of \<open>pod.Spec.Containers[0]\<close>.\<close>

definition upd_c0 :: "(Container \<Rightarrow> Container) \<Rightarrow> Pod \<Rightarrow> Pod" where
  "upd_c0 f pod = pod\<lparr>pod_Spec := (pod_Spec pod)\<lparr>Containers :=
      (case Containers (pod_Spec pod) of [] \<Rightarrow> [] | c # cs \<Rightarrow> f c # cs)\<rparr>\<rparr>"

definition add_volumes :: "Volume list \<Rightarrow> VolumeMount list \<Rightarrow> Pod \<Rightarrow> Pod" where
  "add_volumes vs vms pod =
     upd_c0 (\<lambda>c. c\<lparr>c_VolumeMounts := c_VolumeMounts c @ vms\<rparr>)
       (pod\<lparr>pod_Spec := (pod_Spec pod)\<lparr>Volumes := Volumes (pod_Spec pod) @ vs\<rparr>\<rparr>)"

definition AddFinalizer :: "Pod \<Rightarrow> string \<Rightarrow> Pod" where
  "AddFinalizer pod f =
     (if f \<in> set (pod_Finalizers pod) then pod
      else pod\<lparr>pod_Finalizers := pod_Finalizers pod @ [f]\<rparr>)"

definition genPodTemplate :: "'w env \<Rightarrow> DfsSetting \<Rightarrow> PodAttr \<Rightarrow> Container \<Rightarrow> Pod" where
  "genPodTemplate E s attr cn =
     zero_Pod\<lparr>pod_Namespace := pa_Namespace attr,
       pod_Labels := [(PodTypeKey, PodTypeValue), (PodVolumeIdLabelKey, UniqueId s)],
       pod_Annotations := Some [],
       pod_Spec := zero_PodSpec\<lparr>Containers := [cn], spec_NodeName := cfg_NodeName E,
         HostNetwork := pa_HostNetwork attr, HostAliases := pa_HostAliases attr,
         HostPID := pa_HostPID attr, HostIPC := pa_HostIPC attr, DNSConfig := pa_DNSConfig attr,
         DNSPolicy := pa_DNSPolicy attr, ServiceAccountName := pa_ServiceAccountName attr,
         ImagePullSecrets := pa_ImagePullSecrets attr, PreemptionPolicy := pa_PreemptionPolicy attr,
         Tolerations := pa_Tolerations attr\<rparr>\<rparr>"

definition genMetadata :: "DfsSetting \<Rightarrow> PodAttr \<Rightarrow> string smap \<times> string smap" where
  "genMetadata s attr =
     (let labels = mputs [(PodTypeKey, PodTypeValue), (PodVolumeIdLabelKey, UniqueId s)] (pa_Labels attr);
          annotations = mputs [] (pa_Annotations attr);
          annotations = (if DeletedDelay s \<noteq> [] then mput annotations DeleteDelayTimeKey (DeletedDelay s)
                         else annotations);
          annotations = mput annotations DingoFSID (FSID s);
          annotations = mput annotations UniqueIdKey (UniqueId s);
          annotations = (if CleanCache s then mput annotations CleanCacheAnno ''true'' else annotations)
      in (labels, annotations))"

definition plain_mount :: "string \<Rightarrow> string \<Rightarrow> VolumeMount" where
  "plain_mount name path =
     \<lparr>vm_Name = name, vm_MountPath = path, vm_ReadOnly = False, vm_Propagation = None\<rparr>"

fun config_volumes :: "nat \<Rightarrow> string smap \<Rightarrow> Volume list \<times> VolumeMount list" where
  "config_volumes i [] = ([], [])"
| "config_volumes i ((k, v) # kvs) =
     (let name = ''config-'' @ nat_str i; (vs, vms) = config_volumes (i + 1) kvs
      in (\<lparr>vol_Name = name, vol_Source = SecretVolume k []\<rparr> # vs, plain_mount name v # vms))"

definition genDfsVolumes :: "'w env \<Rightarrow> DfsSetting \<Rightarrow> (Volume list \<times> VolumeMount list) result" where
  "genDfsVolumes E s =
     (let csi = pod_Spec (cfg_CSIPod E) in
      case Containers csi of
        [] \<Rightarrow> Panic
      | c # _ \<Rightarrow>
          (let vms = filter (\<lambda>vm. HasPrefix (vm_Name vm) ''dingofs-disk'') (c_VolumeMounts c);
               vs = filter (\<lambda>v. HasPrefix (vol_Name v) ''dingofs-disk'') (Volumes csi);
               rsa = (if EncryptRsaKey s \<noteq> []
                      then ([\<lparr>vol_Name = ''rsa-key'', vol_Source =
                               SecretVolume (SecretName s) [(''encrypt_rsa_key'', ''rsa-key.pem'')]\<rparr>],
                            [plain_mount ''rsa-key'' ''/root/.rsa'']) else ([], []));
               ini = (if InitConfig s \<noteq> []
                      then ([\<lparr>vol_Name = ''init-config'', vol_Source =
                               SecretVolume (SecretName s) [(''initconfig'', Name s @ ''.conf'')]\<rparr>],
                            [plain_mount ''init-config'' ROConfPath]) else ([], []));
               cfg = config_volumes 1 (Configs s)
           in Ok (vs @ fst rsa @ fst ini @ fst cfg, vms @ snd rsa @ snd ini @ snd cfg)))"

definition genCommonPod ::
  "'w env \<Rightarrow> codec \<Rightarrow> string \<Rightarrow> DfsSetting \<Rightarrow> (PodAttr \<Rightarrow> Container) \<Rightarrow> (Pod \<times> DfsSetting) result" where
  "genCommonPod E C mountImage s cnGen =
     bindR (case GenPodAttrWithCfg E C mountImage s None of
              Ok s' \<Rightarrow> Ok s' | Err _ \<Rightarrow> Ok s | Panic \<Rightarrow> Panic | OutOfFuel \<Rightarrow> OutOfFuel) (\<lambda>s.
     bindR (attr_of s) (\<lambda>attr.
     bindR (genDfsVolumes E s) (\<lambda>(vs, vms).
       let pod = genPodTemplate E s attr (cnGen attr);
           (labels, annotations) = genMetadata s attr;
           pod = pod\<lparr>pod_Labels := labels, pod_Annotations := Some annotations,
                     pod_Spec := (pod_Spec pod)\<lparr>ServiceAccountName := pa_ServiceAccountName attr,
                       PriorityClassName := ''system-node-critical'', RestartPolicy := ''Always'',
                       Hostname := VolumeId s,
                       TerminationGracePeriodSeconds :=
                         Some (case pa_TerminationGracePeriodSeconds attr of None \<Rightarrow> 10 | Some g \<Rightarrow> g),
                       Volumes := vs\<rparr>\<rparr>;
           pod = AddFinalizer pod Finalizer;
           pod = upd_c0 (\<lambda>c. c\<lparr>c_VolumeMounts := vms, c_EnvFrom := [SecretName s],
                     c_Env := pa_Env attr, c_Requests := Requests (Resources attr),
                     c_Limits := Limits (Resources attr),
                     c_PreStop := (case pa_Lifecycle attr of None \<Rightarrow> c_PreStop c | Some l \<Rightarrow> Some l),
                     c_StartupProbe := pa_StartupProbe attr,
                     c_LivenessProbe := pa_LivenessProbe attr,
                     c_ReadinessProbe := pa_ReadinessProbe attr\<rparr>) pod
       in Ok (pod, s))))"

definition genMountFSCommand :: "DfsSetting \<Rightarrow> string result" where
  "genMountFSCommand s =
     bindR (attr_of s) (\<lambda>attr.
       let options = MountOptions s;
           options = (if \<not> ContainsPrefix options ''metrics='' then
                        options @ [if pa_HostNetwork attr then ''metrics=0.0.0.0:0'' else ''metrics=0.0.0.0:9567'']
                      else options);
           mountArgs = [''exec'', DfsCMDPath, ''${metaurl}'', EscapeBashStr (MountPath s), ''-o'',
                        EscapeBashStr (Join options '','')]
       in Ok (QuoteForShell (Join mountArgs '' '')))"

definition genInitFSCommand :: "DfsSetting \<Rightarrow> string" where
  "genInitFSCommand s =
     (let formatCmd = FormatCmd s;
          formatCmd = (if EncryptRsaKey s \<noteq> [] then formatCmd @ '' --encrypt-rsa-key=/root/.rsa/rsa-key.pem''
                       else formatCmd)
      in if InitConfig s \<noteq> []
         then Join [''cp'', PathJoin [ROConfPath, Name s @ ''.conf''], ClientConfPath s] '' ''
         else formatCmd)"

definition getQuotaPath :: "DfsSetting \<Rightarrow> string" where
  "getQuotaPath s =
     (let subdir = fold (\<lambda>opt d. let pair = Split opt ''='' in
                            if length pair \<noteq> 2 then d
                            else if pair ! 0 = ''subdir'' then PathJoin [''/'', pair ! 1] else d)
                     (MountOptions s) ''''
      in PathJoin [subdir, SubPath s])"

text \<open>The loop of \<open>overwriteSubdirWithSubPath\<close>: the other options and the sub directory.\<close>

fun subdir_loop :: "string \<Rightarrow> string list \<Rightarrow> string \<Rightarrow> string list \<Rightarrow> string list \<times> string" where
  "subdir_loop subPath options subdir [] = (options, subdir)"
| "subdir_loop subPath options subdir (opt # opts) =
     (if HasPrefix opt ''subdir='' then
        (let s = Split opt ''='' in
         if length s \<noteq> 2 then subdir_loop subPath options subdir opts
         else if s ! 0 = ''subdir'' then subdir_loop subPath options (PathJoin [s ! 1, subPath]) opts
         else subdir_loop subPath options subdir opts)
      else subdir_loop subPath (options @ [opt]) subdir opts)"

definition overwriteSubdirWithSubPath :: "DfsSetting \<Rightarrow> DfsSetting" where
  "overwriteSubdirWithSubPath s =
     (if SubPath s \<noteq> [] then
        (let (options, subdir) = subdir_loop (SubPath s) [] (SubPath s) (MountOptions s)
         in s\<lparr>MountOptions := options @ [''subdir='' @ subdir]\<rparr>)
      else s)"

definition getJobCommand :: "DfsSetting \<Rightarrow> string" where
  "getJobCommand s =
     (let options = StripReadonlyOption (MountOptions s);
          args = [DfsCMDPath, ''${metaurl}'', ''/mnt/dfs''];
          args = (if length options \<noteq> 0 then args @ [''-o'', EscapeBashStr (Join options '','')] else args)
      in QuoteForShell (Join args '' ''))"

subsection \<open>The mount pod (pod.go)\<close>

definition genCommonContainer :: "PodAttr \<Rightarrow> Container" where
  "genCommonContainer attr =
     zero_Container\<lparr>c_Name := MountContainerName, c_Image := pa_Image attr, c_Privileged := True,
       c_RunAsUser := Some 0, c_Env := [(DfsInsideContainer, ''1'')]\<rparr>"

definition initFuseConfig :: "'w env \<Rightarrow> string \<Rightarrow> Pod \<Rightarrow> ('w, Pod result) io" where
  "initFuseConfig E namespace pod = do {
     e \<leftarrow> call (k_configmap_create E namespace ''dingo-fuse-config'')
           (EvCreateConfigMap namespace ''dingo-fuse-config'');
     case e of
       Some er \<Rightarrow>
         if \<not> IsAlreadyExists e then return (Err er)
         else return (Ok (add_volumes
           [\<lparr>vol_Name = ''config-volume'', vol_Source = ConfigMapVolume ''dingo-fuse-config'' 493\<rparr>]
           [plain_mount ''config-volume'' DefaultBootstrapPath] pod))
     | None \<Rightarrow> return (Ok (add_volumes
           [\<lparr>vol_Name = ''config-volume'', vol_Source = ConfigMapVolume ''dingo-fuse-config'' 493\<rparr>]
           [plain_mount ''config-volume'' DefaultBootstrapPath] pod)) }"

text \<open>Numbered volumes \<open>prefix0\<close>, \<open>prefix1\<close>, \<dots> for a list.\<close>

definition numbered :: "string \<Rightarrow> ('a \<Rightarrow> VolumeSource) \<Rightarrow> ('a \<Rightarrow> string) \<Rightarrow> 'a list \<Rightarrow>
    Volume list \<times> VolumeMount list" where
  "numbered prefix src path xs =
     (map (\<lambda>(i, x). \<lparr>vol_Name = prefix @ nat_str i, vol_Source = src x\<rparr>) (enumerate 0 xs),
      map (\<lambda>(i, x). plain_mount (prefix @ nat_str i) (path x)) (enumerate 0 xs))"

definition genCacheDirVolumes :: "DfsSetting \<Rightarrow> Volume list \<times> VolumeMount list" where
  "genCacheDirVolumes s =
     (let dirs = numbered ''cachedir-'' (\<lambda>d. HostPath d (Some ''DirectoryOrCreate'')) (\<lambda>d. d) (CacheDirs s);
          pvcs = numbered ''cachedir-pvc-'' (\<lambda>c. ClaimVolume (cp_PVCName c) False) cp_Path (CachePVCs s);
          empty = (case CacheEmptyDir s of
                     None \<Rightarrow> ([], [])
                   | Some ce \<Rightarrow> ([\<lparr>vol_Name = ''cachedir-empty-dir'',
                                   vol_Source = EmptyDirVolume (ce_Medium ce) (ce_SizeLimit ce)\<rparr>],
                                 [plain_mount ''cachedir-empty-dir'' (ce_Path ce)]));
          inl = numbered ''cachedir-inline-volume-'' (\<lambda>c. CSIVolume (ci_CSI c)) ci_Path (CacheInlineVolumes s)
      in (fst dirs @ fst pvcs @ fst empty @ fst inl, snd dirs @ snd pvcs @ snd empty @ snd inl))"

definition genHostPathVolumes :: "DfsSetting \<Rightarrow> Volume list \<times> VolumeMount list" where
  "genHostPathVolumes s =
     (if length (ds_HostPath s) = 0 then ([], [])
      else numbered ''hostpath-'' (\<lambda>p. HostPath p None) (\<lambda>p. p) (ds_HostPath s))"

definition genPodVolumes :: "'w env \<Rightarrow> DfsSetting \<Rightarrow> Volume list \<times> VolumeMount list" where
  "genPodVolumes E s =
     (let volumes =
            [\<lparr>vol_Name = DfsDirName, vol_Source = HostPath MountPointPath_default (Some ''DirectoryOrCreate'')\<rparr>,
             \<lparr>vol_Name = DfsFuseFdPathName,
              vol_Source = HostPath (PathJoin [DfsFuseFsPathInHost, HashVal s]) (Some ''DirectoryOrCreate'')\<rparr>];
          volumeMounts =
            [(plain_mount DfsDirName PodMountBase)\<lparr>vm_Propagation := Some ''Bidirectional''\<rparr>,
             plain_mount DfsFuseFdPathName DfsFuseFsPathInPod]
      in if \<not> cfg_Immutable E then
           (volumes @ [\<lparr>vol_Name = UpdateDBDirName, vol_Source = HostPath UpdateDBCfgFile (Some ''FileOrCreate'')\<rparr>],
            volumeMounts @ [plain_mount UpdateDBDirName UpdateDBCfgFile])
         else (volumes, volumeMounts))"

text \<open>The arguments of \<open>dingo-fuse\<close> and the bootstrap command of the mount container.\<close>

definition fuse_args :: "DfsSetting \<Rightarrow> string" where
  "fuse_args s =
     ''-f -o default_permissions -o allow_other -o fsname='' @ Name s @
     '' -o fstype=s3 -o user=dingofs -o conf='' @ ClientConfPath s @ '' '' @ MountPath s"

definition mountFsCMD :: "DfsSetting \<Rightarrow> string" where
  "mountFsCMD s =
     DefaultBootstrapPath @ ''/'' @ DefaultBootstrapShell @ '' '' @ Name s @
     '' s3 --role=client --args='' @ [CHR 0x27] @ fuse_args s @ [CHR 0x27]"

definition NewMountPod ::
  "'w env \<Rightarrow> codec \<Rightarrow> string \<Rightarrow> DfsSetting \<Rightarrow> string \<Rightarrow> ('w, (Pod \<times> DfsSetting) result) io" where
  "NewMountPod E C mountImage s podName =
     bindE (return (genCommonPod E C mountImage s genCommonContainer)) (\<lambda>(pod, s).
     bindE (return (attr_of s)) (\<lambda>attr.
     bindE (initFuseConfig E (pa_Namespace attr) pod) (\<lambda>pod.
       let pod = pod\<lparr>pod_Name := podName\<rparr>;
           pod = upd_c0 (\<lambda>c. c\<lparr>c_Command := [''sh'', ''-c'', mountFsCMD s],
                               c_Env := c_Env c @ [(''DFS_FOREGROUND'', ''1'')]\<rparr>) pod;
           pod = add_volumes (fst (genPodVolumes E s)) (snd (genPodVolumes E s)) pod;
           pod = add_volumes (fst (genCacheDirVolumes s)) (snd (genCacheDirVolumes s)) pod;
           pod = add_volumes (fst (genHostPathVolumes s)) (snd (genHostPathVolumes s)) pod;
           pod = add_volumes (pa_Volumes attr) (pa_VolumeMounts attr) pod;
           pod = upd_c0 (\<lambda>c. c\<lparr>c_VolumeDevices := c_VolumeDevices c @ pa_VolumeDevices attr\<rparr>) pod
       in return (Ok (pod, s)))))"

definition genCleanCachePod :: "DfsSetting \<Rightarrow> PodAttr \<Rightarrow> Pod" where
  "genCleanCachePod s attr =
     (let names = map (\<lambda>(i, d). (''cachedir-'' @ nat_str i, d)) (enumerate 0 (CacheDirs s));
          vs = map (\<lambda>(n, d). \<lparr>vol_Name = n, vol_Source =
                 HostPath (PathJoin [d, FSID s, ''raw'']) (Some ''Directory'')\<rparr>) names;
          vms = map (\<lambda>(n, d). plain_mount n (PathJoin [''/var/dfsCache'', n])) names
      in zero_Pod\<lparr>pod_Namespace := pa_Namespace attr, pod_Labels := [(PodTypeKey, PodTypeValue)],
           pod_Annotations := Some [],
           pod_Spec := zero_PodSpec\<lparr>Containers := [zero_Container\<lparr>c_Name := ''dfs-cache-clean'',
               c_Image := pa_Image attr, c_Command := [''sh'', ''-c'', ''rm -rf /var/dfsCache/*/chunks''],
               c_VolumeMounts := vms\<rparr>], Volumes := vs\<rparr>\<rparr>)"

subsection \<open>Jobs (job.go)\<close>

definition DefaultJobTTLSecond :: int where
  "DefaultJobTTLSecond = 5"

definition GenJobNameByVolumeId :: "string \<Rightarrow> string" where
  "GenJobNameByVolumeId volumeId = take 16 (''dingofs-'' @ hex (sha256 volumeId))"

definition mk_job :: "string \<Rightarrow> string \<Rightarrow> string smap \<Rightarrow> PodSpec \<Rightarrow> Job" where
  "mk_job name namespace labels spec =
     \<lparr>job_Name = name, job_Namespace = namespace, job_UID = '''', job_Labels = labels,
      job_TTLSecondsAfterFinished = Some DefaultJobTTLSecond, job_CompletionTime = None, job_DeletionTimestamp = None,
      job_ResourceVersion = '''', job_Conditions = [], job_PodSpec = spec\<rparr>"

definition newJob :: "'w env \<Rightarrow> codec \<Rightarrow> string \<Rightarrow> DfsSetting \<Rightarrow> string \<Rightarrow> (Job \<times> DfsSetting) result" where
  "newJob E C mountImage s jobName =
     bindR (genCommonPod E C mountImage (s\<lparr>SecretName := jobName @ ''-secret''\<rparr>) genCommonContainer) (\<lambda>(pod, s).
     bindR (attr_of s) (\<lambda>attr.
       let pod = upd_c0 (\<lambda>c. c\<lparr>c_PreStop := Some [''sh'', ''-c'', ''umount /mnt/dfs -l && rmdir /mnt/dfs'']\<rparr>) pod;
           csi = pod_Spec (cfg_CSIPod E);
           spec = (pod_Spec pod)\<lparr>spec_NodeName := '''', NodeSelector := NodeSelector csi,
                    Affinity := Affinity csi, Tolerations := Tolerations csi,
                    PriorityClassName := '''', RestartPolicy := ''OnFailure''\<rparr>
       in Ok (mk_job jobName (pa_Namespace attr) [(JobTypeKey, JobTypeValue)] spec, s)))"

definition set_command :: "Job \<Rightarrow> string \<Rightarrow> Job" where
  "set_command job cmd =
     job\<lparr>job_PodSpec := (job_PodSpec job)\<lparr>Containers :=
        (case Containers (job_PodSpec job) of [] \<Rightarrow> []
         | c # cs \<Rightarrow> c\<lparr>c_Command := [''sh'', ''-c'', cmd]\<rparr> # cs)\<rparr>\<rparr>"

definition getCreateVolumeCmd :: "DfsSetting \<Rightarrow> string" where
  "getCreateVolumeCmd s =
     (let subpath = EscapeBashStr (SubPath s) in
      getJobCommand s @ '' && if [ ! -d /mnt/dfs/'' @ subpath @ '' ]; then mkdir -m 777 /mnt/dfs/'' @
      subpath @ ''; fi;'')"

definition getDeleteVolumeCmd :: "DfsSetting \<Rightarrow> string" where
  "getDeleteVolumeCmd s =
     (let subpath = EscapeBashStr (SubPath s) in
      getJobCommand s @ '' && if [ -d /mnt/dfs/'' @ subpath @ '' ]; then '' @ DfsCMDPath @
      '' rmr /mnt/dfs/'' @ subpath @ ''; fi;'')"

definition NewJobForCreateVolume ::
  "'w env \<Rightarrow> codec \<Rightarrow> string \<Rightarrow> DfsSetting \<Rightarrow> (Job \<times> DfsSetting) result" where
  "NewJobForCreateVolume E C mountImage s =
     bindR (newJob E C mountImage s (GenJobNameByVolumeId (VolumeId s) @ ''-createvol'')) (\<lambda>(job, s).
       Ok (set_command job (Join [genInitFSCommand s, getCreateVolumeCmd s] [CHR 0x0A]), s))"

definition NewJobForDeleteVolume ::
  "'w env \<Rightarrow> codec \<Rightarrow> string \<Rightarrow> DfsSetting \<Rightarrow> (Job \<times> DfsSetting) result" where
  "NewJobForDeleteVolume E C mountImage s =
     bindR (newJob E C mountImage s (GenJobNameByVolumeId (VolumeId s) @ ''-delvol'')) (\<lambda>(job, s).
       Ok (set_command job (Join [genInitFSCommand s, getDeleteVolumeCmd s] [CHR 0x0A]), s))"

definition newCleanJob :: "'w env \<Rightarrow> DfsSetting \<Rightarrow> PodAttr \<Rightarrow> string \<Rightarrow> Job" where
  "newCleanJob E s attr jobName =
     mk_job jobName (pa_Namespace attr) [(JobTypeKey, JobTypeValue)]
       ((pod_Spec (genCleanCachePod s attr))\<lparr>RestartPolicy := ''Never'', spec_NodeName := cfg_NodeName E\<rparr>)"

definition NewJobForCleanCache :: "'w env \<Rightarrow> DfsSetting \<Rightarrow> PodAttr \<Rightarrow> ('w, Job) io" where
  "NewJobForCleanCache E s attr = do {
     r \<leftarrow> RandStringRunes E 6;
     return (newCleanJob E s attr (GenJobNameByVolumeId (VolumeId s) @ ''-cleancache-'' @ r)) }"

definition NewFuseAbortJob :: "Pod \<Rightarrow> u32 \<Rightarrow> Job result" where
  "NewFuseAbortJob mountpod devMinor =
     (case Containers (pod_Spec mountpod) of
        [] \<Rightarrow> Panic
      | c # _ \<Rightarrow>
         (let d = nat_str (unat devMinor);
              cn = zero_Container\<lparr>c_Name := ''fuse-abort'', c_Image := c_Image c, c_Privileged := True,
                     c_Command := [''sh'', ''-c'',
                       ''if [ $(cat /sys/fs/fuse/connections/'' @ d @ ''/waiting) -gt 0 ]; then echo 1 > /sys/fs/fuse/connections/'' @ d @ ''/abort; fi;''],
                     c_VolumeMounts := [plain_mount ''fuse-connections'' ''/sys/fs/fuse/connections'']\<rparr>
          in Ok (mk_job (GenJobNameByVolumeId (pod_Name mountpod) @ ''-abort-fuse'') (pod_Namespace mountpod) []
                 (zero_PodSpec\<lparr>Containers := [cn], spec_NodeName := spec_NodeName (pod_Spec mountpod),
                    RestartPolicy := ''Never'',
                    Volumes := [\<lparr>vol_Name = ''fuse-connections'',
                                 vol_Source = HostPath ''/sys/fs/fuse/connections'' None\<rparr>]\<rparr>))))"

subsection \<open>The secret (secret.go)\<close>

definition checkMountScriptContent :: string where
  \<open>checkMountScriptContent = Join [
      ''ConditionPathIsMountPoint="$1"'',
      ''count=0'',
      ''while ! mount | grep $ConditionPathIsMountPoint | grep DingoFS'',
      ''do'',
      ''    sleep 3'',
      ''    count=`expr $count + 1`'',
      ''    if test $count -eq 10'',
      ''    then'',
      ''        echo "timed out!"'',
      ''        exit 1'',
      ''    fi'',
      ''done'',
      ''echo "$(date "+%Y-%m-%d %H:%M:%S")"'',
      ''echo "succeed in checking mount point $ConditionPathIsMountPoint"'',
      ''if [ -n "${subpath}" ]; then'',
      replicate 1 (CHR 0x09) @ ''if [ -n "${capacity}" ]; then'',
      replicate 2 (CHR 0x09) @ ''if [ "${community}" == ce ]; then'',
      replicate 3 (CHR 0x09) @ ''echo "set quota in ${subpath}"'',
      replicate 3 (CHR 0x09) @ ''/usr/local/bin/dingofs quota > /dev/null; '',
      replicate 3 (CHR 0x09) @ ''if [ $? -eq 0 ]; then '',
      replicate 4 (CHR 0x09) @ ''/usr/local/bin/dingofs quota set ${metaurl} --path ${quotaPath} --capacity ${capacity} &'',
      replicate 3 (CHR 0x09) @ ''fi '',
      replicate 2 (CHR 0x09) @ ''fi'',
      replicate 2 (CHR 0x09) @ ''if [ "${community}" == ee ]; then'',
      replicate 3 (CHR 0x09) @ ''echo "set quota in ${subpath}"'',
      replicate 3 (CHR 0x09) @ ''/usr/bin/dingofs quota > /dev/null; if [ $? -eq 0 ]; then /usr/bin/dingofs quota set ${name} --path ${quotaPath} --capacity ${capacity}; fi; '',
      replicate 2 (CHR 0x09) @ ''fi'',
      replicate 1 (CHR 0x09) @ ''fi'',
      ''fi'',
      ''''] [CHR 0x0A]\<close>

definition put_if :: "string \<Rightarrow> string \<Rightarrow> string smap \<Rightarrow> string smap" where
  "put_if key v m = (if v \<noteq> [] then mput m key v else m)"

definition NewSecret :: "DfsSetting \<Rightarrow> Secret result" where
  "NewSecret s =
     (let data = put_if ''initconfig'' (InitConfig s) (put_if ''encrypt_rsa_key'' (EncryptRsaKey s)
                  (put_if ''passphrase'' (Passphrase s) (put_if ''token'' (Token s)
                  (put_if ''secretkey2'' (SecretKey2 s) (put_if ''secretkey'' (SecretKey s)
                  (put_if ''mdsaddr'' (MdsAddr s) []))))));
          data = mput data checkMountScriptName checkMountScriptContent;
          data = (case ParseFormatOptions s of
                    Ok options \<Rightarrow> fold (\<lambda>(k, v) m. if k = ''session-token'' then mput m ''session-token'' v else m)
                                   options data
                  | _ \<Rightarrow> data);
          data = mputs data (Envs s)
      in bindR (attr_of s) (\<lambda>attr.
           Ok \<lparr>sec_Name = SecretName s, sec_Namespace = pa_Namespace attr,
               sec_Labels = [(DingofsSecretLabelKey, ''true'')], sec_Data = [], sec_StringData = data,
               sec_OwnerReferences = [], sec_Finalizers = [], sec_CreationTimestamp = 0,
               sec_ResourceVersion = ''''\<rparr>))"

definition SetPodAsOwner :: "Secret \<Rightarrow> Pod \<Rightarrow> Secret" where
  "SetPodAsOwner secret owner = secret\<lparr>sec_OwnerReferences :=
     [\<lparr>own_APIVersion = ''v1'', own_Kind = ''Pod'', own_Name = pod_Name owner,
       own_UID = pod_UID owner, own_Controller = True\<rparr>]\<rparr>"

definition SetPVCAsOwner :: "Secret \<Rightarrow> PersistentVolumeClaim \<Rightarrow> Secret" where
  "SetPVCAsOwner secret owner = secret\<lparr>sec_OwnerReferences :=
     [\<lparr>own_APIVersion = ''v1'', own_Kind = ''PersistentVolumeClaim'', own_Name = pvc_Name owner,
       own_UID = pvc_UID owner, own_Controller = True\<rparr>]\<rparr>"

definition SetPVAsOwner :: "Secret \<Rightarrow> PersistentVolume option \<Rightarrow> Secret" where
  "SetPVAsOwner secret owner =
     (case owner of
        None \<Rightarrow> secret
      | Some pv \<Rightarrow> secret\<lparr>sec_OwnerReferences :=
          [\<lparr>own_APIVersion = ''v1'', own_Kind = ''PersistentVolume'', own_Name = pv_Name pv,
            own_UID = pv_UID pv, own_Controller = False\<rparr>]\<rparr>)"

definition SetJobAsOwner :: "Secret \<Rightarrow> Job \<Rightarrow> Secret" where
  "SetJobAsOwner secret owner = secret\<lparr>sec_OwnerReferences :=
     [\<lparr>own_APIVersion = ''batch/v1'', own_Kind = ''Job'', own_Name = job_Name owner,
       own_UID = job_UID owner, own_Controller = True\<rparr>]\<rparr>"

section \<open>Lemmas\<close>

lemma last_fields_go:
  assumes "w \<noteq> []" and "list_all (\<lambda>c. \<not> is_space c) w"
  shows "\<exists>ys. fields_go acc (x @ '' '' @ w) = ys @ [w]"
proof (induction x arbitrary: acc)
  case Nil
  have word: "list_all (\<lambda>c. \<not> is_space c) u \<Longrightarrow> a @ u \<noteq> [] \<Longrightarrow> fields_go a u = [a @ u]" for a u
    by (induction u arbitrary: a) auto
  show ?case using assms word [of w "[]"] by (auto simp: is_space_iff)
next
  case (Cons c x)
  then show ?case by (auto split: if_splits) (metis append_Cons)+
qed

lemma Fields_last:
  assumes "w \<noteq> []" and "list_all (\<lambda>c. \<not> is_space c) w"
  shows "\<exists>ys. Fields (x @ '' '' @ w) = ys @ [w]"
  using last_fields_go [OF assms] by (simp add: Fields_def)

text \<open>The last line of a text that ends in \<open>' ' @ w\<close> ends so too, for \<open>w\<close> without line breaks.\<close>

lemma last_line:
  assumes "CHR 0x0A \<notin> set w"
  shows "\<exists>ys x'. Split (x @ '' '' @ w) [CHR 0x0A] = ys @ [x' @ '' '' @ w]"
proof (induction "length x" arbitrary: x rule: less_induct)
  case less
  show ?case
  proof (cases "CHR 0x0A \<in> set x")
    case False
    with assms have "Split (x @ '' '' @ w) [CHR 0x0A] = [x @ '' '' @ w]"
      by (intro Split_char_single) simp
    then show ?thesis by (intro exI [of _ "[]"] exI [of _ x]) simp
  next
    case True
    then obtain a b where x: "x = a @ CHR 0x0A # b" and a: "CHR 0x0A \<notin> set a"
      by (metis split_list_first)
    then have "Split (x @ '' '' @ w) [CHR 0x0A] = a # Split (b @ '' '' @ w) [CHR 0x0A]"
      using Split_char_Cons [OF a, of "b @ '' '' @ w"] by simp
    moreover obtain ys x' where "Split (b @ '' '' @ w) [CHR 0x0A] = ys @ [x' @ '' '' @ w]"
      using less [of b] x by auto
    ultimately show ?thesis by (intro exI [of _ "a # ys"] exI [of _ x']) simp
  qed
qed

text \<open>The mount point of a volume: a plain name under \<open>PodMountBase\<close>.\<close>

definition mount_point :: "string \<Rightarrow> string" where
  "mount_point volume = PodMountBase @ ''/'' @ volume"

definition volume_name :: "string \<Rightarrow> bool" where
  "volume_name v \<longleftrightarrow> list_all (\<lambda>c. \<not> is_space c \<and> c \<noteq> CHR ''/'' \<and> c \<noteq> CHR 0x27) v"

lemma Trim_quote:
  assumes "volume_name v"
  shows "Trim (mount_point v @ [CHR 0x27]) [CHR 0x27] = mount_point v"
proof -
  have "dropWhile (\<lambda>c. c \<in> set [CHR 0x27]) (rev (mount_point v)) = rev (mount_point v)"
  proof (cases "rev v")
    case Nil
    then show ?thesis by (simp add: mount_point_def PodMountBase_def)
  next
    case (Cons c cs)
    then have "c \<in> set v" by (metis list.set_intros(1) set_rev)
    with assms Cons show ?thesis by (auto simp: mount_point_def volume_name_def list_all_iff)
  qed
  then show ?thesis
    by (simp add: Trim_def TrimFunc_def) (simp add: mount_point_def PodMountBase_def)
qed

lemma idx_last: "idx (xs @ [x]) (int (length (xs @ [x])) - 1) = Ok x"
  by (simp add: idx_def nat_diff_distrib)

lemma parseMntPath_last:
  assumes "volume_name v"
  shows "parseMntPath (x @ '' '' @ mount_point v @ [CHR 0x27]) = Ok (mount_point v, v)"
proof -
  let ?w = "mount_point v @ [CHR 0x27]"
  have sp: "list_all (\<lambda>c. \<not> is_space c) ?w"
    using assms by (auto simp: mount_point_def PodMountBase_def volume_name_def list_all_iff is_space_iff)
  then have nl: "CHR 0x0A \<notin> set ?w" by (auto simp: list_all_iff is_space_iff)
  obtain ys x' where l: "Split (x @ '' '' @ ?w) [CHR 0x0A] = ys @ [x' @ '' '' @ ?w]"
    using last_line [OF nl] by blast
  obtain zs where f: "Fields (x' @ '' '' @ ?w) = zs @ [?w]"
    using Fields_last [OF _ sp] by blast
  have hd: "?w \<noteq> ''exec''" by (simp add: mount_point_def PodMountBase_def)
  let ?args = "if hd (zs @ [?w]) = ''exec'' then tl (zs @ [?w]) else zs @ [?w]"
  have "\<exists>us. ?args = us @ [?w]"
  proof (cases zs)
    case Nil
    with hd show ?thesis by simp
  next
    case (Cons a list)
    then show ?thesis by (cases "a = ''exec''") simp_all
  qed
  then obtain us where u: "?args = us @ [?w]" ..
  have parts: "Split (mount_point v) ''/'' = ['''', ''dfs'', v]"
  proof -
    have j: "mount_point v = Join [[], ''dfs'', v] ''/''"
      by (simp add: mount_point_def PodMountBase_def)
    have "\<forall>p\<in>set [[], ''dfs'', v]. CHR ''/'' \<notin> set p"
      using assms by (auto simp: volume_name_def list_all_iff)
    then show ?thesis unfolding j by (rule Split_Join_char) simp
  qed
  have pre: "HasPrefix (mount_point v) PodMountBase" by (simp add: mount_point_def)
  show ?thesis
    unfolding parseMntPath_def Let_def l idx_last bindR_simps f u Trim_quote [OF assms] parts
    using pre by simp
qed

lemma parseMntPath_mountFsCMD:
  assumes "volume_name v" and "MountPath s = mount_point v"
  shows "parseMntPath (mountFsCMD s) = Ok (mount_point v, v)"
proof -
  obtain x where "mountFsCMD s = x @ '' '' @ MountPath s @ [CHR 0x27]"
    by (simp add: mountFsCMD_def fuse_args_def)
  with parseMntPath_last [OF assms(1)] assms(2) show ?thesis by simp
qed

text \<open>What the builder leaves of the setting.\<close>

lemma ApplyConfigPatch_keeps:
  "ApplyConfigPatch C s = Ok s' \<Longrightarrow> MountPath s' = MountPath s \<and> Name s' = Name s \<and>
     ClientConfPath s' = ClientConfPath s \<and> UniqueId s' = UniqueId s \<and> HashVal s' = HashVal s \<and>
     TargetPath s' = TargetPath s \<and> VolumeId s' = VolumeId s \<and> Attr s' \<noteq> None"
  by (auto simp: ApplyConfigPatch_def Let_def bindR_Ok_iff split: option.splits)

lemma GenPodAttrWithCfg_keeps:
  "GenPodAttrWithCfg E C img s ctx = Ok s' \<Longrightarrow> MountPath s' = MountPath s \<and> Name s' = Name s \<and>
     ClientConfPath s' = ClientConfPath s \<and> UniqueId s' = UniqueId s \<and> HashVal s' = HashVal s \<and>
     TargetPath s' = TargetPath s \<and> VolumeId s' = VolumeId s \<and> Attr s' \<noteq> None"
  by (auto simp: GenPodAttrWithCfg_def bindR_Ok_iff dest!: ApplyConfigPatch_keeps)

lemma upd_c0_sel [simp]:
  "pod_Name (upd_c0 f p) = pod_Name p" "pod_Namespace (upd_c0 f p) = pod_Namespace p"
  "pod_Finalizers (upd_c0 f p) = pod_Finalizers p" "pod_Labels (upd_c0 f p) = pod_Labels p"
  "pod_Annotations (upd_c0 f p) = pod_Annotations p"
  "Volumes (pod_Spec (upd_c0 f p)) = Volumes (pod_Spec p)"
  "spec_NodeName (pod_Spec (upd_c0 f p)) = spec_NodeName (pod_Spec p)"
  "Containers (pod_Spec (upd_c0 f p)) = (case Containers (pod_Spec p) of [] \<Rightarrow> [] | c # cs \<Rightarrow> f c # cs)"
  by (simp_all add: upd_c0_def)

lemma add_volumes_sel [simp]:
  "pod_Name (add_volumes vs vms p) = pod_Name p" "pod_Namespace (add_volumes vs vms p) = pod_Namespace p"
  "pod_Finalizers (add_volumes vs vms p) = pod_Finalizers p"
  "pod_Labels (add_volumes vs vms p) = pod_Labels p"
  "pod_Annotations (add_volumes vs vms p) = pod_Annotations p"
  "Volumes (pod_Spec (add_volumes vs vms p)) = Volumes (pod_Spec p) @ vs"
  "spec_NodeName (pod_Spec (add_volumes vs vms p)) = spec_NodeName (pod_Spec p)"
  "Containers (pod_Spec (add_volumes vs vms p)) =
     (case Containers (pod_Spec p) of [] \<Rightarrow> []
      | c # cs \<Rightarrow> c\<lparr>c_VolumeMounts := c_VolumeMounts c @ vms\<rparr> # cs)"
  by (simp_all add: add_volumes_def)

text \<open>The shape of a generated pod.\<close>

definition mount_pod_shape :: "'w env \<Rightarrow> DfsSetting \<Rightarrow> Pod \<Rightarrow> bool" where
  "mount_pod_shape E s pod \<longleftrightarrow> Finalizer \<in> set (pod_Finalizers pod) \<and>
     (\<exists>a. pod_Annotations pod = Some a) \<and> spec_NodeName (pod_Spec pod) = cfg_NodeName E \<and>
     (\<exists>c. Containers (pod_Spec pod) = [c])"

lemma genCommonPod_shape:
  "genCommonPod E C img s genCommonContainer = Ok (pod, s') \<Longrightarrow>
     mount_pod_shape E s pod \<and> MountPath s' = MountPath s \<and> Name s' = Name s \<and> Attr s' \<noteq> None"
proof -
  assume "genCommonPod E C img s genCommonContainer = Ok (pod, s')"
  then obtain s1 attr vs vms where
    g: "(case GenPodAttrWithCfg E C img s None of Ok s' \<Rightarrow> Ok s' | Err _ \<Rightarrow> Ok s | Panic \<Rightarrow> Panic
         | OutOfFuel \<Rightarrow> OutOfFuel) = Ok s1"
    and a: "attr_of s1 = Ok attr" and v: "genDfsVolumes E s1 = Ok (vs, vms)" and s1: "s' = s1"
    and shape: "mount_pod_shape E s pod"
    unfolding genCommonPod_def
    by (auto simp: bindR_Ok_iff Let_def mount_pod_shape_def genPodTemplate_def AddFinalizer_def
        case_prod_unfold)
  from g have "MountPath s1 = MountPath s \<and> Name s1 = Name s"
    by (auto split: result.splits dest: GenPodAttrWithCfg_keeps)
  with a s1 shape show ?thesis by (auto simp: attr_of_def split: option.splits)
qed

text \<open>Every pod that \<open>NewMountPod\<close> returns.\<close>

definition good_mount_pod :: "'w env \<Rightarrow> DfsSetting \<Rightarrow> string \<Rightarrow> Pod \<Rightarrow> bool" where
  "good_mount_pod E s podName pod \<longleftrightarrow> mount_pod_shape E s pod \<and> pod_Name pod = podName \<and>
     (\<exists>s'. MountPath s' = MountPath s \<and> GetMountPathOfPod pod = parseMntPath (mountFsCMD s'))"

lemma wp_NewMountPod:
  "wp trace (NewMountPod E C img s podName) (\<lambda>es r.
     (\<forall>ev\<in>set es. \<exists>ns n e. ev = EvCreateConfigMap ns n e) \<and>
     (case r of Ok (pod, s') \<Rightarrow> good_mount_pod E s podName pod | _ \<Rightarrow> True))"
proof -
  have "wp trace (initFuseConfig E ns pod) (\<lambda>es r.
      (\<forall>ev\<in>set es. \<exists>ns n e. ev = EvCreateConfigMap ns n e) \<and>
      (case r of Ok pod' \<Rightarrow> \<exists>vs vms. pod' = add_volumes vs vms pod | _ \<Rightarrow> True))" for ns pod
    unfolding initFuseConfig_def
    by (auto intro!: wp_bind wp_call wp_return split: option.splits) blast+
  then show ?thesis
    unfolding NewMountPod_def
    apply (intro wp_bindE wp_return)
    apply (auto intro!: wp_bindE wp_return split: result.splits)
    apply (rule wp_mono, assumption)
    apply (auto simp: Let_def intro!: wp_return split: result.splits dest!: genCommonPod_shape)
    apply (auto simp: good_mount_pod_def mount_pod_shape_def GetMountPathOfPod_def)
    done
qed

definition subdir_of :: "string \<Rightarrow> string \<Rightarrow> string \<Rightarrow> string" where
  "subdir_of sub opt d =
     (if HasPrefix opt ''subdir='' \<and> length (Split opt ''='') = 2 \<and> Split opt ''='' ! 0 = ''subdir''
      then PathJoin [Split opt ''='' ! 1, sub] else d)"

lemma subdir_loop_eq:
  "subdir_loop sub acc d opts =
     (acc @ filter (\<lambda>opt. \<not> HasPrefix opt ''subdir='') opts, fold (subdir_of sub) opts d)"
  by (induction sub acc d opts rule: subdir_loop.induct) (simp_all add: Let_def subdir_of_def del: One_nat_def)

lemma fold_subdir_none:
  "filter (\<lambda>opt. HasPrefix opt ''subdir='') opts = [] \<Longrightarrow> fold (subdir_of sub) opts d = d"
  by (induction opts) (auto simp: subdir_of_def split: if_splits)

text \<open>A codec for witnesses: texts parse as empty maps, quantities as one, patches are left alone.\<close>

definition sample_codec :: codec where
  "sample_codec = \<lparr>yaml_map = (\<lambda>_. Some []), json_map = (\<lambda>_. None),
     decode_setting = (\<lambda>_ s. Ok s), json_patch = (\<lambda>_. ''''), unjson_patch = (\<lambda>_ p. p),
     json_setting = (\<lambda>s. Name s), ParseQuantity = (\<lambda>_. Ok 1), Quantity_Value = (\<lambda>q. q),
     Quantity_String = (\<lambda>_. ''''), ParseFloat = (\<lambda>_. None), float_u64_oob = (\<lambda>_. 0),
     SelectorMatches = (\<lambda>_ _. Some True)\<rparr>"

definition sample_env :: "unit env" where
  "sample_env = idle_env\<lparr>cfg_CSIPod := zero_Pod\<lparr>pod_Spec := zero_PodSpec\<lparr>Containers := [zero_Container]\<rparr>\<rparr>\<rparr>"

section \<open>Properties\<close>

text \<open>C18: the mount path and the volume name are read back from the command of every mount pod
  the builder makes, whatever the names of the file system and of the configuration file
  are; the pod has the name asked for, the finalizer of the driver and runs on this node.\<close>

theorem NewMountPod_mount_path:
  assumes "MountPath s = mount_point v" and "volume_name v"
  shows "case fst (run_state (NewMountPod E C mountImage s podName) w) of
      Ok (pod, s') \<Rightarrow> GetMountPathOfPod pod = Ok (mount_point v, v) \<and> pod_Name pod = podName \<and>
        Finalizer \<in> set (pod_Finalizers pod) \<and> spec_NodeName (pod_Spec pod) = cfg_NodeName E
    | _ \<Rightarrow> True"
proof -
  obtain r w' where run: "run_state (NewMountPod E C mountImage s podName) w = (r, w')"
    by (metis surj_pair)
  from wpD [OF wp_NewMountPod run] have "case r of Ok (pod, s') \<Rightarrow> good_mount_pod E s podName pod | _ \<Rightarrow> True"
    by auto
  then show ?thesis
    using parseMntPath_mountFsCMD [OF assms(2)] assms(1)
    by (auto simp: run good_mount_pod_def mount_pod_shape_def split: result.splits)
qed

theorem NewMountPod_mount_path_witness:
  "case fst (run_state (NewMountPod sample_env sample_codec ''img''
      (zero_DfsSetting\<lparr>MountPath := ''/dfs/pvc-1-abcdef'', Name := ''fs1''\<rparr>) ''pod1'') (idle_world ())) of
      Ok (pod, s') \<Rightarrow> GetMountPathOfPod pod = Ok (''/dfs/pvc-1-abcdef'', ''pvc-1-abcdef'')
    | _ \<Rightarrow> False"
proof -
  have "case fst (run_state (NewMountPod sample_env sample_codec ''img''
      (zero_DfsSetting\<lparr>MountPath := ''/dfs/pvc-1-abcdef'', Name := ''fs1''\<rparr>) ''pod1'') (idle_world ())) of
      Ok _ \<Rightarrow> True | _ \<Rightarrow> False"
    by (simp add: NewMountPod_def genCommonPod_def GenPodAttrWithCfg_def getDefaultResource_def
        default_resource_def MustParse_def ApplyConfigPatch_def GenMountPodPatch_def attr_of_def Let_def
        genDfsVolumes_def initFuseConfig_def bindE_def run_call sample_codec_def sample_env_def idle_env_def
        zero_DfsSetting_def zero_MountPodPatch_def opt_list_def zero_Pod_def zero_PodSpec_def
        case_prod_unfold)
  then show ?thesis
    using NewMountPod_mount_path [where E = sample_env and C = sample_codec and mountImage = "''img''"
      and podName = "''pod1''" and w = "idle_world ()" and v = "''pvc-1-abcdef''"
      and s = "zero_DfsSetting\<lparr>MountPath := ''/dfs/pvc-1-abcdef'', Name := ''fs1''\<rparr>"]
    by (auto simp: mount_point_def PodMountBase_def volume_name_def is_space_def split: result.splits)
qed

text \<open>Overwriting the sub directory keeps every other option in its order and leaves exactly
  one \<open>subdir\<close> option, the last one; without a \<open>subdir\<close> option it is the sub-path itself.\<close>

lemma overwriteSubdir_options:
  assumes "SubPath s \<noteq> []"
  shows "\<exists>d. MountOptions (overwriteSubdirWithSubPath s) =
       filter (\<lambda>opt. \<not> HasPrefix opt ''subdir='') (MountOptions s) @ [''subdir='' @ d] \<and>
     (filter (\<lambda>opt. HasPrefix opt ''subdir='') (MountOptions s) = [] \<longrightarrow> d = SubPath s)"
  using assms fold_subdir_none by (auto simp: overwriteSubdirWithSubPath_def subdir_loop_eq)

end
