(* ===== verification/MountPods.thy ===== *)
theory MountPods
  imports Builder
begin

text \<open>
  The operations on mount pods, \<open>pkg/builder/mount.go\<close>: \<open>DMount\<close> finds or creates the
  mount pod of a volume and adds the reference of a target to it, \<open>UmountTarget\<close> removes
  it again, \<open>DUmount\<close> deletes a pod without references. The references of a pod are the
  annotations whose key is the hash of their value. Polling loops take fuel; retries on
  conflict are bounded by \<open>cfg_ConflictRetries\<close>.
\<close>

section \<open>Definitions\<close>

definition GetRef :: "Pod \<Rightarrow> nat" where
  "GetRef pod = fold (\<lambda>(k, target) res. if k = GetReferenceKey target then res + 1 else res) (annos pod) 0"

text \<open>The annotations with the reference of a target and without the time of deletion.\<close>

definition add_ref :: "string smap \<Rightarrow> string \<Rightarrow> string smap" where
  "add_ref m target = mdel (mput m (GetReferenceKey target) target) DeleteDelayAtKey"

definition AddRefOfMount :: "'w env \<Rightarrow> string \<Rightarrow> string \<Rightarrow> ('w, unit result) io" where
  "AddRefOfMount E target podName =
     (let key = GetReferenceKey target in
      RetryOnConflict (cfg_ConflictRetries E) (
        bindE (GetPod E podName (cfg_Namespace E)) (\<lambda>exist.
          if pod_DeletionTimestamp exist \<noteq> None then
            return (Err (MsgErr (''addRefOfMount: Mount pod ['' @ podName @ ''] has been deleted'')))
          else if mhas (annos exist) key then return (Ok ())
          else do {
            e \<leftarrow> ReplacePodAnnotation E exist (add_ref (annos exist) target);
            return (result_of e) })))"

definition waitUtilMountReady :: "'w env \<Rightarrow> nat \<Rightarrow> DfsSetting \<Rightarrow> string \<Rightarrow> ('w, unit result) io" where
  "waitUtilMountReady E fuel s podName = do {
     r \<leftarrow> WaitUtilMountReady E fuel podName (MountPath s);
     case r of
       Err _ \<Rightarrow> do {
         log \<leftarrow> GetErrContainerLog E podName;
         return (bindR (StripPasswd (Source s)) (\<lambda>source.
           case log of
             Ok text \<Rightarrow> Err (MsgErr (''mount '' @ source @ '' at '' @ MountPath s @ '' failed, mountpod: '' @
                          podName @ '', failed log: '' @ text))
           | _ \<Rightarrow> Err (MsgErr (''mount '' @ source @ '' at '' @ MountPath s @
                          '' failed: mount isn't ready in 30 seconds'')))) }
     | _ \<Rightarrow> return r }"

text \<open>Making the mount directory, with a stale mount removed first.\<close>

definition make_mount_dir :: "'w env \<Rightarrow> nat \<Rightarrow> string \<Rightarrow> ('w, unit result) io" where
  "make_mount_dir E fuel path = do {
     ex \<leftarrow> call (mnt_path_exists E path) (EvPathExists path);
     if ex = Ok True then return (Ok ())
     else do {
       st \<leftarrow> call (os_stat E path) (\<lambda>r. EvStat path (err_of r));
       u \<leftarrow> (case err_of st of
               Some e \<Rightarrow> if Contains (err_str e) ''transport endpoint is not connected''
                          then umount_stale E fuel path else return (Ok ())
             | None \<Rightarrow> return (Ok ()));
       case u of
         Ok _ \<Rightarrow> do { e \<leftarrow> call (os_mkdir_all E path 511) (EvMkdirAll path); return (result_of e) }
       | _ \<Rightarrow> return u } }"

text \<open>The placement of a new pod: by node selector when the node can be selected by its name.\<close>

definition place_pod :: "'w env \<Rightarrow> AppInfo option \<Rightarrow> Pod \<Rightarrow> ('w, Pod) io" where
  "place_pod E appinfo newPod =
     (let node = spec_NodeName (pod_Spec newPod); nodeSelector = [(hostnameLabel, node)] in do {
       nodes \<leftarrow> ListNode E nodeSelector;
       if nodes \<noteq> Ok [node] then return newPod
       else let newPod = newPod\<lparr>pod_Spec := (pod_Spec newPod)\<lparr>spec_NodeName := '''', NodeSelector := nodeSelector\<rparr>\<rparr> in
         case appinfo of
           None \<Rightarrow> return newPod
         | Some app \<Rightarrow>
             if app_Name app = [] then return newPod
             else do {
               r \<leftarrow> GetPod E (app_Name app) (app_Namespace app);
               return (case r of
                   Ok appPod \<Rightarrow> newPod\<lparr>pod_Spec := (pod_Spec newPod)\<lparr>Affinity := Affinity (pod_Spec appPod),
                       SchedulerName := SchedulerName (pod_Spec appPod),
                       Tolerations := Tolerations (pod_Spec appPod)\<rparr>\<rparr>
                 | _ \<Rightarrow> newPod) } })"

definition create_mount_pod ::
  "'w env \<Rightarrow> codec \<Rightarrow> string \<Rightarrow> string \<Rightarrow> DfsSetting \<Rightarrow> AppInfo option \<Rightarrow> Secret \<Rightarrow> ('w, DfsSetting result) io" where
  "create_mount_pod E C mountImage podName s appinfo secret =
     bindE (NewMountPod E C mountImage s podName) (\<lambda>(newPod, s').
     bindE (return (last_bytes 6 podName)) (\<lambda>uniqueId.
       let newPod = newPod\<lparr>pod_Annotations := Some (mput (annos newPod) (GetReferenceKey (TargetPath s)) (TargetPath s)),
                           pod_Labels := mput (mput (pod_Labels newPod) PodHashLabelKey (HashVal s))
                                           PodUniqueIdLabelKey uniqueId\<rparr>
       in do {
         newPod \<leftarrow> place_pod E appinfo newPod;
         bindE (CreateOrUpdateSecret E secret) (\<lambda>_.
         bindE (CreatePod E newPod) (\<lambda>_. return (Ok s'))) }))"

fun create_or_add :: "'w env \<Rightarrow> codec \<Rightarrow> string \<Rightarrow> nat \<Rightarrow> string \<Rightarrow> DfsSetting \<Rightarrow> AppInfo option \<Rightarrow> Secret \<Rightarrow>
    ('w, DfsSetting result) io" where
  "create_or_add E C mountImage 0 podName s appinfo secret = return OutOfFuel"
| "create_or_add E C mountImage (Suc n) podName s appinfo secret = do {
     r \<leftarrow> GetPod E podName (cfg_Namespace E);
     case r of
       Ok oldPod \<Rightarrow>
         if pod_DeletionTimestamp oldPod \<noteq> None then do {
           emit EvSleep; create_or_add E C mountImage n podName s appinfo secret }
         else bindE (CreateOrUpdateSecret E secret) (\<lambda>_.
              bindE (AddRefOfMount E (TargetPath s) podName) (\<lambda>_. return (Ok s)))
     | Err e \<Rightarrow>
         if IsNotFound (Some e) then create_mount_pod E C mountImage podName s appinfo secret
         else if IsTimeout (Some e) then
           return (Err (MsgErr (''mount '' @ VolumeId s @ '' failed: mount pod '' @ podName @ '' deleting timeout'')))
         else return (Err e)
     | Panic \<Rightarrow> return Panic
     | OutOfFuel \<Rightarrow> return OutOfFuel }"

definition createPodOrAddRef ::
  "'w env \<Rightarrow> codec \<Rightarrow> string \<Rightarrow> nat \<Rightarrow> string \<Rightarrow> DfsSetting \<Rightarrow> AppInfo option \<Rightarrow> ('w, DfsSetting result) io" where
  "createPodOrAddRef E C mountImage fuel podName s appinfo =
     bindE (return (last_bytes 7 podName)) (\<lambda>suffix.
       let s = s\<lparr>MountPath := MountPath s @ suffix, SecretName := ''dingofs-'' @ UniqueId s @ ''-secret''\<rparr> in
       bindE (DoWithTimeoutR E (make_mount_dir E fuel (MountPath s))) (\<lambda>_.
       bindE (return (NewSecret s)) (\<lambda>secret.
         create_or_add E C mountImage fuel podName s appinfo (SetPVAsOwner secret (ds_PV s)))))"

text \<open>The closure of \<open>DMount\<close> that runs under the lock of the hash of the setting.\<close>

definition dmount_locked :: "'w env \<Rightarrow> codec \<Rightarrow> string \<Rightarrow> nat \<Rightarrow> AppInfo option \<Rightarrow> DfsSetting \<Rightarrow>
    ('w, (DfsSetting \<times> string) result) io" where
  "dmount_locked E C mountImage fuel appInfo s =
     bindE (GenMountPodName E s) (\<lambda>mountPodName.
     bindE (case appInfo of
              Some app \<Rightarrow>
                if app_Name app \<noteq> [] \<and> app_Namespace app \<noteq> []
                then SetMountLabel E (UniqueId s) mountPodName (app_Name app) (app_Namespace app)
                else return (Ok ())
            | None \<Rightarrow> return (Ok ())) (\<lambda>_.
     bindE (createPodOrAddRef E C mountImage fuel mountPodName s appInfo) (\<lambda>s'.
       return (Ok (s', mountPodName)))))"

definition DMount ::
  "'w env \<Rightarrow> codec \<Rightarrow> string \<Rightarrow> nat \<Rightarrow> AppInfo option \<Rightarrow> DfsSetting \<Rightarrow> ('w, DfsSetting result) io" where
  "DMount E C mountImage fuel appInfo s =
     (let hashVal = GenHashOfSetting C s in
      bindE (locked (GetPodLock hashVal) (dmount_locked E C mountImage fuel appInfo (s\<lparr>HashVal := hashVal\<rparr>)))
        (\<lambda>(s', mountPodName).
          bindE (waitUtilMountReady E fuel s' mountPodName) (\<lambda>_. return (Ok s'))))"

text \<open>
  \<open>createOrUpdateSecret\<close> has the body of \<open>CreateOrUpdateSecret\<close> of the resource package.
\<close>

definition createOrUpdateSecret :: "'w env \<Rightarrow> Secret \<Rightarrow> ('w, unit result) io" where
  "createOrUpdateSecret E secret = CreateOrUpdateSecret E secret"

fun first_not_complete :: "ContainerStatus list \<Rightarrow> string option" where
  "first_not_complete [] = None"
| "first_not_complete (cn # cns) =
     (if (case cs_Terminated cn of None \<Rightarrow> True | Some t \<Rightarrow> term_Reason t \<noteq> ''Completed'')
      then Some (cs_Name cn) else first_not_complete cns)"

definition getNotCompleteCnLog :: "'w env \<Rightarrow> string \<Rightarrow> ('w, string result) io" where
  "getNotCompleteCnLog E podName =
     bindE (GetPod E podName (cfg_Namespace E)) (\<lambda>pod.
       case first_not_complete (pod_InitContainerStatuses pod) of
         Some cn \<Rightarrow> GetPodLog E (pod_Name pod) (pod_Namespace pod) cn
       | None \<Rightarrow>
           (case first_not_complete (pod_ContainerStatuses pod) of
              Some cn \<Rightarrow> GetPodLog E (pod_Name pod) (pod_Namespace pod) cn
            | None \<Rightarrow> return (Ok '''')))"

text \<open>What \<open>waitUtilJobCompleted\<close> reports when the wait ended without completion.\<close>

definition job_incomplete :: "'w env \<Rightarrow> string \<Rightarrow> ('w, unit result) io" where
  "job_incomplete E jobName = do {
     pods \<leftarrow> ListPod E (cfg_Namespace E) [(''job-name'', jobName)] [];
     case pods of
       Ok (pod # _) \<Rightarrow> do {
         cnlog \<leftarrow> getNotCompleteCnLog E (pod_Name pod);
         return (case cnlog of
             Ok l \<Rightarrow> Err (MsgErr (''waitUtilJobCompleted: job '' @ jobName @ '' isn't completed: '' @ l))
           | _ \<Rightarrow> Err (MsgErr (''waitUtilJobCompleted: get pod '' @ pod_Name pod @ '' log error''))) }
     | _ \<Rightarrow> return (Err (MsgErr (''waitUtilJobCompleted: get pod from job '' @ jobName @ '' error''))) }"

fun waitUtilJobCompleted :: "'w env \<Rightarrow> nat \<Rightarrow> string \<Rightarrow> ('w, unit result) io" where
  "waitUtilJobCompleted E 0 jobName = return OutOfFuel"
| "waitUtilJobCompleted E (Suc n) jobName = do {
     r \<leftarrow> GetJob E jobName (cfg_Namespace E);
     case r of
       Ok job \<Rightarrow>
         if IsJobCompleted job then do {
           now \<leftarrow> call (os_now E) EvNow;
           if IsJobShouldBeRecycled now job then do {
             _ \<leftarrow> DeleteJob E jobName (cfg_Namespace E); return (Ok ()) }
           else return (Ok ()) }
         else do { emit EvSleep; waitUtilJobCompleted E n jobName }
     | Err e \<Rightarrow>
         if IsNotFound (Some e) then return (Ok ())
         else do {
           ce \<leftarrow> call (os_ctx_err E) EvCtxErr;
           if ce = Some CtxDeadlineExceeded \<or> ce = Some CtxCanceled then job_incomplete E jobName
           else return (Err (MsgErr (''waitUtilJobCompleted: Get job '' @ jobName @ '' failed: '' @ err_str e))) }
     | Panic \<Rightarrow> return Panic
     | OutOfFuel \<Rightarrow> return OutOfFuel }"

definition DeleteVolume :: "'w env \<Rightarrow> codec \<Rightarrow> string \<Rightarrow> nat \<Rightarrow> DfsSetting \<Rightarrow> ('w, unit result) io" where
  "DeleteVolume E C mountImage fuel s =
     bindE (return (NewJobForDeleteVolume E C mountImage s)) (\<lambda>(job, s).
     bindE (do {
         r \<leftarrow> GetJob E (job_Name job) (job_Namespace job);
         if IsNotFound (err_of r) then CreateJob E job else return r }) (\<lambda>exist.
     bindE (return (NewSecret s)) (\<lambda>secret.
     bindE (createOrUpdateSecret E (SetJobAsOwner secret exist)) (\<lambda>_. do {
       r \<leftarrow> waitUtilJobCompleted E fuel (job_Name job);
       case r of
         Err e \<Rightarrow> do { _ \<leftarrow> DeleteJob E (job_Name job) (job_Namespace job); return (Err e) }
       | _ \<Rightarrow> return r }))))"

definition JUmount :: "'w env \<Rightarrow> string \<Rightarrow> string \<Rightarrow> ('w, unit result) io" where
  "JUmount E target podName =
     RetryOnConflict (cfg_ConflictRetries E) (do {
       r \<leftarrow> GetPod E podName (cfg_Namespace E);
       case r of
         Ok po \<Rightarrow>
           if GetRef po \<noteq> 0 then return (Ok ())
           else do {
             (shouldDelay, e) \<leftarrow> ShouldDelay E po;
             case e of
               Some er \<Rightarrow> return (Err er)
             | None \<Rightarrow>
                 if \<not> shouldDelay then do {
                   d \<leftarrow> DeletePod E po;
                   case d of
                     Some er \<Rightarrow> return (Err er)
                   | None \<Rightarrow> do {
                       _ \<leftarrow> DeleteSecret E (pod_Name po @ ''-secret'') (pod_Namespace po);
                       return (Ok ()) } }
                 else return (Ok ()) }
       | Err e \<Rightarrow> if IsNotFound (Some e) then return (Ok ()) else return (Err e)
       | Panic \<Rightarrow> return Panic
       | OutOfFuel \<Rightarrow> return OutOfFuel })"

text \<open>The end of an attempt of \<open>DUmount\<close>: without delay the pod, its secret and its service go.\<close>

definition dumount_delete :: "'w env \<Rightarrow> string \<Rightarrow> Pod \<Rightarrow> bool \<times> err option \<Rightarrow> ('w, unit result) io" where
  "dumount_delete E podName po delay =
     (case snd delay of
        Some er \<Rightarrow> return (Err er)
      | None \<Rightarrow>
          if \<not> fst delay then do {
            d \<leftarrow> DeletePod E po;
            case d of
              Some er \<Rightarrow> return (Err er)
            | None \<Rightarrow> do {
                _ \<leftarrow> DeleteSecret E (pod_Name po @ ''-secret'') (pod_Namespace po);
                case last_bytes 6 podName of
                  Ok serviceUniqueId \<Rightarrow> do {
                    _ \<leftarrow> DeleteService E (service_name (cfg_NodeName E) serviceUniqueId) (pod_Namespace po);
                    return (Ok ()) }
                | _ \<Rightarrow> return Panic } }
          else return (Ok ()))"

definition dumount_once :: "'w env \<Rightarrow> string \<Rightarrow> ('w, unit result) io" where
  "dumount_once E podName = do {
     r \<leftarrow> GetPod E podName (cfg_Namespace E);
     case r of
       Ok po \<Rightarrow>
         if GetRef po \<noteq> 0 then return (Ok ())
         else do { delay \<leftarrow> ShouldDelay E po; dumount_delete E podName po delay }
     | Err e \<Rightarrow> if IsNotFound (Some e) then return (Ok ()) else return (Err e)
     | Panic \<Rightarrow> return Panic
     | OutOfFuel \<Rightarrow> return OutOfFuel }"

definition DUmount :: "'w env \<Rightarrow> string \<Rightarrow> string \<Rightarrow> ('w, unit result) io" where
  "DUmount E target podName = RetryOnConflict (cfg_ConflictRetries E) (dumount_once E podName)"

text \<open>One attempt to remove the reference of a target from a pod.\<close>

definition del_ref_once :: "'w env \<Rightarrow> Pod \<Rightarrow> string \<Rightarrow> ('w, unit result) io" where
  "del_ref_once E pod key =
     bindE (GetPod E (pod_Name pod) (pod_Namespace pod)) (\<lambda>po.
       if \<not> mhas (annos po) key then return (Ok ())
       else do { e \<leftarrow> DelPodAnnotation E pod [key]; return (result_of e) })"

definition UmountTarget :: "'w env \<Rightarrow> nat \<Rightarrow> string \<Rightarrow> string \<Rightarrow> ('w, unit result) io" where
  "UmountTarget E fuel target podName =
     bindE (umount_stale E fuel target) (\<lambda>_. do {
       c \<leftarrow> call (mnt_cleanup E target) (EvCleanupMountPoint target);
       case c of
         Some e \<Rightarrow> return (Err e)
       | None \<Rightarrow>
           if podName = [] then return (Ok ())
           else do {
             r \<leftarrow> GetPod E podName (cfg_Namespace E);
             case r of
               Ok pod \<Rightarrow> RetryOnConflict (cfg_ConflictRetries E) (del_ref_once E pod (GetReferenceKey target))
             | Err e \<Rightarrow> if IsNotFound (Some e) then return (Ok ()) else return (Err e)
             | Panic \<Rightarrow> return Panic
             | OutOfFuel \<Rightarrow> return OutOfFuel } })"

definition GetMountRef :: "'w env \<Rightarrow> string \<Rightarrow> string \<Rightarrow> ('w, nat result) io" where
  "GetMountRef E target podName = do {
     r \<leftarrow> GetPod E podName (cfg_Namespace E);
     return (case r of
         Ok pod \<Rightarrow> Ok (GetRef pod)
       | Err e \<Rightarrow> if IsNotFound (Some e) then Ok 0 else Err e
       | Panic \<Rightarrow> Panic | OutOfFuel \<Rightarrow> OutOfFuel) }"

text \<open>The name of the volume is dropped when the cleaning job ends with an error: \<open>CleanCache\<close> returns nil.\<close>

definition CleanCache_op ::
  "'w env \<Rightarrow> codec \<Rightarrow> string \<Rightarrow> nat \<Rightarrow> string \<Rightarrow> string \<Rightarrow> string \<Rightarrow> string list \<Rightarrow> ('w, unit result) io" where
  "CleanCache_op E C mountImage fuel img fsId volumeId cacheDirs =
     bindE (return (ParseSetting E C mountImage (Some [(''name'', fsId)]) None (Some []) None None)) (\<lambda>s.
     bindE (return (attr_of s)) (\<lambda>attr.
       let attr = attr\<lparr>pa_Image := img\<rparr>;
           s = s\<lparr>Attr := Some attr, VolumeId := volumeId, CacheDirs := cacheDirs, FSID := fsId\<rparr>
       in do {
         job \<leftarrow> NewJobForCleanCache E s attr;
         r \<leftarrow> GetJob E (job_Name job) (job_Namespace job);
         bindE (if IsNotFound (err_of r) then CreateJob E job else return r) (\<lambda>_. do {
           w \<leftarrow> waitUtilJobCompleted E fuel (job_Name job);
           case w of
             Err _ \<Rightarrow> do { _ \<leftarrow> DeleteJob E (job_Name job) (job_Namespace job); return (Ok ()) }
           | _ \<Rightarrow> return w }) }))"

section \<open>Lemmas\<close>

subsection \<open>Retries\<close>

text \<open>
  The trace of an operation that is retried on conflict: at most \<open>n\<close> attempts that end in a
  conflict, each followed by the back-off, and a last attempt that gives the result.
\<close>

definition retry_trace :: "nat \<Rightarrow> (event list \<Rightarrow> 'a result \<Rightarrow> bool) \<Rightarrow> event list \<Rightarrow> 'a result \<Rightarrow> bool" where
  "retry_trace n A es r \<longleftrightarrow> (\<exists>atts last. es = concat (map (\<lambda>a. a @ [EvSleep]) atts) @ last \<and>
     length atts \<le> n \<and> (\<forall>a\<in>set atts. \<exists>r'. A a r' \<and> IsConflict (err_of r')) \<and> A last r)"

lemma wp_retry_trace:
  assumes "wp trace fn A"
  shows "wp trace (RetryOnConflict n fn) (retry_trace n A)"
proof (induction n)
  case 0
  show ?case
    by (auto simp: retry_trace_def intro: wp_mono [OF assms])
next
  case (Suc n)
  have cons: "retry_trace n A es' r \<Longrightarrow> A es r' \<Longrightarrow> IsConflict (err_of r') \<Longrightarrow>
      retry_trace (Suc n) A (es @ EvSleep # es') r" for es es' r r'
  proof -
    assume "retry_trace n A es' r" and a: "A es r'" "IsConflict (err_of r')"
    then obtain atts last where "es' = concat (map (\<lambda>a. a @ [EvSleep]) atts) @ last"
      "length atts \<le> n" "\<forall>a\<in>set atts. \<exists>r'. A a r' \<and> IsConflict (err_of r')" "A last r"
      by (auto simp: retry_trace_def)
    with a show "retry_trace (Suc n) A (es @ EvSleep # es') r"
      unfolding retry_trace_def by (intro exI [of _ "es # atts"] exI [of _ last]) auto
  qed
  have single: "A es r \<Longrightarrow> retry_trace (Suc n) A es r" for es r
    by (auto simp: retry_trace_def intro: exI [of _ "[]"])
  have "wp trace fn (\<lambda>es r. wp trace (if IsConflict (err_of r) then do { emit EvSleep; RetryOnConflict n fn }
      else return r) (\<lambda>es'. retry_trace (Suc n) A (es @ es')))"
    by (rule wp_mono [OF assms])
       (auto intro!: wp_bind wp_emit wp_return wp_mono [OF Suc.IH] intro: cons single)
  then show ?case by (auto intro!: wp_bind)
qed

text \<open>What every attempt has of its events, the whole trace has.\<close>

lemma retry_trace_all:
  "retry_trace n A es r \<Longrightarrow> (\<And>a r'. A a r' \<Longrightarrow> list_all P a) \<Longrightarrow> P EvSleep \<Longrightarrow> list_all P es"
  by (auto simp: retry_trace_def list_all_iff split: if_splits) blast+

lemma retry_trace_last: "retry_trace n A es r \<Longrightarrow> \<exists>pre last. es = pre @ last \<and> A last r"
  by (auto simp: retry_trace_def)

subsection \<open>References as a set\<close>

text \<open>The targets a map of annotations refers to.\<close>

definition refs :: "string smap \<Rightarrow> string set" where
  "refs m = {target. map_of m (GetReferenceKey target) = Some target}"

definition del_ref :: "string smap \<Rightarrow> string \<Rightarrow> string smap" where
  "del_ref m target = mdel m (GetReferenceKey target)"

definition ref_count :: "string smap \<Rightarrow> nat" where
  "ref_count m = fold (\<lambda>(k, target) res. if k = GetReferenceKey target then res + 1 else res) m 0"

lemma ref_count_filter: "ref_count m = length (filter (\<lambda>(k, t). k = GetReferenceKey t) m)"
proof -
  have "fold (\<lambda>(k, target) res. if k = GetReferenceKey target then res + 1 else res) xs n =
      n + length (filter (\<lambda>(k, t). k = GetReferenceKey t) xs)" for xs n
    by (induction xs arbitrary: n) (auto split: if_splits)
  from this [of m 0] show ?thesis by (simp add: ref_count_def)
qed

lemma refs_image: "wf_map m \<Longrightarrow> refs m = snd ` set (filter (\<lambda>(k, t). k = GetReferenceKey t) m)"
  by (force simp: refs_def wf_map_def)

lemma ref_count_card: "wf_map m \<Longrightarrow> ref_count m = card (refs m)"
proof -
  assume wf: "wf_map m"
  let ?f = "filter (\<lambda>(k, t). k = GetReferenceKey t) m"
  have "distinct (map fst ?f)" using wf unfolding wf_map_def by (rule distinct_map_filter)
  then have d: "distinct ?f" by (simp add: distinct_map)
  have "inj_on snd (set ?f)" by (auto simp: inj_on_def)
  then have "card (snd ` set ?f) = card (set ?f)" by (rule card_image)
  with distinct_card [OF d] show ?thesis by (simp only: ref_count_filter refs_image [OF wf])
qed

lemma GetReferenceKey_DeleteDelayAt [simp]:
  "GetReferenceKey t \<noteq> DeleteDelayAtKey" "DeleteDelayAtKey \<noteq> GetReferenceKey t"
proof -
  have "length DeleteDelayAtKey \<noteq> 63" by (simp add: DeleteDelayAtKey_def)
  then show "GetReferenceKey t \<noteq> DeleteDelayAtKey" by (rule GetReferenceKey_neq_length)
  then show "DeleteDelayAtKey \<noteq> GetReferenceKey t" by simp
qed

lemma refs_add_ref:
  "refs (add_ref m t) = insert t (refs m - {t'. GetReferenceKey t' = GetReferenceKey t})"
  by (auto simp: refs_def add_ref_def AList.delete_conv' AList.update_conv')

lemma refs_del_ref: "refs (del_ref m t) = refs m - {t'. GetReferenceKey t' = GetReferenceKey t}"
  by (auto simp: refs_def del_ref_def AList.delete_conv')

lemma finite_refs: "wf_map m \<Longrightarrow> finite (refs m)"
  by (simp add: refs_image)

text \<open>
  The contract of a reference store: adding and removing a reference by its key, and a
  count that is zero exactly when nothing refers to the store. Targets with the same key
  replace each other.
\<close>

locale ref_store =
  fixes key :: "'t \<Rightarrow> 'k"
    and ok :: "'s \<Rightarrow> bool"
    and set_of :: "'s \<Rightarrow> 't set"
    and add :: "'s \<Rightarrow> 't \<Rightarrow> 's"
    and del :: "'s \<Rightarrow> 't \<Rightarrow> 's"
    and count :: "'s \<Rightarrow> nat"
  assumes ok_add: "ok s \<Longrightarrow> ok (add s t)"
    and ok_del: "ok s \<Longrightarrow> ok (del s t)"
    and set_add: "ok s \<Longrightarrow> set_of (add s t) = insert t (set_of s - {t'. key t' = key t})"
    and set_del: "ok s \<Longrightarrow> set_of (del s t) = set_of s - {t'. key t' = key t}"
    and fin: "ok s \<Longrightarrow> finite (set_of s)"
    and count_card: "ok s \<Longrightarrow> count s = card (set_of s)"
begin

lemma count_zero: "ok s \<Longrightarrow> count s = 0 \<longleftrightarrow> set_of s = {}"
  by (simp add: count_card fin)

lemma count_add_pos: "ok s \<Longrightarrow> 0 < count (add s t)"
  using count_zero [OF ok_add, of s t] set_add [of s t] by simp

lemma del_add: "ok s \<Longrightarrow> set_of (del (add s t) t) = set_of s - {t'. key t' = key t}"
  by (auto simp: set_del set_add ok_add)

text \<open>Without collisions of keys, adds and removes of a list of targets act as on sets.\<close>

lemma fold_add:
  "ok s \<Longrightarrow> inj_on key (set_of s \<union> set ts) \<Longrightarrow> set_of (foldl add s ts) = set_of s \<union> set ts \<and> ok (foldl add s ts)"
proof (induction ts arbitrary: s)
  case Nil
  then show ?case by simp
next
  case (Cons t ts)
  have eq: "set_of (add s t) = insert t (set_of s)"
    using Cons.prems by (auto simp: set_add inj_on_def)
  then have "inj_on key (set_of (add s t) \<union> set ts)" using Cons.prems(2) by simp
  with Cons.IH [OF ok_add [OF Cons.prems(1)]] eq show ?case by auto
qed

lemma fold_add_del:
  assumes "ok s" "set_of s = {}" "inj_on key (set ts)"
  shows "count (foldl del (foldl add s ts) ts) = 0"
proof -
  have del: "ok s \<Longrightarrow> set_of (foldl del s us) \<subseteq> set_of s - {t. key t \<in> key ` set us} \<and> ok (foldl del s us)" for s us
  proof (induction us arbitrary: s)
    case Nil
    then show ?case by simp
  next
    case (Cons u us)
    from Cons.IH [OF ok_del [OF Cons.prems]] show ?case
      using set_del [OF Cons.prems, of u] by fastforce
  qed
  have "set_of (foldl add s ts) = set ts" "ok (foldl add s ts)"
    using fold_add [of s ts] assms by auto
  with del [of "foldl add s ts" ts] show ?thesis by (auto simp: count_zero)
qed

end

interpretation annotations: ref_store GetReferenceKey wf_map refs add_ref del_ref ref_count
proof
  show "wf_map s \<Longrightarrow> wf_map (add_ref s t)" for s t by (simp add: add_ref_def)
  show "wf_map s \<Longrightarrow> wf_map (del_ref s t)" for s t by (simp add: del_ref_def)
qed (rule refs_add_ref refs_del_ref finite_refs ref_count_card; assumption?)+

subsection \<open>Attempts\<close>

lemma GetRef_count: "GetRef pod = ref_count (annos pod)"
  by (simp add: GetRef_def ref_count_def)

lemma GetAllRefKeys_count: "wf_map (annos pod) \<Longrightarrow> length (GetAllRefKeys pod) = GetRef pod"
  by (simp add: GetAllRefKeys_filter GetRef_count ref_count_filter)

text \<open>An attempt of \<open>AddRefOfMount\<close>: it reads the pod and, when the pod lives and has no
  reference for the key, replaces the annotations by those read with the reference added.\<close>

definition addref_attempt :: "'w env \<Rightarrow> string \<Rightarrow> string \<Rightarrow> event list \<Rightarrow> unit result \<Rightarrow> bool" where
  "addref_attempt E target podName es r \<longleftrightarrow>
     (\<exists>g. es = [EvGetPod (cfg_Namespace E) podName g] \<and>
        (case g of
           Ok p \<Rightarrow> if pod_DeletionTimestamp p = None then mhas (annos p) (GetReferenceKey target) \<and> r = Ok ()
                   else \<exists>msg. r = Err (MsgErr msg)
         | Err e \<Rightarrow> r = Err e | Panic \<Rightarrow> r = Panic | OutOfFuel \<Rightarrow> r = OutOfFuel)) \<or>
     (\<exists>p e. es = [EvGetPod (cfg_Namespace E) podName (Ok p),
                 EvPatchPod (pod_Namespace p) (pod_Name p)
                   (JSONPatch [PatchMapValue ''replace'' ''/metadata/annotations'' (add_ref (annos p) target)]) e] \<and>
        pod_DeletionTimestamp p = None \<and> \<not> mhas (annos p) (GetReferenceKey target) \<and> r = result_of e)"

lemma wp_AddRefOfMount:
  "wp trace (AddRefOfMount E target podName)
     (retry_trace (cfg_ConflictRetries E) (addref_attempt E target podName))"
  unfolding AddRefOfMount_def Let_def
  by (rule wp_retry_trace)
     (auto intro!: wp_bindE wp_bind wp_return wp_client simp: ReplacePodAnnotation_def
       addref_attempt_def split: result.splits)

text \<open>An attempt of \<open>DUmount\<close> deletes the pod it read, and only without references.\<close>

definition dumount_attempt :: "'w env \<Rightarrow> string \<Rightarrow> event list \<Rightarrow> unit result \<Rightarrow> bool" where
  "dumount_attempt E podName es r \<longleftrightarrow>
     (\<exists>g rest. es = EvGetPod (cfg_Namespace E) podName g # rest \<and>
        (\<forall>ns n e. EvDeletePod ns n e \<in> set rest \<longrightarrow>
           (\<exists>p. g = Ok p \<and> GetRef p = 0 \<and> ns = pod_Namespace p \<and> n = pod_Name p)) \<and>
        (\<forall>ns n e. EvDeleteService ns n e \<in> set rest \<or> EvDeleteSecret ns n e \<in> set rest \<longrightarrow>
           (\<exists>p. g = Ok p \<and> EvDeletePod (pod_Namespace p) (pod_Name p) None \<in> set rest)))"

text \<open>\<open>ShouldDelay\<close> reads the clock and at most sets the time of deletion.\<close>

definition delay_event :: "Pod \<Rightarrow> event \<Rightarrow> bool" where
  "delay_event pod ev \<longleftrightarrow> (\<exists>t. ev = EvNow t) \<or>
     (\<exists>d e. ev = EvPatchPod (pod_Namespace pod) (pod_Name pod)
              (StrategicMergePatch ''annotations'' [(DeleteDelayAtKey, d)]) e)"

lemma delay_event_simps [simp]:
  "delay_event pod (EvNow t)"
  "delay_event pod (EvPatchPod (pod_Namespace pod) (pod_Name pod)
     (StrategicMergePatch ''annotations'' [(DeleteDelayAtKey, d)]) e)"
  "\<not> delay_event pod (EvDeletePod ns n e)" "\<not> delay_event pod (EvDeleteService ns n e)"
  "\<not> delay_event pod (EvDeleteSecret ns n e)" "\<not> delay_event pod (EvCreatePod p e)"
  "\<not> delay_event pod (EvGetPod ns n g)"
  by (simp_all add: delay_event_def)

lemma wp_GetTimeAfterDelay:
  "wp trace (GetTimeAfterDelay E d) (\<lambda>es r. list_all (delay_event pod) es)"
  unfolding GetTimeAfterDelay_def
  by (auto intro!: wp_bind wp_call wp_return split: option.splits)

lemma wp_ShouldDelay:
  "wp trace (ShouldDelay E pod) (\<lambda>es r. list_all (delay_event pod) es \<and>
     (fst r = False \<longrightarrow> snd r = None) \<and>
     (map_of (annos pod) DeleteDelayTimeKey = None \<longrightarrow> es = [] \<and> fst r = False))"
  unfolding ShouldDelay_def
  by (auto intro!: wp_bind wp_call wp_return wp_client wp_mono [OF wp_GetTimeAfterDelay [where pod = pod]]
      simp: AddPodAnnotation_def split: option.splits result.splits)

lemma list_allD: "list_all P xs \<Longrightarrow> x \<in> set xs \<Longrightarrow> P x"
  by (auto simp: list_all_iff)

lemma wp_dumount_delete:
  "wp trace (dumount_delete E podName po delay) (\<lambda>es r.
     (\<forall>ns n e. EvDeletePod ns n e \<in> set es \<longrightarrow> ns = pod_Namespace po \<and> n = pod_Name po) \<and>
     (\<forall>ns n e. EvDeleteService ns n e \<in> set es \<or> EvDeleteSecret ns n e \<in> set es \<longrightarrow>
        EvDeletePod (pod_Namespace po) (pod_Name po) None \<in> set es))"
  unfolding dumount_delete_def
  by (auto intro!: wp_bind wp_client wp_return split: result.splits option.splits)

lemma wp_dumount_once: "wp trace (dumount_once E podName) (dumount_attempt E podName)"
  unfolding dumount_once_def
  by (auto intro!: wp_bind wp_client wp_return wp_mono [OF wp_ShouldDelay] wp_mono [OF wp_dumount_delete]
        split: result.splits) (auto simp: dumount_attempt_def dest: list_allD)

subsection \<open>Mounting\<close>

text \<open>The events that change pods.\<close>

definition pod_mutation :: "event \<Rightarrow> bool" where
  "pod_mutation ev \<longleftrightarrow> (case ev of EvCreatePod _ _ \<Rightarrow> True | EvPatchPod _ _ _ _ \<Rightarrow> True
     | EvDeletePod _ _ _ \<Rightarrow> True | _ \<Rightarrow> False)"

text \<open>The events after which a living pod has the reference of a target.\<close>

definition registers :: "string \<Rightarrow> event \<Rightarrow> bool" where
  "registers target ev \<longleftrightarrow> (case ev of
       EvCreatePod p e \<Rightarrow> e = None \<and> target \<in> refs (annos p)
     | EvPatchPod _ _ d e \<Rightarrow> e = None \<and>
         (case d of JSONPatch [PatchMapValue _ _ m] \<Rightarrow> target \<in> refs m | _ \<Rightarrow> False)
     | EvGetPod _ _ g \<Rightarrow>
         (case g of Ok p \<Rightarrow> pod_DeletionTimestamp p = None \<and> mhas (annos p) (GetReferenceKey target) | _ \<Rightarrow> False)
     | _ \<Rightarrow> False)"

text \<open>A created pod is as the driver needs it: reference of the target, hash label, finalizer.\<close>

definition creates_well :: "string \<Rightarrow> string \<Rightarrow> event \<Rightarrow> bool" where
  "creates_well target hashVal ev \<longleftrightarrow> (case ev of
       EvCreatePod p _ \<Rightarrow> target \<in> refs (annos p) \<and> map_of (pod_Labels p) PodHashLabelKey = Some hashVal \<and>
         Finalizer \<in> set (pod_Finalizers p)
     | _ \<Rightarrow> True)"

lemma pod_mutation_simps [simp]:
  "pod_mutation (EvCreatePod po e)" "pod_mutation (EvPatchPod ns n d e)" "pod_mutation (EvDeletePod ns n e)"
  "\<not> pod_mutation (EvGetPod ns n g)" "\<not> pod_mutation EvSleep" "\<not> pod_mutation (EvStat p se)"
  "\<not> pod_mutation (EvWait w)" "\<not> pod_mutation (EvUmountLazy p u)" "\<not> pod_mutation (EvPodLog n c)"
  "\<not> pod_mutation (EvCreateConfigMap ns n e)" "\<not> pod_mutation (EvListNode l)"
  "\<not> pod_mutation (EvGetSecret ns n sg)" "\<not> pod_mutation (EvCreateSecret sec e)"
  "\<not> pod_mutation (EvUpdateSecret sec e)" "\<not> pod_mutation (EvPathExists p b)"
  "\<not> pod_mutation (EvMkdirAll p e)" "\<not> pod_mutation (EvListPod ns ls fs pl)"
  "\<not> pod_mutation (EvRand i)" "\<not> pod_mutation (EvPortFree i pf)" "\<not> pod_mutation (EvCreateService svc e)"
  "\<not> pod_mutation (EvCleanupMountPoint p e)" "\<not> pod_mutation (EvNow t)" "\<not> pod_mutation (EvGetJob ns n j)"
  "\<not> pod_mutation (EvLock i')" "\<not> pod_mutation (EvUnlock i')"
  by (simp_all add: pod_mutation_def)

lemma creates_well_mut: "\<not> pod_mutation ev \<Longrightarrow> creates_well t h ev"
  by (auto simp: pod_mutation_def creates_well_def split: event.splits)

abbreviation quiet :: "event list \<Rightarrow> bool" where
  "quiet es \<equiv> list_all (\<lambda>ev. \<not> pod_mutation ev) es"

lemma quiet_creates_well: "quiet es \<Longrightarrow> list_all (creates_well t h) es"
  by (auto simp: list_all_iff creates_well_mut)

lemma quiet_umount_stale: "wp trace (umount_stale E n p) (\<lambda>es r. quiet es)"
proof (induction n)
  case 0
  show ?case by (auto intro!: wp_return)
next
  case (Suc n)
  then show ?case
    by (auto intro!: wp_bind wp_call wp_return split: option.splits elim!: wp_mono)
qed

lemma quiet_wait_mount_ready: "wp trace (wait_mount_ready E n podName p) (\<lambda>es r. quiet es)"
proof (induction n)
  case 0
  show ?case by (auto intro!: wp_return)
next
  case (Suc n)
  show ?case
    by (auto intro!: wp_bind wp_call wp_emit wp_modify wp_return wp_DoWithTimeoutR wp_mono [OF Suc.IH]
        wp_mono [OF quiet_umount_stale] split: result.splits)
qed

lemma quiet_GetErrContainerLog: "wp trace (GetErrContainerLog E podName) (\<lambda>es r. quiet es)"
  unfolding GetErrContainerLog_def
  by (auto intro!: wp_bindE wp_client wp_return split: result.splits option.splits)

lemma quiet_waitUtilMountReady: "wp trace (waitUtilMountReady E fuel s podName) (\<lambda>es r. quiet es)"
  unfolding waitUtilMountReady_def WaitUtilMountReady_def
  by (auto intro!: wp_bind wp_return wp_mono [OF quiet_wait_mount_ready]
      wp_mono [OF quiet_GetErrContainerLog] split: result.splits)

lemma quiet_make_mount_dir: "wp trace (make_mount_dir E fuel p) (\<lambda>es r. quiet es)"
  unfolding make_mount_dir_def
  by (auto intro!: wp_bind wp_call wp_return wp_mono [OF quiet_umount_stale] split: result.splits option.splits)

lemma quiet_CreateOrUpdateSecret: "wp trace (CreateOrUpdateSecret E secret) (\<lambda>es r. quiet es)"
  unfolding CreateOrUpdateSecret_def
  by (rule wp_mono [OF wp_retry_trace [where A = "\<lambda>es r. quiet es"]])
     (auto intro!: wp_bind wp_client wp_return split: result.splits dest: retry_trace_all)

lemma quiet_RandStringRunes: "wp trace (RandStringRunes E n) (\<lambda>es r. quiet es)"
  by (induction n) (auto intro!: wp_bind wp_call wp_return elim!: wp_mono)

lemma quiet_GenMountPodName: "wp trace (GenMountPodName E s) (\<lambda>es r. quiet es)"
  unfolding GenMountPodName_def GenPodNameByUniqueId_def
  by (auto intro!: wp_bindE wp_bind wp_client wp_return wp_mono [OF quiet_RandStringRunes]
      split: result.splits option.splits)

lemma wp_place_pod:
  "wp trace (place_pod E app p) (\<lambda>es p'. quiet es \<and> pod_Annotations p' = pod_Annotations p \<and>
     pod_Labels p' = pod_Labels p \<and> pod_Finalizers p' = pod_Finalizers p \<and> pod_Name p' = pod_Name p)"
  unfolding place_pod_def Let_def
  by (auto intro!: wp_bind wp_client wp_return split: result.splits option.splits)

lemma annos_update [simp]: "annos (p\<lparr>pod_Annotations := Some m\<rparr>) = m"
  by (simp add: annos_def)

lemma refs_mput: "t \<in> refs (mput m (GetReferenceKey t) t)"
  by (simp add: refs_def AList.update_conv')

lemma service_event_quiet: "list_all service_event es \<Longrightarrow> quiet es"
  by (auto simp: list_all_iff service_event_def pod_mutation_def split: event.splits)

lemma registers_simps [simp]:
  "registers t (EvCreatePod p None) \<longleftrightarrow> t \<in> refs (annos p)"
  "registers t (EvPatchPod ns n (JSONPatch [PatchMapValue a b m]) None) \<longleftrightarrow> t \<in> refs m"
  "registers t (EvGetPod ns n (Ok p)) \<longleftrightarrow>
     pod_DeletionTimestamp p = None \<and> mhas (annos p) (GetReferenceKey t)"
  by (simp_all add: registers_def)

lemma creates_well_simps [simp]:
  "creates_well t h (EvCreatePod p e) \<longleftrightarrow> t \<in> refs (annos p) \<and>
     map_of (pod_Labels p) PodHashLabelKey = Some h \<and> Finalizer \<in> set (pod_Finalizers p)"
  "creates_well t h (EvPatchPod ns n d e)" "creates_well t h (EvGetPod ns n g)" "creates_well t h EvSleep"
  "creates_well t h (EvWait w)"
  by (simp_all add: creates_well_def)

lemma config_map_quiet: "\<forall>ev\<in>set es. \<exists>ns n e. ev = EvCreateConfigMap ns n e \<Longrightarrow> quiet es"
  unfolding list_all_iff by (metis pod_mutation_simps(10))

lemma annos_labels [simp]: "annos (p\<lparr>pod_Labels := l\<rparr>) = annos p"
  by (simp add: annos_def)

lemma result_of_Ok [simp]: "result_of e = Ok u \<longleftrightarrow> e = None" "Ok u = result_of e \<longleftrightarrow> e = None"
  by (cases e; simp)+

definition mounts_well :: "string \<Rightarrow> string \<Rightarrow> event list \<Rightarrow> 'a result \<Rightarrow> bool" where
  "mounts_well target hashVal es r \<longleftrightarrow> list_all (creates_well target hashVal) es \<and>
     ((\<exists>x. r = Ok x) \<longrightarrow> list_ex (registers target) es)"

lemma mounts_well_quiet: "quiet es \<Longrightarrow> \<forall>x. r \<noteq> Ok x \<Longrightarrow> mounts_well t h es r"
  by (simp add: mounts_well_def quiet_creates_well)

lemma mounts_well_append: "quiet es \<Longrightarrow> mounts_well t h es' r \<Longrightarrow> mounts_well t h (es @ es') r"
  by (auto simp: mounts_well_def quiet_creates_well)

lemma PodHash_neq_UniqueId [simp]: "PodHashLabelKey \<noteq> PodUniqueIdLabelKey" "PodUniqueIdLabelKey \<noteq> PodHashLabelKey"
  by (simp_all add: PodHashLabelKey_def PodUniqueIdLabelKey_def)

lemma wp_create_placed:
  assumes "TargetPath s \<in> refs (annos p)" "map_of (pod_Labels p) PodHashLabelKey = Some h"
    "Finalizer \<in> set (pod_Finalizers p)"
  shows "wp trace (do { p' \<leftarrow> place_pod E app p;
      bindE (CreateOrUpdateSecret E sec) (\<lambda>_. bindE (CreatePod E p') (\<lambda>_. return (Ok s'))) })
    (mounts_well (TargetPath s) h)"
proof -
  have create: "wp trace (bindE (CreatePod E p') (\<lambda>_. return (Ok s'))) (mounts_well (TargetPath s) h)"
    if "pod_Annotations p' = pod_Annotations p" "pod_Labels p' = pod_Labels p" "pod_Finalizers p' = pod_Finalizers p"
    for p'
  proof -
    have "annos p' = annos p" using that by (simp add: annos_def)
    with that assms show ?thesis
      by (intro wp_bindE wp_mono [OF wp_CreatePod])
         (auto intro!: wp_return simp: mounts_well_def dest!: service_event_quiet
           split: result.splits intro: quiet_creates_well)
  qed
  have secret: "wp trace (bindE (CreateOrUpdateSecret E sec) (\<lambda>_. bindE (CreatePod E p') (\<lambda>_. return (Ok s'))))
      (mounts_well (TargetPath s) h)"
    if "pod_Annotations p' = pod_Annotations p" "pod_Labels p' = pod_Labels p" "pod_Finalizers p' = pod_Finalizers p"
    for p'
    by (intro wp_bindE wp_mono [OF quiet_CreateOrUpdateSecret])
       (auto intro!: wp_mono [OF create [OF that]] mounts_well_append intro: mounts_well_quiet split: result.splits)
  show ?thesis
    by (intro wp_bind wp_mono [OF wp_place_pod])
       (auto intro!: wp_mono [OF secret] mounts_well_append)
qed

lemma wp_create_mount_pod:
  "wp trace (create_mount_pod E C img podName s app sec) (mounts_well (TargetPath s) (HashVal s))"
  unfolding create_mount_pod_def Let_def
  apply (intro wp_bindE wp_mono [OF wp_NewMountPod])
  apply (auto intro!: wp_bindE wp_return mounts_well_quiet split: result.splits dest!: config_map_quiet)
  apply (rule wp_mono [OF wp_create_placed])
     apply (auto simp: refs_mput AList.update_conv' good_mount_pod_def mount_pod_shape_def
      intro!: mounts_well_append)
  done

lemma mounts_well_Nil [simp]: "mounts_well t h [] r \<longleftrightarrow> (\<forall>x. r \<noteq> Ok x)"
  by (auto simp: mounts_well_def)

lemma addref_attempt_registers:
  "addref_attempt E target podName es (Ok ()) \<Longrightarrow> list_ex (registers target) es"
  unfolding addref_attempt_def
proof (elim disjE exE conjE)
  fix g assume es: "es = [EvGetPod (cfg_Namespace E) podName g]"
    and "case g of Ok p \<Rightarrow> if pod_DeletionTimestamp p = None
      then mhas (annos p) (GetReferenceKey target) \<and> Ok () = Ok () else \<exists>msg. Ok () = Err (MsgErr msg)
      | Err e \<Rightarrow> Ok () = Err e | Panic \<Rightarrow> Ok () = Panic | OutOfFuel \<Rightarrow> Ok () = OutOfFuel"
  then show ?thesis by (cases g) (auto split: if_splits)
qed (simp add: refs_add_ref)

lemma AddRef_mounts_well:
  "wp trace (AddRefOfMount E target podName) (mounts_well target h)"
proof (rule wp_mono [OF wp_AddRefOfMount])
  fix es r assume t: "retry_trace (cfg_ConflictRetries E) (addref_attempt E target podName) es r"
  have "list_all (creates_well target h) es"
    by (rule retry_trace_all [OF t]) (auto simp: addref_attempt_def)
  moreover have "r = Ok () \<Longrightarrow> list_ex (registers target) es"
  proof -
    assume r: "r = Ok ()"
    obtain pre last where es: "es = pre @ last" and a: "addref_attempt E target podName last r"
      using retry_trace_last [OF t] by blast
    from a r have "list_ex (registers target) last" by (auto intro: addref_attempt_registers)
    with es show ?thesis by simp
  qed
  ultimately show "mounts_well target h es r" by (auto simp: mounts_well_def)
qed

lemma wp_create_or_add:
  "wp trace (create_or_add E C img n podName s app sec) (mounts_well (TargetPath s) (HashVal s))"
proof (induction n)
  case 0
  show ?case by (auto intro!: wp_return simp: mounts_well_def)
next
  case (Suc n)
  have add: "wp trace (bindE (CreateOrUpdateSecret E sec) (\<lambda>_.
      bindE (AddRefOfMount E (TargetPath s) podName) (\<lambda>_. return (Ok s))))
      (mounts_well (TargetPath s) (HashVal s))"
  proof -
    have "wp trace (bindE (AddRefOfMount E (TargetPath s) podName) (\<lambda>_. return (Ok s)))
        (mounts_well (TargetPath s) (HashVal s))"
      by (intro wp_bindE wp_mono [OF AddRef_mounts_well])
         (auto intro!: wp_return simp: mounts_well_def split: result.splits)
    then show ?thesis
      by (intro wp_bindE wp_mono [OF quiet_CreateOrUpdateSecret])
         (auto intro!: mounts_well_append intro: mounts_well_quiet elim!: wp_mono split: result.splits)
  qed
  have cons: "mounts_well t h es r \<Longrightarrow> mounts_well t h (EvGetPod ns n' g # es) r"
    "mounts_well t h es r \<Longrightarrow> mounts_well t h (EvSleep # es) r" for t h es ns n' g and r :: "'x result"
    by (auto simp: mounts_well_def)
  show ?case
    by (auto intro!: wp_bind wp_client wp_emit wp_return wp_mono [OF Suc.IH] wp_mono [OF add]
        wp_mono [OF wp_create_mount_pod] cons intro: mounts_well_quiet split: result.splits)
qed

lemma wp_createPodOrAddRef:
  "wp trace (createPodOrAddRef E C img fuel podName s app) (mounts_well (TargetPath s) (HashVal s))"
  unfolding createPodOrAddRef_def Let_def
  by (auto intro!: wp_bindE wp_return wp_DoWithTimeoutR wp_mono [OF quiet_make_mount_dir]
      wp_mono [OF wp_create_or_add [where s = "s\<lparr>MountPath := MountPath s @ x, SecretName := y\<rparr>" for x y, simplified]]
      mounts_well_quiet mounts_well_append [of "es @ [EvWait w]" for es w, simplified]
      split: result.splits wait_end.splits)

lemma mounts_well_prefix:
  "list_all (creates_well t h) es \<Longrightarrow> mounts_well t h es' r \<Longrightarrow> mounts_well t h (es @ es') r"
  by (auto simp: mounts_well_def)

lemma mounts_well_fail:
  "list_all (creates_well t h) es \<Longrightarrow> \<forall>x. r \<noteq> Ok x \<Longrightarrow> mounts_well t h es r"
  by (auto simp: mounts_well_def)

lemma wp_SetMountLabel: "wp trace (SetMountLabel E u m n ns) (\<lambda>es r. list_all (creates_well t h) es)"
  unfolding SetMountLabel_def AddPodLabel_def
  by (auto intro!: wp_bindE wp_bind wp_client wp_return split: result.splits)

lemma wp_dmount_locked:
  "wp trace (dmount_locked E C img fuel app s) (mounts_well (TargetPath s) (HashVal s))"
proof -
  have create: "wp trace (bindE (createPodOrAddRef E C img fuel n s app) (\<lambda>s'. return (Ok (s', n))))
      (mounts_well (TargetPath s) (HashVal s))" for n
    by (intro wp_bindE wp_mono [OF wp_createPodOrAddRef])
       (auto intro!: wp_return simp: mounts_well_def split: result.splits)
  have label: "wp trace (case app of
              Some a \<Rightarrow> if app_Name a \<noteq> [] \<and> app_Namespace a \<noteq> []
                        then SetMountLabel E (UniqueId s) n (app_Name a) (app_Namespace a)
                        else return (Ok ())
            | None \<Rightarrow> return (Ok ())) (\<lambda>es r. list_all (creates_well (TargetPath s) (HashVal s)) es)" for n
    by (auto intro!: wp_return wp_SetMountLabel split: option.splits)
  have rest: "wp trace (bindE (case app of
              Some a \<Rightarrow> if app_Name a \<noteq> [] \<and> app_Namespace a \<noteq> []
                        then SetMountLabel E (UniqueId s) n (app_Name a) (app_Namespace a)
                        else return (Ok ())
            | None \<Rightarrow> return (Ok ())) (\<lambda>_.
     bindE (createPodOrAddRef E C img fuel n s app) (\<lambda>s'. return (Ok (s', n)))))
    (mounts_well (TargetPath s) (HashVal s))" for n
    by (intro wp_bindE wp_mono [OF label])
       (auto intro!: wp_mono [OF create] mounts_well_prefix intro: mounts_well_fail split: result.splits)
  show ?thesis
    unfolding dmount_locked_def
    by (intro wp_bindE wp_mono [OF quiet_GenMountPodName])
       (auto intro!: wp_mono [OF rest] mounts_well_append intro: mounts_well_quiet split: result.splits)
qed

text \<open>The trace of \<open>DMount\<close>: the critical section, then a wait that changes no pod.\<close>

definition dmount_trace :: "nat \<Rightarrow> string \<Rightarrow> string \<Rightarrow> event list \<Rightarrow> 'a result \<Rightarrow> bool" where
  "dmount_trace i target hashVal es r \<longleftrightarrow> (\<exists>inner rest. es = EvLock i # inner @ EvUnlock i # rest \<and>
     quiet rest \<and> mounts_well target hashVal inner r)"

lemma dmount_trace_fail:
  "mounts_well t h inner r \<Longrightarrow> \<forall>x. r' \<noteq> Ok x \<Longrightarrow> dmount_trace i t h (EvLock i # inner @ [EvUnlock i]) r'"
  unfolding dmount_trace_def mounts_well_def by (rule exI [of _ inner], rule exI [of _ "[]"]) simp

lemma dmount_trace_ok:
  "mounts_well t h inner (Ok x) \<Longrightarrow> quiet rest \<Longrightarrow> dmount_trace i t h (EvLock i # inner @ EvUnlock i # rest) r'"
  unfolding dmount_trace_def mounts_well_def by (rule exI [of _ inner], rule exI [of _ rest]) simp

lemma wp_DMount:
  "wp trace (DMount E C img fuel app s)
     (dmount_trace (GetPodLock (GenHashOfSetting C s)) (TargetPath s) (GenHashOfSetting C s))"
proof -
  let ?h = "GenHashOfSetting C s"
  have wait: "wp trace (bindE (waitUtilMountReady E fuel s' n) (\<lambda>_. return (Ok s')))
      (\<lambda>es r. dmount_trace i t h (EvLock i # inner @ EvUnlock i # es) r)"
    if "mounts_well t h inner (Ok x)" for s' n i t h inner and x :: 'x
    by (intro wp_bindE wp_mono [OF quiet_waitUtilMountReady])
       (auto intro!: wp_return dmount_trace_ok [OF that] split: result.splits)
  have "wp trace (locked (GetPodLock ?h) (dmount_locked E C img fuel app (s\<lparr>HashVal := ?h\<rparr>)))
      (\<lambda>es r. \<exists>inner. es = EvLock (GetPodLock ?h) # inner @ [EvUnlock (GetPodLock ?h)] \<and>
        mounts_well (TargetPath s) ?h inner r)"
    by (intro wp_locked wp_mono [OF wp_dmount_locked]) simp
  then show ?thesis
    unfolding DMount_def Let_def
    by (intro wp_bindE) (erule wp_mono, auto intro: wait dmount_trace_fail split: result.splits)
qed

text \<open>What unmounting a target does: lazy unmounts and cleanup of that path, and removing the one
  annotation with its key from the pod.\<close>

definition only_unmounts :: "string \<Rightarrow> event \<Rightarrow> bool" where
  "only_unmounts target ev \<longleftrightarrow> (case ev of
       EvUmountLazy p _ \<Rightarrow> p = target
     | EvCleanupMountPoint p _ \<Rightarrow> p = target
     | EvGetPod _ _ _ \<Rightarrow> True
     | EvSleep \<Rightarrow> True
     | EvPatchPod _ _ d _ \<Rightarrow> d = JSONPatch [PatchDelValue ''remove'' (''/metadata/annotations/'' @ GetReferenceKey target)]
     | _ \<Rightarrow> False)"

lemma only_unmounts_simps [simp]:
  "only_unmounts t (EvUmountLazy p u) \<longleftrightarrow> p = t" "only_unmounts t (EvCleanupMountPoint p e) \<longleftrightarrow> p = t"
  "only_unmounts t (EvGetPod ns n g)" "only_unmounts t EvSleep"
  "only_unmounts t (EvPatchPod ns n d e) \<longleftrightarrow>
     d = JSONPatch [PatchDelValue ''remove'' (''/metadata/annotations/'' @ GetReferenceKey t)]"
  by (simp_all add: only_unmounts_def)

lemma wp_umount_stale_only: "wp trace (umount_stale E n t) (\<lambda>es r. list_all (only_unmounts t) es)"
proof (induction n)
  case 0
  show ?case by (auto intro!: wp_return)
next
  case (Suc n)
  then show ?case
    by (auto intro!: wp_bind wp_call wp_return split: option.splits elim!: wp_mono)
qed

lemma wp_del_ref_once: "wp trace (RetryOnConflict n (del_ref_once E pod (GetReferenceKey t)))
    (\<lambda>es r. list_all (only_unmounts t) es)"
proof -
  have "wp trace (del_ref_once E pod (GetReferenceKey t)) (\<lambda>es r. list_all (only_unmounts t) es)"
    unfolding del_ref_once_def DelPodAnnotation_def
    by (auto intro!: wp_bindE wp_bind wp_client wp_return split: result.splits)
  then show ?thesis
    by (intro wp_mono [OF wp_retry_trace]) (auto dest: retry_trace_all)
qed

lemma wp_UmountTarget: "wp trace (UmountTarget E fuel target podName) (\<lambda>es r. list_all (only_unmounts target) es)"
  unfolding UmountTarget_def
  by (intro wp_bindE wp_mono [OF wp_umount_stale_only])
     (auto intro!: wp_bind wp_call wp_client wp_return wp_mono [OF wp_del_ref_once] split: result.splits option.splits)

lemma wp_UmountTarget_nameless: "wp trace (UmountTarget E fuel target podName) (\<lambda>es r. podName = [] \<longrightarrow> quiet es)"
proof (cases podName)
  case Nil
  then show ?thesis
    unfolding UmountTarget_def
    by (intro wp_bindE wp_mono [OF quiet_umount_stale])
       (auto intro!: wp_bind wp_call wp_return split: result.splits option.splits)
next
  case (Cons c cs)
  then show ?thesis by (intro wp_mono [OF wp_UmountTarget]) simp
qed

lemma wp_DUmount: "wp trace (DUmount E target podName) (retry_trace (cfg_ConflictRetries E) (dumount_attempt E podName))"
  unfolding DUmount_def by (rule wp_retry_trace) (rule wp_dumount_once)

section \<open>Properties\<close>

text \<open>C3: \<open>DMount\<close> works in one critical section of the lock of the settings' hash and changes no pod
  outside it. When it answers without an error, the section contains an event after which a living
  pod holds the reference of the target (a pod created with it, a patch that added it, or a read of
  a pod that has it). Every pod it creates carries the reference, the hash label that names the
  lock and the finalizer.\<close>

theorem DMount_registers_target:
  "wp trace (DMount E C img fuel app s)
     (dmount_trace (GetPodLock (GenHashOfSetting C s)) (TargetPath s) (GenHashOfSetting C s))"
  by (rule wp_DMount)


text \<open>C5: \<open>DUmount\<close> deletes a mount pod only when the pod it read in the same attempt has no
  reference, deletes no other pod, and deletes secrets and services only after the pod was
  deleted.\<close>

theorem DUmount_deletes_unreferenced:
  "wp trace (DUmount E target podName)
     (retry_trace (cfg_ConflictRetries E) (dumount_attempt E podName))"
  by (rule wp_DUmount)

text \<open>C8: \<open>GetRef\<close> counts the targets that refer to a mount pod: the count of its annotations is the
  number of distinct targets, it is positive after a reference was added, and adding the references of
  several targets without key collisions to a pod without references and removing them again
  brings it back to zero.\<close>

theorem GetRef_counts_targets:
  assumes "wf_map m" and "pod_Annotations pod = Some m" and "refs m = {}" and "inj_on GetReferenceKey (set ts)"
  shows "GetRef (pod\<lparr>pod_Annotations := Some (foldl add_ref m ts)\<rparr>) = card (set ts) \<and>
     GetRef (pod\<lparr>pod_Annotations := Some (foldl del_ref (foldl add_ref m ts) ts)\<rparr>) = 0"
proof
  show "GetRef (pod\<lparr>pod_Annotations := Some (foldl add_ref m ts)\<rparr>) = card (set ts)"
    using annotations.fold_add [of m ts] annotations.count_card [of "foldl add_ref m ts"] assms
    by (simp add: GetRef_count annos_def)
  show "GetRef (pod\<lparr>pod_Annotations := Some (foldl del_ref (foldl add_ref m ts) ts)\<rparr>) = 0"
    using annotations.fold_add_del [of m ts] assms by (simp add: GetRef_count annos_def)
qed

theorem GetRef_counts_targets_witness:
  "GetRef (zero_Pod\<lparr>pod_Annotations := Some (foldl add_ref [] [''/pods/a/mount''])\<rparr>) = card (set [''/pods/a/mount''])
   \<and> GetRef (zero_Pod\<lparr>pod_Annotations := Some (foldl del_ref (foldl add_ref [] [''/pods/a/mount'']) [''/pods/a/mount''])\<rparr>) = 0"
  using GetRef_counts_targets [where m = "[]" and pod = "zero_Pod\<lparr>pod_Annotations := Some []\<rparr>" and ts = "[''/pods/a/mount'']"]
  by (simp add: refs_def)

text \<open>\<open>UmountTarget\<close> unmounts and cleans up only the target it is given and changes nothing of a pod
  but the one annotation that refers to this target.\<close>

lemma UmountTarget_only_its_reference:
  "wp trace (UmountTarget E fuel target podName) (\<lambda>es r. list_all (only_unmounts target) es)"
  by (rule wp_UmountTarget)

end
