(* ===== verification/PodDriver.thy ===== *)
theory PodDriver
  imports MountTable MountPods
begin

text \<open>
  The driver of mount pods in the node reconciler, \<open>pkg/controller/pod_driver.go\<close>: it drops
  the references of application pods that are gone, deletes mount pods without references,
  redeploys pods that failed for lack of resources, recreates deleted pods that still have
  references, and repairs the bind mounts of a mount pod that came back. The mount table
  \<open>p.mit\<close> is an argument; goroutines appear in the trace when they are started and are
  operations of their own.
\<close>

section \<open>Definitions\<close>

datatype podStatus = podReady | podError | podDeleted_status | podPending

record Result =
  RequeueImmediately :: bool
  RequeueAfter :: int

definition noResult :: Result where
  "noResult = \<lparr>RequeueImmediately = False, RequeueAfter = 0\<rparr>"

definition requeue :: Result where
  "requeue = \<lparr>RequeueImmediately = True, RequeueAfter = 0\<rparr>"

text \<open>A handler returns a result and an error together.\<close>

type_synonym handled = "(Result \<times> err option) result"

definition defaultTargetMountCounts :: nat where
  "defaultTargetMountCounts = 5"

definition getPodStatus :: "Pod option \<Rightarrow> podStatus" where
  "getPodStatus pod =
     (case pod of
        None \<Rightarrow> podError
      | Some pod \<Rightarrow>
          if pod_DeletionTimestamp pod \<noteq> None then podDeleted_status
          else if IsPodError pod then podError
          else if IsPodReady pod then podReady
          else podPending)"

subsection \<open>References of a mount pod\<close>

text \<open>The loop over the annotations: keys of references whose application pod is gone, and the
  number of references that are alive.\<close>

fun scan_refs :: "mountInfoTable \<Rightarrow> string smap \<Rightarrow> string list \<Rightarrow> nat \<Rightarrow> string list \<times> nat" where
  "scan_refs mit [] delAnnotations existTargets = (delAnnotations, existTargets)"
| "scan_refs mit ((k, target) # rest) delAnnotations existTargets =
     (if k = GetReferenceKey target then
        if \<not> mhas (deletedPods mit) (getPodUid target)
        then scan_refs mit rest (delAnnotations @ [k]) existTargets
        else scan_refs mit rest delAnnotations (existTargets + 1)
      else scan_refs mit rest delAnnotations existTargets)"

definition no_hash_label :: "Pod \<Rightarrow> err" where
  "no_hash_label pod = MsgErr (''pod '' @ pod_Namespace pod @ ''/'' @ pod_Name pod @ '' has no hash label'')"

definition delete_unreferenced :: "'w env \<Rightarrow> Pod \<Rightarrow> ('w, unit result) io" where
  "delete_unreferenced E pod =
     bindE (GetPod E (pod_Name pod) (pod_Namespace pod)) (\<lambda>newPod.
       if length (GetAllRefKeys newPod) \<noteq> 0
       then return (Err (ApiErr Conflict ''can not delete pod''))
       else do {
         d \<leftarrow> DeletePod E pod;
         case d of
           Some er \<Rightarrow> return (Err er)
         | None \<Rightarrow> do {
             _ \<leftarrow> DeleteSecret E (pod_Name pod @ ''-secret'') (pod_Namespace pod);
             return (Ok ()) } })"

definition remove_dead_refs :: "'w env \<Rightarrow> Pod \<Rightarrow> string list \<Rightarrow> ('w, unit result) io" where
  "remove_dead_refs E pod delAnnotations =
     bindE (GetPod E (pod_Name pod) (pod_Namespace pod)) (\<lambda>newPod.
       if length (GetAllRefKeys newPod) \<noteq> length (GetAllRefKeys pod)
       then return (Err (ApiErr Conflict ''can not patch pod''))
       else do { e \<leftarrow> DelPodAnnotation E pod delAnnotations; return (result_of e) })"

text \<open>The keys to remove: dead references, and the time of deletion when a reference is alive.\<close>

definition dead_keys :: "mountInfoTable \<Rightarrow> Pod \<Rightarrow> string list" where
  "dead_keys mit pod =
     (let (dels, n) = scan_refs mit (annos pod) [] 0 in
      if n \<noteq> 0 \<and> mget (annos pod) DeleteDelayAtKey \<noteq> [] then dels @ [DeleteDelayAtKey] else dels)"

definition live_refs :: "mountInfoTable \<Rightarrow> Pod \<Rightarrow> nat" where
  "live_refs mit pod = snd (scan_refs mit (annos pod) [] 0)"

definition delay_or_delete :: "'w env \<Rightarrow> Pod \<Rightarrow> ('w, unit result) io" where
  "delay_or_delete E pod = do {
     delay \<leftarrow> ShouldDelay E pod;
     case snd delay of
       Some er \<Rightarrow> return (Err er)
     | None \<Rightarrow> if \<not> fst delay then delete_unreferenced E pod else return (Ok ()) }"

definition check_annotations_locked :: "'w env \<Rightarrow> mountInfoTable \<Rightarrow> Pod \<Rightarrow> ('w, unit result) io" where
  "check_annotations_locked E mit pod =
     bindE (if length (dead_keys mit pod) \<noteq> 0 then remove_dead_refs E pod (dead_keys mit pod)
            else return (Ok ())) (\<lambda>_.
       if live_refs mit pod = 0 \<and> pod_DeletionTimestamp pod = None then delay_or_delete E pod
       else return (Ok ()))"

definition checkAnnotations :: "'w env \<Rightarrow> mountInfoTable \<Rightarrow> Pod \<Rightarrow> ('w, unit result) io" where
  "checkAnnotations E mit pod =
     (let hashVal = mget (pod_Labels pod) PodHashLabelKey in
      if hashVal = [] then return (Err (no_hash_label pod))
      else locked (GetPodLock hashVal) (check_annotations_locked E mit pod))"

subsection \<open>Pods that failed for lack of resources\<close>

definition mkrMp :: "'w env \<Rightarrow> Pod \<Rightarrow> ('w, unit result) io" where
  "mkrMp E pod =
     bindE (return (GetMountPathOfPod pod)) (\<lambda>(mntPath, _).
       DoWithTimeoutR E (do {
         ex \<leftarrow> call (mnt_path_exists E mntPath) (EvPathExists mntPath);
         if ex \<noteq> Ok True then do { e \<leftarrow> call (os_mkdir_all E mntPath 511) (EvMkdirAll mntPath); return (result_of e) }
         else return (Ok ()) }))"

fun wait_deleted :: "'w env \<Rightarrow> nat \<Rightarrow> Pod \<Rightarrow> ('w, bool result) io" where
  "wait_deleted E 0 pod = return OutOfFuel"
| "wait_deleted E (Suc n) pod = do {
     r \<leftarrow> GetPod E (pod_Name pod) (pod_Namespace pod);
     case r of
       Ok _ \<Rightarrow> do { emit EvSleep; wait_deleted E n pod }
     | Err e \<Rightarrow>
         if IsNotFound (Some e) then return (Ok True)
         else if IsTimeout (Some e) then return (Ok False)
         else do {
           ce \<leftarrow> call (os_ctx_err E) EvCtxErr;
           if ce = Some CtxCanceled \<or> ce = Some CtxDeadlineExceeded then return (Ok False)
           else wait_deleted E n pod }
     | Panic \<Rightarrow> return Panic
     | OutOfFuel \<Rightarrow> return OutOfFuel }"

text \<open>A fresh pod with the metadata and the spec of an old one.\<close>

definition copy_pod :: "Pod \<Rightarrow> Pod" where
  "copy_pod pod =
     AddFinalizer (zero_Pod\<lparr>pod_Name := pod_Name pod, pod_Namespace := pod_Namespace pod,
       pod_Labels := pod_Labels pod, pod_Annotations := pod_Annotations pod, pod_Spec := pod_Spec pod\<rparr>)
       Finalizer"

text \<open>A panic in a call whose error is only logged still ends the handler.\<close>

definition ignoreE :: "('w, 'a result) io \<Rightarrow> ('w, 'b result) io \<Rightarrow> ('w, 'b result) io" where
  "ignoreE m k = do {
     r \<leftarrow> m;
     case r of Panic \<Rightarrow> return Panic | OutOfFuel \<Rightarrow> return OutOfFuel | _ \<Rightarrow> k }"

definition redeploy :: "'w env \<Rightarrow> nat \<Rightarrow> Pod \<Rightarrow> Result \<Rightarrow> ('w, handled) io" where
  "redeploy E fuel pod onTimeout = do {
     _ \<leftarrow> RemoveFinalizer E pod Finalizer;
     d \<leftarrow> DeletePod E pod;
     case d of
       Some _ \<Rightarrow> return (Ok (noResult, None))
     | None \<Rightarrow>
         bindE (wait_deleted E fuel pod) (\<lambda>isDeleted.
           if \<not> isDeleted then return (Ok (onTimeout, None))
           else let newPod = DeleteResourceOfPod (copy_pod pod) in
             ignoreE (mkrMp E newPod) (
             ignoreE (CreatePod E newPod) (return (Ok (noResult, None))))) }"

definition resource_handler :: "'w env \<Rightarrow> nat \<Rightarrow> Pod \<Rightarrow> Result \<Rightarrow> ('w, handled) io" where
  "resource_handler E fuel pod onTimeout =
     (let hashVal = mget (pod_Labels pod) PodHashLabelKey in
      if hashVal = [] then return (Ok (noResult, Some (no_hash_label pod)))
      else locked (GetPodLock hashVal) (
        if IsPodResourceError pod then
          if IsPodHasResource pod then redeploy E fuel pod onTimeout
          else return (Ok (noResult, None))
        else return (Ok (noResult, None))))"

definition podErrorHandler :: "'w env \<Rightarrow> nat \<Rightarrow> Pod \<Rightarrow> ('w, handled) io" where
  "podErrorHandler E fuel pod = resource_handler E fuel pod requeue"

definition podPendingHandler :: "'w env \<Rightarrow> nat \<Rightarrow> Pod \<Rightarrow> ('w, handled) io" where
  "podPendingHandler E fuel pod = resource_handler E fuel pod noResult"

subsection \<open>Deleted pods\<close>

definition applyConfigPatch :: "'w env \<Rightarrow> codec \<Rightarrow> Pod \<Rightarrow> ('w, Pod result) io" where
  "applyConfigPatch E C pod =
     bindE (GenPodAttrWithMountPod E C pod) (\<lambda>attr.
       case Containers (pod_Spec pod) of
         [] \<Rightarrow> return Panic
       | _ # _ \<Rightarrow>
           (let pod = pod\<lparr>pod_Labels := pa_Labels attr, pod_Annotations := Some (pa_Annotations attr),
                  pod_Spec := (pod_Spec pod)\<lparr>HostAliases := pa_HostAliases attr,
                    HostNetwork := pa_HostNetwork attr, HostPID := pa_HostPID attr, HostIPC := pa_HostIPC attr,
                    TerminationGracePeriodSeconds := pa_TerminationGracePeriodSeconds attr\<rparr>\<rparr>
            in return (Ok (upd_c0 (\<lambda>c. c\<lparr>c_Image := pa_Image attr, c_LivenessProbe := pa_LivenessProbe attr,
                 c_ReadinessProbe := pa_ReadinessProbe attr, c_StartupProbe := pa_StartupProbe attr,
                 c_PreStop := pa_Lifecycle attr, c_Requests := Requests (Resources attr),
                 c_Limits := Limits (Resources attr)\<rparr>) pod))))"

definition recreate_pod :: "'w env \<Rightarrow> codec \<Rightarrow> Pod \<Rightarrow> ('w, handled) io" where
  "recreate_pod E C pod = do {
     r \<leftarrow> applyConfigPatch E C (copy_pod pod);
     case r of
       Panic \<Rightarrow> return Panic
     | OutOfFuel \<Rightarrow> return OutOfFuel
     | _ \<Rightarrow>
        (let newPod = (case r of Ok p \<Rightarrow> p | _ \<Rightarrow> copy_pod pod) in
         ignoreE (mkrMp E newPod) (do {
           c \<leftarrow> CreatePod E newPod;
           case c of
             Ok _ \<Rightarrow> return (Ok (requeue, None))
           | Err e \<Rightarrow> return (Ok (requeue, Some e))
           | Panic \<Rightarrow> return Panic
           | OutOfFuel \<Rightarrow> return OutOfFuel })) }"

fun wait_recreate :: "'w env \<Rightarrow> codec \<Rightarrow> nat \<Rightarrow> Pod \<Rightarrow> string smap \<Rightarrow> ('w, handled) io" where
  "wait_recreate E C 0 pod existTargets = return OutOfFuel"
| "wait_recreate E C (Suc n) pod existTargets = do {
     r \<leftarrow> GetPod E (pod_Name pod) (pod_Namespace pod);
     case r of
       Ok po \<Rightarrow>
         if pod_DeletionTimestamp po \<noteq> None then do { emit EvSleep; wait_recreate E C n pod existTargets }
         else do {
           _ \<leftarrow> ReplacePodAnnotation E pod (mputs (annos po) existTargets);
           return (Ok (noResult, None)) }
     | Err e \<Rightarrow>
         if IsTimeout (Some e) then
           return (Ok (noResult, Some (MsgErr (''old pod '' @ pod_Name pod @ '' '' @ cfg_Namespace E @ '' deleting timeout''))))
         else if IsNotFound (Some e) then recreate_pod E C pod
         else return (Ok (noResult, None))
     | Panic \<Rightarrow> return Panic
     | OutOfFuel \<Rightarrow> return OutOfFuel }"

definition clean_unused :: "'w env \<Rightarrow> string \<Rightarrow> ('w, handled) io" where
  "clean_unused E sourcePath = do {
     _ \<leftarrow> UmountPath E sourcePath;
     _ \<leftarrow> DoWithTimeout E (call (mnt_cleanup E sourcePath) (EvCleanupMountPoint sourcePath));
     emit (EvGo ''CleanUpCache'');
     emit (EvGo ''StopFd'');
     return (Ok (noResult, None)) }"

definition podDeletedHandler :: "'w env \<Rightarrow> codec \<Rightarrow> nat \<Rightarrow> Pod \<Rightarrow> ('w, handled) io" where
  "podDeletedHandler E C fuel pod =
     (if \<not> ContainsString (pod_Finalizers pod) Finalizer then return (Ok (noResult, None))
      else do {
        e \<leftarrow> RemoveFinalizer E pod Finalizer;
        case e of
          Some er \<Rightarrow> return (Ok (noResult, Some er))
        | None \<Rightarrow> do {
            emit (EvGo ''checkMountPodStuck'');
            if IsPodResourceError pod then return (Ok (noResult, None))
            else case GetMountPathOfPod pod of
              Err er \<Rightarrow> return (Ok (noResult, Some er))
            | Panic \<Rightarrow> return Panic
            | OutOfFuel \<Rightarrow> return OutOfFuel
            | Ok (sourcePath, _) \<Rightarrow>
                if pod_Annotations pod = None then return (Ok (noResult, None))
                else let hashVal = mget (pod_Labels pod) PodHashLabelKey in
                  if hashVal = [] then return (Ok (noResult, Some (no_hash_label pod)))
                  else if length (GetAllRefKeys pod) = 0 then clean_unused E sourcePath
                  else locked (GetPodLock hashVal) (wait_recreate E C fuel pod (GetAllRefKeys pod)) } })"

subsection \<open>Ready pods\<close>

fun umountTarget :: "'w env \<Rightarrow> string \<Rightarrow> nat \<Rightarrow> ('w, unit) io" where
  "umountTarget E target 0 = return ()"
| "umountTarget E target (Suc n) = do {
     _ \<leftarrow> call (mnt_unmount E target) (EvUnmount target);
     umountTarget E target n }"

text \<open>The count the loop compares: that of the base target, or of the sub-path target asked for.\<close>

definition target_count :: "mountItem \<Rightarrow> string \<Rightarrow> nat" where
  "target_count mi target =
     (if ti_target (baseTarget mi) \<noteq> target
      then fold (\<lambda>t c. if ti_target t = target then ti_count t else c) (subPathTarget mi) (ti_count (baseTarget mi))
      else ti_count (baseTarget mi))"

fun umountTargetUntilRemain :: "'w env \<Rightarrow> nat \<Rightarrow> mountItem \<Rightarrow> string \<Rightarrow> nat \<Rightarrow> ('w, unit result) io" where
  "umountTargetUntilRemain E 0 basemi target remainCount = return OutOfFuel"
| "umountTargetUntilRemain E (Suc n) basemi target remainCount = do {
     p \<leftarrow> parse E newMountInfoTable;
     case p of
       Err e \<Rightarrow> return (Err (MsgErr (''umountTargetWithRemain ParseMountInfo: '' @ err_str e)))
     | Panic \<Rightarrow> return Panic
     | OutOfFuel \<Rightarrow> return OutOfFuel
     | Ok mit \<Rightarrow> do {
         mi \<leftarrow> resolveTarget E mit (ti_target (baseTarget basemi));
         case mi of
           None \<Rightarrow> return (Err (MsgErr (''pod target '' @ target @ '' resolve fail'')))
         | Some mi \<Rightarrow>
             if target_count mi target < remainCount then return (Ok ())
             else do {
               _ \<leftarrow> UmountPath E target;
               umountTargetUntilRemain E n basemi target remainCount } } }"

definition bind_mount :: "'w env \<Rightarrow> string \<Rightarrow> string \<Rightarrow> ('w, unit result) io" where
  "bind_mount E sourcePath target = do {
     e \<leftarrow> call (mnt_mount E sourcePath target ''none'' [''bind'']) (EvMount sourcePath target [''bind'']);
     return (case e of
         None \<Rightarrow> Ok ()
       | Some er \<Rightarrow> Err (MsgErr (''exec cmd: mount -o bind '' @ sourcePath @ '' '' @ target @ '' err:'' @ err_str er))) }"

definition recoverTarget :: "'w env \<Rightarrow> nat \<Rightarrow> string \<Rightarrow> string \<Rightarrow> targetItem \<Rightarrow> mountItem \<Rightarrow> ('w, unit result) io" where
  "recoverTarget E fuel podName sourcePath ti mi =
     (case ti_status ti of
        targetStatusNotExist \<Rightarrow>
          if ti_count ti > 0 \<and> podDeleted mi
          then do { _ \<leftarrow> umountTarget E (ti_target ti) (ti_count ti); return (Ok ()) }
          else return (Ok ())
      | targetStatusMounted \<Rightarrow> return (Ok ())
      | targetStatusNotMount \<Rightarrow> return (Ok ())
      | targetStatusCorrupt \<Rightarrow>
          if ti_inconsistent ti then return (Ok ())
          else if podDeleted mi then return (Ok ())
          else bindE (umountTargetUntilRemain E fuel mi (ti_target ti) defaultTargetMountCounts) (\<lambda>_.
            if ti_subpath ti \<noteq> [] then
              (let sourcePath = sourcePath @ ''/'' @ ti_subpath ti in do {
                 e \<leftarrow> DoWithTimeout E (do {
                        r \<leftarrow> call (os_stat E sourcePath) (\<lambda>r. EvStat sourcePath (err_of r));
                        return (err_of r) });
                 if e \<noteq> None then return (Ok ()) else bind_mount E sourcePath (ti_target ti) })
            else bind_mount E sourcePath (ti_target ti))
      | targetStatusUnexpect \<Rightarrow>
          return (Err (MsgErr (''pod '' @ podName @ '' target '' @ ti_target ti @ '' reslove err: '' @
            (case ti_err ti of None \<Rightarrow> '''' | Some e \<Rightarrow> err_str e)))))"

fun recover_items :: "'w env \<Rightarrow> nat \<Rightarrow> string \<Rightarrow> string \<Rightarrow> mountItem \<Rightarrow> targetItem list \<Rightarrow> ('w, unit result) io" where
  "recover_items E fuel podName mntPath mi [] = return (Ok ())"
| "recover_items E fuel podName mntPath mi (ti # tis) =
     bindE (recoverTarget E fuel podName mntPath ti mi) (\<lambda>_. recover_items E fuel podName mntPath mi tis)"

fun recover_refs :: "'w env \<Rightarrow> nat \<Rightarrow> mountInfoTable \<Rightarrow> string \<Rightarrow> string \<Rightarrow> string smap \<Rightarrow> ('w, unit result) io" where
  "recover_refs E fuel mit podName mntPath [] = return (Ok ())"
| "recover_refs E fuel mit podName mntPath ((k, target) # rest) =
     (if k = GetReferenceKey target then do {
        mi \<leftarrow> resolveTarget E mit target;
        case mi of
          None \<Rightarrow> recover_refs E fuel mit podName mntPath rest
        | Some mi \<Rightarrow>
            bindE (recover_items E fuel podName mntPath mi (baseTarget mi # subPathTarget mi)) (\<lambda>_.
              recover_refs E fuel mit podName mntPath rest) }
      else recover_refs E fuel mit podName mntPath rest)"

definition recover :: "'w env \<Rightarrow> nat \<Rightarrow> mountInfoTable \<Rightarrow> Pod \<Rightarrow> string \<Rightarrow> ('w, unit result) io" where
  "recover E fuel mit pod mntPath = recover_refs E fuel mit (pod_Name pod) mntPath (annos pod)"

definition podReadyHandler :: "'w env \<Rightarrow> nat \<Rightarrow> mountInfoTable \<Rightarrow> Pod \<Rightarrow> ('w, handled) io" where
  "podReadyHandler E fuel mit pod =
     (if pod_Annotations pod = None then return (Ok (noResult, None))
      else case GetMountPathOfPod pod of
        Err er \<Rightarrow> return (Ok (noResult, Some er))
      | Panic \<Rightarrow> return Panic
      | OutOfFuel \<Rightarrow> return OutOfFuel
      | Ok (mntPath, _) \<Rightarrow>
          locked (GetPodLock (pod_Name pod)) (do {
            r \<leftarrow> WaitUtilMountReady E fuel (pod_Name pod) mntPath;
            case r of
              Ok _ \<Rightarrow> do {
                e \<leftarrow> recover E fuel mit pod mntPath;
                return (case e of Ok _ \<Rightarrow> Ok (noResult, None) | Err er \<Rightarrow> Ok (noResult, Some er)
                        | Panic \<Rightarrow> Panic | OutOfFuel \<Rightarrow> OutOfFuel) }
            | Err _ \<Rightarrow> do {
                emit (EvFd ''CloseFd'' (mget (pod_Labels pod) PodHashLabelKey));
                _ \<leftarrow> DoWithTimeout E (do { _ \<leftarrow> UmountPath E mntPath; return None });
                d \<leftarrow> DeletePod E pod;
                return (Ok (requeue, d)) }
            | Panic \<Rightarrow> return Panic
            | OutOfFuel \<Rightarrow> return OutOfFuel }))"

subsection \<open>Dispatch\<close>

definition handle :: "'w env \<Rightarrow> codec \<Rightarrow> nat \<Rightarrow> mountInfoTable \<Rightarrow> podStatus \<Rightarrow> Pod \<Rightarrow> ('w, handled) io" where
  "handle E C fuel mit ps pod =
     (case ps of
        podReady \<Rightarrow> podReadyHandler E fuel mit pod
      | podError \<Rightarrow> podErrorHandler E fuel pod
      | podPending \<Rightarrow> podPendingHandler E fuel pod
      | podDeleted_status \<Rightarrow> podDeletedHandler E C fuel pod)"

definition Run :: "'w env \<Rightarrow> codec \<Rightarrow> nat \<Rightarrow> mountInfoTable \<Rightarrow> Pod option \<Rightarrow> ('w, handled) io" where
  "Run E C fuel mit current =
     (case current of
        None \<Rightarrow> return (Ok (noResult, None))
      | Some current \<Rightarrow> do {
          c \<leftarrow> checkAnnotations E mit current;
          case c of
            Err e \<Rightarrow> return (Ok (noResult, Some e))
          | Panic \<Rightarrow> return Panic
          | OutOfFuel \<Rightarrow> return OutOfFuel
          | Ok _ \<Rightarrow>
              (let ps = getPodStatus (Some current) in
               if ps \<noteq> podError \<and> ps \<noteq> podDeleted_status then handle E C fuel mit ps current
               else do {
                 r \<leftarrow> GetPod E (pod_Name current) (pod_Namespace current);
                 case r of
                   Err e \<Rightarrow> return (Ok (noResult, Some e))
                 | Panic \<Rightarrow> return Panic
                 | OutOfFuel \<Rightarrow> return OutOfFuel
                 | Ok pod \<Rightarrow> handle E C fuel (setPodStatus mit pod) (getPodStatus (Some pod)) pod }) })"

subsection \<open>Goroutines\<close>

fun wait_gone :: "'w env \<Rightarrow> nat \<Rightarrow> Pod \<Rightarrow> ('w, bool result) io" where
  "wait_gone E 0 pod = return OutOfFuel"
| "wait_gone E (Suc n) pod = do {
     r \<leftarrow> GetPod E (pod_Name pod) (pod_Namespace pod);
     case r of
       Ok _ \<Rightarrow> do { emit EvSleep; wait_gone E n pod }
     | Err e \<Rightarrow> return (if IsNotFound (Some e) then Ok True else if IsTimeout (Some e) then Ok False else Err e)
     | Panic \<Rightarrow> return Panic
     | OutOfFuel \<Rightarrow> return OutOfFuel }"

definition cache_dirs :: "Pod \<Rightarrow> string list" where
  "cache_dirs pod =
     concat (map (\<lambda>v. case vol_Source v of
         HostPath p _ \<Rightarrow> if HasPrefix (vol_Name v) ''cachedir-'' then [p] else []
       | _ \<Rightarrow> []) (Volumes (pod_Spec pod)))"

definition CleanUpCache :: "'w env \<Rightarrow> codec \<Rightarrow> string \<Rightarrow> nat \<Rightarrow> Pod \<Rightarrow> ('w, unit result) io" where
  "CleanUpCache E C mountImage fuel pod =
     (if mget (annos pod) CleanCacheAnno \<noteq> ''true'' then return (Ok ())
      else let uuid = mget (annos pod) DingoFSID; uniqueId = mget (annos pod) UniqueIdKey in
        if uuid = [] \<and> uniqueId = [] then return (Ok ())
        else do {
          g \<leftarrow> wait_gone E fuel pod;
          case g of
            Ok True \<Rightarrow>
              (case Containers (pod_Spec pod) of
                 [] \<Rightarrow> return Panic
               | c # _ \<Rightarrow> ignoreE (CleanCache_op E C mountImage fuel (c_Image c) uuid uniqueId (cache_dirs pod))
                   (return (Ok ())))
          | Ok False \<Rightarrow> return (Ok ())
          | Err _ \<Rightarrow> return (Ok ())
          | Panic \<Rightarrow> return Panic
          | OutOfFuel \<Rightarrow> return OutOfFuel })"

text \<open>In nanoseconds: \<open>time.Duration(n)\<close> is \<open>n\<close> nanoseconds.\<close>

definition stuck_timeout :: "Pod \<Rightarrow> int" where
  "stuck_timeout pod =
     (let timeout = 60 * second in
      case TerminationGracePeriodSeconds (pod_Spec pod) of
        None \<Rightarrow> timeout
      | Some g \<Rightarrow> if g * 2 > timeout then g * 2 else timeout)"

text \<open>\<open>job\<close> is shadowed by the answer of \<open>GetJob\<close>, which is nil on an error.\<close>

fun wait_abort :: "'w env \<Rightarrow> nat \<Rightarrow> string \<Rightarrow> string \<Rightarrow> ('w, unit result) io" where
  "wait_abort E 0 jobName namespace = return OutOfFuel"
| "wait_abort E (Suc n) jobName namespace = do {
     ce \<leftarrow> call (os_ctx_err E) EvCtxErr;
     if ce = Some CtxCanceled \<or> ce = Some CtxDeadlineExceeded then return (Ok ())
     else do {
       r \<leftarrow> GetJob E jobName namespace;
       case r of
         Ok job \<Rightarrow> if IsJobCompleted job then return (Ok ()) else do { emit EvSleep; wait_abort E n jobName namespace }
       | Err e \<Rightarrow> return (if IsNotFound (Some e) then Ok () else Panic)
       | Panic \<Rightarrow> return Panic
       | OutOfFuel \<Rightarrow> return OutOfFuel } }"

definition doAbortFuse :: "'w env \<Rightarrow> nat \<Rightarrow> Pod \<Rightarrow> u32 \<Rightarrow> ('w, unit result) io" where
  "doAbortFuse E fuel mountpod devMinor =
     bindE (return (NewFuseAbortJob mountpod devMinor)) (\<lambda>job.
     bindE (CreateJob E job) (\<lambda>_. wait_abort E fuel (job_Name job) (job_Namespace job)))"

fun stuck_loop :: "'w env \<Rightarrow> nat \<Rightarrow> Pod \<Rightarrow> string \<Rightarrow> ('w, unit result) io" where
  "stuck_loop E 0 pod mountPoint = return OutOfFuel"
| "stuck_loop E (Suc n) pod mountPoint = do {
     ce \<leftarrow> call (os_ctx_err E) EvCtxErr;
     if ce \<noteq> None then do {
       t \<leftarrow> gets devMinorTable;
       (let (devMinor, ok) = DevMinorTableLoad t mountPoint in
        if ok then ignoreE (doAbortFuse E n pod devMinor) (return (Ok ())) else return (Ok ())) }
     else do {
       r \<leftarrow> GetPod E (pod_Name pod) (pod_Namespace pod);
       if IsNotFound (err_of r) \<or>
          getPodStatus (case r of Ok p \<Rightarrow> Some p | _ \<Rightarrow> None) \<noteq> podDeleted_status
       then return (Ok ())
       else do { emit EvSleep; stuck_loop E n pod mountPoint } } }"

definition checkMountPodStuck :: "'w env \<Rightarrow> nat \<Rightarrow> Pod \<Rightarrow> ('w, unit result) io" where
  "checkMountPodStuck E fuel pod =
     (if getPodStatus (Some pod) \<noteq> podDeleted_status then return (Ok ())
      else case GetMountPathOfPod pod of
        Panic \<Rightarrow> return Panic
      | OutOfFuel \<Rightarrow> return OutOfFuel
      | g \<Rightarrow>
         (let mountPoint = (case g of Ok (m, _) \<Rightarrow> m | _ \<Rightarrow> '''') in do {
            r \<leftarrow> stuck_loop E fuel pod mountPoint;
            modify (\<lambda>s. s\<lparr>devMinorTable := DevMinorTableDelete (devMinorTable s) mountPoint\<rparr>);
            return r }))"

section \<open>Lemmas\<close>

text \<open>A reference is alive when its application pod is in the table.\<close>

definition ref_alive :: "mountInfoTable \<Rightarrow> string \<Rightarrow> bool" where
  "ref_alive mit target \<longleftrightarrow> mhas (deletedPods mit) (getPodUid target)"

lemma scan_refs_eq:
  "scan_refs mit m dels n =
     (dels @ map fst (filter (\<lambda>(k, t). k = GetReferenceKey t \<and> \<not> ref_alive mit t) m),
      n + length (filter (\<lambda>(k, t). k = GetReferenceKey t \<and> ref_alive mit t) m))"
  by (induction mit m dels n rule: scan_refs.induct) (simp_all add: ref_alive_def)

lemma live_refs_zero:
  "wf_map (annos pod) \<Longrightarrow> live_refs mit pod = 0 \<longleftrightarrow> (\<forall>t\<in>refs (annos pod). \<not> ref_alive mit t)"
  unfolding live_refs_def
  by (force simp: scan_refs_eq filter_empty_conv refs_def wf_map_def dest: map_of_SomeD)

lemma dead_keys_set:
  "set (dead_keys mit pod) \<subseteq>
     {GetReferenceKey t | t. (GetReferenceKey t, t) \<in> set (annos pod) \<and> \<not> ref_alive mit t} \<union> {DeleteDelayAtKey}"
  by (auto simp: dead_keys_def scan_refs_eq)

lemma dead_keys_delay:
  "DeleteDelayAtKey \<in> set (dead_keys mit pod) \<Longrightarrow> live_refs mit pod \<noteq> 0"
  by (auto simp: dead_keys_def live_refs_def scan_refs_eq split: if_splits)

text \<open>
  What \<open>checkAnnotations\<close> may do inside its critical section: remove dead references of the
  pod after reading it, set its time of deletion, and delete it when no reference is alive
  and the pod read just before has none.
\<close>

definition check_event :: "mountInfoTable \<Rightarrow> Pod \<Rightarrow> event \<Rightarrow> bool" where
  "check_event mit pod ev \<longleftrightarrow> (case ev of
       EvPatchPod ns n d _ \<Rightarrow> ns = pod_Namespace pod \<and> n = pod_Name pod \<and>
         (case d of
            JSONPatch ops \<Rightarrow> \<forall>op\<in>set ops. \<exists>k. op = PatchDelValue ''remove'' (''/metadata/annotations/'' @ k) \<and>
              k \<in> set (dead_keys mit pod)
          | StrategicMergePatch f kvs \<Rightarrow> f = ''annotations'' \<and> live_refs mit pod = 0 \<and> (\<exists>d. kvs = [(DeleteDelayAtKey, d)]))
     | EvDeletePod ns n _ \<Rightarrow> ns = pod_Namespace pod \<and> n = pod_Name pod \<and> live_refs mit pod = 0 \<and>
         pod_DeletionTimestamp pod = None
     | EvCreatePod _ _ \<Rightarrow> False
     | EvMount _ _ _ _ \<Rightarrow> False
     | _ \<Rightarrow> True)"

lemma check_event_simps [simp]:
  "check_event mit pod (EvGetPod ns n g)" "check_event mit pod (EvNow t)"
  "check_event mit pod (EvDeleteSecret ns n e)"
  "check_event mit pod (EvDeletePod ns n e) \<longleftrightarrow> ns = pod_Namespace pod \<and> n = pod_Name pod \<and>
     live_refs mit pod = 0 \<and> pod_DeletionTimestamp pod = None"
  "check_event mit pod (EvPatchPod ns n (StrategicMergePatch f kvs) e) \<longleftrightarrow> ns = pod_Namespace pod \<and>
     n = pod_Name pod \<and> f = ''annotations'' \<and> live_refs mit pod = 0 \<and> (\<exists>d. kvs = [(DeleteDelayAtKey, d)])"
  "check_event mit pod (EvPatchPod ns n (JSONPatch ops) e) \<longleftrightarrow> ns = pod_Namespace pod \<and> n = pod_Name pod \<and>
     (\<forall>op\<in>set ops. \<exists>k. op = PatchDelValue ''remove'' (''/metadata/annotations/'' @ k) \<and> k \<in> set (dead_keys mit pod))"
  by (simp_all add: check_event_def)

lemma delay_check_event: "delay_event pod ev \<Longrightarrow> live_refs mit pod = 0 \<Longrightarrow> check_event mit pod ev"
  by (auto simp: delay_event_def)

lemma wp_remove_dead_refs:
  "wp trace (remove_dead_refs E pod (dead_keys mit pod)) (\<lambda>es r. list_all (check_event mit pod) es \<and>
     (\<forall>ns n e. EvDeletePod ns n e \<notin> set es))"
  unfolding remove_dead_refs_def DelPodAnnotation_def
  by (auto intro!: wp_bindE wp_bind wp_client wp_return split: result.splits)

text \<open>The read that precedes a deletion.\<close>

definition deletes_after_read :: "Pod \<Rightarrow> event list \<Rightarrow> bool" where
  "deletes_after_read pod es \<longleftrightarrow> (\<forall>ns n e. EvDeletePod ns n e \<in> set es \<longrightarrow>
     (\<exists>pre newPod post. es = pre @ EvGetPod (pod_Namespace pod) (pod_Name pod) (Ok newPod) #
        EvDeletePod (pod_Namespace pod) (pod_Name pod) e # post \<and> GetAllRefKeys newPod = []))"

lemma deletes_after_read_append:
  "(\<forall>ns n e. EvDeletePod ns n e \<notin> set es) \<Longrightarrow> deletes_after_read pod es' \<Longrightarrow> deletes_after_read pod (es @ es')"
  unfolding deletes_after_read_def by (metis Un_iff append_assoc set_append)

lemma wp_delete_unreferenced:
  "live_refs mit pod = 0 \<Longrightarrow> pod_DeletionTimestamp pod = None \<Longrightarrow>
   wp trace (delete_unreferenced E pod) (\<lambda>es r. list_all (check_event mit pod) es \<and> deletes_after_read pod es)"
  unfolding delete_unreferenced_def
  by (auto intro!: wp_bindE wp_bind wp_client wp_return split: result.splits option.splits
      simp: deletes_after_read_def)
     (metis append_Nil)+

definition checks_well :: "mountInfoTable \<Rightarrow> Pod \<Rightarrow> event list \<Rightarrow> bool" where
  "checks_well mit pod es \<longleftrightarrow> list_all (check_event mit pod) es \<and> deletes_after_read pod es"

lemma checks_well_append:
  "list_all (check_event mit pod) es \<Longrightarrow> (\<forall>ns n e. EvDeletePod ns n e \<notin> set es) \<Longrightarrow>
   checks_well mit pod es' \<Longrightarrow> checks_well mit pod (es @ es')"
  by (simp add: checks_well_def deletes_after_read_append)

lemma checks_well_quiet:
  "list_all (check_event mit pod) es \<Longrightarrow> (\<forall>ns n e. EvDeletePod ns n e \<notin> set es) \<Longrightarrow> checks_well mit pod es"
  by (simp add: checks_well_def deletes_after_read_def)

lemma checks_well_Nil [simp]: "checks_well mit pod []"
  by (simp add: checks_well_def deletes_after_read_def)

lemma wp_delay_delete:
  assumes "live_refs mit pod = 0" "pod_DeletionTimestamp pod = None"
  shows "wp trace (delay_or_delete E pod) (\<lambda>es r. checks_well mit pod es)"
proof -
  have del: "wp trace (delete_unreferenced E pod) (\<lambda>es r. checks_well mit pod es)"
    using wp_delete_unreferenced [OF assms] by (simp add: checks_well_def)
  have ev: "list_all (delay_event pod) es \<Longrightarrow> list_all (check_event mit pod) es" for es
    using assms(1) by (auto simp: list_all_iff delay_check_event)
  have nodel: "list_all (delay_event pod) es \<Longrightarrow> \<forall>ns n e. EvDeletePod ns n e \<notin> set es" for es
    by (auto dest: list_allD)
  show ?thesis
    unfolding delay_or_delete_def
    by (intro wp_bind wp_mono [OF wp_ShouldDelay])
       (auto intro!: wp_return wp_mono [OF del] checks_well_append intro: checks_well_quiet ev
         dest: nodel split: option.splits)
qed

lemma wp_check_annotations_locked:
  "wp trace (check_annotations_locked E mit pod) (\<lambda>es r. checks_well mit pod es)"
proof -
  have rest: "wp trace (if live_refs mit pod = 0 \<and> pod_DeletionTimestamp pod = None then delay_or_delete E pod
       else return (Ok ())) (\<lambda>es r. checks_well mit pod es)"
    using wp_delay_delete [of mit pod E] by (auto intro!: wp_return)
  have first: "wp trace (if length (dead_keys mit pod) \<noteq> 0 then remove_dead_refs E pod (dead_keys mit pod)
            else return (Ok ())) (\<lambda>es r. list_all (check_event mit pod) es \<and> (\<forall>ns n e. EvDeletePod ns n e \<notin> set es))"
    by (auto intro!: wp_return wp_remove_dead_refs)
  have cont: "wp trace (if live_refs mit pod = 0 \<and> pod_DeletionTimestamp pod = None then delay_or_delete E pod
       else return (Ok ())) (\<lambda>es' r. checks_well mit pod (es @ es'))"
    if "list_all (check_event mit pod) es" "\<forall>ns n e. EvDeletePod ns n e \<notin> set es" for es
    by (rule wp_mono [OF rest]) (rule checks_well_append [OF that])
  show ?thesis
    unfolding check_annotations_locked_def
  proof (intro wp_bindE wp_mono [OF first])
    fix es and r :: "unit result"
    assume "list_all (check_event mit pod) es \<and> (\<forall>ns n e. EvDeletePod ns n e \<notin> set es)"
    then show "case r of Ok x \<Rightarrow> wp trace (if live_refs mit pod = 0 \<and> pod_DeletionTimestamp pod = None
        then delay_or_delete E pod else return (Ok ())) (\<lambda>es' r. checks_well mit pod (es @ es'))
      | Err e \<Rightarrow> checks_well mit pod es | Panic \<Rightarrow> checks_well mit pod es | OutOfFuel \<Rightarrow> checks_well mit pod es"
      using cont [of es] by (cases r) (simp_all add: checks_well_quiet del: if_split)
  qed
qed

text \<open>The trace of \<open>checkAnnotations\<close>: nothing, or one critical section of the lock of the hash.\<close>

definition check_trace :: "mountInfoTable \<Rightarrow> Pod \<Rightarrow> event list \<Rightarrow> unit result \<Rightarrow> bool" where
  "check_trace mit pod es r \<longleftrightarrow>
     (let h = mget (pod_Labels pod) PodHashLabelKey in
      if h = [] then es = [] \<and> r = Err (no_hash_label pod)
      else \<exists>inner. es = EvLock (GetPodLock h) # inner @ [EvUnlock (GetPodLock h)] \<and> checks_well mit pod inner)"

lemma wp_checkAnnotations: "wp trace (checkAnnotations E mit pod) (check_trace mit pod)"
  unfolding checkAnnotations_def check_trace_def Let_def
  by (auto intro!: wp_return wp_locked wp_mono [OF wp_check_annotations_locked])

subsection \<open>Repair of bind mounts\<close>

text \<open>Mounts of the repair of an item: only when the target is corrupt, its mounts agree on their
  source and the application pod lives; the source is the mount path, with the sub-path.\<close>

definition repair_event :: "string \<Rightarrow> targetItem \<Rightarrow> mountItem \<Rightarrow> event \<Rightarrow> bool" where
  "repair_event sourcePath ti mi ev \<longleftrightarrow> (case ev of
       EvMount src tgt opts _ \<Rightarrow> ti_status ti = targetStatusCorrupt \<and> \<not> ti_inconsistent ti \<and> \<not> podDeleted mi \<and>
         tgt = ti_target ti \<and> opts = [''bind''] \<and>
         src = (if ti_subpath ti = [] then sourcePath else sourcePath @ ''/'' @ ti_subpath ti)
     | EvUnmount p _ \<Rightarrow> p = ti_target ti \<and> ti_status ti = targetStatusNotExist \<and> podDeleted mi
     | EvUmountLazy p _ \<Rightarrow> p = ti_target ti \<and> ti_status ti = targetStatusCorrupt \<and> \<not> podDeleted mi
     | EvStat _ _ \<Rightarrow> True | EvWait _ \<Rightarrow> True | EvParseMountInfo _ \<Rightarrow> True
     | _ \<Rightarrow> False)"

lemma repair_event_simps [simp]:
  "repair_event sp ti mi (EvMount src tgt opts me) \<longleftrightarrow> ti_status ti = targetStatusCorrupt \<and> \<not> ti_inconsistent ti \<and>
     \<not> podDeleted mi \<and> tgt = ti_target ti \<and> opts = [''bind''] \<and>
     src = (if ti_subpath ti = [] then sp else sp @ ''/'' @ ti_subpath ti)"
  "repair_event sp ti mi (EvUnmount p e) \<longleftrightarrow> p = ti_target ti \<and> ti_status ti = targetStatusNotExist \<and> podDeleted mi"
  "repair_event sp ti mi (EvUmountLazy p u) \<longleftrightarrow> p = ti_target ti \<and> ti_status ti = targetStatusCorrupt \<and> \<not> podDeleted mi"
  "repair_event sp ti mi (EvStat p e)" "repair_event sp ti mi (EvWait w)" "repair_event sp ti mi (EvParseMountInfo t)"
  by (simp_all add: repair_event_def)

text \<open>Resolving a target only reads.\<close>

definition read_event :: "event \<Rightarrow> bool" where
  "read_event ev \<longleftrightarrow> (case ev of EvStat _ _ \<Rightarrow> True | EvWait _ \<Rightarrow> True | EvParseMountInfo _ \<Rightarrow> True | _ \<Rightarrow> False)"

lemma read_event_simps [simp]:
  "read_event (EvStat p e)" "read_event (EvWait w)" "read_event (EvParseMountInfo t)"
  by (simp_all add: read_event_def)

lemma read_repair: "read_event ev \<Longrightarrow> repair_event sp ti mi ev"
  by (cases ev) (simp_all add: read_event_def)

lemma wp_check: "wp trace (check E m ti) (\<lambda>es r. list_all read_event es \<and> ti_target r = ti_target ti \<and>
    ti_count r = ti_count ti \<and> ti_subpath r = ti_subpath ti \<and> ti_inconsistent r = ti_inconsistent ti)"
proof -
  have "ti_target (checked E m e ti) = ti_target ti \<and> ti_count (checked E m e ti) = ti_count ti \<and>
      ti_subpath (checked E m e ti) = ti_subpath ti \<and> ti_inconsistent (checked E m e ti) = ti_inconsistent ti" for e
    by (simp add: checked_def Let_def split: option.split)
  then show ?thesis
    unfolding check_def by (auto intro!: wp_bind wp_DoWithTimeout wp_call wp_return)
qed

text \<open>Checking an item sets its status only.\<close>

definition same_item :: "targetItem \<Rightarrow> targetItem \<Rightarrow> bool" where
  "same_item a b \<longleftrightarrow> ti_target a = ti_target b \<and> ti_count a = ti_count b \<and> ti_subpath a = ti_subpath b \<and>
     ti_inconsistent a = ti_inconsistent b"

lemma wp_check_all: "wp trace (check_all E tis) (\<lambda>es r. list_all read_event es \<and> list_all2 same_item r tis)"
proof (induction tis)
  case Nil
  show ?case by (auto intro!: wp_return)
next
  case (Cons ti tis)
  show ?case
    by (auto intro!: wp_bind wp_return wp_mono [OF wp_check] wp_mono [OF Cons.IH] simp: same_item_def)
qed

text \<open>Reading the table for one path gives at most the one item of that path.\<close>

lemma mount_records_exact:
  "map snd (mount_records mit t False) =
     (if entries t (mis mit) = [] then [] else [item_of t (entries t (mis mit))])"
proof -
  let ?R = "mount_records mit t False"
  have get: "map_of ?R mp = (if entries mp (filter (mi_matches t False) (mis mit)) = [] then None
      else Some (item_of mp (entries mp (filter (mi_matches t False) (mis mit)))))" for mp
    unfolding mount_records_def by (rule fold_record_mount)
  have same: "entries t (filter (mi_matches t False) (mis mit)) = entries t (mis mit)"
    by (auto simp: entries_def mi_matches_def intro: filter_cong)
  have other: "mp \<noteq> t \<Longrightarrow> entries mp (filter (mi_matches t False) (mis mit)) = []" for mp
    by (auto simp: entries_def mi_matches_def filter_empty_conv)
  have keys: "fst ` set ?R \<subseteq> {t}"
    using get other by (metis (no_types, lifting) insertCI map_of_eq_None_iff subsetI)
  have "distinct (map fst ?R)"
    using wf_mount_records [of mit t False] by (simp add: wf_map_def)
  then have "length ?R \<le> 1"
    using card_mono [OF _ keys] by (simp add: distinct_card flip: set_map) 
  then consider "?R = []" | x where "?R = [x]"
    by (cases ?R) (auto simp: le_Suc_eq)
  then show ?thesis
  proof cases
    case 1
    then show ?thesis using get [of t] same by (simp split: if_splits)
  next
    case 2
    then have "fst x = t" using keys by auto
    with 2 show ?thesis using get [of t] same by (cases x) (simp split: if_splits)
  qed
qed

lemma wp_resolveTarget:
  "wp trace (resolveTarget E mit t) (\<lambda>es r. list_all read_event es \<and>
     (\<forall>mi. r = Some mi \<longrightarrow> ti_target (baseTarget mi) = t \<and> ti_count (baseTarget mi) = length (entries t (mis mit))))"
proof -
  have base: "wp trace (check_all E (map snd (mount_records mit t False)))
      (\<lambda>es its. wp trace (case its of [it] \<Rightarrow> return it | _ \<Rightarrow> check E False (new_item t '''' 0))
        (\<lambda>es' it. list_all read_event (es @ es') \<and> ti_target it = t \<and> ti_count it = length (entries t (mis mit))))"
  proof (rule wp_mono [OF wp_check_all])
    fix es its
    assume r: "list_all read_event es \<and> list_all2 same_item its (map snd (mount_records mit t False))"
    show "wp trace (case its of [it] \<Rightarrow> return it | _ \<Rightarrow> check E False (new_item t '''' 0))
        (\<lambda>es' it. list_all read_event (es @ es') \<and> ti_target it = t \<and> ti_count it = length (entries t (mis mit)))"
    proof (cases "entries t (mis mit) = []")
      case True
      with r show ?thesis
        by (auto simp: mount_records_exact new_item_def intro!: wp_mono [OF wp_check])
    next
      case False
      with r obtain it where "its = [it]" "same_item it (item_of t (entries t (mis mit)))"
        by (auto simp: mount_records_exact list_all2_Cons2)
      with r show ?thesis
        by (auto simp: same_item_def item_of_def new_item_def intro!: wp_return)
    qed
  qed
  have subs: "wp trace (check_all E (map snd (mount_records mit (subpathTargetPrefix t) True)))
      (\<lambda>es r. list_all read_event es)"
    by (rule wp_mono [OF wp_check_all]) simp
  show ?thesis
    unfolding resolveTarget_def resolveTargetItem_def Let_def
    by (auto intro!: wp_return wp_bind wp_mono [OF base] wp_mono [OF subs] elim!: wp_mono)
qed

lemma resolveTarget_Some:
  assumes "length (Split t containerCsiDirectory) = 2" "getPodUid t \<noteq> []" "getPVName t \<noteq> []"
  shows "wp trace (resolveTarget E mit t) (\<lambda>es r. r \<noteq> None)"
proof -
  have base: "wp trace (case its of [it] \<Rightarrow> return it | _ \<Rightarrow> check E False ti) (\<lambda>es r. True)" for its ti
    by (auto split: list.splits intro!: wp_return wp_mono [OF wp_check])
  show ?thesis
    using assms unfolding resolveTarget_def resolveTargetItem_def Let_def
    by (auto intro!: wp_bind wp_return wp_mono [OF base] wp_mono [OF wp_check_all])
qed

text \<open>What of the outside world a call keeps.\<close>

lemma keeps_ext_call: "(\<And>w. K (snd (f w)) = K w) \<Longrightarrow> keeps (\<lambda>s. K (ext s)) (call f ev)"
  by (simp add: keeps_def run_call)

lemma keeps_check_all:
  assumes "\<And>p w. K (snd (os_stat E p w)) = K w" "\<And>w. K (snd (os_wait E w)) = K w"
  shows "keeps (\<lambda>s. K (ext s)) (check E b ti)" "keeps (\<lambda>s. K (ext s)) (check_all E tis)"
proof -
  show chk: "keeps (\<lambda>s. K (ext s)) (check E b ti)" for b ti
    unfolding check_def DoWithTimeout_def
    by (intro keeps_bind keeps_return keeps_ext_call assms)
  show "keeps (\<lambda>s. K (ext s)) (check_all E tis)"
    by (induction tis) (auto intro!: keeps_bind keeps_return chk)
qed

lemma keeps_resolveTarget:
  assumes "\<And>p w. K (snd (os_stat E p w)) = K w" "\<And>w. K (snd (os_wait E w)) = K w"
  shows "keeps (\<lambda>s. K (ext s)) (resolveTarget E mit t)"
proof -
  have "keeps (\<lambda>s. K (ext s)) (case its of [it] \<Rightarrow> return it | _ \<Rightarrow> check E False ti)" for its ti
    by (auto split: list.splits intro!: keeps_return keeps_check_all assms)
  then show ?thesis
    unfolding resolveTarget_def resolveTargetItem_def Let_def
    by (auto intro!: keeps_bind keeps_return keeps_check_all assms)
qed

text \<open>What the loop needs of the mount table: \<open>K\<close> counts the mounts of the target, reading
  does not change it, and a lazy unmount removes one of them.\<close>

definition unmount_progress :: "'w env \<Rightarrow> ('w \<Rightarrow> nat) \<Rightarrow> string \<Rightarrow> bool" where
  "unmount_progress E K t \<longleftrightarrow>
     (\<forall>w. K (snd (mnt_parse E w)) = K w \<and> fst (mnt_parse E w) \<noteq> Panic \<and> fst (mnt_parse E w) \<noteq> OutOfFuel \<and>
        (\<forall>ms. fst (mnt_parse E w) = Ok ms \<longrightarrow> length (entries t ms) = K w) \<and>
        K (snd (os_wait E w)) = K w \<and> (\<forall>p. K (snd (os_stat E p w)) = K w) \<and>
        (K w > 0 \<longrightarrow> K (snd (os_umount_lazy E t w)) < K w))"

lemma run_parse:
  "run_state (parse E newMountInfoTable) s =
     (case fst (mnt_parse E (ext s)) of
        Ok ms \<Rightarrow> Ok (newMountInfoTable\<lparr>mis := ms\<rparr>) | Err e \<Rightarrow> Err e | Panic \<Rightarrow> Panic | OutOfFuel \<Rightarrow> OutOfFuel,
      s\<lparr>ext := snd (mnt_parse E (ext s)), trace := trace s @ [EvParseMountInfo (fst (mnt_parse E (ext s)))]\<rparr>)"
  by (simp add: parse_def bindE_def run_call split: result.split)

lemma umountTargetUntilRemain_ends:
  assumes "unmount_progress E K (ti_target (baseTarget bm))" "K (ext s) < fuel" "0 < n"
    and "run_state (umountTargetUntilRemain E fuel bm (ti_target (baseTarget bm)) n) s = (r, s')"
  shows "(\<exists>e. r = Err e) \<or> r = Ok () \<and> K (ext s') < n"
  using assms(2,4)
proof (induction fuel arbitrary: s)
  case (Suc fuel)
  let ?t = "ti_target (baseTarget bm)"
  note prog = assms(1) [unfolded unmount_progress_def, rule_format]
  let ?w = "ext s"
  let ?s1 = "s\<lparr>ext := snd (mnt_parse E ?w), trace := trace s @ [EvParseMountInfo (fst (mnt_parse E ?w))]\<rparr>"
  show ?case
  proof (cases "fst (mnt_parse E ?w)")
    case (Ok ms)
    let ?mit = "newMountInfoTable\<lparr>mis := ms\<rparr>"
    obtain o2 s2 where r2: "run_state (resolveTarget E ?mit ?t) ?s1 = (o2, s2)" by (metis surj_pair)
    have K2: "K (ext s2) = K ?w"
      using keepsD [OF keeps_resolveTarget [of K E] r2] prog by simp
    show ?thesis
    proof (cases o2)
      case None
      with Suc.prems(2) Ok r2 show ?thesis by (auto simp: run_parse)
    next
      case (Some mi)
      then have cnt: "target_count mi ?t = K ?w"
        using wpD [OF wp_resolveTarget r2] prog [of ?w] Ok by (auto simp: target_count_def)
      show ?thesis
      proof (cases "K ?w < n")
        case True
        with Suc.prems(2) Ok r2 Some cnt K2 show ?thesis by (auto simp: run_parse)
      next
        case False
        let ?s3 = "s2\<lparr>ext := snd (os_umount_lazy E ?t (ext s2)),
            trace := trace s2 @ [EvUmountLazy ?t (fst (os_umount_lazy E ?t (ext s2)))]\<rparr>"
        have "run_state (umountTargetUntilRemain E fuel bm ?t n) ?s3 = (r, s')"
          using Suc.prems(2) Ok r2 Some cnt False by (auto simp: run_parse UmountPath_def run_call)
        moreover have "K (ext ?s3) < fuel"
          using prog [of "ext s2"] K2 False assms(3) Suc.prems(1) by auto
        ultimately show ?thesis using Suc.IH by blast
      qed
    qed
  qed (use Suc.prems(2) prog [of ?w] in \<open>auto simp: run_parse\<close>)
qed simp

lemma umountTargetUntilRemain_stuck:
  assumes "\<And>w. fst (mnt_parse E w) = Ok ms" and "n \<le> length (entries (ti_target (baseTarget bm)) ms)"
    and "length (Split (ti_target (baseTarget bm)) containerCsiDirectory) = 2"
    and "getPodUid (ti_target (baseTarget bm)) \<noteq> []" "getPVName (ti_target (baseTarget bm)) \<noteq> []"
  shows "fst (run_state (umountTargetUntilRemain E fuel bm (ti_target (baseTarget bm)) n) s) = OutOfFuel"
proof (induction fuel arbitrary: s)
  case (Suc fuel)
  let ?t = "ti_target (baseTarget bm)" and ?w = "ext s"
  let ?s1 = "s\<lparr>ext := snd (mnt_parse E ?w), trace := trace s @ [EvParseMountInfo (Ok ms)]\<rparr>"
  obtain o2 s2 where r2: "run_state (resolveTarget E (newMountInfoTable\<lparr>mis := ms\<rparr>) ?t) ?s1 = (o2, s2)"
    by (metis surj_pair)
  obtain mi where mi: "o2 = Some mi" using wpD [OF resolveTarget_Some [OF assms(3-5)] r2] by auto
  then have "target_count mi ?t = length (entries ?t ms)"
    using wpD [OF wp_resolveTarget r2] by (auto simp: target_count_def)
  with assms(1,2) r2 mi Suc.IH show ?case by (simp add: run_parse UmountPath_def run_call case_prod_unfold)
qed simp

text \<open>Repair of one item.\<close>

lemma wp_umountTarget: "ti_status ti = targetStatusNotExist \<Longrightarrow> podDeleted mi \<Longrightarrow> t = ti_target ti \<Longrightarrow>
   wp trace (umountTarget E t n) (\<lambda>es r. list_all (repair_event sp ti mi) es \<and> length es = n)"
  by (induction n) (auto intro!: wp_return wp_bind wp_call elim: wp_mono)

lemma wp_umountTargetUntilRemain: "ti_status ti = targetStatusCorrupt \<Longrightarrow> \<not> podDeleted mi \<Longrightarrow> t = ti_target ti \<Longrightarrow>
   wp trace (umountTargetUntilRemain E fuel bm t n) (\<lambda>es r. list_all (repair_event sp ti mi) es)"
proof (induction fuel)
  case (Suc fuel)
  have res: "wp trace (resolveTarget E m p) (\<lambda>es r. list_all (repair_event sp ti mi) es)" for m p
    by (rule wp_mono [OF wp_resolveTarget]) (auto simp: list_all_iff read_repair)
  show ?case
    using Suc by (auto simp: parse_def UmountPath_def intro!: wp_return wp_bind wp_bindE wp_call wp_mono [OF res] 
        split: result.splits option.splits elim!: wp_mono)
qed (auto intro!: wp_return)

lemma wp_recoverTarget:
  "wp trace (recoverTarget E fuel podName sp ti mi) (\<lambda>es r. list_all (repair_event sp ti mi) es)"
proof -
  have bm: "ti_status ti = targetStatusCorrupt \<Longrightarrow> \<not> ti_inconsistent ti \<Longrightarrow> \<not> podDeleted mi \<Longrightarrow>
      src = (if ti_subpath ti = [] then sp else sp @ ''/'' @ ti_subpath ti) \<Longrightarrow>
      wp trace (bind_mount E src (ti_target ti)) (\<lambda>es r. list_all (repair_event sp ti mi) es)" for src
    unfolding bind_mount_def by (auto intro!: wp_bind wp_call wp_return)
  show ?thesis
    unfolding recoverTarget_def Let_def
    by (auto simp: wp_umountTarget intro!: wp_return wp_bind wp_bindE wp_call wp_DoWithTimeout wp_mono [OF bm]
        wp_mono [OF wp_umountTarget] wp_mono [OF wp_umountTargetUntilRemain] split: result.splits targetStatus.splits)
qed

lemma wp_ignoreE [wp_rules]:
  assumes "wp trace m (\<lambda>es r. case r of Panic \<Rightarrow> Q es Panic | OutOfFuel \<Rightarrow> Q es OutOfFuel
     | _ \<Rightarrow> wp trace k (\<lambda>es'. Q (es @ es')))"
  shows "wp trace (ignoreE m k) Q"
  unfolding ignoreE_def by (intro wp_bind wp_mono [OF assms]) (auto split: result.splits intro!: wp_return)

text \<open>No pod is created.\<close>

definition no_create :: "event list \<Rightarrow> bool" where
  "no_create es \<longleftrightarrow> (\<forall>p e. EvCreatePod p e \<notin> set es)"

lemma wp_mkrMp: "wp trace (mkrMp E pod) (\<lambda>es r. no_create es)"
  unfolding mkrMp_def
  by (auto intro!: wp_bindE wp_bind wp_return wp_call wp_DoWithTimeoutR simp: no_create_def split: result.splits)

lemma wp_wait_deleted:
  "wp trace (wait_deleted E fuel pod) (\<lambda>es r. no_create es \<and>
     (r = Ok True \<longrightarrow> (\<exists>pre m. es = pre @ [EvGetPod (pod_Namespace pod) (pod_Name pod) (Err (ApiErr NotFound m))])))"
proof (induction fuel)
  case (Suc n)
  have nf: "IsNotFound (Some e) \<Longrightarrow> \<exists>m. e = ApiErr NotFound m" for e
    by (auto simp: IsNotFound_def split: err.splits api_reason.splits)
  show ?case
    by (auto intro!: wp_bind wp_client wp_return wp_emit wp_call wp_mono [OF Suc.IH] simp: no_create_def dest!: nf
        split: result.splits)
qed (auto intro!: wp_return simp: no_create_def)
text \<open>A pod is created again under the same name only after it was deleted and was gone.\<close>

definition created_after_gone :: "Pod \<Rightarrow> (Pod \<Rightarrow> bool) \<Rightarrow> event list \<Rightarrow> bool" where
  "created_after_gone pod P es \<longleftrightarrow> (\<forall>p e. EvCreatePod p e \<in> set es \<longrightarrow> P p \<and>
     (\<exists>a b c m. es = a @ EvDeletePod (pod_Namespace pod) (pod_Name pod) None # b @
        EvGetPod (pod_Namespace pod) (pod_Name pod) (Err (ApiErr NotFound m)) # c \<and> EvCreatePod p e \<in> set c))"

lemma created_after_gone_none: "no_create es \<Longrightarrow> created_after_gone pod P es"
  by (simp add: created_after_gone_def no_create_def)

lemma created_after_goneI:
  assumes "no_create a" "no_create b" "\<And>p e. EvCreatePod p e \<in> set c \<Longrightarrow> P p"
  shows "created_after_gone pod P (a @ EvDeletePod (pod_Namespace pod) (pod_Name pod) None # b @
    EvGetPod (pod_Namespace pod) (pod_Name pod) (Err (ApiErr NotFound m)) # c)"
  using assms unfolding created_after_gone_def no_create_def by fastforce

definition created_is :: "Pod \<Rightarrow> event list \<Rightarrow> bool" where
  "created_is q es \<longleftrightarrow> (\<forall>p e. EvCreatePod p e \<in> set es \<longrightarrow> p = q)"

lemma created_is_append [simp]: "created_is q []" "created_is q (es @ es') \<longleftrightarrow> created_is q es \<and> created_is q es'"
  by (auto simp: created_is_def)

lemma created_is_none: "no_create es \<Longrightarrow> created_is q es"
  by (simp add: created_is_def no_create_def)

lemma wp_CreatePod_is: "wp trace (CreatePod E q) (\<lambda>es r. created_is q es)"
proof -
  have "\<not> service_event (EvCreatePod p e)" for p e
    by (simp add: service_event_def)
  then show ?thesis
    by (intro wp_mono [OF wp_CreatePod]) (fastforce simp: created_is_def list_all_iff)
qed

lemma wp_make_create:
  "wp trace (ignoreE (mkrMp E q) (ignoreE (CreatePod E q) (return x))) (\<lambda>es r. created_is q es)"
proof -
  show ?thesis
    using wp_CreatePod_is [of E q] by (intro wp_ignoreE wp_mono [OF wp_mkrMp])
       (auto intro!: wp_ignoreE wp_return elim!: wp_mono simp: created_is_none created_is_none [of "[]"]
         no_create_def [of "[]"] split: result.splits)
qed

text \<open>The pod that replaces one without resources: the same pod, nothing requested, the finalizer set.\<close>

definition without_resources :: "Pod \<Rightarrow> Pod \<Rightarrow> bool" where
  "without_resources pod p \<longleftrightarrow>
     pod_Name p = pod_Name pod \<and> pod_Namespace p = pod_Namespace pod \<and> pod_Labels p = pod_Labels pod \<and>
     pod_Annotations p = pod_Annotations pod \<and> pod_Finalizers p = [Finalizer] \<and> \<not> IsPodHasResource p \<and>
     Volumes (pod_Spec p) = Volumes (pod_Spec pod) \<and>
     map c_Command (Containers (pod_Spec p)) = map c_Command (Containers (pod_Spec pod))"

lemma without_resources_copy: "without_resources pod (DeleteResourceOfPod (copy_pod pod))"
proof -
  have "\<not> has_requests (map (\<lambda>c. c\<lparr>c_Requests := [], c_Limits := []\<rparr>) cs)" for cs
    by (induction cs) auto
  then show ?thesis
    by (simp add: without_resources_def DeleteResourceOfPod_def copy_pod_def AddFinalizer_def IsPodHasResource_def
        zero_Pod_def comp_def)
qed

lemma wp_redeploy: "wp trace (redeploy E fuel pod rt) (\<lambda>es r. created_after_gone pod (without_resources pod) es)"
proof -
  let ?q = "DeleteResourceOfPod (copy_pod pod)"
  have ok: "created_is ?q es \<Longrightarrow> EvCreatePod p e \<in> set es \<Longrightarrow> without_resources pod p" for es p e
    using without_resources_copy by (auto simp: created_is_def)
  have wait: "wp trace (bindE (wait_deleted E fuel pod) (\<lambda>isDeleted.
        if \<not> isDeleted then return (Ok (rt, None))
        else ignoreE (mkrMp E ?q) (ignoreE (CreatePod E ?q) (return (Ok (noResult, None))))))
      (\<lambda>es r. no_create pre \<longrightarrow> created_after_gone pod (without_resources pod)
         (pre @ EvDeletePod (pod_Namespace pod) (pod_Name pod) None # es))" for pre
  proof (intro wp_bindE wp_mono [OF wp_wait_deleted])
    fix es and r :: "bool result"
    assume g: "no_create es \<and> (r = Ok True \<longrightarrow>
      (\<exists>pre m. es = pre @ [EvGetPod (pod_Namespace pod) (pod_Name pod) (Err (ApiErr NotFound m))]))"
    have none: "no_create pre \<Longrightarrow> created_after_gone pod (without_resources pod)
         (pre @ EvDeletePod (pod_Namespace pod) (pod_Name pod) None # es)"
      using g by (auto simp: no_create_def intro!: created_after_gone_none)
    have some: "created_after_gone pod (without_resources pod)
         (pre @ EvDeletePod (pod_Namespace pod) (pod_Name pod) None # es @ es')"
      if "r = Ok True" "no_create pre" "created_is ?q es'" for es'
    proof -
      from g that(1) obtain es0 m where es: "no_create es0"
        "es = es0 @ [EvGetPod (pod_Namespace pod) (pod_Name pod) (Err (ApiErr NotFound m))]"
        by (auto simp: no_create_def)
      then show ?thesis using created_after_goneI [OF that(2) es(1) ok [OF that(3)]] by simp
    qed
    show "case r of Ok x \<Rightarrow> wp trace (if \<not> x then return (Ok (rt, None))
            else ignoreE (mkrMp E ?q) (ignoreE (CreatePod E ?q) (return (Ok (noResult, None)))))
          (\<lambda>es' r. no_create pre \<longrightarrow> created_after_gone pod (without_resources pod)
             (pre @ EvDeletePod (pod_Namespace pod) (pod_Name pod) None # es @ es'))
        | Err _ \<Rightarrow> no_create pre \<longrightarrow> created_after_gone pod (without_resources pod)
             (pre @ EvDeletePod (pod_Namespace pod) (pod_Name pod) None # es)
        | Panic \<Rightarrow> no_create pre \<longrightarrow> created_after_gone pod (without_resources pod)
             (pre @ EvDeletePod (pod_Namespace pod) (pod_Name pod) None # es)
        | OutOfFuel \<Rightarrow> no_create pre \<longrightarrow> created_after_gone pod (without_resources pod)
             (pre @ EvDeletePod (pod_Namespace pod) (pod_Name pod) None # es)"
      using none some by (auto intro!: wp_return wp_mono [OF wp_make_create] split: result.splits)
  qed
  show ?thesis
    unfolding redeploy_def Let_def RemoveFinalizer_def
    by (intro wp_bind wp_client)
       (auto intro!: wp_return wp_mono [OF wait [of "[EvPatchPod ns n pt e]" for ns n pt e]]
         intro: created_after_gone_none simp: no_create_def split: option.splits)
qed

lemma mhas_mputs: "mhas (mputs m ps) k \<longleftrightarrow> mhas m k \<or> k \<in> fst ` set ps"
proof (induction ps arbitrary: m)
  case (Cons p ps)
  then show ?case by (cases p) auto
qed simp

lemma ApplyConfigPatch_annotations:
  "ApplyConfigPatch C s = Ok s' \<Longrightarrow> \<forall>a a'. Attr s = Some a \<longrightarrow> Attr s' = Some a' \<longrightarrow>
     (\<forall>k. mhas (pa_Annotations a) k \<longrightarrow> mhas (pa_Annotations a') k)"
  by (auto simp: ApplyConfigPatch_def Let_def bindR_Ok_iff mhas_mputs split: option.splits if_splits)

lemma wp_GenPodAttrWithMountPod:
  "wp trace (GenPodAttrWithMountPod E C q) (\<lambda>es r. no_create es \<and>
     (\<forall>a. r = Ok a \<longrightarrow> (\<forall>k. mhas (annos q) k \<longrightarrow> mhas (pa_Annotations a) k)))"
  unfolding GenPodAttrWithMountPod_def Let_def
  by (intro wp_bindE wp_client)
     (auto intro!: wp_bindE wp_client wp_return simp: no_create_def bindR_Ok_iff mhas_mputs mhas_iff [symmetric]
      split: result.splits option.splits list.splits dest!: ApplyConfigPatch_annotations)

text \<open>The pod created again for one that was deleted while in use.\<close>

definition same_references :: "Pod \<Rightarrow> Pod \<Rightarrow> bool" where
  "same_references pod p \<longleftrightarrow> pod_Name p = pod_Name pod \<and> pod_Namespace p = pod_Namespace pod \<and>
     Finalizer \<in> set (pod_Finalizers p) \<and> Volumes (pod_Spec p) = Volumes (pod_Spec pod) \<and>
     map c_Command (Containers (pod_Spec p)) = map c_Command (Containers (pod_Spec pod)) \<and>
     (\<forall>k. mhas (annos pod) k \<longrightarrow> mhas (annos p) k)"

lemma wp_applyConfigPatch:
  "wp trace (applyConfigPatch E C q) (\<lambda>es r. no_create es \<and>
     (\<forall>p. r = Ok p \<longrightarrow> (Finalizer \<in> set (pod_Finalizers q) \<longrightarrow> same_references q p)))"
  unfolding applyConfigPatch_def Let_def
  by (intro wp_bindE wp_mono [OF wp_GenPodAttrWithMountPod])
     (auto intro!: wp_return simp: no_create_def same_references_def upd_c0_def annos_def
       split: result.splits list.splits)

text \<open>What the handler of deleted pods creates, and which annotations it writes back.\<close>

definition keeps_references :: "Pod \<Rightarrow> event list \<Rightarrow> bool" where
  "keeps_references pod es \<longleftrightarrow>
     (\<forall>p e. EvCreatePod p e \<in> set es \<longrightarrow> same_references pod p \<and> GetAllRefKeys pod \<noteq> [])"

lemma keeps_references_none: "no_create es \<Longrightarrow> keeps_references pod es"
  by (simp add: keeps_references_def no_create_def)

lemma same_references_copy: "same_references pod (copy_pod pod)"
  by (simp add: same_references_def copy_pod_def AddFinalizer_def zero_Pod_def annos_def)

lemma same_references_trans: "same_references (copy_pod pod) p \<Longrightarrow> same_references pod p"
  by (auto simp: same_references_def copy_pod_def AddFinalizer_def zero_Pod_def annos_def)

lemma wp_recreate_pod:
  "GetAllRefKeys pod \<noteq> [] \<Longrightarrow> wp trace (recreate_pod E C pod) (\<lambda>es r. keeps_references pod es)"
proof -
  assume refs: "GetAllRefKeys pod \<noteq> []"
  have fin: "Finalizer \<in> set (pod_Finalizers (copy_pod pod))"
    by (simp add: copy_pod_def AddFinalizer_def)
  have make: "wp trace (ignoreE (mkrMp E q) (do {
           c \<leftarrow> CreatePod E q;
           case c of
             Ok _ \<Rightarrow> return (Ok (requeue, None))
           | Err e \<Rightarrow> return (Ok (requeue, Some e))
           | Panic \<Rightarrow> return Panic
           | OutOfFuel \<Rightarrow> return OutOfFuel })) (\<lambda>es r. created_is q es)" for q
  proof -
    have "wp trace (CreatePod E q) (\<lambda>es r. created_is q es)" by (rule wp_CreatePod_is)
    then show ?thesis
      by (intro wp_ignoreE wp_mono [OF wp_mkrMp])
         (auto intro!: wp_bind wp_return elim!: wp_mono simp: created_is_none split: result.splits)
  qed
  have ok: "same_references pod q \<Longrightarrow> no_create es \<Longrightarrow> created_is q es' \<Longrightarrow> keeps_references pod (es @ es')" for q es es'
    using refs by (auto simp: keeps_references_def no_create_def created_is_def)
  show ?thesis
    unfolding recreate_pod_def Let_def
    by (intro wp_bind wp_mono [OF wp_applyConfigPatch])
       (auto intro!: wp_return wp_mono [OF make] intro: keeps_references_none ok same_references_copy
         same_references_trans simp: fin split: result.splits)
qed

lemma wp_wait_recreate:
  assumes "GetAllRefKeys pod \<noteq> []"
  shows "wp trace (wait_recreate E C fuel pod ts) (\<lambda>es r. keeps_references pod es)"
proof (induction fuel)
  case (Suc fuel)
  have app: "no_create es \<Longrightarrow> keeps_references pod es' \<Longrightarrow> keeps_references pod (es @ es')" for es es'
    by (auto simp: keeps_references_def no_create_def)
  have cons: "no_create [ev] \<Longrightarrow> keeps_references pod es' \<Longrightarrow> keeps_references pod (ev # es')" for ev es'
    using app [of "[ev]" es'] by simp
  show ?case
    by (auto intro!: wp_bind wp_client wp_return wp_emit wp_mono [OF Suc.IH] wp_mono [OF wp_recreate_pod] assms cons
        simp: ReplacePodAnnotation_def no_create_def keeps_references_def [of _ "[]"]
        split: result.splits)
qed (auto intro!: wp_return keeps_references_none simp: no_create_def)

lemma wp_podDeletedHandler: "wp trace (podDeletedHandler E C fuel pod) (\<lambda>es r. keeps_references pod es)"
proof -
  have app: "no_create es \<Longrightarrow> keeps_references pod es' \<Longrightarrow> no_create es'' \<Longrightarrow> keeps_references pod (es @ es' @ es'')" for es es' es''
    by (auto simp: keeps_references_def no_create_def)
  have lock: "wp trace (locked l (wait_recreate E C fuel pod ts)) (\<lambda>es r. keeps_references pod es)"
    if "GetAllRefKeys pod \<noteq> []" for l ts
    by (rule wp_locked, rule wp_mono [OF wp_wait_recreate [OF that]])
       (use app [of "[EvLock l]" _ "[EvUnlock l]"] in \<open>simp add: no_create_def\<close>)
  have clean: "wp trace (clean_unused E sp) (\<lambda>es r. keeps_references pod es)" for sp
    unfolding clean_unused_def UmountPath_def
    by (auto intro!: wp_bind wp_call wp_emit wp_return wp_DoWithTimeout keeps_references_none simp: no_create_def)
  have pre: "keeps_references pod es' \<Longrightarrow> keeps_references pod (EvPatchPod ns n p e # EvGo g # es')" for ns n p e g es'
    using app [of "[EvPatchPod ns n p e, EvGo g]" es' "[]"] by (simp add: no_create_def)
  have none: "keeps_references pod []" "keeps_references pod [EvPatchPod ns n p e]"
      "keeps_references pod [EvPatchPod ns n p e, EvGo g]" for ns n p e g
    by (simp_all add: keeps_references_def)
  show ?thesis
    unfolding podDeletedHandler_def RemoveFinalizer_def Let_def
    by (auto intro!: wp_bind wp_client wp_emit wp_return wp_mono [OF lock] wp_mono [OF clean]
        simp: none pre split: option.splits result.splits)
qed

section \<open>Properties\<close>





text \<open>C39: when unmounting does not lower the number of mounts (the target stays busy, so the mount
  table read in every round still lists at least the given number), \<open>umountTargetUntilRemain\<close>
  never returns: its two-minute context is not looked at by the loop.\<close>

theorem umountTargetUntilRemain_diverges:
  assumes "\<And>w. fst (mnt_parse E w) = Ok ms" and "n \<le> length (entries (ti_target (baseTarget bm)) ms)"
    and "length (Split (ti_target (baseTarget bm)) containerCsiDirectory) = 2"
    and "getPodUid (ti_target (baseTarget bm)) \<noteq> []" "getPVName (ti_target (baseTarget bm)) \<noteq> []"
  shows "fst (run_state (umountTargetUntilRemain E fuel bm (ti_target (baseTarget bm)) n) s) = OutOfFuel"
  by (rule umountTargetUntilRemain_stuck [OF assms])

lemma created_after_gone_lock:
  assumes "created_after_gone pod P es" shows "created_after_gone pod P (EvLock l # es @ [EvUnlock l])"
  unfolding created_after_gone_def
proof (intro allI impI)
  fix p e
  assume "EvCreatePod p e \<in> set (EvLock l # es @ [EvUnlock l])"
  then have "EvCreatePod p e \<in> set es" by simp
  with assms obtain a b c m where "P p" "es = a @ EvDeletePod (pod_Namespace pod) (pod_Name pod) None # b @
        EvGetPod (pod_Namespace pod) (pod_Name pod) (Err (ApiErr NotFound m)) # c" "EvCreatePod p e \<in> set c"
    unfolding created_after_gone_def by meson
  then show "P p \<and> (\<exists>a b c m. EvLock l # es @ [EvUnlock l] =
      a @ EvDeletePod (pod_Namespace pod) (pod_Name pod) None # b @
        EvGetPod (pod_Namespace pod) (pod_Name pod) (Err (ApiErr NotFound m)) # c \<and> EvCreatePod p e \<in> set c)"
    by (intro conjI exI [of _ "EvLock l # a"] exI [of _ b] exI [of _ "c @ [EvUnlock l]"] exI [of _ m]) simp_all
qed

lemma wp_resource_handler:
  "wp trace (resource_handler E fuel pod rt) (\<lambda>es r. created_after_gone pod (without_resources pod) es)"
proof -
  have none: "created_after_gone pod P []" for P
    by (simp add: created_after_gone_def)
  have "wp trace (if IsPodResourceError pod then if IsPodHasResource pod then redeploy E fuel pod rt
      else return (Ok (noResult, None)) else return (Ok (noResult, None)))
    (\<lambda>es r. created_after_gone pod (without_resources pod) es)"
    by (auto intro!: wp_return wp_redeploy none)
  then show ?thesis
    unfolding resource_handler_def Let_def
    by (auto intro!: wp_return wp_locked none created_after_gone_lock elim!: wp_mono simp del: if_split split: if_split)
qed

text \<open>C9: the handler of failed pods creates a pod only after it deleted the old one and saw that it
  was gone, and the new pod is the old one (name, labels, annotations and so every reference, volumes,
  commands) with the finalizer and without any resource request.\<close>

theorem podErrorHandler_redeploys:
  "wp trace (podErrorHandler E fuel pod) (\<lambda>es r. created_after_gone pod (without_resources pod) es)"
  unfolding podErrorHandler_def by (rule wp_resource_handler)

text \<open>The time a deleted mount pod gets before its FUSE connection is aborted is one minute whatever
  its grace period, for every grace period below 30000000000 seconds: the period in seconds is
  taken as nanoseconds.\<close>

lemma stuck_timeout_ignores_grace_period:
  assumes "TerminationGracePeriodSeconds (pod_Spec pod) = Some g" "g \<le> 30 * second"
  shows "stuck_timeout pod = 60 * second"
  using assms by (simp add: stuck_timeout_def Let_def)

lemma stuck_timeout_ignores_grace_period_witness:
  "stuck_timeout (zero_Pod\<lparr>pod_Spec := zero_PodSpec\<lparr>TerminationGracePeriodSeconds := Some 300\<rparr>\<rparr>) = 60 * second"
  by (rule stuck_timeout_ignores_grace_period [where g = 300]) (simp_all add: second_def)


theorem umountTargetUntilRemain_diverges_witness:
  "(let t = ''/pods/u/volumes/kubernetes.io~csi/pv/mount'';
        E = idle_env\<lparr>mnt_parse := \<lambda>n :: unit. (Ok (replicate 5 \<lparr>MountPoint = t, Root = ''/'', Minor = 1\<rparr>), n)\<rparr>;
        bm = \<lparr>podExist = True, podDeleted = False, baseTarget = new_item t '''' 5, subPathTarget = []\<rparr>
    in fst (run_state (umountTargetUntilRemain E 100 bm t 5) (idle_world ())) = OutOfFuel)"
proof -
  define t where "t = ''/pods/u/volumes/kubernetes.io~csi/pv/mount''"
  define E :: "unit env" where
    "E = idle_env\<lparr>mnt_parse := \<lambda>n. (Ok (replicate 5 \<lparr>MountPoint = t, Root = ''/'', Minor = 1\<rparr>), n)\<rparr>"
  define bm where "bm = \<lparr>podExist = True, podDeleted = False, baseTarget = new_item t '''' 5, subPathTarget = []\<rparr>"
  have t: "ti_target (baseTarget bm) = t" by (simp add: bm_def new_item_def)
  have parse: "fst (mnt_parse E w) = Ok (replicate 5 \<lparr>MountPoint = t, Root = ''/'', Minor = 1\<rparr>)" for w
    by (simp add: E_def)
  have ids: "length (Split t containerCsiDirectory) = 2" "getPodUid t \<noteq> []" "getPVName t \<noteq> []"
    unfolding t_def by code_simp+
  have "fst (run_state (umountTargetUntilRemain E 100 bm t 5) (idle_world ())) = OutOfFuel"
    using umountTargetUntilRemain_diverges [where E = E and bm = bm and n = 5 and fuel = 100 and s = "idle_world ()", OF parse]
      ids by (simp add: t entries_def)
  then show ?thesis unfolding Let_def E_def bm_def t_def .
qed

end
