(* ===== verification/FsTool.thy ===== *)
theory FsTool
  imports Client Config "HOL-Library.Multiset"
begin

text \<open>
  The command line tools of DingoFS, \<open>pkg/util/fs_util.go\<close>: validation of the parameters of a
  file system, the commands that create, list and delete file systems and set quotas, and the
  mounter that rewrites the client configuration with mount flags. It also has the integer
  parsing of \<open>strconv\<close> and \<open>CreatePath\<close> and \<open>ParseInt\<close> of \<open>util.go\<close> that it relies on.

  A method that changes its receiver takes it and gives it back; on an error the callers drop
  the receiver. A map built by the code itself is visited in the order \<open>go_range\<close> of the
  environment gives it.
\<close>

section \<open>Definitions\<close>

subsection \<open>Integers of \<open>strconv\<close>\<close>

text \<open>The value of a digit in a base up to 36, for upper and lower case letters.\<close>

definition lower :: "char \<Rightarrow> char" where
  "lower c = (if 65 \<le> (of_char c :: int) \<and> (of_char c :: int) \<le> 90 then char_of (of_char c + 32 :: int) else c)"

definition digit_val :: "char \<Rightarrow> int option" where
  "digit_val c =
     (let n = (of_char c :: int); l = (of_char (lower c) :: int) in
      if 48 \<le> n \<and> n \<le> 57 then Some (n - 48)
      else if 97 \<le> l \<and> l \<le> 122 then Some (l - 97 + 10)
      else None)"

text \<open>The digits of a base; with \<open>skip\<close> an underscore is passed over.\<close>

fun uint_digits :: "bool \<Rightarrow> int \<Rightarrow> int \<Rightarrow> string \<Rightarrow> int option" where
  "uint_digits skip base n [] = Some n"
| "uint_digits skip base n (c # cs) =
     (if c = CHR ''_'' \<and> skip then uint_digits skip base n cs
      else case digit_val c of
        None \<Rightarrow> None
      | Some d \<Rightarrow> if d \<ge> base then None else uint_digits skip base (n * base + d) cs)"

text \<open>The base a literal names and the rest after its prefix.\<close>

definition base_prefix :: "string \<Rightarrow> int \<times> string" where
  "base_prefix s =
     (case s of
        c # rest \<Rightarrow>
          if c = CHR ''0'' then
            if length s \<ge> 3 \<and> lower (hd rest) = CHR ''b'' then (2, tl rest)
            else if length s \<ge> 3 \<and> lower (hd rest) = CHR ''o'' then (8, tl rest)
            else if length s \<ge> 3 \<and> lower (hd rest) = CHR ''x'' then (16, tl rest)
            else (8, rest)
          else (10, s)
      | [] \<Rightarrow> (10, s))"

text \<open>Underscores stand between digits, or right after a base prefix. The state is the class of
  the byte before: a digit, an underscore, or anything else.\<close>

datatype under_state = AfterDigit | AfterUnder | AfterOther

fun under_ok :: "bool \<Rightarrow> under_state \<Rightarrow> string \<Rightarrow> bool" where
  "under_ok ishex i [] = (i \<noteq> AfterUnder)"
| "under_ok ishex i (c # cs) =
     (let n = (of_char c :: int); l = (of_char (lower c) :: int) in
      if 48 \<le> n \<and> n \<le> 57 \<or> ishex \<and> 97 \<le> l \<and> l \<le> 102 then under_ok ishex AfterDigit cs
      else if c = CHR ''_'' then i = AfterDigit \<and> under_ok ishex AfterUnder cs
      else i \<noteq> AfterUnder \<and> under_ok ishex AfterOther cs)"

definition underscoreOK :: "string \<Rightarrow> bool" where
  "underscoreOK s =
     (case s of
        a # b # rest \<Rightarrow>
          if a = CHR ''0'' \<and> (lower b = CHR ''b'' \<or> lower b = CHR ''o'' \<or> lower b = CHR ''x'')
          then under_ok (lower b = CHR ''x'') AfterDigit rest
          else under_ok False AfterOther s
      | _ \<Rightarrow> under_ok False AfterOther s)"

definition ParseUint0 :: "string \<Rightarrow> int option" where
  "ParseUint0 s =
     (if s = [] then None
      else let (base, rest) = base_prefix s in
        case uint_digits True base 0 rest of
          None \<Rightarrow> None
        | Some n \<Rightarrow> if CHR ''_'' \<in> set rest \<and> \<not> underscoreOK s then None else Some n)"

text \<open>The sign of a number and the rest.\<close>

definition split_sign :: "string \<Rightarrow> bool \<times> string" where
  "split_sign s =
     (case s of
        c # rest \<Rightarrow> if c = CHR ''+'' then (False, rest) else if c = CHR ''-'' then (True, rest) else (False, s)
      | [] \<Rightarrow> (False, s))"

text \<open>\<open>strconv.ParseInt(s, 0, 64)\<close>; every error is \<open>None\<close>.\<close>

definition ParseInt0 :: "string \<Rightarrow> int option" where
  "ParseInt0 s =
     (let (neg, rest) = split_sign s in
      case ParseUint0 rest of
        None \<Rightarrow> None
      | Some n \<Rightarrow>
          if \<not> neg \<and> n \<ge> 2 ^ 63 then None
          else if neg \<and> n > 2 ^ 63 then None
          else Some (if neg then - n else n))"

text \<open>\<open>util.ParseInt\<close>: the error of \<open>strconv.Atoi\<close> is dropped; a number out of range is clamped.\<close>

definition ParseInt :: "string \<Rightarrow> int" where
  "ParseInt s =
     (let (neg, rest) = split_sign s in
      case (if rest = [] then None else uint_digits False 10 0 rest) of
        None \<Rightarrow> 0
      | Some n \<Rightarrow>
          if \<not> neg \<and> n \<ge> 2 ^ 63 then 2 ^ 63 - 1
          else if neg \<and> n > 2 ^ 63 then - (2 ^ 63)
          else if neg then - n else n)"

subsection \<open>Parameters and commands\<close>

definition toolPath :: string where "toolPath = ''/dingofs/tools-v2/sbin/dingo''"
definition clientPath :: string where "clientPath = ''/dingofs/client/sbin/dingo-fuse''"
definition defaultClientExampleConfPath :: string where
  "defaultClientExampleConfPath = ''/dingofs/conf/client.conf''"

record dingofsTool =
  ToolParams :: "string smap"
  QuotaParams :: "string smap"

record FsInfo =
  fs_ID :: int
  fs_Name :: string
  fs_Status :: string

definition NewDingofsTool :: dingofsTool where
  "NewDingofsTool = \<lparr>ToolParams = [], QuotaParams = []\<rparr>"

text \<open>How \<open>%v\<close> prints a slice of strings and an error.\<close>

definition go_slice :: "string list \<Rightarrow> string" where
  "go_slice xs = ''['' @ Join xs '' '' @ '']''"

definition go_err :: "err option \<Rightarrow> string" where
  "go_err e = (case e of None \<Rightarrow> ''<nil>'' | Some e \<Rightarrow> err_str e)"

definition put_opt :: "string \<Rightarrow> string option \<Rightarrow> string smap \<Rightarrow> string smap" where
  "put_opt k v m = (case v of Some v \<Rightarrow> mput m k v | None \<Rightarrow> m)"

definition ValidateCommonParams :: "dingofsTool \<Rightarrow> string smap \<Rightarrow> dingofsTool result" where
  "ValidateCommonParams ct params =
     (case map_of params ''mdsAddr'' of
        Some mdsAddr \<Rightarrow> Ok (ct\<lparr>ToolParams := mput (ToolParams ct) ''mdsaddr'' mdsAddr\<rparr>)
      | None \<Rightarrow> Err (GrpcErr InvalidArgument ''mdsAddr is missing''))"

text \<open>The parameters of the storage behind the file system.\<close>

definition s3_params :: "string smap \<Rightarrow> string smap \<Rightarrow> string smap result" where
  "s3_params params tp =
     (case (map_of params ''s3Endpoint'', map_of params ''s3AccessKey'', map_of params ''s3SecretKey'',
            map_of params ''s3Bucket'') of
        (Some ep, Some ak, Some sk, Some bucket) \<Rightarrow>
          Ok (mput (mput (mput (mput tp ''s3.endpoint'' ep) ''s3.ak'' ak) ''s3.sk'' sk) ''s3.bucketname'' bucket)
      | _ \<Rightarrow> Err (GrpcErr InvalidArgument ''s3Info is incomplete''))"

definition rados_params :: "string smap \<Rightarrow> string smap \<Rightarrow> string smap result" where
  "rados_params params tp =
     (let tp = put_opt ''rados.clustername'' (map_of params ''radosClustername'') tp in
      case (map_of params ''radosPoolname'', map_of params ''radosUsername'', map_of params ''radosKey'',
            map_of params ''radosMon'') of
        (Some pool, Some user, Some key, Some mon) \<Rightarrow>
          Ok (mput (mput (mput (mput tp ''rados.poolname'' pool) ''rados.username'' user) ''rados.key'' key)
                ''rados.mon'' mon)
      | _ \<Rightarrow> Err (GrpcErr InvalidArgument ''radosInfo is incomplete''))"

definition volume_params :: "string smap \<Rightarrow> string smap \<Rightarrow> string smap result" where
  "volume_params params tp =
     (case map_of params ''backendVolName'' of
        None \<Rightarrow> Err (GrpcErr InvalidArgument ''backendVolName is missing'')
      | Some name \<Rightarrow>
          (case map_of params ''backendVolSizeGB'' of
             None \<Rightarrow> Err (GrpcErr InvalidArgument ''backendVolSize is missing'')
           | Some volSize \<Rightarrow>
               (case ParseInt0 volSize of
                  None \<Rightarrow> Err (GrpcErr InvalidArgument ''backendVolSize is not integer'')
                | Some n \<Rightarrow>
                    if n < 10 then Err (GrpcErr InvalidArgument ''backendVolSize must larger than 10GB'')
                    else Ok (mput (mput tp ''volumeName'' name) ''volumeSize'' volSize))))"

definition ValidateCreateFsParams :: "dingofsTool \<Rightarrow> string smap \<Rightarrow> dingofsTool result" where
  "ValidateCreateFsParams ct params =
     (let fsType = mget params ''fsType'';
          storagetype = mget params ''storagetype'';
          tp = put_opt ''fstype'' (map_of params ''fsType'') (ToolParams ct);
          tp = put_opt ''storagetype'' (map_of params ''storagetype'') tp
      in bindR (if fsType = ''s3'' \<or> storagetype = ''s3'' then s3_params params tp
                else if fsType = ''rados'' \<or> storagetype = ''rados'' then rados_params params tp
                else if fsType = ''volume'' then volume_params params tp
                else Err (GrpcErr InvalidArgument (''unsupported fsType '' @ fsType))) (\<lambda>tp.
           Ok (ct\<lparr>ToolParams := tp,
                 QuotaParams := put_opt ''inodes'' (map_of params ''quotaInodes'')
                   (put_opt ''capacity'' (map_of params ''quotaCapacity'') (QuotaParams ct))\<rparr>)))"

text \<open>The lines of \<open>dingo list fs\<close>. A line with three to five fields makes the indexing panic.\<close>

definition fs_line :: "string \<Rightarrow> FsInfo option result" where
  "fs_line line =
     (if HasPrefix line ''+'' \<or> HasPrefix line ''| ID'' \<or> line = [] then Ok None
      else let fields = Fields line in
        if length fields < 3 then Ok None
        else if length fields < 6 then Panic
        else Ok (Some \<lparr>fs_ID = ParseInt (fields ! 1), fs_Name = fields ! 3, fs_Status = fields ! 5\<rparr>))"

fun fs_infos :: "string list \<Rightarrow> FsInfo list result" where
  "fs_infos [] = Ok []"
| "fs_infos (line # lines) =
     bindR (fs_line line) (\<lambda>i.
     bindR (fs_infos lines) (\<lambda>is. Ok (case i of Some x \<Rightarrow> x # is | None \<Rightarrow> is)))"

definition parse_fs_list :: "string \<Rightarrow> string \<Rightarrow> bool result" where
  "parse_fs_list fsName out =
     (let lines = Split out [CHR 0x0A] in
      if length lines < 3 then Ok False
      else bindR (fs_infos lines) (\<lambda>is. Ok (list_ex (\<lambda>i. fs_Name i = fsName) is)))"

definition CheckFsExisted :: "'w env \<Rightarrow> string \<Rightarrow> string \<Rightarrow> ('w, bool result) io" where
  "CheckFsExisted E fsName mdsAddr =
     (let args = toolPath # [''list'', ''fs'', ''--mdsaddr='' @ mdsAddr] in do {
        (out, e) \<leftarrow> call (os_exec E args) (EvExec args);
        case e of
          Some er \<Rightarrow> return (Err er)
        | None \<Rightarrow> return (parse_fs_list fsName out) })"

definition flag_args :: "'w env \<Rightarrow> string \<Rightarrow> string smap \<Rightarrow> string list" where
  "flag_args E dash m = map (\<lambda>(k, v). dash @ k @ ''='' @ v) (go_range E m)"

text \<open>A command of the tool whose failure is reported as an internal error.\<close>

definition run_tool :: "'w env \<Rightarrow> string \<Rightarrow> string \<Rightarrow> string list \<Rightarrow> ('w, string result) io" where
  "run_tool E msg path args = do {
     (out, e) \<leftarrow> call (os_exec E (path # args)) (EvExec (path # args));
     return (case e of
         None \<Rightarrow> Ok out
       | Some er \<Rightarrow> Err (GrpcErr Internal (msg @ path @ '' '' @ go_slice args @ '', output: '' @ out @
                      '', err: '' @ err_str er))) }"

text \<open>The quota of a new file system.\<close>

definition config_quota :: "'w env \<Rightarrow> string \<Rightarrow> dingofsTool \<Rightarrow> string \<Rightarrow> ('w, unit result) io" where
  "config_quota E path ct fsName =
     (if length (QuotaParams ct) \<noteq> 0 then
        bindE (run_tool E ''dingo config fs quota failed. cmd: '' path
            ([''config'', ''fs'', ''--fsname='' @ fsName, ''--mdsaddr='' @ mget (ToolParams ct) ''mdsaddr''] @
              flag_args E ''--'' (QuotaParams ct)))
          (\<lambda>_. return (Ok ()))
      else return (Ok ()))"

definition query_fs :: "'w env \<Rightarrow> dingofsTool \<Rightarrow> string \<Rightarrow> ('w, unit result) io" where
  "query_fs E ct fsName =
     (let args = [''query'', ''fs'', ''--fsname='' @ fsName, ''--mdsaddr='' @ mget (ToolParams ct) ''mdsaddr''] in do {
        (out, e) \<leftarrow> call (os_exec E (toolPath # args)) (EvExec (toolPath # args));
        return (if e \<noteq> None \<or> Contains out ''Error''
          then Err (GrpcErr Internal (''dingo query fs failed. cmd: '' @ toolPath @ '' '' @ go_slice args @
                 '', output: '' @ out @ '', err: '' @ go_err e))
          else Ok ()) })"

definition CreateFsV1 :: "'w env \<Rightarrow> dingofsTool \<Rightarrow> string smap \<Rightarrow> ('w, unit result) io" where
  "CreateFsV1 E ct secrets =
     (let fsName = mget secrets ''name'' in
      bindE (return (ValidateCommonParams ct secrets)) (\<lambda>ct.
      bindE (CheckFsExisted E fsName (mget (ToolParams ct) ''mdsaddr'')) (\<lambda>fsExisted.
        if fsExisted then return (Ok ())
        else bindE (return (ValidateCreateFsParams ct secrets)) (\<lambda>ct.
          let ct = ct\<lparr>ToolParams := mput (ToolParams ct) ''fsname'' fsName\<rparr> in
          bindE (run_tool E ''dingo create fs failed. cmd: '' toolPath
                   ([''create'', ''fs''] @ flag_args E ''--'' (ToolParams ct))) (\<lambda>_.
          bindE (query_fs E ct fsName) (\<lambda>_.
            config_quota E toolPath ct fsName))))))"

definition DeleteFs :: "'w env \<Rightarrow> dingofsTool \<Rightarrow> string \<Rightarrow> string smap \<Rightarrow> ('w, unit result) io" where
  "DeleteFs E ct volumeID params =
     bindE (return (ValidateCommonParams ct params)) (\<lambda>ct.
       let tp = mput (mput (ToolParams ct) ''fsname'' volumeID) ''noconfirm'' ''1'' in
       bindE (run_tool E ''dingo tool delete-fs failed. cmd:'' toolPath ([''delete-fs''] @ flag_args E ''-'' tp))
         (\<lambda>_. return (Ok ())))"

definition SetVolumeQuota :: "'w env \<Rightarrow> string \<Rightarrow> string \<Rightarrow> string \<Rightarrow> string \<Rightarrow> string \<Rightarrow> ('w, unit result) io" where
  "SetVolumeQuota E mdsaddr path fsname capacity inodes =
     bindE (run_tool E ''dingofs config volume quota failed. cmd:'' toolPath
       ([''quota'', ''set'', ''--mdsaddr='' @ mdsaddr, ''--path='' @ path, ''--fsname='' @ fsname,
         ''--capacity='' @ capacity] @ (if TrimSpace inodes \<noteq> [] then [''--inodes='' @ inodes] else [])))
       (\<lambda>_. return (Ok ()))"

subsection \<open>The mounter\<close>

record dingofsMounter =
  mounterParams :: "string smap"

definition GetCacheDir :: "dingofsMounter \<Rightarrow> string" where
  "GetCacheDir cm = mget (mounterParams cm) ''cache_dir''"

definition NewDingofsMounter :: dingofsMounter where
  "NewDingofsMounter = \<lparr>mounterParams = []\<rparr>"

definition CreatePath :: "'w env \<Rightarrow> string \<Rightarrow> ('w, err option) io" where
  "CreatePath E path = do {
     fi \<leftarrow> call (os_lstat E path) (\<lambda>r. EvLstat path (err_of r));
     if IsNotExist (err_of fi) then call (os_mkdir_all E path 511) (EvMkdirAll path)
     else return (case fi of
         Ok fi \<Rightarrow> if \<not> fi_IsDir fi then Some (MsgErr (''Path '' @ path @ '' already exists but not dir'')) else None
       | r \<Rightarrow> err_of r) }"

definition validateMountFsParams :: "dingofsMounter \<Rightarrow> string smap \<Rightarrow> dingofsMounter result" where
  "validateMountFsParams cm params =
     (case map_of params ''mdsAddr'' of
        None \<Rightarrow> Err (GrpcErr InvalidArgument ''mdsAddr is missing'')
      | Some mdsAddr \<Rightarrow>
          (let mp = mput (mounterParams cm) ''mdsaddr'' mdsAddr;
               mp = mput mp ''conf'' (case map_of params ''clientConfPath'' of
                      Some p \<Rightarrow> p | None \<Rightarrow> defaultClientExampleConfPath)
           in case map_of params ''fsType'' of
                None \<Rightarrow> Err (GrpcErr InvalidArgument ''fsType is missing'')
              | Some t \<Rightarrow> Ok (cm\<lparr>mounterParams := mput mp ''fstype'' t\<rparr>)))"

text \<open>A line of the configuration that sets a value, with its key and value.\<close>

definition conf_line :: "string \<Rightarrow> (string \<times> string) option" where
  "conf_line line =
     (if HasPrefix line ''#'' \<or> \<not> Contains line ''='' then None
      else case SplitN2 line ''='' of [k, v] \<Rightarrow> Some (k, v) | _ \<Rightarrow> None)"

definition conf_map :: "string list \<Rightarrow> string smap" where
  "conf_map lines = fold (\<lambda>line m. case conf_line line of Some (k, v) \<Rightarrow> mput m k v | None \<Rightarrow> m) lines []"

definition apply_flag :: "string \<Rightarrow> string smap \<times> bool \<Rightarrow> string smap \<times> bool" where
  "apply_flag flag mc =
     (case SplitN2 flag ''='' of
        [k, v] \<Rightarrow> (mput (fst mc) k v,
                   snd mc \<or> k = ''diskCache.diskCacheType'' \<and> (v = ''2'' \<or> v = ''1''))
      | _ \<Rightarrow> mc)"

text \<open>The cache directories of a mount: a directory per mount under each configured one, with the
  capacity that follows a colon.\<close>

definition cache_dir_entry :: "string \<Rightarrow> string \<Rightarrow> string" where
  "cache_dir_entry mountUUID cacheDir =
     (case SplitN2 cacheDir '':'' of
        [p, capacity] \<Rightarrow> p @ ''/'' @ mountUUID @ '':'' @ capacity
      | p # _ \<Rightarrow> p @ ''/'' @ mountUUID
      | [] \<Rightarrow> '''')"

definition cache_dir_path :: "string \<Rightarrow> string \<Rightarrow> string" where
  "cache_dir_path mountUUID cacheDir = hd (SplitN2 cacheDir '':'') @ ''/'' @ mountUUID"

text \<open>Writing the lines back: the text so far, the values not written yet, the mounter parameters.\<close>

definition write_line :: "string \<Rightarrow> string \<Rightarrow> string \<times> string smap \<times> string smap \<Rightarrow> string \<times> string smap \<times> string smap" where
  "write_line mountUUID line st =
     (case st of (newData, configMap, params) \<Rightarrow>
       case conf_line line of
         None \<Rightarrow> (newData @ line @ [CHR 0x0A], configMap, params)
       | Some (k, _) \<Rightarrow>
           (case map_of configMap k of
              None \<Rightarrow> (newData @ line @ [CHR 0x0A], configMap, params)
            | Some newValue \<Rightarrow>
                (let cacheDirs = Split newValue '';'';
                     isCache = (k = ''disk_cache.cache_dir'');
                     newValue = (if isCache then Join (map (cache_dir_entry mountUUID) cacheDirs) '';'' else newValue);
                     params = (if isCache
                       then mput params ''cache_dir'' (Join (map (cache_dir_path mountUUID) cacheDirs) '';'')
                       else params)
                 in (newData @ k @ ''='' @ newValue @ [CHR 0x0A], mdel configMap k, params))))"

definition updated_conf :: "'w env \<Rightarrow> string \<Rightarrow> string list \<Rightarrow> string \<Rightarrow> string smap \<Rightarrow> string \<times> string smap \<times> bool" where
  "updated_conf E data mountFlags mountUUID params =
     (let lines = Split data [CHR 0x0A];
          (configMap, cacheEnabled) = fold apply_flag mountFlags (conf_map lines, False);
          (newData, configMap, params) = fold (write_line mountUUID) lines ([], configMap, params)
      in (newData @ concat (map (\<lambda>(k, v). k @ ''='' @ v @ [CHR 0x0A]) (go_range E configMap)),
          params, cacheEnabled))"

fun make_dirs :: "'w env \<Rightarrow> string list \<Rightarrow> ('w, unit result) io" where
  "make_dirs E [] = return (Ok ())"
| "make_dirs E (d # ds) = do {
     e \<leftarrow> call (os_mkdir_all E d 511) (EvMkdirAll d);
     case e of Some er \<Rightarrow> return (Err er) | None \<Rightarrow> make_dirs E ds }"

definition flag_error :: "string \<Rightarrow> string \<Rightarrow> 'a result \<Rightarrow> 'a result" where
  "flag_error what path r =
     (case r of
        Err e \<Rightarrow> Err (GrpcErr Internal (''applyMountFlag: failed to '' @ what @ '' '' @ path @ '', '' @ err_str e))
      | _ \<Rightarrow> r)"

definition applyMountFlags :: "'w env \<Rightarrow> dingofsMounter \<Rightarrow> string \<Rightarrow> string list \<Rightarrow> string \<Rightarrow>
    ('w, (string \<times> dingofsMounter) result) io" where
  "applyMountFlags E cm origConfPath mountFlags mountUUID =
     (let confPath = defaultClientExampleConfPath @ ''.'' @ mountUUID in do {
        r \<leftarrow> call (os_read_file E origConfPath) (\<lambda>r. EvReadFile origConfPath (err_of r));
        bindE (return (flag_error ''read conf'' origConfPath r)) (\<lambda>data. do {
          w \<leftarrow> call (os_write_file E confPath data) (EvWriteFile confPath data);
          bindE (return (flag_error ''write new conf'' confPath (result_of w))) (\<lambda>_. do {
            r \<leftarrow> call (os_read_file E confPath) (\<lambda>r. EvReadFile confPath (err_of r));
            bindE (return (flag_error ''read new conf'' confPath r)) (\<lambda>data.
              let (newData, params, cacheEnabled) = updated_conf E data mountFlags mountUUID (mounterParams cm);
                  cm = cm\<lparr>mounterParams := params\<rparr>
              in do {
                w \<leftarrow> call (os_write_file E confPath newData) (EvWriteFile confPath newData);
                bindE (return (flag_error ''write updated conf'' confPath (result_of w))) (\<lambda>_.
                bindE (if cacheEnabled then make_dirs E (Split (mget (mounterParams cm) ''cache_dir'') '';'')
                       else return (Ok ())) (\<lambda>_.
                  return (Ok (confPath, cm)))) }) }) }) })"

definition mount_args :: "'w env \<Rightarrow> string smap \<Rightarrow> string list" where
  "mount_args E params =
     [''-o'', ''default_permissions'', ''-o'', ''allow_other''] @
     concat (map (\<lambda>(k, v).
       if k = ''cache_dir'' then []
       else if k = ''mdsaddr'' then [''--'' @ k @ ''='' @ v]
       else [''-o'', k @ ''='' @ v]) (go_range E params))"

definition MountFs_tool :: "'w env \<Rightarrow> dingofsMounter \<Rightarrow> string \<Rightarrow> string list option \<Rightarrow> string \<Rightarrow> string smap \<Rightarrow>
    ('w, (int \<times> dingofsMounter) result) io" where
  "MountFs_tool E cm mountPath mountOption mountUUID secrets =
     bindE (return (validateMountFsParams cm secrets)) (\<lambda>cm.
     bindE (case mountOption of
              None \<Rightarrow> return (Ok cm)
            | Some flags \<Rightarrow>
                bindE (applyMountFlags E cm (mget (mounterParams cm) ''conf'') flags mountUUID) (\<lambda>(confPath, cm).
                  return (Ok (cm\<lparr>mounterParams := mput (mounterParams cm) ''conf'' confPath\<rparr>)))) (\<lambda>cm.
       let cm = cm\<lparr>mounterParams := mput (mounterParams cm) ''fsname'' (mget secrets ''name'')\<rparr>;
           args = mount_args E (mounterParams cm) @ [mountPath]
       in do {
         e \<leftarrow> CreatePath E mountPath;
         case e of
           Some er \<Rightarrow> return (Err (GrpcErr Internal (''Failed to create mount point path '' @ mountPath @ '', err: '' @
                        err_str er)))
         | None \<Rightarrow>
             bindE (run_tool E ''dingo-fuse mount failed. cmd: '' clientPath args) (\<lambda>_. do {
               pid \<leftarrow> call (os_pid E) EvPid;
               return (Ok (pid + 2, cm)) }) }))"

text \<open>The clean-ups after an unmount run in goroutines of their own.\<close>

definition umount_cmd :: "'w env \<Rightarrow> string \<Rightarrow> ('w, unit result) io" where
  "umount_cmd E p = do {
     (out, e) \<leftarrow> call (os_exec E [''umount'', p]) (EvExec [''umount'', p]);
     return (case e of
         None \<Rightarrow> Ok ()
       | Some er \<Rightarrow> Err (GrpcErr Internal (''umount '' @ p @ '' failed. output: '' @ out @ '', err: '' @ err_str er))) }"

definition emit_all :: "event list \<Rightarrow> ('w, unit) io" where
  "emit_all evs = fold (\<lambda>ev m. do { _ \<leftarrow> m; emit ev }) evs (return ())"

definition UmountFs :: "'w env \<Rightarrow> string \<Rightarrow> string \<Rightarrow> string \<Rightarrow> ('w, unit result) io" where
  "UmountFs E targetPath mountUUID cacheDirs =
     (let mountDir = PodMountBase @ ''/'' @ mountUUID in
      bindE (umount_cmd E targetPath) (\<lambda>_.
      bindE (umount_cmd E mountDir) (\<lambda>_.
        if mountUUID \<noteq> [] then do {
          emit_all (EvGo (''os.Remove '' @ defaultClientExampleConfPath @ ''.'' @ mountUUID) #
            map (\<lambda>p. EvGo (''os.RemoveAll '' @ p)) (Split cacheDirs '';'' @ [mountDir]));
          return (Ok ()) }
        else return (Ok ()))))"

section \<open>Lemmas\<close>

subsection \<open>The configuration file\<close>

abbreviation newline :: char where "newline \<equiv> CHR 0x0A"

lemma Split_lines: "list_all (\<lambda>l. newline \<notin> set l) ls \<Longrightarrow>
    Split (concat (map (\<lambda>l. l @ [newline]) ls)) [newline] = ls @ [[]]"
  by (induction ls) (simp_all add: Split_char_Cons Split_char_single)

definition pairs_of :: "string list \<Rightarrow> string smap" where
  "pairs_of lines = List.map_filter conf_line lines"

lemma pairs_of_simps [simp]: "pairs_of [] = []"
  "pairs_of (l # ls) = (case conf_line l of Some p \<Rightarrow> p # pairs_of ls | None \<Rightarrow> pairs_of ls)"
  "pairs_of (ls @ ls') = pairs_of ls @ pairs_of ls'"
  by (auto simp: pairs_of_def List.map_filter_def split: option.splits)

lemma conf_line_Nil [simp]: "conf_line [] = None"
  by (simp add: conf_line_def)

text \<open>A key that a line can set.\<close>

definition conf_key :: "string \<Rightarrow> bool" where
  "conf_key k \<longleftrightarrow> CHR ''='' \<notin> set k \<and> newline \<notin> set k \<and> \<not> HasPrefix k ''#''"

lemma HasPrefix_hash: "HasPrefix (k @ CHR ''='' # v) ''#'' \<longleftrightarrow> HasPrefix k ''#''"
  by (cases k) auto

lemma conf_line_Some:
  "conf_line l = Some (k, v) \<longleftrightarrow> l = k @ ''='' @ v \<and> CHR ''='' \<notin> set k \<and> \<not> HasPrefix k ''#''"
proof
  assume a: "conf_line l = Some (k, v)"
  then have "CHR ''='' \<in> set l" by (auto simp: conf_line_def split: if_splits)
  then obtain x y where "l = x @ CHR ''='' # y" "CHR ''='' \<notin> set x" by (metis split_list_first)
  with a show "l = k @ ''='' @ v \<and> CHR ''='' \<notin> set k \<and> \<not> HasPrefix k ''#''"
    by (auto simp: conf_line_def SplitN2_char HasPrefix_hash split: if_splits)
next
  assume "l = k @ ''='' @ v \<and> CHR ''='' \<notin> set k \<and> \<not> HasPrefix k ''#''"
  then show "conf_line l = Some (k, v)"
    by (simp add: conf_line_def SplitN2_char HasPrefix_hash)
qed

lemma conf_line_print: "conf_key k \<Longrightarrow> conf_line (k @ ''='' @ v) = Some (k, v)"
  by (simp add: conf_line_Some conf_key_def)

lemma conf_map_snoc: "conf_map (ls @ [l]) = (case conf_line l of Some (k, v) \<Rightarrow> mput (conf_map ls) k v | None \<Rightarrow> conf_map ls)"
  by (simp add: conf_map_def split: option.split)

lemma map_of_conf_map: "map_of (conf_map ls) = map_of (rev (pairs_of ls))"
  by (induction ls rule: rev_induct)
     (auto simp: conf_map_snoc conf_map_def AList.update_conv' fun_eq_iff split: option.splits)

lemma wf_conf_map: "wf_map (conf_map ls)"
  by (induction ls rule: rev_induct) (auto simp: conf_map_snoc conf_map_def split: option.splits)

lemma map_of_conf_map_distinct:
  "distinct (map fst (pairs_of ls)) \<Longrightarrow> map_of (conf_map ls) = map_of (pairs_of ls)"
  unfolding map_of_conf_map by (subst map_of_inject_set) (simp_all flip: rev_map)

text \<open>The value written for a key, and the line that replaces a line.\<close>

definition new_value :: "string \<Rightarrow> string \<Rightarrow> string \<Rightarrow> string" where
  "new_value mountUUID k v =
     (if k = ''disk_cache.cache_dir'' then Join (map (cache_dir_entry mountUUID) (Split v '';'')) '';'' else v)"

definition rewrite_line :: "string \<Rightarrow> string smap \<Rightarrow> string \<Rightarrow> string" where
  "rewrite_line mountUUID m l =
     (case conf_line l of
        None \<Rightarrow> l
      | Some (k, _) \<Rightarrow> k @ ''='' @ new_value mountUUID k (the (map_of m k)))"

lemma mdel_filter: "mdel m k = filter (\<lambda>p. fst p \<noteq> k) m"
  by (auto simp: AList.delete_eq intro: filter_cong)

lemma write_lines:
  assumes "distinct (map fst (pairs_of ls))" "fst ` set (pairs_of ls) \<subseteq> dom (map_of m)"
  shows "\<exists>p'. fold (write_line u) ls (acc, m, p) =
     (acc @ concat (map (\<lambda>l. rewrite_line u m l @ [newline]) ls),
      filter (\<lambda>p. fst p \<notin> fst ` set (pairs_of ls)) m, p')"
  using assms
proof (induction ls arbitrary: acc m p)
  case (Cons l ls)
  show ?case
  proof (cases "conf_line l")
    case None
    then have "write_line u l (acc, m, p) = (acc @ rewrite_line u m l @ [newline], m, p)"
      by (simp add: write_line_def rewrite_line_def)
    with Cons.IH [of m "acc @ rewrite_line u m l @ [newline]" p] Cons.prems None show ?thesis by simp
  next
    case (Some kv)
    obtain k v where kv: "kv = (k, v)" by (cases kv)
    with Some Cons.prems obtain nv where nv: "map_of m k = Some nv" by auto
    let ?m = "mdel m k"
    have notin: "k \<notin> fst ` set (pairs_of ls)" using Cons.prems(1) Some kv by simp
    have same: "map_of ?m k' = map_of m k'" if "k' \<noteq> k" for k'
      using that by (simp add: AList.delete_conv')
    have dom: "fst ` set (pairs_of ls) \<subseteq> dom (map_of ?m)"
      using Cons.prems(2) Some kv notin by (auto simp: AList.delete_conv')
    have rw: "rewrite_line u ?m l' = rewrite_line u m l'" if "l' \<in> set ls" for l'
    proof (cases "conf_line l'")
      case None
      then show ?thesis by (simp add: rewrite_line_def)
    next
      case (Some p)
      then have "p \<in> set (pairs_of ls)" using that by (auto simp: pairs_of_def List.map_filter_def intro: rev_image_eqI)
      then have "fst p \<noteq> k" using notin by auto
      with Some show ?thesis by (cases p) (simp add: rewrite_line_def same)
    qed
    have flt: "filter (\<lambda>p. fst p \<notin> fst ` set (pairs_of ls)) ?m =
        filter (\<lambda>p. fst p \<notin> fst ` set (pairs_of (l # ls))) m"
      using Some kv by (auto simp: mdel_filter intro: filter_cong)
    have step: "\<exists>p1. write_line u l (acc, m, p) = (acc @ rewrite_line u m l @ [newline], ?m, p1)"
      using Some kv nv by (auto simp: write_line_def rewrite_line_def new_value_def Let_def)
    then obtain p1 where "write_line u l (acc, m, p) = (acc @ rewrite_line u m l @ [newline], ?m, p1)" ..
    moreover have "concat (map (\<lambda>l. rewrite_line u ?m l @ [newline]) ls) = concat (map (\<lambda>l. rewrite_line u m l @ [newline]) ls)"
      using rw by (simp cong: map_cong)
    ultimately show ?thesis
      using Cons.IH [OF _ dom, of "acc @ rewrite_line u m l @ [newline]" p1] Cons.prems(1) Some kv flt by auto
  qed
qed simp

text \<open>The flags as settings; the last flag for a key counts.\<close>

definition flag_pair :: "string \<Rightarrow> (string \<times> string) option" where
  "flag_pair flag = (case SplitN2 flag ''='' of [k, v] \<Rightarrow> Some (k, v) | _ \<Rightarrow> None)"

definition flag_map :: "string list \<Rightarrow> string smap" where
  "flag_map flags = rev (List.map_filter flag_pair flags)"

lemma apply_flag_pair:
  "fst (apply_flag f mc) = (case flag_pair f of Some (k, v) \<Rightarrow> mput (fst mc) k v | None \<Rightarrow> fst mc)"
  by (auto simp: apply_flag_def flag_pair_def split: list.splits)

lemma fold_apply_flag:
  "map_of (fst (fold apply_flag flags mc)) = map_of (fst mc) ++ map_of (flag_map flags)"
  by (induction flags arbitrary: mc)
     (auto simp: flag_map_def List.map_filter_simps apply_flag_pair AList.update_conv' fun_eq_iff map_add_def
       split: option.splits)

lemma wf_fold_apply_flag: "wf_map (fst mc) \<Longrightarrow> wf_map (fst (fold apply_flag flags mc))"
  by (induction flags arbitrary: mc) (auto simp: apply_flag_pair split: option.splits)

lemma SplitN2_pieces: "SplitN2 f ''='' = [k, v] \<Longrightarrow> f = k @ ''='' @ v \<and> CHR ''='' \<notin> set k"
proof -
  assume a: "SplitN2 f ''='' = [k, v]"
  then have "CHR ''='' \<in> set f" by (metis SplitN2_char_single length_Cons list.inject list.distinct(1))
  then obtain x y where "f = x @ CHR ''='' # y" "CHR ''='' \<notin> set x" by (metis split_list_first)
  with a show ?thesis by (simp add: SplitN2_char)
qed

lemma flag_map_keys:
  assumes "list_all (\<lambda>f. newline \<notin> set f \<and> \<not> HasPrefix f ''#'') flags" "(k, v) \<in> set (flag_map flags)"
  shows "conf_key k \<and> newline \<notin> set v"
proof -
  from assms(2) obtain f where "f \<in> set flags" "flag_pair f = Some (k, v)"
    by (auto simp: flag_map_def List.map_filter_def)
  then have "f = k @ ''='' @ v" "CHR ''='' \<notin> set k" "newline \<notin> set f" "\<not> HasPrefix f ''#''"
    using assms(1) SplitN2_pieces [of f k v]
    by (auto simp: flag_pair_def list_all_iff split: list.splits)
  then show ?thesis by (simp add: conf_key_def HasPrefix_hash)
qed

lemma pairs_of_keys:
  assumes "list_all (\<lambda>l. newline \<notin> set l) ls" "(k, v) \<in> set (pairs_of ls)"
  shows "conf_key k \<and> newline \<notin> set v"
proof -
  from assms(2) obtain l where "l \<in> set ls" "conf_line l = Some (k, v)"
    by (auto simp: pairs_of_def List.map_filter_def)
  with assms(1) show ?thesis by (auto simp: conf_key_def conf_line_Some list_all_iff)
qed

lemma set_Join: "c \<in> set (Join xs sep) \<Longrightarrow> c \<in> set sep \<or> (\<exists>x\<in>set xs. c \<in> set x)"
  by (induction xs sep rule: Join.induct) auto

lemma set_SplitN2: "p \<in> set (SplitN2 s sep) \<Longrightarrow> set p \<subseteq> set s"
  by (auto simp: SplitN2_def Let_def split: if_splits dest: in_set_takeD in_set_dropD)

lemma set_Split: "p \<in> set (Split s [c]) \<Longrightarrow> set p \<subseteq> set s"
proof -
  have "set x \<subseteq> set (Join xs sep)" if "x \<in> set xs" for x xs and sep :: string
    using that by (induction xs sep rule: Join.induct) auto
  from this [of p "Split s [c]" "[c]"] show "p \<in> set (Split s [c]) \<Longrightarrow> set p \<subseteq> set s"
    by (simp add: Join_Split)
qed

lemma new_value_lines: "newline \<notin> set v \<Longrightarrow> newline \<notin> set u \<Longrightarrow> newline \<notin> set (new_value u k v)"
proof -
  assume v: "newline \<notin> set v" and u: "newline \<notin> set u"
  have "newline \<notin> set (cache_dir_entry u d)" if "newline \<notin> set d" for d
  proof -
    have "newline \<notin> set p" if "p \<in> set (SplitN2 d '':'')" for p
      using set_SplitN2 [OF that] \<open>newline \<notin> set d\<close> by auto
    moreover have "newline \<notin> set (case q of [p, capacity] \<Rightarrow> p @ ''/'' @ u @ '':'' @ capacity
        | p # _ \<Rightarrow> p @ ''/'' @ u | [] \<Rightarrow> '''')" if "\<forall>p\<in>set q. newline \<notin> set p" for q
      using u that by (auto split: list.splits)
    ultimately show ?thesis unfolding cache_dir_entry_def by blast
  qed
  moreover have "newline \<notin> set d" if "d \<in> set (Split v '';'')" for d
    using v set_Split [OF that] by auto
  ultimately show ?thesis
    using v by (auto simp: new_value_def dest!: set_Join)
qed

lemma conf_line_put:
  "CHR ''='' \<notin> set k \<Longrightarrow> \<not> HasPrefix k ''#'' \<Longrightarrow> conf_line (k @ CHR ''='' # v) = Some (k, v)"
  by (simp add: conf_line_Some)

lemma conf_line_rewrite:
  "conf_line (rewrite_line u m l) = map_option (\<lambda>(k, _). (k, new_value u k (the (map_of m k)))) (conf_line l)"
  by (cases "conf_line l") (auto simp: rewrite_line_def conf_line_Some conf_line_put)

lemma rewrite_pairs:
  "pairs_of (map (rewrite_line u m) ls) = map (\<lambda>(k, _). (k, new_value u k (the (map_of m k)))) (pairs_of ls)"
  by (induction ls) (auto simp: conf_line_rewrite split: option.splits)

lemma print_pairs:
  "list_all (\<lambda>(k, v). conf_key k) m \<Longrightarrow> pairs_of (map (\<lambda>(k, v). k @ ''='' @ v) m) = m"
  by (induction m) (auto simp: conf_line_put conf_key_def)

lemma map_of_keyed: "k \<in> fst ` set ps \<Longrightarrow> map_of (map (\<lambda>(k, _). (k, f k)) ps) k = Some (f k)"
  by (induction ps) auto

lemma updated_conf_lines:
  assumes dist: "distinct (map fst (pairs_of (Split data [newline])))"
    and flags: "list_all (\<lambda>f. newline \<notin> set f \<and> \<not> HasPrefix f ''#'') flags"
    and uuid: "newline \<notin> set u" and perm: "\<And>m. mset (go_range E m) = mset m"
  shows "map_of (conf_map (Split (fst (updated_conf E data flags u params)) [newline])) k =
     (let ps = pairs_of (Split data [newline]) in
      map_option (\<lambda>v. if k \<in> fst ` set ps then new_value u k v else v)
        ((map_of ps ++ map_of (flag_map flags)) k))"
proof -
  let ?ls = "Split data [newline]"
  let ?ps = "pairs_of ?ls"
  define m where "m = fst (fold apply_flag flags (conf_map ?ls, False))"
  have m: "map_of m = map_of ?ps ++ map_of (flag_map flags)"
    by (simp add: m_def fold_apply_flag map_of_conf_map_distinct dist)
  have wf: "wf_map m" unfolding m_def by (rule wf_fold_apply_flag) (simp add: wf_conf_map)
  have nl: "list_all (\<lambda>l. newline \<notin> set l) ?ls"
    by (auto simp: list_all_iff dest: Split_char_pieces)
  have val: "conf_key k \<and> newline \<notin> set v" if "map_of m k = Some v" for k v
  proof -
    from that have "(k, v) \<in> set (flag_map flags) \<or> (k, v) \<in> set ?ps"
      by (auto simp: m dest: map_of_SomeD)
    then show ?thesis using flag_map_keys [OF flags] pairs_of_keys [OF nl] by blast
  qed
  have sub: "fst ` set ?ps \<subseteq> dom (map_of m)"
    by (auto simp: m map_add_def dom_def split: option.splits) (metis eq_fst_iff weak_map_of_SomeI)
  let ?rest = "filter (\<lambda>p. fst p \<notin> fst ` set ?ps) m"
  let ?r = "go_range E ?rest"
  have sr: "set ?r = set ?rest" using perm [of ?rest] by (metis set_mset_mset)
  have dr: "distinct (map fst ?r)"
  proof -
    have "distinct (map fst ?rest)" using wf by (simp add: wf_map_def distinct_map_filter)
    moreover have "mset (map fst ?r) = mset (map fst ?rest)" using perm [of ?rest] by simp
    ultimately show ?thesis using mset_eq_imp_distinct_iff by metis
  qed
  have inm: "map_of m k = Some v" if "(k, v) \<in> set ?r" for k v
    using that wf by (auto simp: sr wf_map_def)
  define out where "out = map (rewrite_line u m) ?ls @ map (\<lambda>(k, v). k @ ''='' @ v) ?r"
  obtain p' where "fold (write_line u) ?ls ([], m, params) =
     (concat (map (\<lambda>l. rewrite_line u m l @ [newline]) ?ls), ?rest, p')"
    using write_lines [OF dist sub, of u "[]" params] by auto
  then have out_text: "fst (updated_conf E data flags u params) = concat (map (\<lambda>l. l @ [newline]) out)"
    by (simp add: updated_conf_def Let_def case_prod_unfold flip: m_def)
       (simp add: out_def comp_def case_prod_unfold)
  have "newline \<notin> set (rewrite_line u m l)" if "l \<in> set ?ls" for l
  proof (cases "conf_line l")
    case None
    then show ?thesis using that nl by (auto simp: rewrite_line_def list_all_iff)
  next
    case (Some p)
    then have "p \<in> set ?ps" using that by (auto simp: pairs_of_def List.map_filter_def intro: rev_image_eqI)
    then obtain v where "map_of m (fst p) = Some v" using sub by auto
    with val [OF this] Some uuid show ?thesis
      by (cases p) (auto simp: rewrite_line_def conf_key_def dest: new_value_lines)
  qed
  moreover have "newline \<notin> set (k @ ''='' @ v)" if "(k, v) \<in> set ?r" for k v
    using val [OF inm [OF that]] by (auto simp: conf_key_def)
  ultimately have "list_all (\<lambda>l. newline \<notin> set l) out"
    by (auto simp: out_def list_all_iff)
  then have split: "Split (fst (updated_conf E data flags u params)) [newline] = out @ [[]]"
    by (simp add: out_text Split_lines)
  have rk: "list_all (\<lambda>(k, v). conf_key k) ?r" using val inm by (fastforce simp: list_all_iff)
  have po: "pairs_of out = map (\<lambda>(k, _). (k, new_value u k (the (map_of m k)))) ?ps @ ?r"
    using print_pairs [OF rk] by (simp add: out_def rewrite_pairs)
  have "distinct (map fst (pairs_of (out @ [[]])))"
    using dist dr sr by (auto simp: po comp_def case_prod_unfold) (metis fst_conv imageI)
  then have cm: "map_of (conf_map (out @ [[]])) = map_of (pairs_of (out @ [[]]))"
    by (rule map_of_conf_map_distinct)
  have "map_of (pairs_of (out @ [[]])) k = map_option (\<lambda>v. if k \<in> fst ` set ?ps then new_value u k v else v) (map_of m k)"
  proof (cases "k \<in> fst ` set ?ps")
    case True
    then have "map_of (map (\<lambda>(k, _). (k, new_value u k (the (map_of m k)))) ?ps) k =
        Some (new_value u k (the (map_of m k)))"
      by (rule map_of_keyed)
    moreover have "map_of ?r k = None"
      using True unfolding map_of_eq_None_iff sr set_filter by blast
    moreover obtain v where "map_of m k = Some v" using True sub by auto
    ultimately show ?thesis using True by (simp add: po map_add_def)
  next
    case False
    then have "map_of (map (\<lambda>(k, _). (k, new_value u k (the (map_of m k)))) ?ps) k = None"
      by (simp add: map_of_eq_None_iff image_image case_prod_unfold)
    moreover have "map_of ?r k = map_of m k"
    proof (cases "map_of m k")
      case None
      then have "k \<notin> fst ` set ?r" unfolding sr set_filter map_of_eq_None_iff by blast
      with None show ?thesis by (metis map_of_eq_None_iff)
    next
      case (Some v)
      then have "(k, v) \<in> set ?r" using False by (auto simp: sr dest: map_of_SomeD)
      with dr Some show ?thesis by simp
    qed
    ultimately show ?thesis using False by (simp add: po map_add_def option.map_ident split: option.split)
  qed
  with cm show ?thesis by (simp add: split m Let_def)
qed

subsection \<open>The list of file systems\<close>

text \<open>A word of a table, and the table that \<open>dingo list fs\<close> prints.\<close>

definition word :: "string \<Rightarrow> bool" where
  "word w \<longleftrightarrow> w \<noteq> [] \<and> list_all (\<lambda>c. \<not> is_space c) w"

definition fs_row :: "string \<times> string \<times> string \<Rightarrow> string" where
  "fs_row r = (case r of (fsid, name, status) \<Rightarrow> ''| '' @ fsid @ '' | '' @ name @ '' | '' @ status @ '' |'')"

definition fs_table :: "(string \<times> string \<times> string) list \<Rightarrow> string" where
  "fs_table rows = Join ([''+----+'', ''| ID | NAME | STATUS |'', ''+----+''] @ map fs_row rows @ [''+----+'']) [newline]"

lemma fields_go_word: "list_all (\<lambda>c. \<not> is_space c) w \<Longrightarrow> acc @ w \<noteq> [] \<Longrightarrow>
   fields_go acc (w @ CHR '' '' # s) = (acc @ w) # fields_go [] s"
  by (induction w arbitrary: acc) (auto simp: is_space_def)

lemma Fields_row:
  "word fsid \<Longrightarrow> word name \<Longrightarrow> word status \<Longrightarrow>
   Fields (fs_row (fsid, name, status)) = [''|'', fsid, ''|'', name, ''|'', status, ''|'']"
  using fields_go_word [of fsid "[]"] fields_go_word [of name "[]"] fields_go_word [of status "[]"]
  by (simp add: Fields_def fs_row_def word_def is_space_def)

lemma word_no_newline: "word w \<Longrightarrow> newline \<notin> set w"
  by (auto simp: word_def list_all_iff is_space_def)

lemma fs_line_row:
  assumes "word fsid" "word name" "word status" "\<not> HasPrefix fsid ''ID''"
  shows "fs_line (fs_row (fsid, name, status)) =
     Ok (Some \<lparr>fs_ID = ParseInt fsid, fs_Name = name, fs_Status = status\<rparr>)"
proof -
  have "\<not> HasPrefix (fsid @ '' | '' @ x) ''ID''" if "\<not> HasPrefix fsid ''ID''" for x
    using assms(1) that by (cases fsid; cases "tl fsid") (auto simp: word_def is_space_def)
  with assms show ?thesis
    unfolding fs_line_def Fields_row [OF assms(1-3)] by (simp add: fs_row_def)
qed

lemma fs_row_no_newline:
  "word fsid \<Longrightarrow> word name \<Longrightarrow> word status \<Longrightarrow> newline \<notin> set (fs_row (fsid, name, status))"
  by (simp add: fs_row_def word_no_newline)

text \<open>A row whose three cells are words and that is not taken for the header.\<close>

definition good_row :: "string \<times> string \<times> string \<Rightarrow> bool" where
  "good_row r \<longleftrightarrow> (case r of (fsid, name, status) \<Rightarrow> word fsid \<and> word name \<and> word status \<and> \<not> HasPrefix fsid ''ID'')"

lemma good_row_newline: "good_row r \<Longrightarrow> newline \<notin> set (fs_row r)"
  by (cases r) (simp add: good_row_def fs_row_no_newline)

lemma fs_infos_append: "fs_infos (xs @ ys) = bindR (fs_infos xs) (\<lambda>is. bindR (fs_infos ys) (\<lambda>js. Ok (is @ js)))"
proof (induction xs)
  case Nil
  show ?case by (cases "fs_infos ys") simp_all
next
  case (Cons x xs)
  then show ?case
    by (cases "fs_line x"; cases "fs_infos xs"; cases "fs_infos ys") (simp_all split: option.split)
qed

lemma fs_infos_rows:
  "list_all good_row rows \<Longrightarrow> fs_infos (map fs_row rows) =
     Ok (map (\<lambda>(fsid, name, status). \<lparr>fs_ID = ParseInt fsid, fs_Name = name, fs_Status = status\<rparr>) rows)"
  by (induction rows) (auto simp: good_row_def fs_line_row)

lemma Split_Join: "ls \<noteq> [] \<Longrightarrow> list_all (\<lambda>l. c \<notin> set l) ls \<Longrightarrow> Split (Join ls [c]) [c] = ls"
  by (induction ls "[c]" rule: Join.induct) (simp_all add: Split_char_single Split_char_Cons)

lemma Split_fs_table:
  assumes "list_all good_row rows"
  shows "Split (fs_table rows) [newline] =
     [''+----+'', ''| ID | NAME | STATUS |'', ''+----+''] @ map fs_row rows @ [''+----+'']"
  unfolding fs_table_def using assms
  by (intro Split_Join) (auto simp: list_all_iff good_row_newline)

section \<open>Properties\<close>

text \<open>C33: reading back the configuration that \<open>applyMountFlags\<close> writes gives the settings of the
  file overridden by the mount flags, the last flag of a key counting, and each cache directory of
  the file extended by a directory of the mount. The file must set no key twice, and no flag may
  have a line break or start with a hash.\<close>

theorem updated_conf_reads_back:
  assumes "distinct (map fst (pairs_of (Split data [newline])))"
    and "list_all (\<lambda>f. newline \<notin> set f \<and> \<not> HasPrefix f ''#'') flags"
    and "newline \<notin> set mountUUID" and "\<And>m. mset (go_range E m) = mset m"
  shows "map_of (conf_map (Split (fst (updated_conf E data flags mountUUID params)) [newline])) k =
     (let ps = pairs_of (Split data [newline]) in
      map_option (\<lambda>v. if k \<in> fst ` set ps then new_value mountUUID k v else v)
        ((map_of ps ++ map_of (flag_map flags)) k))"
  using assms by (rule updated_conf_lines)

theorem updated_conf_reads_back_witness:
  "map_of (conf_map (Split (fst (updated_conf (idle_env :: unit env)
      ''disk_cache.cache_dir=/c:9'' [''a=1'', ''a=2''] ''u'' [])) [newline])) ''disk_cache.cache_dir'' = Some ''/c/u:9'' \<and>
   map_of (conf_map (Split (fst (updated_conf (idle_env :: unit env)
      ''disk_cache.cache_dir=/c:9'' [''a=1'', ''a=2''] ''u'' [])) [newline])) ''a'' = Some ''2''"
proof -
  have file_pairs: "pairs_of (Split ''disk_cache.cache_dir=/c:9'' [newline]) = [(''disk_cache.cache_dir'', ''/c:9'')]"
    by code_simp
  have flags: "flag_map [''a=1'', ''a=2''] = [(''a'', ''2''), (''a'', ''1'')]" by code_simp
  have cache: "new_value ''u'' ''disk_cache.cache_dir'' ''/c:9'' = ''/c/u:9''" by code_simp
  have range: "mset (go_range (idle_env :: unit env) m) = mset m" for m by (simp add: idle_env_def)
  note t = updated_conf_reads_back [where E = "idle_env :: unit env" and data = "''disk_cache.cache_dir=/c:9''"
      and flags = "[''a=1'', ''a=2'']" and mountUUID = "''u''" and params = "[]", OF _ _ _ range,
      unfolded file_pairs flags]
  show ?thesis
    using t [of "''disk_cache.cache_dir''"] t [of "''a''"] by (simp add: cache)
qed

text \<open>The table that \<open>dingo list fs\<close> prints is read back: \<open>CheckFsExisted\<close> finds a file system
  exactly when a row has its name.\<close>

lemma parse_fs_list_finds_rows:
  "list_all good_row rows \<Longrightarrow>
   parse_fs_list fsName (fs_table rows) = Ok (fsName \<in> (fst \<circ> snd) ` set rows)"
  unfolding parse_fs_list_def Let_def
  by (simp add: Split_fs_table fs_infos_append fs_infos_rows fs_line_def list_ex_iff)
     (force simp: image_iff)

text \<open>One line of three to five fields in the output of \<open>dingo list fs\<close>, such as a message, makes
  \<open>CheckFsExisted\<close> panic: it checks for three fields and reads the sixth.\<close>

lemma parse_fs_list_panics_on_message:
  "parse_fs_list fsName (Join [''+----+'', ''mds is not ready'', ''+----+''] [newline]) = Panic"
  unfolding parse_fs_list_def by code_simp

end
