(* ===== verification/Locks.thy ===== *)
theory Locks
  imports Prelude
begin

text \<open>
  Tables of locks that are tried and never waited for: the target paths of the node service and
  the volumes of the controller service. The interface promises what trying and releasing do to
  the set of held keys; from it follows that requests which overlap in time never work on the same
  key, for every interleaving of their starts and ends.
\<close>

section \<open>Requests that hold a key\<close>

text \<open>The table and the requests between their successful start and their end, with their keys.\<close>

record 't lock_system =
  table :: 't
  inside :: "(nat \<times> string) list"

inductive lock_step ::
  "('t \<Rightarrow> string \<Rightarrow> bool \<times> 't) \<Rightarrow> ('t \<Rightarrow> string \<Rightarrow> 't) \<Rightarrow> 't lock_system \<Rightarrow> 't lock_system \<Rightarrow> bool"
  for acquire :: "'t \<Rightarrow> string \<Rightarrow> bool \<times> 't" and release :: "'t \<Rightarrow> string \<Rightarrow> 't" where
  enter: "fst (acquire (table s) k) \<Longrightarrow>
    lock_step acquire release s \<lparr>table = snd (acquire (table s) k), inside = (r, k) # inside s\<rparr>"
| refuse: "\<not> fst (acquire (table s) k) \<Longrightarrow>
    lock_step acquire release s (s\<lparr>table := snd (acquire (table s) k)\<rparr>)"
| leave: "(r, k) \<in> set (inside s) \<Longrightarrow>
    lock_step acquire release s \<lparr>table = release (table s) k, inside = remove1 (r, k) (inside s)\<rparr>"


definition lock_init :: "'t \<Rightarrow> 't lock_system \<Rightarrow> bool" where
  "lock_init no_locks s \<longleftrightarrow> table s = no_locks \<and> inside s = []"

text \<open>Every held key belongs to one request.\<close>

definition lock_inv :: "('t \<Rightarrow> string \<Rightarrow> bool) \<Rightarrow> 't lock_system \<Rightarrow> bool" where
  "lock_inv held s \<longleftrightarrow> distinct (map snd (inside s)) \<and> (\<forall>k. held (table s) k \<longleftrightarrow> k \<in> snd ` set (inside s))"

section \<open>The interface\<close>

locale try_lock =
  fixes acquire :: "'t \<Rightarrow> string \<Rightarrow> bool \<times> 't"
    and release :: "'t \<Rightarrow> string \<Rightarrow> 't"
    and held :: "'t \<Rightarrow> string \<Rightarrow> bool"
    and no_locks :: 't
  assumes acquire_free: "fst (acquire t k) \<longleftrightarrow> \<not> held t k"
    and held_acquire: "held (snd (acquire t k)) k' \<longleftrightarrow> k' = k \<or> held t k'"
    and held_release: "held (release t k) k' \<longleftrightarrow> k' \<noteq> k \<and> held t k'"
    and held_no_locks: "\<not> held no_locks k"
begin

lemma lock_inv_step:
  assumes inv: "lock_inv held s" and step: "lock_step acquire release s t"
  shows "lock_inv held t"
  using step
proof (cases rule: lock_step.cases)
  case (enter k r)
  then show ?thesis using inv by (auto simp: lock_inv_def acquire_free held_acquire)
next
  case (refuse k)
  then show ?thesis using inv by (auto simp: lock_inv_def acquire_free held_acquire)
next
  case (leave r k)
  let ?in = "remove1 (r, k) (inside s)"
  have "\<exists>xs ys. inside s = xs @ (r, k) # ys \<and> ?in = xs @ ys"
    using leave(2) by (metis remove1_append remove1.simps(2) split_list_first)
  then obtain xs ys where i: "inside s = xs @ (r, k) # ys" "?in = xs @ ys" by blast
  with inv have "k \<notin> snd ` set (xs @ ys)" "distinct (map snd (xs @ ys))"
    by (auto simp: lock_inv_def)
  with inv i leave(1) show ?thesis by (auto simp: lock_inv_def held_release)
qed

end

sublocale try_lock \<subseteq> system: invariant_system "lock_init no_locks" "lock_step acquire release" "lock_inv held"
proof
  show "lock_inv held s" if "lock_init no_locks s" for s
    using that by (simp add: lock_init_def lock_inv_def held_no_locks)
qed (rule lock_inv_step)

context try_lock
begin

lemma exclusive:
  assumes "reachable (lock_init no_locks) (lock_step acquire release) s"
    and "(r, k) \<in> set (inside s)" and "(r', k) \<in> set (inside s)"
  shows "r = r'"
proof -
  have "distinct (map snd (inside s))" using system.reachable_inv [OF assms(1)] by (simp add: lock_inv_def)
  then have "inj_on snd (set (inside s))" by (simp add: distinct_map)
  then have "(r, k) = (r', k)" by (rule inj_onD) (simp_all add: assms)
  then show ?thesis by simp
qed

lemma refused_while_inside:
  assumes "reachable (lock_init no_locks) (lock_step acquire release) s"
  shows "fst (acquire (table s) k) \<longleftrightarrow> k \<notin> snd ` set (inside s)"
  using system.reachable_inv [OF assms] by (simp add: lock_inv_def acquire_free)

end

end
