(* ===== verification/Provider.thy ===== *)
theory Provider
  imports FsTool MountPods
begin

text \<open>
  The provider of the driver, \<open>pkg/dingofs-driver/dingofs.go\<close> and \<open>volume.go\<close>: it reads the
  settings of a volume, creates the file system, starts or shares the mount pod, creates the
  volume directory, binds it at the target of the application, and takes all of it back.

  The parts of the configuration that the settings and the mount pods take as parameters are the
  fields of the record \<open>driver\<close>; \<open>hasClient\<close> says whether the provider was made with a
  Kubernetes client. A map that a method changes for its caller comes back with the result.
\<close>

section \<open>Definitions\<close>

subsection \<open>Texts\<close>

text \<open>A string as \<open>%q\<close> prints it; bytes of a multi-byte character are printed as they are.\<close>

definition backslash :: char where "backslash = CHR 0x5C"

definition hex_digit :: "nat \<Rightarrow> char" where
  "hex_digit d = ''0123456789abcdef'' ! d"

definition quote_char :: "char \<Rightarrow> string" where
  "quote_char c =
     (let n = (of_char c :: nat) in
      if c = CHR 0x22 \<or> c = backslash then [backslash, c]
      else if n = 7 then [backslash, CHR ''a'']
      else if n = 8 then [backslash, CHR ''b'']
      else if n = 12 then [backslash, CHR ''f'']
      else if n = 10 then [backslash, CHR ''n'']
      else if n = 13 then [backslash, CHR ''r'']
      else if n = 9 then [backslash, CHR ''t'']
      else if n = 11 then [backslash, CHR ''v'']
      else if n < 32 \<or> n = 127 then [backslash, CHR ''x'', hex_digit (n div 16), hex_digit (n mod 16)]
      else [c])"

definition go_quote :: "string \<Rightarrow> string" where
  "go_quote s = CHR 0x22 # concat (map quote_char s) @ [CHR 0x22]"

text \<open>\<open>errors.Wrap(err, msg)\<close>\<close>

definition Wrap :: "err \<Rightarrow> string \<Rightarrow> err" where
  "Wrap e msg = MsgErr (msg @ '': '' @ err_str e)"

subsection \<open>The provider\<close>

record driver =
  dr_codec :: codec
  dr_mountImage :: string
  dr_fuel :: nat
  dr_kubeletPort :: string
  dr_hostIp :: string
  dr_atoi :: "string \<Rightarrow> int result"
  dr_newClient :: "string \<Rightarrow> int \<Rightarrow> unit result"
  dr_runningPods :: "string \<Rightarrow> int \<Rightarrow> unit result"
  hasClient :: bool

text \<open>A mounted file system.\<close>

record dfs =
  dfs_Name :: string
  dfs_MountPath :: string
  dfs_MountOptions :: "string list"
  dfs_Setting :: DfsSetting

fun kubelet_dir :: "Volume list \<Rightarrow> string result" where
  "kubelet_dir [] = Ok ''/var/lib/kubelet''"
| "kubelet_dir (v # vs) =
     (if vol_Name v = ''kubelet-dir''
      then (case vol_Source v of HostPath p _ \<Rightarrow> Ok p | _ \<Rightarrow> Panic)
      else kubelet_dir vs)"

definition illegal_access :: "string \<Rightarrow> err" where
  "illegal_access target = MsgErr (''Path '' @ target @ '' has illegal access.'')"

definition validTarget :: "'w env \<Rightarrow> string \<Rightarrow> unit result" where
  "validTarget E target =
     (if Contains target ''../'' \<or> Contains target ''/..'' \<or> Contains target ''..''
      then Err (illegal_access target)
      else if Contains target ''./'' \<or> Contains target ''/.'' then Err (illegal_access target)
      else bindR (kubelet_dir (Volumes (pod_Spec (cfg_CSIPod E)))) (\<lambda>kubeletDir.
        case Split target ''/pods/'' of
          [] \<Rightarrow> Err (MsgErr (''can't parse kubelet rootdir from target '' @ target))
        | d # _ \<Rightarrow>
            if kubeletDir \<noteq> d
            then Err (MsgErr (''target kubelet rootdir '' @ d @
                   '' is not equal csi mounted kubelet root-dir '' @ kubeletDir))
            else Ok ()))"

definition getUniqueId :: "string \<Rightarrow> string result" where
  "getUniqueId volumeId = Ok volumeId"

text \<open>Creating the file system of a secret, unless the list of file systems has it.\<close>

definition CreateFS :: "'w env \<Rightarrow> string smap \<Rightarrow> ('w, unit result) io" where
  "CreateFS E secrets =
     (let fsName = mget secrets ''name'' in
      bindE (return (ValidateCommonParams NewDingofsTool secrets)) (\<lambda>ct.
      bindE (CheckFsExisted E fsName (mget (ToolParams ct) ''mdsaddr'')) (\<lambda>fsExisted.
        if fsExisted then return (Ok ())
        else bindE (return (ValidateCreateFsParams ct secrets)) (\<lambda>ct.
          let ct = ct\<lparr>ToolParams := mput (mput (ToolParams ct) ''fsname'' fsName) ''rpcretrytimes'' ''5''\<rparr> in
          bindE (run_tool E ''dingo create fs failed. cmd: '' DfsCMDPath
                   ([''create'', ''fs''] @ flag_args E ''--'' (ToolParams ct))) (\<lambda>_.
            config_quota E DfsCMDPath ct fsName)))))"

text \<open>The annotations of the claim that override the volume context.\<close>

definition ctx_with_claim :: "PersistentVolumeClaim \<Rightarrow> string smap \<Rightarrow> string smap" where
  "ctx_with_claim pvc volCtx = mputs volCtx (filter (\<lambda>(k, v). HasPrefix k ''dingofs'') (pvc_Annotations pvc))"

text \<open>
  \<open>InitDfs\<close>. The volume and the claim are missing when they could not be read. The second part of
  the result is the volume context of the caller, whose map was changed in place; a nil map stays
  nil for the caller.
\<close>

definition lookup_pv ::
  "'w env \<Rightarrow> driver \<Rightarrow> string \<Rightarrow> string smap \<Rightarrow> ('w, (PersistentVolume \<times> PersistentVolumeClaim) option result) io" where
  "lookup_pv E D volumeID volCtx =
     (if \<not> hasClient D then return (Ok None)
      else do {
        r \<leftarrow> GetPVWithVolumeHandleOrAppInfo E volumeID volCtx;
        return (case r of Ok p \<Rightarrow> Ok (Some p) | Err _ \<Rightarrow> Ok None | Panic \<Rightarrow> Panic | OutOfFuel \<Rightarrow> OutOfFuel) })"

definition init_setting ::
  "'w env \<Rightarrow> driver \<Rightarrow> string \<Rightarrow> string \<Rightarrow> string smap option \<Rightarrow> string smap option \<Rightarrow> string list option \<Rightarrow>
     PersistentVolume option \<Rightarrow> PersistentVolumeClaim option \<Rightarrow> ('w, DfsSetting result) io" where
  "init_setting E D volumeID target secrets volCtx mountOptions pv pvc =
     bindE (return (ParseSetting E (dr_codec D) (dr_mountImage D) secrets volCtx mountOptions pv pvc)) (\<lambda>s.
       let s = s\<lparr>VolumeId := volumeID\<rparr> in do {
         r \<leftarrow> CreateFS E (opt_list secrets);
         bindE (return (wrapR ''dingofs create fs error: '' r)) (\<lambda>_.
           if target = [] then return (Ok s)
           else bindE (return (getUniqueId volumeID)) (\<lambda>uniqueId.
             return (Ok (s\<lparr>TargetPath := target, UniqueId := uniqueId,
               SecretName := ''dingofs-'' @ uniqueId @ ''-secret''\<rparr>)))) })"

definition InitDfs ::
  "'w env \<Rightarrow> driver \<Rightarrow> string \<Rightarrow> string \<Rightarrow> string smap option \<Rightarrow> string smap option \<Rightarrow> string list option \<Rightarrow>
     ('w, (DfsSetting \<times> string smap option) result) io" where
  "InitDfs E D volumeID target secrets volCtx mountOptions =
     bindE (lookup_pv E D volumeID (opt_list volCtx)) (\<lambda>found.
       let ctx = (case found of Some (_, pvc) \<Rightarrow> Some (ctx_with_claim pvc (opt_list volCtx)) | None \<Rightarrow> volCtx);
           callerCtx = (if volCtx = None then None else ctx)
       in bindE (init_setting E D volumeID target secrets ctx mountOptions (map_option fst found) (map_option snd found))
            (\<lambda>s. return (Ok (s, callerCtx))))"

definition MountFs :: "'w env \<Rightarrow> driver \<Rightarrow> AppInfo option \<Rightarrow> DfsSetting \<Rightarrow> ('w, DfsSetting result) io" where
  "MountFs E D appInfo s =
     bindE (DMount E (dr_codec D) (dr_mountImage D) (dr_fuel D) appInfo
              (s\<lparr>MountPath := PathJoin [PodMountBase, UniqueId s]\<rparr>)) (\<lambda>s.
     bindE (return (StripPasswd (Source s))) (\<lambda>_. return (Ok s)))"

definition DfsMount ::
  "'w env \<Rightarrow> driver \<Rightarrow> string \<Rightarrow> string \<Rightarrow> string smap option \<Rightarrow> string smap option \<Rightarrow> string list \<Rightarrow>
     ('w, (dfs \<times> string smap option) result) io" where
  "DfsMount E D volumeID target secrets volCtx mountOptions =
     bindE (return (validTarget E target)) (\<lambda>_.
     bindE (InitDfs E D volumeID target secrets volCtx (Some mountOptions)) (\<lambda>(s, volCtx).
     bindE (return (ParseAppInfo (dr_kubeletPort D) (dr_hostIp D) (dr_atoi D) (dr_newClient D)
              (dr_runningPods D) volCtx)) (\<lambda>appInfo.
     bindE (MountFs E D appInfo s) (\<lambda>s.
       return (Ok (\<lparr>dfs_Name = mget (opt_list secrets) ''name'', dfs_MountPath = MountPath s,
                    dfs_MountOptions = mountOptions, dfs_Setting = s\<rparr>, volCtx))))))"

subsection \<open>Commands of the provider\<close>

definition env_args :: "string smap \<Rightarrow> string list" where
  "env_args envs = map (\<lambda>(k, v). EscapeBashStr k @ ''='' @ EscapeBashStr v) envs"

text \<open>The first match of the expression for the UUID, up to the last quote of its line.\<close>

definition uuid_prefix :: string where
  "uuid_prefix = [CHR 0x22] @ ''UUID'' @ [CHR 0x22] @ '': '' @ [CHR 0x22]"

fun uuid_match :: "string \<Rightarrow> string" where
  "uuid_match [] = []"
| "uuid_match (c # cs) =
     (let s = c # cs; line = takeWhile (\<lambda>x. x \<noteq> CHR 0x0A) (drop (length uuid_prefix) s) in
      if HasPrefix s uuid_prefix \<and> CHR 0x22 \<in> set line
      then uuid_prefix @ rev (dropWhile (\<lambda>x. x \<noteq> CHR 0x22) (rev line))
      else uuid_match cs)"

definition uuid_of :: "string \<Rightarrow> string \<Rightarrow> string result" where
  "uuid_of source out =
     (let idStrs = Split (uuid_match out) [CHR 0x22] in
      if length idStrs < 4 then Err (MsgErr (''get uuid of '' @ source @ '' error''))
      else Ok (idStrs ! 3))"

text \<open>How a command that failed is reported: a deadline of its context first.\<close>

definition command_error :: "'w env \<Rightarrow> string \<Rightarrow> string \<Rightarrow> err \<Rightarrow> ('w, 'a result) io" where
  "command_error E what re e = do {
     ce \<leftarrow> call (os_ctx_err E) EvCtxErr;
     return (Err (if ce = Some CtxDeadlineExceeded then MsgErr (''dingofs '' @ what @ '' 16s timed out'')
                  else Wrap e re)) }"

definition GetDfsVolUUID :: "'w env \<Rightarrow> DfsSetting \<Rightarrow> ('w, string result) io" where
  "GetDfsVolUUID E s =
     (let args = [DfsCMDPath, ''status'', Source s]; envs = env_args (Envs s) in do {
        (out, e) \<leftarrow> call (os_exec_env E args envs) (EvExecEnv args envs);
        case e of
          Some er \<Rightarrow>
            if Contains out ''database is not formatted'' then return (Ok '''')
            else command_error E ''status'' out er
        | None \<Rightarrow> return (uuid_of (Source s) out) })"

definition wrapSetQuotaErr :: "string \<Rightarrow> err option \<Rightarrow> err option" where
  "wrapSetQuotaErr res e =
     (case e of
        Some er \<Rightarrow>
          if Contains res ''invalid command: quota'' \<or> Contains res (''No help topic for 'quota'' @ [CHR 0x27])
          then None else Some (Wrap er res)
      | None \<Rightarrow> None)"

text \<open>
  The command of \<open>SetQuota\<close> runs in a goroutine; when the context of five check timeouts ends
  first, it goes on in the background and the caller sees success.
\<close>

definition quota_gib :: "int \<Rightarrow> int" where
  "quota_gib capacity = capacity sdiv 1024 sdiv 1024 sdiv 1024"

definition quota_args :: "string smap \<Rightarrow> string \<Rightarrow> int \<Rightarrow> string list" where
  "quota_args secrets quotaPath capacity =
     [DfsCMDPath, ''fs'', ''quota'', ''set'', ''--fsname'', mget secrets ''name'', ''--path'', quotaPath,
      ''--capacity'', int_str (quota_gib capacity), ''--mdsaddr'', mget secrets ''mdsAddr'']"

definition SetQuota ::
  "'w env \<Rightarrow> string smap \<Rightarrow> DfsSetting option \<Rightarrow> string \<Rightarrow> int \<Rightarrow> ('w, err option) io" where
  "SetQuota E secrets setting quotaPath capacity =
     (if quota_gib capacity \<le> 0
      then return (Some (MsgErr (''capacity '' @ int_str capacity @ '' is too small, at least 1GiB for quota'')))
      else let args = quota_args secrets quotaPath capacity;
               envs = (case setting of Some s \<Rightarrow> env_args (Envs s) | None \<Rightarrow> []) in do {
        (res, e) \<leftarrow> call (os_exec_env E args envs) (EvExecEnv args envs);
        w \<leftarrow> call (os_wait E) EvWait;
        return (case w of Finished \<Rightarrow> wrapSetQuotaErr res e | _ \<Rightarrow> None) })"

text \<open>The keys of older secrets are renamed in the map of the caller.\<close>

definition keysCompatible :: "string smap" where
  "keysCompatible = [(''accesskey'', ''access-key''), (''accesskey2'', ''access-key2''),
     (''secretkey'', ''secret-key''), (''secretkey2'', ''secret-key2'')]"

definition rename_key :: "string \<times> string \<Rightarrow> string smap \<Rightarrow> string smap" where
  "rename_key kk secrets =
     (case map_of secrets (fst kk) of
        Some v \<Rightarrow> mdel (mput secrets (snd kk) v) (fst kk)
      | None \<Rightarrow> secrets)"

definition compatible :: "'w env \<Rightarrow> string smap \<Rightarrow> string smap" where
  "compatible E secrets = fold rename_key (go_range E keysCompatible) secrets"

definition auth_keys :: "string list" where
  "auth_keys = [''access-key'', ''access-key2'', ''bucket'', ''bucket2'', ''subdir'']"

definition stripped_keys :: "string list" where
  "stripped_keys = [''token'', ''secret-key'', ''secret-key2'', ''passphrase'']"

definition strippedkey :: "string smap" where
  "strippedkey = [(''secret-key'', ''secretkey''), (''secret-key2'', ''secretkey2'')]"

text \<open>The arguments with their values, and the command that is shown, with variables for secrets.\<close>

definition plain_args :: "string smap \<Rightarrow> string list" where
  "plain_args secrets =
     map (\<lambda>k. ''--'' @ k @ ''='' @ EscapeBashStr (mget secrets k)) (filter (\<lambda>k. mget secrets k \<noteq> []) auth_keys)"

definition secret_args :: "string smap \<Rightarrow> string list" where
  "secret_args secrets =
     map (\<lambda>k. ''--'' @ k @ ''='' @ EscapeBashStr (mget secrets k)) (filter (\<lambda>k. mget secrets k \<noteq> []) stripped_keys)"

definition masked_args :: "string smap \<Rightarrow> string list" where
  "masked_args secrets =
     map (\<lambda>k. ''--'' @ k @ ''=${'' @ (case map_of strippedkey k of Some v \<Rightarrow> v | None \<Rightarrow> k) @ ''}'')
       (filter (\<lambda>k. mget secrets k \<noteq> []) stripped_keys)"

definition format_args :: "DfsSetting \<Rightarrow> (string list \<times> string list) result" where
  "format_args s =
     (if FormatOptions s \<noteq> [] then
        (case ParseFormatOptions s of
           Ok options \<Rightarrow> Ok (RepresentFormatOptions options, StripFormatOptions options [''session-token''])
         | Err e \<Rightarrow> Err (GrpcErr InvalidArgument (''Parse format options error: '' @ err_str e))
         | Panic \<Rightarrow> Panic | OutOfFuel \<Rightarrow> OutOfFuel)
      else Ok ([], []))"

definition run_auth :: "'w env \<Rightarrow> DfsSetting \<Rightarrow> string list \<Rightarrow> ('w, string result) io" where
  "run_auth E s args =
     (let envs = env_args (Envs s) @ [''Dfs_NO_CHECK_OBJECT_STORAGE=1''] in do {
        (res, e) \<leftarrow> call (os_exec_env E (DfsCMDPath # args) envs) (EvExecEnv (DfsCMDPath # args) envs);
        case e of Some er \<Rightarrow> command_error E ''auth'' res er | None \<Rightarrow> return (Ok res) })"

definition AuthFs ::
  "'w env \<Rightarrow> string smap option \<Rightarrow> DfsSetting \<Rightarrow> bool \<Rightarrow> ('w, (string \<times> string smap) result) io" where
  "AuthFs E secrets s force =
     (case secrets of
        None \<Rightarrow> return (Err (GrpcErr InvalidArgument ''Nil secrets''))
      | Some sec \<Rightarrow>
          if mget sec ''name'' = [] then return (Err (GrpcErr InvalidArgument ''Empty name''))
          else let name = EscapeBashStr (mget sec ''name''); sec = compatible E sec in do {
            v \<leftarrow> call (os_lookup_env E ''Dfs_NO_UPDATE_CONFIG'') (\<lambda>_. EvLookupEnv ''Dfs_NO_UPDATE_CONFIG'');
            let noUpdate = (v = Some ''enabled'');
            if noUpdate \<and> mget sec ''bucket'' = []
            then return (Err (MsgErr ''bucket argument is required when --no-update option is provided''))
            else bindE (return (format_args s)) (\<lambda>(represented, stripped).
              let upd = (if noUpdate then [''--no-update''] else []);
                  conf = (if ClientConfPath s \<noteq> [] then [''--conf-dir='' @ ClientConfPath s] else []);
                  args = [''auth'', name] @ plain_args sec @ secret_args sec @ upd @ represented @ conf;
                  cmdArgs = [DfsCMDPath, ''auth'', name] @ plain_args sec @ masked_args sec @ upd @ stripped @ conf
              in if \<not> force then return (Ok (Join cmdArgs '' '', sec))
                 else bindE (run_auth E s args) (\<lambda>res. return (Ok (res, sec)))) })"

subsection \<open>Directories and mounts\<close>

definition DfsCreateVol :: "'w env \<Rightarrow> string \<Rightarrow> string \<Rightarrow> string smap \<Rightarrow> ('w, unit result) io" where
  "DfsCreateVol E volumeID subPath secrets =
     (let rootFSPath = PathJoin [HostContainerDir @ DefaultHostDfsPath, mget secrets ''name''];
          containerHostPath = PathJoin [rootFSPath, subPath] in do {
        r \<leftarrow> call (os_stat E containerHostPath) (\<lambda>r. EvStat containerHostPath (err_of r));
        if IsNotExist (err_of r) then do {
          e \<leftarrow> call (os_mkdir_all E containerHostPath 493) (EvMkdirAll containerHostPath);
          return (case e of
              Some er \<Rightarrow> Err (MsgErr (''create ['' @ containerHostPath @ ''] failed with error ['' @ err_str er @ '']''))
            | None \<Rightarrow> Ok ()) }
        else return (Ok ()) })"

definition DfsCleanupMountPoint :: "'w env \<Rightarrow> string \<Rightarrow> ('w, err option) io" where
  "DfsCleanupMountPoint E mountPath =
     DoWithTimeout E (call (mnt_cleanup E mountPath) (EvCleanupMountPoint mountPath))"

text \<open>A map of an API object is nil when it has no entries.\<close>

definition api_map :: "string smap \<Rightarrow> string smap option" where
  "api_map m = (if m = [] then None else Some m)"

definition DfsDeleteVol :: "'w env \<Rightarrow> driver \<Rightarrow> string \<Rightarrow> string \<Rightarrow> string smap option \<Rightarrow> ('w, unit result) io" where
  "DfsDeleteVol E D volumeID subPath secrets =
     bindE (GetPersistentVolume E volumeID) (\<lambda>pv.
       case pv_CSI pv of
         None \<Rightarrow> return Panic
       | Some csi \<Rightarrow>
           bindE (InitDfs E D volumeID '''' secrets (api_map (csi_VolumeAttributes csi)) (Some (pv_MountOptions pv)))
             (\<lambda>(s, _).
               let s = s\<lparr>SubPath := subPath, MountPath := PathJoin [TmpPodMountBase, VolumeId s]\<rparr> in
               bindE (DeleteVolume E (dr_codec D) (dr_mountImage D) (dr_fuel D) s) (\<lambda>_. do {
                 e \<leftarrow> DfsCleanupMountPoint E (MountPath s);
                 return (result_of e) })))"

definition GetSubPath :: "'w env \<Rightarrow> string \<Rightarrow> ('w, string result) io" where
  "GetSubPath E volumeID =
     (if cfg_Provisioner E then
        bindE (GetPersistentVolume E volumeID) (\<lambda>pv.
          return (case pv_CSI pv of None \<Rightarrow> Panic | Some csi \<Rightarrow> Ok (mget (csi_VolumeAttributes csi) ''subPath'')))
      else return (Ok volumeID))"

fun CreateTarget :: "'w env \<Rightarrow> nat \<Rightarrow> string \<Rightarrow> ('w, unit result) io" where
  "CreateTarget E 0 target = return OutOfFuel"
| "CreateTarget E (Suc n) target = do {
     e \<leftarrow> DoWithTimeout E (do {
       r \<leftarrow> call (mnt_path_exists E target) (EvPathExists target);
       return (err_of r) });
     case e of
       None \<Rightarrow> do {
         m \<leftarrow> call (os_mkdir_all E target 493) (EvMkdirAll target);
         return (result_of m) }
     | Some er \<Rightarrow>
         if mnt_corrupted E er then do { UmountPath E target; CreateTarget E n target }
         else return (Err er) }"

text \<open>
  \<open>DfsUnmount\<close>: the mount pod of a target is the first of the pod with the exact name and the
  pods of the volume on this node whose annotations have the key of the target.
\<close>

definition unmount_labels :: "string \<Rightarrow> string smap" where
  "unmount_labels uniqueId = [(PodTypeKey, PodTypeValue), (PodVolumeIdLabelKey, uniqueId)]"

definition exact_pod :: "'w env \<Rightarrow> string \<Rightarrow> ('w, Pod list result) io" where
  "exact_pod E podName = do {
     r \<leftarrow> GetPod E podName (cfg_Namespace E);
     return (case r of
         Ok pod \<Rightarrow> Ok [pod]
       | Err e \<Rightarrow> if IsNotFound (Some e) then Ok [] else Err e
       | Panic \<Rightarrow> Panic | OutOfFuel \<Rightarrow> OutOfFuel) }"

definition find_mount_pods :: "'w env \<Rightarrow> string \<Rightarrow> ('w, Pod list result) io" where
  "find_mount_pods E uniqueId = do {
     oldPodName \<leftarrow> GenPodNameByUniqueId E uniqueId False;
     bindE (exact_pod E oldPodName) (\<lambda>exact.
     bindE (ListPod E (cfg_Namespace E) (unmount_labels uniqueId) [(''spec.nodeName'', cfg_NodeName E)]) (\<lambda>pods.
       return (Ok (exact @ pods)))) }"

definition umount_and_release :: "'w env \<Rightarrow> driver \<Rightarrow> string \<Rightarrow> string \<Rightarrow> ('w, unit result) io" where
  "umount_and_release E D mountPath podName =
     bindE (UmountTarget E (dr_fuel D) mountPath podName) (\<lambda>_.
       if podName = [] then return (Ok ())
       else bindE (GetMountRef E mountPath podName) (\<lambda>refs.
         if refs = 0 then DUmount E mountPath podName else return (Ok ())))"

definition DfsUnmount :: "'w env \<Rightarrow> driver \<Rightarrow> string \<Rightarrow> string \<Rightarrow> ('w, unit result) io" where
  "DfsUnmount E D volumeId mountPath =
     bindE (return (getUniqueId volumeId)) (\<lambda>uniqueId.
     bindE (find_mount_pods E uniqueId) (\<lambda>mountPods.
       case find (\<lambda>po. mhas (annos po) (GetReferenceKey mountPath)) mountPods of
         None \<Rightarrow> umount_and_release E D mountPath ''''
       | Some mountPod \<Rightarrow>
           (let hashVal = mget (pod_Labels mountPod) PodHashLabelKey in
            if hashVal = []
            then return (Err (MsgErr (''pod '' @ pod_Namespace mountPod @ ''/'' @ pod_Name mountPod @ '' has no hash label'')))
            else locked (GetPodLock hashVal) (umount_and_release E D mountPath (pod_Name mountPod)))))"

text \<open>
  \<open>UnmountAndDelete\<close>: the first part says whether the caller should return, with the response
  (\<open>None\<close> is nil) or the error.
\<close>

definition unpublish_error :: "string \<Rightarrow> string \<Rightarrow> err \<Rightarrow> err" where
  "unpublish_error pre post e = GrpcErr Internal (''NodeUnpublishVolume - '' @ pre @ post @ '' failed with error ['' @ err_str e @ '']'')"

definition unmount_and_remove :: "'w env \<Rightarrow> string \<Rightarrow> bool \<Rightarrow> ('w, bool \<times> unit option result) io" where
  "unmount_and_remove E targetPath unmount = do {
     u \<leftarrow> (if unmount then call (mnt_unmount E targetPath) (EvUnmount targetPath) else return None);
     case u of
       Some e \<Rightarrow> return (True, Err (unpublish_error ''unmount ['' (targetPath @ '']'') e))
     | None \<Rightarrow> do {
         d \<leftarrow> call (os_remove E targetPath) (EvRemove targetPath);
         return (case d of
             None \<Rightarrow> (False, Ok None)
           | Some e \<Rightarrow> if IsNotExist (Some e) then (False, Ok None)
                      else (True, Err (unpublish_error ''mount point ['' (targetPath @ ''] removal'') e))) } }"

definition UnmountAndDelete :: "'w env \<Rightarrow> string \<Rightarrow> bool \<Rightarrow> ('w, bool \<times> unit option result) io" where
  "UnmountAndDelete E targetPath forceful =
     (if forceful then unmount_and_remove E targetPath True
      else do {
        r \<leftarrow> call (mnt_is_mount_point E targetPath) (EvIsMountPoint targetPath);
        case r of
          Ok isMP \<Rightarrow> unmount_and_remove E targetPath isMP
        | Err e \<Rightarrow> return (if IsNotExist (Some e) then (True, Ok (Some ()))
                    else (True, Err (unpublish_error ''mount point check on targetPath:['' (targetPath @ '']'') e)))
        | Panic \<Rightarrow> return (True, Panic)
        | OutOfFuel \<Rightarrow> return (True, OutOfFuel) })"

subsection \<open>Volumes of a mounted file system (volume.go)\<close>

definition CreateVol :: "'w env \<Rightarrow> dfs \<Rightarrow> string \<Rightarrow> ('w, string result) io" where
  "CreateVol E fs subPath =
     (let volPath = PathJoin [dfs_MountPath fs, subPath] in do {
        r \<leftarrow> DoWithTimeoutR E (call (mnt_path_exists E volPath) (EvPathExists volPath));
        case r of
          Err e \<Rightarrow> return (Err (MsgErr (''could not check volume path '' @ go_quote volPath @ '' exists: '' @ err_str e)))
        | Panic \<Rightarrow> return Panic
        | OutOfFuel \<Rightarrow> return OutOfFuel
        | Ok exists \<Rightarrow>
            if exists then return (Ok volPath)
            else do {
              m \<leftarrow> DoWithTimeout E (call (os_mkdir_all E volPath 511) (EvMkdirAll volPath));
              case m of
                Some e \<Rightarrow> return (Err (MsgErr (''could not make directory for meta '' @ go_quote volPath @ '': '' @ err_str e)))
              | None \<Rightarrow> do {
                  st \<leftarrow> DoWithTimeoutR E (call (os_stat E volPath) (\<lambda>r. EvStat volPath (err_of r)));
                  case st of
                    Err e \<Rightarrow> return (Err (MsgErr (''could not stat directory '' @ volPath @ '': '' @ go_quote (err_str e))))
                  | Panic \<Rightarrow> return Panic
                  | OutOfFuel \<Rightarrow> return OutOfFuel
                  | Ok fi \<Rightarrow>
                      if fi_Perm fi \<noteq> 511 then do {
                        c \<leftarrow> DoWithTimeout E (call (os_chmod E volPath 511) (EvChmod volPath 511));
                        return (case c of
                            Some e \<Rightarrow> Err (MsgErr (''could not chmod directory '' @ volPath @ '': '' @ go_quote (err_str e)))
                          | None \<Rightarrow> Ok volPath) }
                      else return (Ok volPath) } } })"

text \<open>The last entry of the mount table for a path counts.\<close>

definition last_minor :: "string \<Rightarrow> MountInfo list \<Rightarrow> int option" where
  "last_minor path mis = fold (\<lambda>mi m. if MountPoint mi = path then Some (Minor mi) else m) mis None"

definition bind_mount :: "'w env \<Rightarrow> string \<Rightarrow> string \<Rightarrow> ('w, unit result) io" where
  "bind_mount E bindSource target = do {
     e \<leftarrow> call (mnt_mount E bindSource target ''none'' [''bind'']) (EvMount bindSource target [''bind'']);
     case e of
       Some er \<Rightarrow> do { _ \<leftarrow> call (os_remove E target) (EvRemove target); return (Err er) }
     | None \<Rightarrow> return (Ok ()) }"

definition BindTarget :: "'w env \<Rightarrow> dfs \<Rightarrow> string \<Rightarrow> string \<Rightarrow> ('w, unit result) io" where
  "BindTarget E fs bindSource target =
     bindE (call (mnt_parse E) EvParseMountInfo) (\<lambda>mountInfos.
       case last_minor (dfs_MountPath fs) mountInfos of
         None \<Rightarrow> return (Err (MsgErr (''BindTarget: mountPath '' @ dfs_MountPath fs @ '' not mounted'')))
       | Some mountMinor \<Rightarrow>
           (case last_minor target mountInfos of
              Some targetMinor \<Rightarrow>
                if targetMinor = mountMinor then return (Ok ())
                else do { UmountPath E target; bind_mount E bindSource target }
            | None \<Rightarrow> bind_mount E bindSource target))"

end
