(* ===== verification/ControllerService.thy ===== *)
theory ControllerService
  imports Provider Locks
begin

text \<open>
  The controller service of CSI, \<open>pkg/dingofs-driver/controller.go\<close>: volumes are directories of an
  existing file system with a quota. The service keeps the capacities of the volumes it was asked
  to create (\<open>vols\<close>) and the volumes being deleted (\<open>volLocks\<close>) in the state of the process.

  A repeated field of a request that is missing is an empty list, as protocol buffers decode it.
\<close>

section \<open>Definitions\<close>

subsection \<open>Requests\<close>

datatype AccessMode = UNKNOWN | SINGLE_NODE_WRITER | SINGLE_NODE_READER_ONLY | MULTI_NODE_READER_ONLY
  | MULTI_NODE_SINGLE_WRITER | MULTI_NODE_MULTI_WRITER

datatype AccessType = NoAccessType | BlockAccess | MountAccess "string list"

text \<open>A capability; a missing access mode reads as \<open>UNKNOWN\<close>.\<close>

record VolumeCapability =
  vc_AccessType :: AccessType
  vc_AccessMode :: AccessMode

record CapacityRange =
  RequiredBytes :: int
  LimitBytes :: int

record CreateVolumeRequest =
  cv_Name :: string
  cv_CapacityRange :: "CapacityRange option"
  cv_VolumeCapabilities :: "VolumeCapability list"
  cv_Parameters :: "string smap"
  cv_Secrets :: "string smap"

record csi_Volume =
  cvol_Id :: string
  cvol_CapacityBytes :: int
  cvol_Context :: "string smap"

record ControllerExpandVolumeRequest =
  ce_VolumeId :: string
  ce_CapacityRange :: "CapacityRange option"
  ce_Secrets :: "string smap option"
  ce_VolumeCapability :: "VolumeCapability option"

record ControllerExpandVolumeResponse =
  ce_CapacityBytes :: int
  ce_NodeExpansionRequired :: bool

definition volumeCaps :: "AccessMode list" where
  "volumeCaps = [SINGLE_NODE_WRITER, MULTI_NODE_MULTI_WRITER, MULTI_NODE_READER_ONLY]"

datatype controller_cap = CREATE_DELETE_VOLUME | EXPAND_VOLUME

definition controllerCaps :: "controller_cap list" where
  "controllerCaps = [CREATE_DELETE_VOLUME, EXPAND_VOLUME]"

definition required_bytes :: "CapacityRange option \<Rightarrow> int" where
  "required_bytes r = (case r of None \<Rightarrow> 0 | Some c \<Rightarrow> RequiredBytes c)"

subsection \<open>Operations\<close>

definition hasSupport :: "VolumeCapability \<Rightarrow> bool" where
  "hasSupport cap =
     (case vc_AccessType cap of
        BlockAccess \<Rightarrow> False
      | MountAccess _ \<Rightarrow> list_ex (\<lambda>c. c = vc_AccessMode cap) volumeCaps
      | NoAccessType \<Rightarrow> False)"

definition isValidVolumeCapabilities :: "VolumeCapability list \<Rightarrow> bool" where
  "isValidVolumeCapabilities volCaps = fold (\<lambda>c foundAll. if \<not> hasSupport c then False else foundAll) volCaps True"

definition rpc_error :: "grpc_code \<Rightarrow> string \<Rightarrow> 'a result \<Rightarrow> 'a result" where
  "rpc_error c msg r = (case r of Err e \<Rightarrow> Err (GrpcErr c (msg @ err_str e)) | _ \<Rightarrow> r)"

definition subPath_of :: "string \<Rightarrow> string" where
  "subPath_of name = TrimPrefix name ''pvc-''"

text \<open>The end of \<open>CreateVolume\<close>: the directory, its quota and the answer.\<close>

definition create_directory :: "'w env \<Rightarrow> CreateVolumeRequest \<Rightarrow> int \<Rightarrow> ('w, csi_Volume result) io" where
  "create_directory E req requiredCap =
     (let volumeId = cv_Name req; subPath = subPath_of (cv_Name req); volCtx = mputs [] (cv_Parameters req) in do {
        c \<leftarrow> DfsCreateVol E volumeId subPath (cv_Secrets req);
        bindE (return (rpc_error Internal ''Could not createVol in dingofs: '' c)) (\<lambda>_. do {
          q \<leftarrow> SetQuota E (cv_Secrets req) None (PathJoin [''/'', subPath]) requiredCap;
          case q of
            Some e \<Rightarrow> return (Err (GrpcErr Internal (''set quota for subPath '' @ subPath @ '': '' @ err_str e)))
          | None \<Rightarrow> return (Ok \<lparr>cvol_Id = volumeId, cvol_CapacityBytes = requiredCap,
              cvol_Context = mput (mput volCtx ''subPath'' subPath) ''capacity'' (int_str requiredCap)\<rparr>) }) })"

definition CreateVolume :: "'w env \<Rightarrow> CreateVolumeRequest \<Rightarrow> ('w, csi_Volume result) io" where
  "CreateVolume E req =
     (if cv_Name req = [] then return (Err (GrpcErr InvalidArgument ''Volume Name cannot be empty''))
      else if cv_VolumeCapabilities req = []
      then return (Err (GrpcErr InvalidArgument ''Volume Capabilities cannot be empty''))
      else if \<not> isValidVolumeCapabilities (cv_VolumeCapabilities req)
      then return (Err (GrpcErr InvalidArgument ''Volume Capabilities not fully supported''))
      else let requiredCap = required_bytes (cv_CapacityRange req) in do {
        capa \<leftarrow> gets (\<lambda>w. map_of (vols w) (cv_Name req));
        if (case capa of Some c \<Rightarrow> c < requiredCap | None \<Rightarrow> False)
        then return (Err (GrpcErr GrpcAlreadyExists
          (''Volume: '' @ go_quote (cv_Name req) @ '', capacity bytes: '' @ int_str requiredCap)))
        else do {
          modify (\<lambda>w. w\<lparr>vols := mput (vols w) (cv_Name req) requiredCap\<rparr>);
          if list_ex (\<lambda>vc. vc_AccessMode vc = MULTI_NODE_READER_ONLY) (cv_VolumeCapabilities req)
          then return (Err (GrpcErr InvalidArgument ''Dynamic mounting uses the sub-path named pv name as data isolation, so read-only mode cannot be used.''))
          else create_directory E req requiredCap } })"

definition try_volume_lock :: "string \<Rightarrow> ('w, bool) io" where
  "try_volume_lock volumeID = do {
     locks \<leftarrow> gets volLocks;
     modify (\<lambda>w. w\<lparr>volLocks := snd (TryAcquire locks volumeID)\<rparr>);
     return (fst (TryAcquire locks volumeID)) }"

definition release_volume_lock :: "string \<Rightarrow> ('w, unit) io" where
  "release_volume_lock volumeID = modify (\<lambda>w. w\<lparr>volLocks := Release (volLocks w) volumeID\<rparr>)"

definition delete_locked :: "'w env \<Rightarrow> driver \<Rightarrow> string \<Rightarrow> string smap \<Rightarrow> ('w, unit result) io" where
  "delete_locked E D volumeID secrets = do {
     r \<leftarrow> DfsDeleteVol E D volumeID volumeID (Some secrets);
     bindE (return (rpc_error Internal ''Could not delVol in dingofs: '' r)) (\<lambda>_. do {
       modify (\<lambda>w. w\<lparr>vols := mdel (vols w) volumeID\<rparr>);
       return (Ok ()) }) }"

definition csi_DeleteVolume :: "'w env \<Rightarrow> driver \<Rightarrow> string \<Rightarrow> string smap \<Rightarrow> ('w, unit result) io" where
  "csi_DeleteVolume E D volumeID secrets =
     (if volumeID = [] then return (Err (GrpcErr InvalidArgument ''Volume ID not provided''))
      else if \<not> CheckDynamicPV volumeID then return (Ok ())
      else if secrets = [] then return (Ok ())
      else do {
        acquired \<leftarrow> try_volume_lock volumeID;
        if \<not> acquired
        then return (Err (GrpcErr Aborted (''DeleteVolume: Volume '' @ go_quote volumeID @ '' is being used by another operation'')))
        else do {
          r \<leftarrow> delete_locked E D volumeID secrets;
          release_volume_lock volumeID;
          return r } })"

definition ControllerGetCapabilities :: "controller_cap list result" where
  "ControllerGetCapabilities = Ok controllerCaps"

definition ValidateVolumeCapabilities ::
  "string \<Rightarrow> VolumeCapability list \<Rightarrow> ('w, VolumeCapability list option result) io" where
  "ValidateVolumeCapabilities volumeID volCaps =
     (if volumeID = [] then return (Err (GrpcErr InvalidArgument ''Volume ID not provided''))
      else if volCaps = [] then return (Err (GrpcErr InvalidArgument ''Volume capabilities not provided''))
      else do {
        known \<leftarrow> gets (\<lambda>w. mhas (vols w) volumeID);
        return (if \<not> known then Err (GrpcErr GrpcNotFound (''Could not get volume by ID '' @ go_quote volumeID))
                else Ok (if isValidVolumeCapabilities volCaps then Some volCaps else None)) })"

text \<open>The directory of the last mount option \<open>subdir\<close>.\<close>

definition quota_subdir :: "string list \<Rightarrow> string" where
  "quota_subdir mountOptions =
     fold (\<lambda>o' subdir. case Split o' ''='' of
         [k, v] \<Rightarrow> if k = ''subdir'' then PathJoin [''/'', v] else subdir
       | _ \<Rightarrow> subdir) mountOptions []"

definition mount_flags :: "VolumeCapability \<Rightarrow> string list" where
  "mount_flags cap = (case vc_AccessType cap of MountAccess flags \<Rightarrow> flags | _ \<Rightarrow> [])"

definition ControllerExpandVolume ::
  "'w env \<Rightarrow> driver \<Rightarrow> ControllerExpandVolumeRequest \<Rightarrow> ('w, ControllerExpandVolumeResponse result) io" where
  "ControllerExpandVolume E D req =
     (let volumeID = ce_VolumeId req in
      if volumeID = [] then return (Err (GrpcErr InvalidArgument ''Volume ID not provided''))
      else case ce_CapacityRange req of
        None \<Rightarrow> return (Err (GrpcErr InvalidArgument ''Capacity range not provided''))
      | Some capRange \<Rightarrow>
          (let newSize = RequiredBytes capRange; maxVolSize = LimitBytes capRange in
           if maxVolSize > 0 \<and> maxVolSize < newSize
           then return (Err (GrpcErr InvalidArgument ''After round-up, volume size exceeds the limit specified''))
           else case ce_VolumeCapability req of
             None \<Rightarrow> return (Err (GrpcErr InvalidArgument ''Volume capability not provided''))
           | Some volCap \<Rightarrow> do {
               sp \<leftarrow> GetSubPath E volumeID;
               bindE (return (rpc_error Internal ''get quotaPath error: '' sp)) (\<lambda>quotaPath. do {
                 i \<leftarrow> InitDfs E D volumeID '''' (ce_Secrets req) None (Some (mount_flags volCap));
                 bindE (return (rpc_error Internal ''get settings: '' i)) (\<lambda>(settings, _). do {
                   q \<leftarrow> SetQuota E (opt_list (ce_Secrets req)) (Some settings)
                         (PathJoin [quota_subdir (MountOptions settings), quotaPath]) newSize;
                   return (case q of
                       Some e \<Rightarrow> Err (GrpcErr Internal (''set quota: '' @ err_str e))
                     | None \<Rightarrow> Ok \<lparr>ce_CapacityBytes = newSize, ce_NodeExpansionRequired = False\<rparr>) }) }) }))"

text \<open>The calls that the service does not implement.\<close>

datatype controller_call = GetCapacity | ListVolumes | CreateSnapshot | DeleteSnapshot | ListSnapshots
  | ControllerPublishVolume | ControllerUnpublishVolume | ControllerGetVolume

fun controller_unimplemented :: "controller_call \<Rightarrow> unit result" where
  "controller_unimplemented GetCapacity = Err (GrpcErr Unimplemented '''')"
| "controller_unimplemented ListVolumes = Err (GrpcErr Unimplemented '''')"
| "controller_unimplemented CreateSnapshot = Err (GrpcErr Unimplemented '''')"
| "controller_unimplemented DeleteSnapshot = Err (GrpcErr Unimplemented '''')"
| "controller_unimplemented ListSnapshots = Err (GrpcErr Unimplemented '''')"
| "controller_unimplemented ControllerPublishVolume = Err (GrpcErr Unimplemented '''')"
| "controller_unimplemented ControllerUnpublishVolume = Err (GrpcErr Unimplemented '''')"
| "controller_unimplemented ControllerGetVolume = Err (GrpcErr Unimplemented '''')"

section \<open>Lemmas\<close>

interpretation volumeLocks: try_lock TryAcquire Release mhas "[]"
  by unfold_locales (auto simp: TryAcquire_def Release_def, simp add: mhas_def)


end
