(* ===== verification/NodeService.thy ===== *)
theory NodeService
  imports ControllerService
begin

text \<open>
  The node service of CSI, \<open>pkg/dingofs-driver/node.go\<close>: it publishes a volume at the target path
  of an application, through a mount pod or from a directory of the host, and takes it back. The
  table of target paths in progress is the field \<open>publishLock\<close> of the process.
\<close>

section \<open>Definitions\<close>

record NodePublishVolumeRequest =
  np_VolumeId :: string
  np_TargetPath :: string
  np_VolumeCapability :: "VolumeCapability option"
  np_Readonly :: bool
  np_Secrets :: "string smap option"
  np_VolumeContext :: "string smap option"

datatype node_cap = GET_VOLUME_STATS

definition nodeCaps :: "node_cap list" where
  "nodeCaps = [GET_VOLUME_STATS]"

subsection \<open>The table of target paths in progress\<close>

definition lock :: "bool smap \<Rightarrow> string \<Rightarrow> bool \<times> bool smap" where
  "lock locks targetPath =
     (let locks = (if length locks = 0 then [] else locks) in
      if mhas locks targetPath then (False, locks) else (True, mput locks targetPath True))"

definition unlock :: "bool smap \<Rightarrow> string \<Rightarrow> bool smap" where
  "unlock locks targetPath = mdel locks targetPath"

definition lock_target :: "string \<Rightarrow> ('w, bool) io" where
  "lock_target targetPath = do {
     t \<leftarrow> gets publishLock;
     modify (\<lambda>w. w\<lparr>publishLock := snd (lock t targetPath)\<rparr>);
     return (fst (lock t targetPath)) }"

definition unlock_target :: "string \<Rightarrow> ('w, unit) io" where
  "unlock_target targetPath = modify (\<lambda>w. w\<lparr>publishLock := unlock (publishLock w) targetPath\<rparr>)"

text \<open>A handler that holds the target path from its start to every return.\<close>

definition holding_target :: "string \<Rightarrow> string \<Rightarrow> ('w, 'a result) io \<Rightarrow> ('w, 'a result) io" where
  "holding_target rpc targetPath body = do {
     ok \<leftarrow> lock_target targetPath;
     if \<not> ok
     then return (Err (GrpcErr Internal (rpc @
       '' - another NodePublish/NodeUnpublish is in progress for the targetPath: ['' @ targetPath @ '']'')))
     else do { r \<leftarrow> body; unlock_target targetPath; return r } }"

subsection \<open>Publishing from the host\<close>

definition node_error :: "string \<Rightarrow> err \<Rightarrow> err" where
  "node_error what e = MsgErr (''NodePublishVolume - '' @ what @ '' failed with error ['' @ err_str e @ '']'')"

text \<open>The directory of the host that holds the volume.\<close>

definition host_vol_path :: "string \<Rightarrow> string smap option \<Rightarrow> string result" where
  "host_vol_path volumeID secrets =
     (case secrets of
        Some sec \<Rightarrow> Ok (PathJoin [DefaultHostDfsPath, mget sec ''name'', TrimPrefix volumeID ''pvc-''])
      | None \<Rightarrow>
          (case GetDfsInfo volumeID of
             Ok v \<Rightarrow> Ok (DfsMountPath v)
           | Err _ \<Rightarrow> Err (GrpcErr InvalidArgument ''NodePublishVolume : volumeID is not in proper format'')
           | Panic \<Rightarrow> Panic | OutOfFuel \<Rightarrow> OutOfFuel))"

definition make_host_dir :: "'w env \<Rightarrow> string \<Rightarrow> ('w, unit result) io" where
  "make_host_dir E p = do {
     r \<leftarrow> call (os_stat E p) (\<lambda>r. EvStat p (err_of r));
     if IsNotExist (err_of r) then do {
       e \<leftarrow> call (os_mkdir_all E p 493) (EvMkdirAll p);
       return (case e of Some er \<Rightarrow> Err (node_error (''create ['' @ p @ '']'') er) | None \<Rightarrow> Ok ()) }
     else return (Ok ()) }"

text \<open>Whether the target is a mount point already; a target that is missing is made.\<close>

definition target_mounted :: "'w env \<Rightarrow> string \<Rightarrow> ('w, bool result) io" where
  "target_mounted E targetPath = do {
     r \<leftarrow> call (mnt_is_mount_point E targetPath) (EvIsMountPoint targetPath);
     case r of
       Err e \<Rightarrow>
         if IsNotExist (Some e) then do {
           m \<leftarrow> call (os_mkdir E targetPath) (EvMkdir targetPath);
           return (case m of
               Some er \<Rightarrow> Err (node_error (''targetPath ['' @ targetPath @ ''] creation'') er)
             | None \<Rightarrow> Ok False) }
         else return (Err (node_error (''targetPath ['' @ targetPath @ ''] check'') e))
     | _ \<Rightarrow> return r }"

definition read_mounts :: "'w env \<Rightarrow> ('w, string option) io" where
  "read_mounts E =
     (let args = [''bash'', ''-c'', ''cat /proc/mounts | grep '' @ go_quote ''dingofs''] in do {
        (out, e) \<leftarrow> call (os_exec E args) (EvExec args);
        return (case e of None \<Rightarrow> Some out | Some _ \<Rightarrow> None) })"

definition publish_host :: "'w env \<Rightarrow> string \<Rightarrow> string \<Rightarrow> string smap option \<Rightarrow> ('w, unit result) io" where
  "publish_host E volumeID targetPath secrets =
     bindE (return (host_vol_path volumeID secrets)) (\<lambda>hostVolPath.
       let volPathInContainer = HostContainerDir @ hostVolPath in
       bindE (make_host_dir E volPathInContainer) (\<lambda>_.
       bindE (target_mounted E targetPath) (\<lambda>mntPoint.
         if mntPoint then return (Ok ())
         else do {
           m \<leftarrow> call (mnt_mount E volPathInContainer targetPath '''' [''bind''])
                 (EvMount volPathInContainer targetPath [''bind'']);
           case m of
             Some e \<Rightarrow> return (Err (node_error (''mounting ['' @ hostVolPath @ ''] at ['' @ targetPath @ '']'') e))
           | None \<Rightarrow> do {
               mounts \<leftarrow> read_mounts E;
               case CheckDfsType mounts volPathInContainer of
                 Err e \<Rightarrow> do {
                   u \<leftarrow> call (mnt_unmount E targetPath) (EvUnmount targetPath);
                   return (case u of
                       Some ue \<Rightarrow> Err (node_error (''unmount ['' @ targetPath @ '']'') ue)
                     | None \<Rightarrow> Err e) }
               | r \<Rightarrow> return r } })))"

subsection \<open>Publishing through a mount pod\<close>

text \<open>
  The mount options: those of the volume context, then \<open>ro\<close> and the flags of the capability, then
  the log directories. The flag \<open>foundLogDir\<close> is never set.
\<close>

definition request_options :: "NodePublishVolumeRequest \<Rightarrow> VolumeCapability \<Rightarrow> string list" where
  "request_options req volCap =
     (let options = (if np_Readonly req \<or> vc_AccessMode volCap = MULTI_NODE_READER_ONLY then [''ro''] else [])
                    @ mount_flags volCap;
          mountOptions = (case map_of (opt_list (np_VolumeContext req)) ''mountOptions'' of
             Some opts \<Rightarrow> Split opts '','' | None \<Rightarrow> [])
      in mountOptions @ options)"

definition sets_option :: "string \<Rightarrow> string list \<Rightarrow> bool" where
  "sets_option key mountOptions = list_ex (\<lambda>item. HasPrefix item (key @ ''='')) mountOptions"

definition with_log_options :: "string \<Rightarrow> string list \<Rightarrow> string list" where
  "with_log_options volumeID mountOptions =
     (let foundLogPrefix = sets_option DefaultS3LogPrefixKey mountOptions
            \<or> sets_option DefaultClientCommonLogDirKey mountOptions;
          foundLogDir = False;
          mountOptions = (if \<not> foundLogPrefix
            then mountOptions @ [DefaultS3LogPrefixKey @ ''='' @ DefaultS3LogPrefixVal @ ''/'' @ volumeID]
            else mountOptions)
      in if \<not> foundLogDir
         then mountOptions @ [DefaultClientCommonLogDirKey @ ''='' @ DefaultClientCommonLogDirVal @ ''/'' @ volumeID]
         else mountOptions)"

definition publish_pod :: "'w env \<Rightarrow> driver \<Rightarrow> NodePublishVolumeRequest \<Rightarrow> VolumeCapability \<Rightarrow> ('w, unit result) io" where
  "publish_pod E D req volCap =
     (let volumeID = np_VolumeId req; targetPath = np_TargetPath req in do {
        m \<leftarrow> DfsMount E D volumeID targetPath (np_Secrets req) (np_VolumeContext req)
              (with_log_options volumeID (request_options req volCap));
        bindE (return (rpc_error Internal ''Could not mount dingofs: '' m)) (\<lambda>(dfs, volCtx). do {
          v \<leftarrow> CreateVol E dfs (mget (opt_list volCtx) ''subPath'');
          bindE (return (rpc_error Internal (''Could not create volume: '' @ volumeID @ '', '') v)) (\<lambda>bindSource. do {
            b \<leftarrow> BindTarget E dfs bindSource targetPath;
            return (rpc_error Internal (''Could not bind '' @ go_quote bindSource @ '' at '' @ go_quote targetPath @ '': '') b) }) }) })"

definition publish_body :: "'w env \<Rightarrow> driver \<Rightarrow> NodePublishVolumeRequest \<Rightarrow> ('w, unit result) io" where
  "publish_body E D req =
     (case np_VolumeCapability req of
        None \<Rightarrow> return (Err (GrpcErr InvalidArgument ''Volume capability not provided''))
      | Some volCap \<Rightarrow>
          if \<not> isValidVolumeCapabilities [volCap]
          then return (Err (GrpcErr InvalidArgument ''Volume capability not supported''))
          else do {
            t \<leftarrow> CreateTarget E (dr_fuel D) (np_TargetPath req);
            bindE (return (rpc_error Internal (''Could not create dir '' @ go_quote (np_TargetPath req) @ '': '') t)) (\<lambda>_.
              if np_Secrets req = None \<or> cfg_LocalPV E
              then publish_host E (np_VolumeId req) (np_TargetPath req) (np_Secrets req)
              else publish_pod E D req volCap) })"

definition NodePublishVolume :: "'w env \<Rightarrow> driver \<Rightarrow> NodePublishVolumeRequest \<Rightarrow> ('w, unit result) io" where
  "NodePublishVolume E D req =
     (if np_VolumeId req = [] then return (Err (GrpcErr InvalidArgument ''volumeID must be provided''))
      else if np_TargetPath req = [] then return (Err (GrpcErr InvalidArgument ''Target path not provided''))
      else holding_target ''NodePublishVolume'' (np_TargetPath req) (publish_body E D req))"

subsection \<open>Taking a volume back\<close>

definition unpublish_result :: "bool \<times> unit option result \<Rightarrow> unit result" where
  "unpublish_result nr =
     (if fst nr then (case snd nr of Ok _ \<Rightarrow> Ok () | Err e \<Rightarrow> Err e | Panic \<Rightarrow> Panic | OutOfFuel \<Rightarrow> OutOfFuel)
      else Ok ())"

definition unpublish_host :: "'w env \<Rightarrow> string \<Rightarrow> ('w, unit result) io" where
  "unpublish_host E targetPath = do {
     l \<leftarrow> call (os_lstat E targetPath) (\<lambda>r. EvLstat targetPath (err_of r));
     case err_of l of
       Some e \<Rightarrow>
         if IsNotExist (Some e) then return (Ok ())
         else if Contains (err_str e) ''stale NFS file handle'' then do {
           nr \<leftarrow> UnmountAndDelete E targetPath True;
           return (unpublish_result nr) }
         else return (Err (unpublish_error ''lstat ['' (targetPath @ '']'') e))
     | None \<Rightarrow> do {
         nr \<leftarrow> UnmountAndDelete E targetPath False;
         return (unpublish_result nr) } }"

definition unpublish_body :: "'w env \<Rightarrow> driver \<Rightarrow> string \<Rightarrow> string \<Rightarrow> ('w, unit result) io" where
  "unpublish_body E D volumeId targetPath =
     (case GetDfsInfo volumeId of
        Ok _ \<Rightarrow> unpublish_host E targetPath
      | _ \<Rightarrow> do {
          r \<leftarrow> DfsUnmount E D volumeId targetPath;
          return (rpc_error Internal (''Could not unmount '' @ go_quote targetPath @ '': '') r) })"

definition NodeUnpublishVolume :: "'w env \<Rightarrow> driver \<Rightarrow> string \<Rightarrow> string \<Rightarrow> ('w, unit result) io" where
  "NodeUnpublishVolume E D volumeId targetPath =
     (if targetPath = [] then return (Err (GrpcErr InvalidArgument ''Target path not provided''))
      else holding_target ''NodeUnpublishVolume'' targetPath (unpublish_body E D volumeId targetPath))"

subsection \<open>Information\<close>

definition NodeGetCapabilities :: "node_cap list result" where
  "NodeGetCapabilities = Ok nodeCaps"

definition NodeGetInfo :: "string \<Rightarrow> string result" where
  "NodeGetInfo nodeID = Ok nodeID"

datatype node_call = NodeStageVolume | NodeUnstageVolume | NodeExpandVolume

fun node_unimplemented :: "node_call \<Rightarrow> unit result" where
  "node_unimplemented NodeStageVolume = Err (GrpcErr Unimplemented '''')"
| "node_unimplemented NodeUnstageVolume = Err (GrpcErr Unimplemented '''')"
| "node_unimplemented NodeExpandVolume = Err (GrpcErr Unimplemented '''')"

datatype usage_unit = BYTES | INODES

record VolumeUsage =
  Available :: int
  Total :: int
  Used :: int
  Unit :: usage_unit

text \<open>The sizes are unsigned; their differences are taken after the conversion to signed integers.\<close>

definition usage :: "u64 \<Rightarrow> u64 \<Rightarrow> usage_unit \<Rightarrow> VolumeUsage" where
  "usage size_all size_free u =
     \<lparr>Available = sint size_free, Total = sint size_all, Used = sint (size_all - size_free), Unit = u\<rparr>"

definition stats_check :: "'w env \<Rightarrow> string \<Rightarrow> ('w, unit result) io" where
  "stats_check E volumePath = do {
     p \<leftarrow> DoWithTimeoutR E (call (mnt_path_exists E volumePath) (EvPathExists volumePath));
     bindE (return (rpc_error Internal ''Check volume path, err: '' p)) (\<lambda>exists.
       if \<not> exists then return (Err (GrpcErr GrpcNotFound ''Volume path not exists''))
       else do {
         n \<leftarrow> DoWithTimeoutR E (call (mnt_is_not_mount_point E volumePath) (EvIsNotMountPoint volumePath));
         bindE (return (rpc_error Internal ''Check volume path is mountpoint failed: '' n)) (\<lambda>notMnt.
           return (if notMnt then Err (GrpcErr Internal ''Volume path not mounted'') else Ok ())) }) }"

definition NodeGetVolumeStats :: "'w env \<Rightarrow> string \<Rightarrow> string \<Rightarrow> ('w, VolumeUsage list result) io" where
  "NodeGetVolumeStats E volumeID volumePath =
     (if volumeID = [] then return (Err (GrpcErr InvalidArgument ''Volume ID not provided''))
      else if volumePath = [] then return (Err (GrpcErr InvalidArgument ''Volume path not provided''))
      else bindE (stats_check E volumePath) (\<lambda>_. do {
        st \<leftarrow> call (os_statfs E volumePath) (\<lambda>_. EvStatfs volumePath);
        case GetDiskUsage (case st of Ok s \<Rightarrow> Some s | _ \<Rightarrow> None) of
          (totalSize, freeSize, totalInodes, freeInodes) \<Rightarrow>
            return (Ok [usage totalSize freeSize BYTES, usage totalInodes freeInodes INODES]) }))"

section \<open>Lemmas\<close>

lemma lock_iff: "lock t k = (if mhas t k then (False, t) else (True, mput t k True))"
  by (simp add: lock_def)

interpretation nodeLocks: try_lock lock unlock mhas "[]"
  by unfold_locales (auto simp: lock_iff unlock_def, simp add: mhas_def)


end
