(* ===== verification/Frame.thy ===== *)
theory Frame
  imports NodeService
begin

text \<open>
  What the calls of the driver leave alone: the tables of locks and volumes of the services are
  changed by the handlers themselves and by nothing they call. The lemmas are stated for every part
  of the state that does not depend on the outside world, the trace and the table of device numbers.
\<close>

named_theorems frame \<open>calls that keep the tables of the services\<close>

definition table_of :: "('w world \<Rightarrow> 'x) \<Rightarrow> bool" where
  "table_of sel \<longleftrightarrow> (\<forall>s x t d. sel (s\<lparr>ext := x, trace := t, devMinorTable := d\<rparr>) = sel s)"

lemma table_of_tables [simp]: "table_of publishLock" "table_of vols" "table_of volLocks"
  by (simp_all add: table_of_def)

lemma table_client [simp]: "table_of sel \<Longrightarrow> client_keeps sel"
  unfolding table_of_def client_keeps_def
  by (metis (full_types) world.surjective world.update_convs(1,2,4))

lemma frame_call [frame]: "table_of sel \<Longrightarrow> keeps sel (call f ev)"
  by (rule keeps_call_any) simp

lemma frame_emit [frame]: "table_of sel \<Longrightarrow> keeps sel (emit ev)"
  by (rule keeps_emit_any) simp

lemma frame_dev [frame]: "table_of sel \<Longrightarrow> keeps sel (modify (\<lambda>s. s\<lparr>devMinorTable := f s\<rparr>))"
  unfolding table_of_def keeps_def by (simp, metis (full_types) world.surjective world.update_convs(1,2,4))

lemma frame_control [frame]:
  assumes "table_of sel"
  shows "keeps sel m \<Longrightarrow> keeps sel (locked i m)"
    "keeps sel m1 \<Longrightarrow> keeps sel (DoWithTimeout E m1)"
    "keeps sel m2 \<Longrightarrow> keeps sel (DoWithTimeoutR E m2)"
    "keeps sel m2 \<Longrightarrow> keeps sel (RetryOnConflict n m2)"
  unfolding locked_def DoWithTimeout_def DoWithTimeoutR_def using assms
  by (auto intro!: keeps_bind keeps_return frame_call frame_emit keeps_RetryOnConflict)

lemmas frame_splits = if_split option.split result.split prod.split list.split VolumeSource.split wait_end.split

lemmas frame_steps = keeps_bind keeps_bindE keeps_return keeps_gets

lemma frame_client [frame]:
  assumes "table_of sel"
  shows "keeps sel (GetPod E n ns)" "keeps sel (ListPod E ns ls fs)" "keeps sel (ListNode E ls)"
    "keeps sel (GetPodLog E n ns c)" "keeps sel (PatchPod E pod d)" "keeps sel (DeletePod E pod)"
    "keeps sel (GetSecret E n ns)" "keeps sel (CreateSecret E sec)" "keeps sel (UpdateSecret E sec)"
    "keeps sel (DeleteSecret E n ns)" "keeps sel (DeleteService E n ns)" "keeps sel (GetJob E n ns)"
    "keeps sel (CreateJob E job)" "keeps sel (DeleteJob E n ns)" "keeps sel (GetPersistentVolume E n)"
    "keeps sel (GetPersistentVolumeClaim E n ns)" "keeps sel (CreatePod E pod)"
  using assms by (auto intro!: keeps_client keeps_CreatePod)

lemma frame_GetTimeAfterDelay [frame]: "table_of sel \<Longrightarrow> keeps sel (GetTimeAfterDelay E a)"
  unfolding GetTimeAfterDelay_def by (auto intro!: frame_steps frame simp: Let_def split: frame_splits)

lemma frame_UmountPath [frame]: "table_of sel \<Longrightarrow> keeps sel (UmountPath E a)"
  unfolding UmountPath_def by (auto intro!: frame_steps frame simp: Let_def split: frame_splits)

lemma frame_AddPodLabel [frame]: "table_of sel \<Longrightarrow> keeps sel (AddPodLabel E a b)"
  unfolding AddPodLabel_def by (auto intro!: frame_steps frame simp: Let_def split: frame_splits)

lemma frame_AddPodAnnotation [frame]: "table_of sel \<Longrightarrow> keeps sel (AddPodAnnotation E a b)"
  unfolding AddPodAnnotation_def by (auto intro!: frame_steps frame simp: Let_def split: frame_splits)

lemma frame_DelPodAnnotation [frame]: "table_of sel \<Longrightarrow> keeps sel (DelPodAnnotation E a b)"
  unfolding DelPodAnnotation_def by (auto intro!: frame_steps frame simp: Let_def split: frame_splits)

lemma frame_ReplacePodAnnotation [frame]: "table_of sel \<Longrightarrow> keeps sel (ReplacePodAnnotation E a b)"
  unfolding ReplacePodAnnotation_def by (auto intro!: frame_steps frame simp: Let_def split: frame_splits)

lemma frame_RandStringRunes [frame]: "table_of sel \<Longrightarrow> keeps sel (RandStringRunes E n)"
  by (induction n) (auto intro!: frame_steps frame simp: Let_def split: frame_splits)

lemma frame_umount_stale [frame]: "table_of sel \<Longrightarrow> keeps sel (umount_stale E n a)"
  by (induction n) (auto intro!: frame_steps frame simp: Let_def split: frame_splits)

lemma frame_wait_mount_ready [frame]: "table_of sel \<Longrightarrow> keeps sel (wait_mount_ready E n a b)"
  by (induction n) (auto intro!: frame_steps frame simp: Let_def split: frame_splits)

lemma frame_WaitUtilMountReady [frame]: "table_of sel \<Longrightarrow> keeps sel (WaitUtilMountReady E n a b)"
  unfolding WaitUtilMountReady_def by (auto intro!: frame_steps frame simp: Let_def split: frame_splits)

lemma frame_ShouldDelay [frame]: "table_of sel \<Longrightarrow> keeps sel (ShouldDelay E a)"
  unfolding ShouldDelay_def by (auto intro!: frame_steps frame simp: Let_def split: frame_splits)

lemma frame_find_app_pv [frame]: "table_of sel \<Longrightarrow> keeps sel (find_app_pv E a b vs)"
  by (induction vs) (auto intro!: frame_steps frame simp: Let_def split: frame_splits)

lemma frame_GetPVWithVolumeHandleOrAppInfo [frame]: "table_of sel \<Longrightarrow> keeps sel (GetPVWithVolumeHandleOrAppInfo E a b)"
  unfolding GetPVWithVolumeHandleOrAppInfo_def by (auto intro!: frame_steps frame simp: Let_def split: frame_splits)

lemma frame_GetErrContainerLog [frame]: "table_of sel \<Longrightarrow> keeps sel (GetErrContainerLog E a)"
  unfolding GetErrContainerLog_def by (auto intro!: frame_steps frame simp: Let_def split: frame_splits)

lemma frame_GenPodNameByUniqueId [frame]: "table_of sel \<Longrightarrow> keeps sel (GenPodNameByUniqueId E a b)"
  unfolding GenPodNameByUniqueId_def by (auto intro!: frame_steps frame simp: Let_def split: frame_splits)

lemma frame_GenMountPodName [frame]: "table_of sel \<Longrightarrow> keeps sel (GenMountPodName E s)"
  unfolding GenMountPodName_def by (auto intro!: frame_steps frame simp: Let_def split: frame_splits)

lemma frame_SetMountLabel [frame]: "table_of sel \<Longrightarrow> keeps sel (SetMountLabel E a b c d)"
  unfolding SetMountLabel_def by (auto intro!: frame_steps frame simp: Let_def split: frame_splits)

lemma frame_CreateOrUpdateSecret [frame]: "table_of sel \<Longrightarrow> keeps sel (CreateOrUpdateSecret E a)"
  unfolding CreateOrUpdateSecret_def by (auto intro!: frame_steps frame simp: Let_def split: frame_splits)

lemma frame_initFuseConfig [frame]: "table_of sel \<Longrightarrow> keeps sel (initFuseConfig E a b)"
  unfolding initFuseConfig_def by (auto intro!: frame_steps frame simp: Let_def split: frame_splits)

lemma frame_NewMountPod [frame]: "table_of sel \<Longrightarrow> keeps sel (NewMountPod E C a b c)"
  unfolding NewMountPod_def by (auto intro!: frame_steps frame simp: Let_def split: frame_splits)

lemma frame_AddRefOfMount [frame]: "table_of sel \<Longrightarrow> keeps sel (AddRefOfMount E a b)"
  unfolding AddRefOfMount_def by (auto intro!: frame_steps frame simp: Let_def split: frame_splits)

lemma frame_waitUtilMountReady [frame]: "table_of sel \<Longrightarrow> keeps sel (waitUtilMountReady E n a b)"
  unfolding waitUtilMountReady_def by (auto intro!: frame_steps frame simp: Let_def split: frame_splits)

lemma frame_make_mount_dir [frame]: "table_of sel \<Longrightarrow> keeps sel (make_mount_dir E n a)"
  unfolding make_mount_dir_def by (auto intro!: frame_steps frame simp: Let_def split: frame_splits)

lemma frame_place_pod [frame]: "table_of sel \<Longrightarrow> keeps sel (place_pod E a b)"
  unfolding place_pod_def by (auto intro!: frame_steps frame simp: Let_def split: frame_splits)

lemma frame_create_mount_pod [frame]: "table_of sel \<Longrightarrow> keeps sel (create_mount_pod E C a b c d e)"
  unfolding create_mount_pod_def by (auto intro!: frame_steps frame simp: Let_def split: frame_splits)

lemma frame_create_or_add [frame]: "table_of sel \<Longrightarrow> keeps sel (create_or_add E C a n b c d e)"
  by (induction n) (auto intro!: frame_steps frame simp: Let_def split: frame_splits)

lemma frame_createPodOrAddRef [frame]: "table_of sel \<Longrightarrow> keeps sel (createPodOrAddRef E C a n b c d)"
  unfolding createPodOrAddRef_def by (auto intro!: frame_steps frame simp: Let_def split: frame_splits)

lemma frame_dmount_locked [frame]: "table_of sel \<Longrightarrow> keeps sel (dmount_locked E C a n b c)"
  unfolding dmount_locked_def by (auto intro!: frame_steps frame simp: Let_def split: frame_splits)

lemma frame_DMount [frame]: "table_of sel \<Longrightarrow> keeps sel (DMount E C a n b c)"
  unfolding DMount_def by (auto intro!: frame_steps frame simp: Let_def split: frame_splits)

lemma frame_createOrUpdateSecret [frame]: "table_of sel \<Longrightarrow> keeps sel (createOrUpdateSecret E a)"
  unfolding createOrUpdateSecret_def by (auto intro!: frame_steps frame simp: Let_def split: frame_splits)

lemma frame_getNotCompleteCnLog [frame]: "table_of sel \<Longrightarrow> keeps sel (getNotCompleteCnLog E a)"
  unfolding getNotCompleteCnLog_def by (auto intro!: frame_steps frame simp: Let_def split: frame_splits)

lemma frame_job_incomplete [frame]: "table_of sel \<Longrightarrow> keeps sel (job_incomplete E a)"
  unfolding job_incomplete_def by (auto intro!: frame_steps frame simp: Let_def split: frame_splits)

lemma frame_waitUtilJobCompleted [frame]: "table_of sel \<Longrightarrow> keeps sel (waitUtilJobCompleted E n a)"
  by (induction n) (auto intro!: frame_steps frame simp: Let_def split: frame_splits)

lemma frame_DeleteVolume [frame]: "table_of sel \<Longrightarrow> keeps sel (MountPods.DeleteVolume E C a n b)"
  unfolding MountPods.DeleteVolume_def by (auto intro!: frame_steps frame simp: Let_def split: frame_splits)

lemma frame_dumount_delete [frame]: "table_of sel \<Longrightarrow> keeps sel (dumount_delete E a b c)"
  unfolding dumount_delete_def by (auto intro!: frame_steps frame simp: Let_def split: frame_splits)

lemma frame_dumount_once [frame]: "table_of sel \<Longrightarrow> keeps sel (dumount_once E a)"
  unfolding dumount_once_def by (auto intro!: frame_steps frame simp: Let_def split: frame_splits)

lemma frame_DUmount [frame]: "table_of sel \<Longrightarrow> keeps sel (DUmount E a b)"
  unfolding DUmount_def by (auto intro!: frame_steps frame simp: Let_def split: frame_splits)

lemma frame_del_ref_once [frame]: "table_of sel \<Longrightarrow> keeps sel (del_ref_once E a b)"
  unfolding del_ref_once_def by (auto intro!: frame_steps frame simp: Let_def split: frame_splits)

lemma frame_UmountTarget [frame]: "table_of sel \<Longrightarrow> keeps sel (UmountTarget E n a b)"
  unfolding UmountTarget_def by (auto intro!: frame_steps frame simp: Let_def split: frame_splits)

lemma frame_GetMountRef [frame]: "table_of sel \<Longrightarrow> keeps sel (GetMountRef E a b)"
  unfolding GetMountRef_def by (auto intro!: frame_steps frame simp: Let_def split: frame_splits)

lemma frame_CheckFsExisted [frame]: "table_of sel \<Longrightarrow> keeps sel (CheckFsExisted E a b)"
  unfolding CheckFsExisted_def by (auto intro!: frame_steps frame simp: Let_def split: frame_splits)

lemma frame_run_tool [frame]: "table_of sel \<Longrightarrow> keeps sel (run_tool E a b c)"
  unfolding run_tool_def by (auto intro!: frame_steps frame simp: Let_def split: frame_splits)

lemma frame_config_quota [frame]: "table_of sel \<Longrightarrow> keeps sel (config_quota E a b c)"
  unfolding config_quota_def by (auto intro!: frame_steps frame simp: Let_def split: frame_splits)

lemma frame_CreateFS [frame]: "table_of sel \<Longrightarrow> keeps sel (CreateFS E a)"
  unfolding CreateFS_def by (auto intro!: frame_steps frame simp: Let_def split: frame_splits)

lemma frame_lookup_pv [frame]: "table_of sel \<Longrightarrow> keeps sel (lookup_pv E D a b)"
  unfolding lookup_pv_def by (auto intro!: frame_steps frame simp: Let_def split: frame_splits)

lemma frame_init_setting [frame]: "table_of sel \<Longrightarrow> keeps sel (init_setting E D a b c d e f g)"
  unfolding init_setting_def by (auto intro!: frame_steps frame simp: Let_def split: frame_splits)

lemma frame_InitDfs [frame]: "table_of sel \<Longrightarrow> keeps sel (InitDfs E D a b c d e)"
  unfolding InitDfs_def by (auto intro!: frame_steps frame simp: Let_def split: frame_splits)

lemma frame_MountFs [frame]: "table_of sel \<Longrightarrow> keeps sel (MountFs E D a b)"
  unfolding MountFs_def by (auto intro!: frame_steps frame simp: Let_def split: frame_splits)

lemma frame_DfsMount [frame]: "table_of sel \<Longrightarrow> keeps sel (DfsMount E D a b c d e)"
  unfolding DfsMount_def by (auto intro!: frame_steps frame simp: Let_def split: frame_splits)

lemma frame_SetQuota [frame]: "table_of sel \<Longrightarrow> keeps sel (SetQuota E a b c d)"
  unfolding SetQuota_def by (auto intro!: frame_steps frame simp: Let_def split: frame_splits)

lemma frame_DfsCreateVol [frame]: "table_of sel \<Longrightarrow> keeps sel (DfsCreateVol E a b c)"
  unfolding DfsCreateVol_def by (auto intro!: frame_steps frame simp: Let_def split: frame_splits)

lemma frame_DfsCleanupMountPoint [frame]: "table_of sel \<Longrightarrow> keeps sel (DfsCleanupMountPoint E a)"
  unfolding DfsCleanupMountPoint_def by (auto intro!: frame_steps frame simp: Let_def split: frame_splits)

lemma frame_DfsDeleteVol [frame]: "table_of sel \<Longrightarrow> keeps sel (DfsDeleteVol E D a b c)"
  unfolding DfsDeleteVol_def by (auto intro!: frame_steps frame simp: Let_def split: frame_splits)

lemma frame_GetSubPath [frame]: "table_of sel \<Longrightarrow> keeps sel (GetSubPath E a)"
  unfolding GetSubPath_def by (auto intro!: frame_steps frame simp: Let_def split: frame_splits)

lemma frame_CreateTarget [frame]: "table_of sel \<Longrightarrow> keeps sel (CreateTarget E n a)"
  by (induction n) (auto intro!: frame_steps frame simp: Let_def split: frame_splits)

lemma frame_exact_pod [frame]: "table_of sel \<Longrightarrow> keeps sel (exact_pod E a)"
  unfolding exact_pod_def by (auto intro!: frame_steps frame simp: Let_def split: frame_splits)

lemma frame_find_mount_pods [frame]: "table_of sel \<Longrightarrow> keeps sel (find_mount_pods E a)"
  unfolding find_mount_pods_def by (auto intro!: frame_steps frame simp: Let_def split: frame_splits)

lemma frame_umount_and_release [frame]: "table_of sel \<Longrightarrow> keeps sel (umount_and_release E D a b)"
  unfolding umount_and_release_def by (auto intro!: frame_steps frame simp: Let_def split: frame_splits)

lemma frame_DfsUnmount [frame]: "table_of sel \<Longrightarrow> keeps sel (DfsUnmount E D a b)"
  unfolding DfsUnmount_def by (auto intro!: frame_steps frame simp: Let_def split: frame_splits)

lemma frame_unmount_and_remove [frame]: "table_of sel \<Longrightarrow> keeps sel (unmount_and_remove E a b)"
  unfolding unmount_and_remove_def by (auto intro!: frame_steps frame simp: Let_def split: frame_splits)

lemma frame_UnmountAndDelete [frame]: "table_of sel \<Longrightarrow> keeps sel (UnmountAndDelete E a b)"
  unfolding UnmountAndDelete_def by (auto intro!: frame_steps frame simp: Let_def split: frame_splits)

lemma frame_CreateVol [frame]: "table_of sel \<Longrightarrow> keeps sel (CreateVol E a b)"
  unfolding CreateVol_def by (auto intro!: frame_steps frame simp: Let_def split: frame_splits)

lemma frame_bind_mount [frame]: "table_of sel \<Longrightarrow> keeps sel (bind_mount E a b)"
  unfolding bind_mount_def by (auto intro!: frame_steps frame simp: Let_def split: frame_splits)

lemma frame_BindTarget [frame]: "table_of sel \<Longrightarrow> keeps sel (BindTarget E a b c)"
  unfolding BindTarget_def by (auto intro!: frame_steps frame simp: Let_def split: frame_splits)

lemma frame_make_host_dir [frame]: "table_of sel \<Longrightarrow> keeps sel (make_host_dir E a)"
  unfolding make_host_dir_def by (auto intro!: frame_steps frame simp: Let_def split: frame_splits)

lemma frame_target_mounted [frame]: "table_of sel \<Longrightarrow> keeps sel (target_mounted E a)"
  unfolding target_mounted_def by (auto intro!: frame_steps frame simp: Let_def split: frame_splits)

lemma frame_read_mounts [frame]: "table_of sel \<Longrightarrow> keeps sel (read_mounts E)"
  unfolding read_mounts_def by (auto intro!: frame_steps frame simp: Let_def split: frame_splits)

lemma frame_publish_host [frame]: "table_of sel \<Longrightarrow> keeps sel (publish_host E a b c)"
  unfolding publish_host_def by (auto intro!: frame_steps frame simp: Let_def split: frame_splits)

lemma frame_publish_pod [frame]: "table_of sel \<Longrightarrow> keeps sel (publish_pod E D a b)"
  unfolding publish_pod_def by (auto intro!: frame_steps frame simp: Let_def split: frame_splits)

lemma frame_publish_body [frame]: "table_of sel \<Longrightarrow> keeps sel (publish_body E D a)"
  unfolding publish_body_def by (auto intro!: frame_steps frame simp: Let_def split: frame_splits)

lemma frame_unpublish_host [frame]: "table_of sel \<Longrightarrow> keeps sel (unpublish_host E a)"
  unfolding unpublish_host_def by (auto intro!: frame_steps frame simp: Let_def split: frame_splits)

lemma frame_unpublish_body [frame]: "table_of sel \<Longrightarrow> keeps sel (unpublish_body E D a b)"
  unfolding unpublish_body_def by (auto intro!: frame_steps frame simp: Let_def split: frame_splits)

lemma frame_create_directory [frame]: "table_of sel \<Longrightarrow> keeps sel (create_directory E a b)"
  unfolding create_directory_def by (auto intro!: frame_steps frame simp: Let_def split: frame_splits)

end
