(* ===== verification/Services.thy ===== *)
theory Services
  imports Frame
begin

text \<open>
  What the services of the driver promise, over the provider and the mount pods below them: requests
  that overlap never work on the same target, every handler releases its locks, a published target
  has its reference and its bind mount, taking a target back removes only what belongs to it, the
  target directory is made in finitely many rounds, the statistics add up, and which capacities and
  quotas a volume gets.
\<close>

subsection \<open>Locks\<close>

lemma put_del: "\<not> mhas m k \<Longrightarrow> mdel (mput m k v) k = m"
  by (induction m) (auto simp: mhas_def split: if_splits)

lemma keeps_holding_target: "keeps publishLock body \<Longrightarrow> keeps publishLock (holding_target rpc t body)"
  by (auto simp: keeps_def holding_target_def lock_target_def unlock_target_def lock_iff unlock_def put_del
      case_prod_unfold)

lemma keeps_csi_DeleteVolume: "keeps volLocks (csi_DeleteVolume E D v secrets)"
proof -
  have "keeps volLocks (delete_locked E D v secrets)"
    unfolding delete_locked_def
    by (auto intro!: frame_steps frame keeps_modify)
  then show ?thesis
    by (auto simp: keeps_def csi_DeleteVolume_def try_volume_lock_def release_volume_lock_def TryAcquire_def
        Release_def put_del case_prod_unfold)
qed



text \<open>C16: publishing, unpublishing and deleting a volume leave no lock behind: on every path, errors and
  panics included, the table of target paths and the table of volumes are afterwards what they were.\<close>

theorem services_release_locks:
  "publishLock (snd (run_state (NodePublishVolume E D req) w)) = publishLock w \<and>
   publishLock (snd (run_state (NodeUnpublishVolume E D volumeId targetPath) w)) = publishLock w \<and>
   volLocks (snd (run_state (csi_DeleteVolume E D volumeId secrets) w)) = volLocks w"
proof -
  have "keeps publishLock (NodePublishVolume E D req)"
    unfolding NodePublishVolume_def by (auto intro!: keeps_return keeps_holding_target frame)
  moreover have "keeps publishLock (NodeUnpublishVolume E D volumeId targetPath)"
    unfolding NodeUnpublishVolume_def by (auto intro!: keeps_return keeps_holding_target frame)
  ultimately show ?thesis
    using keeps_csi_DeleteVolume [of E D volumeId secrets] by (auto simp: keeps_def)
qed

subsection \<open>Publishing through a mount pod\<close>

text \<open>Calls whose trace does not matter.\<close>

definition runs :: "('w, 'a) io \<Rightarrow> bool" where
  "runs m \<longleftrightarrow> wp trace m (\<lambda>_ _. True)"

named_theorems runs_rules \<open>calls that extend the trace\<close>

lemma runs_basic [runs_rules]: "runs (return x)" "runs (call f ev)" "runs (emit e)"
  "runs m \<Longrightarrow> (\<And>x. runs (g x)) \<Longrightarrow> runs (State_Monad.bind m g)"
  "runs m' \<Longrightarrow> (\<And>x. runs (g' x)) \<Longrightarrow> runs (bindE m' g')"
  "runs t \<Longrightarrow> runs (DoWithTimeout E t)" "runs t' \<Longrightarrow> runs (DoWithTimeoutR E t')"
  unfolding runs_def
  by (auto intro: wp_rules elim!: wp_mono intro!: wp_bind wp_bindE wp_DoWithTimeout wp_DoWithTimeoutR split: result.splits)

lemma runs_client [runs_rules]: "runs (GetPod E n ns)" "runs (GetPersistentVolume E n)" "runs (GetPersistentVolumeClaim E n ns)"
  unfolding runs_def by (auto intro: wp_client)

lemma runs_find_app_pv [runs_rules]: "runs (find_app_pv E a b vs)"
  by (induction vs) (auto intro!: runs_rules split: VolumeSource.split option.split)

lemma runs_lookup_pv [runs_rules]: "runs (lookup_pv E D a b)"
  unfolding lookup_pv_def GetPVWithVolumeHandleOrAppInfo_def
  by (auto intro!: runs_rules split: option.split result.split)

lemma runs_CreateFS [runs_rules]: "runs (CreateFS E a)"
  unfolding CreateFS_def CheckFsExisted_def run_tool_def config_quota_def
  by (auto intro!: runs_rules simp: Let_def split: option.split prod.split)

lemma wp_runs: "runs m \<Longrightarrow> (\<And>es r. Q es r) \<Longrightarrow> wp trace m Q"
  unfolding runs_def by (erule wp_mono)

lemma ctx_with_claim_subPath: "mget (ctx_with_claim pvc ctx) ''subPath'' = mget ctx ''subPath''"
proof -
  have "mget (mputs m (filter (\<lambda>(k, v). HasPrefix k ''dingofs'') ps)) ''subPath'' = mget m ''subPath''" for m ps
    by (induction ps arbitrary: m) (auto simp: HasPrefix_def)
  then show ?thesis by (simp add: ctx_with_claim_def)
qed

text \<open>What a call has done when it answers without an error.\<close>

definition wpOk :: "('w, 'a result) io \<Rightarrow> (event list \<Rightarrow> 'a \<Rightarrow> bool) \<Rightarrow> bool" where
  "wpOk m Q \<longleftrightarrow> wp trace m (\<lambda>es r. \<forall>x. r = Ok x \<longrightarrow> Q es x)"

lemma wpOk_return: "(\<And>x. r = Ok x \<Longrightarrow> Q [] x) \<Longrightarrow> wpOk (return r) Q"
  unfolding wpOk_def by (rule wp_return) simp

lemma wpOk_bindE:
  assumes "wpOk m P" and "\<And>es x. P es x \<Longrightarrow> wpOk (f x) (\<lambda>es'. Q (es @ es'))"
  shows "wpOk (bindE m f) Q"
  unfolding wpOk_def
  by (rule wp_bindE, rule wp_mono [OF assms(1) [unfolded wpOk_def]])
     (auto simp: assms(2) [unfolded wpOk_def] split: result.split)

lemma wpOk_bind:
  assumes "wp trace m P" and "\<And>es x. P es x \<Longrightarrow> wpOk (f x) (\<lambda>es'. Q (es @ es'))"
  shows "wpOk (State_Monad.bind m f) Q"
  unfolding wpOk_def by (rule wp_bind, rule wp_mono [OF assms(1)]) (rule assms(2) [unfolded wpOk_def])

lemma wpOk_mono: "wpOk m P \<Longrightarrow> (\<And>es x. P es x \<Longrightarrow> Q es x) \<Longrightarrow> wpOk m Q"
  unfolding wpOk_def by (erule wp_mono) blast

lemma wpOk_runs: "runs m \<Longrightarrow> wpOk m (\<lambda>_ _. True)"
  by (simp add: wpOk_def runs_def)

lemma wpOk_rpc: "wpOk m P \<Longrightarrow> wp trace m (\<lambda>es r. \<forall>x. rpc_error c msg r = Ok x \<longrightarrow> P es x)"
  unfolding wpOk_def by (erule wp_mono) (auto simp: rpc_error_def split: result.splits)

lemma wpOk_init_setting:
  assumes "target \<noteq> []"
  shows "wpOk (init_setting E D v target sec ctx opts pv pvc) (\<lambda>es s. TargetPath s = target)"
  unfolding init_setting_def Let_def
  by (rule wpOk_bindE [OF wpOk_return], simp, rule wpOk_bind [OF runs_CreateFS [unfolded runs_def]],
      rule wpOk_bindE [OF wpOk_return], simp)
     (auto simp: assms getUniqueId_def bindE_def intro!: wpOk_return)

lemma wpOk_InitDfs:
  assumes "target \<noteq> []"
  shows "wpOk (InitDfs E D v target sec ctx opts) (\<lambda>es (s, c).
     TargetPath s = target \<and> mget (opt_list c) ''subPath'' = mget (opt_list ctx) ''subPath'')"
  unfolding InitDfs_def Let_def
  by (rule wpOk_bindE [OF wpOk_runs [OF runs_lookup_pv]], rule wpOk_bindE [OF wpOk_init_setting [OF assms]],
      rule wpOk_return)
     (auto simp: ctx_with_claim_subPath opt_list_def split: option.splits prod.splits)

lemma wpOk_MountFs: "wpOk (MountFs E D app s) (\<lambda>es s'. list_ex (registers (TargetPath s)) es)"
proof -
  have "wpOk (DMount E C img fuel app s) (\<lambda>es s'. list_ex (registers (TargetPath s)) es)" for C img fuel s
    unfolding wpOk_def by (rule wp_mono [OF wp_DMount]) (auto simp: dmount_trace_def mounts_well_def)
  from this [of _ _ _ "s\<lparr>MountPath := PathJoin [PodMountBase, UniqueId s]\<rparr>"] show ?thesis
    unfolding MountFs_def
    by (rule wpOk_bindE) (rule wpOk_bindE [OF wpOk_return], assumption, rule wpOk_return, simp)
qed

lemma wpOk_mount_app:
  "wpOk (bindE (return r) (\<lambda>appInfo. bindE (MountFs E D appInfo s) (\<lambda>s'. return (Ok (mk s', c)))))
     (\<lambda>es (fs, c'). list_ex (registers (TargetPath s)) es \<and> c' = c)"
  by (rule wpOk_bindE [OF wpOk_return], assumption, rule wpOk_bindE [OF wpOk_MountFs], rule wpOk_return) auto

lemma wpOk_DfsMount:
  assumes "target \<noteq> []"
  shows "wpOk (DfsMount E D v target sec ctx opts) (\<lambda>es (fs, c).
     list_ex (registers target) es \<and> mget (opt_list c) ''subPath'' = mget (opt_list ctx) ''subPath'')"
  unfolding DfsMount_def
  by (rule wpOk_bindE [OF wpOk_return], assumption, rule wpOk_bindE [OF wpOk_InitDfs [OF assms]])
     (auto intro!: wpOk_mono [OF wpOk_mount_app])

text \<open>The events after which the target shows the directory \<open>source\<close> of a mount: a bind mount, or
  a mount table in which the target has the device of the mount.\<close>

definition binds :: "string \<Rightarrow> string \<Rightarrow> string \<Rightarrow> event \<Rightarrow> bool" where
  "binds mountPath source target ev \<longleftrightarrow> (case ev of
       EvMount src t opts e \<Rightarrow> src = source \<and> t = target \<and> opts = [''bind''] \<and> e = None
     | EvParseMountInfo (Ok mis) \<Rightarrow> last_minor target mis \<noteq> None \<and> last_minor target mis = last_minor mountPath mis
     | _ \<Rightarrow> False)"

lemma wpOk_bind_mount: "wpOk (bind_mount E src t) (\<lambda>es _. list_ex (binds mp src t) es)"
  unfolding bind_mount_def wpOk_def
  by (auto intro!: wp_bind wp_call wp_return simp: binds_def split: option.split)

lemma wpOk_BindTarget:
  "wpOk (BindTarget E fs src t) (\<lambda>es _. list_ex (binds (dfs_MountPath fs) src t) es)"
proof -
  have p: "wpOk (call (mnt_parse E) EvParseMountInfo) (\<lambda>es mis. es = [EvParseMountInfo (Ok mis)])"
    unfolding wpOk_def by (auto intro!: wp_call)
  have u: "wpOk (do { UmountPath E t; bind_mount E src t }) (\<lambda>es _. list_ex (binds mp src t) es)" for mp
    by (rule wpOk_bind [where P = "\<lambda>_ _. True"])
       (auto simp: UmountPath_def intro!: wp_bind wp_call wp_return wpOk_mono [OF wpOk_bind_mount])
  show ?thesis
    unfolding BindTarget_def
    by (rule wpOk_bindE [OF p])
       (auto simp: binds_def intro!: wpOk_return wpOk_mono [OF wpOk_bind_mount] wpOk_mono [OF u] split: option.split)
qed

lemma wpOk_bind_rpc:
  assumes "wpOk m P" and "\<And>es x. P es x \<Longrightarrow> wpOk (f x) (\<lambda>es'. Q (es @ es'))"
  shows "wpOk (do { r \<leftarrow> m; bindE (return (rpc_error c msg r)) f }) Q"
  by (rule wpOk_bind [OF wpOk_rpc [OF assms(1), where c = c and msg = msg]])
     (auto intro!: wpOk_bindE [OF wpOk_return [where Q = "\<lambda>es x. es = [] \<and> rpc_error c msg _ = Ok x"]] assms(2))

lemma runs_CreateVol [runs_rules]: "runs (CreateVol E fs p)"
  unfolding CreateVol_def by (auto intro!: runs_rules simp: Let_def split: option.split result.split)

lemma runs_UmountPath [runs_rules]: "runs (UmountPath E p)"
  unfolding UmountPath_def by (auto intro!: runs_rules)

lemma runs_CreateTarget [runs_rules]: "runs (CreateTarget E n t)"
  by (induction n) (auto intro!: runs_rules split: option.split)

lemma wpOk_CreateVol: "wpOk (CreateVol E fs p) (\<lambda>es v. v = PathJoin [dfs_MountPath fs, p])"
  unfolding CreateVol_def wpOk_def Let_def
  by (auto intro!: wp_bind wp_DoWithTimeoutR wp_DoWithTimeout wp_call wp_return split: option.splits result.splits)

text \<open>What publishing through a mount pod has done when it answers without an error.\<close>

definition published :: "NodePublishVolumeRequest \<Rightarrow> event list \<Rightarrow> bool" where
  "published req es \<longleftrightarrow> (\<exists>es1 es2 mp. es = es1 @ es2 \<and> list_ex (registers (np_TargetPath req)) es1 \<and>
     list_ex (binds mp (PathJoin [mp, mget (opt_list (np_VolumeContext req)) ''subPath'']) (np_TargetPath req)) es2)"

lemma publishedI: "list_ex (registers (np_TargetPath req)) es1 \<Longrightarrow>
    list_ex (binds mp (PathJoin [mp, mget (opt_list (np_VolumeContext req)) ''subPath'']) (np_TargetPath req)) es2 \<Longrightarrow>
    published req (es1 @ es @ es2)"
  unfolding published_def by (rule exI [of _ es1], rule exI [of _ "es @ es2"], rule exI [of _ mp]) simp

lemma published_prefix: "published req es' \<Longrightarrow> published req (es @ es')"
  unfolding published_def by (metis append.assoc list_ex_append)

lemma wpOk_publish_pod:
  assumes "np_TargetPath req \<noteq> []"
  shows "wpOk (publish_pod E D req cap) (\<lambda>es _. published req es)"
proof -
  let ?sub = "mget (opt_list (np_VolumeContext req)) ''subPath''" and ?t = "np_TargetPath req"
  have bind_step: "wpOk (do { b \<leftarrow> BindTarget E fs (PathJoin [dfs_MountPath fs, ?sub]) ?t; return (rpc_error Internal msg b) })
      (\<lambda>es _. published req (es1 @ es2 @ es))" if "list_ex (registers ?t) es1" for fs msg es1 es2
    by (rule wpOk_bind [OF wpOk_rpc [OF wpOk_BindTarget]], rule wpOk_return)
       (use that in \<open>auto intro!: publishedI\<close>)
  have vol_step: "wpOk (do { v \<leftarrow> CreateVol E fs ?sub;
        bindE (return (rpc_error Internal m1 v)) (\<lambda>src. do {
          b \<leftarrow> BindTarget E fs src ?t; return (rpc_error Internal (m2 src) b) }) })
      (\<lambda>es _. published req (es1 @ es))" if "list_ex (registers ?t) es1" for fs m1 m2 es1
    by (rule wpOk_bind_rpc [OF wpOk_CreateVol])
       (use bind_step [OF that] in simp)
  show ?thesis
    unfolding publish_pod_def Let_def
    by (rule wpOk_bind_rpc [OF wpOk_DfsMount [OF assms]])
       (use vol_step in auto)
qed

lemma wpOk_holding_target:
  assumes "wpOk body (\<lambda>es _. Q es)"
  shows "wpOk (holding_target rpc t body) (\<lambda>es _. Q es)"
proof -
  have "wp trace (lock_target t) (\<lambda>es _. es = [])" "wp trace (unlock_target t) (\<lambda>es _. es = [])"
    unfolding lock_target_def unlock_target_def by (auto intro!: wp_bind wp_gets wp_modify wp_return)
  with assms show ?thesis
    unfolding holding_target_def wpOk_def
    by (intro wp_bind wp_mono [OF \<open>wp trace (lock_target t) _\<close>])
       (auto intro!: wp_return wp_bind elim!: wp_mono)
qed

text \<open>A request for witnesses, and an outside world in which it is answered without an error.\<close>

definition publish_env :: "unit env" where
  "publish_env = sample_env\<lparr>
     os_stat := (\<lambda>_ w. (Ok \<lparr>fi_Ino = 1, fi_Dev = 0, fi_IsDir = True, fi_Perm = 511\<rparr>, w)),
     mnt_path_exists := (\<lambda>_ w. (Ok True, w)),
     mnt_parse := (\<lambda>w. (Ok [\<lparr>MountPoint = ''/dfs/pvc-1-aaaaaa'', Root = ''/'', Minor = 5\<rparr>], w))\<rparr>"

definition publish_driver :: driver where
  "publish_driver = \<lparr>dr_codec = sample_codec, dr_mountImage = ''img'', dr_fuel = 3, dr_kubeletPort = '''',
     dr_hostIp = '''', dr_atoi = (\<lambda>_. Ok 0), dr_newClient = (\<lambda>_ _. Ok ()), dr_runningPods = (\<lambda>_ _. Ok ()),
     hasClient = True\<rparr>"

definition publish_request :: NodePublishVolumeRequest where
  "publish_request = \<lparr>np_VolumeId = ''pvc-1'', np_TargetPath = ''/var/lib/kubelet/pods/a/mount'',
     np_VolumeCapability = Some \<lparr>vc_AccessType = MountAccess [], vc_AccessMode = MULTI_NODE_MULTI_WRITER\<rparr>,
     np_Readonly = False,
     np_Secrets = Some [(''name'', ''fs1''), (''mdsAddr'', ''m''), (''fsType'', ''s3''), (''s3Endpoint'', ''e''),
       (''s3AccessKey'', ''a''), (''s3SecretKey'', ''s''), (''s3Bucket'', ''b'')],
     np_VolumeContext = Some [(''subPath'', ''vol'')]\<rparr>"



subsection \<open>Taking a target back\<close>

text \<open>A pod that an answer of the API server contained.\<close>

definition answered :: "Pod \<Rightarrow> event \<Rightarrow> bool" where
  "answered po ev \<longleftrightarrow> (case ev of
       EvGetPod _ _ (Ok p) \<Rightarrow> p = po
     | EvListPod _ _ _ (Ok ps) \<Rightarrow> po \<in> set ps
     | _ \<Rightarrow> False)"

text \<open>Releasing a target: it is unmounted and its reference removed, then the pod may be deleted by the
  rules of \<open>DUmount\<close>.\<close>

definition release_trace :: "'w env \<Rightarrow> string \<Rightarrow> string \<Rightarrow> event list \<Rightarrow> unit result \<Rightarrow> bool" where
  "release_trace E target podName es r \<longleftrightarrow> (\<exists>u d. es = u @ d \<and> list_all (only_unmounts target) u \<and>
     (d = [] \<or> retry_trace (cfg_ConflictRetries E) (dumount_attempt E podName) d r))"

definition unmount_trace :: "'w env \<Rightarrow> string \<Rightarrow> event list \<Rightarrow> unit result \<Rightarrow> bool" where
  "unmount_trace E target es r \<longleftrightarrow> (\<exists>reads rest. es = reads @ rest \<and> quiet reads \<and>
     (list_all (only_unmounts target) rest \<and> quiet rest \<or>
      (\<exists>po inner i. list_ex (answered po) reads \<and> mhas (annos po) (GetReferenceKey target) \<and>
         i = GetPodLock (mget (pod_Labels po) PodHashLabelKey) \<and>
         rest = EvLock i # inner @ [EvUnlock i] \<and> release_trace E target (pod_Name po) inner r)))"

lemma release_trace_quiet: "list_all (only_unmounts t) es \<Longrightarrow> release_trace E t p es r"
  unfolding release_trace_def by (rule exI [of _ es]) simp

lemma wp_umount_and_release:
  "wp trace (umount_and_release E D target podName) (\<lambda>es r. release_trace E target podName es r \<and>
     (podName = [] \<longrightarrow> list_all (only_unmounts target) es \<and> quiet es))"
proof -
  have umount: "wp trace (UmountTarget E (dr_fuel D) target podName)
      (\<lambda>es r. list_all (only_unmounts target) es \<and> (podName = [] \<longrightarrow> quiet es))"
    by (rule wp_conj [OF wp_UmountTarget wp_UmountTarget_nameless])
  have ref: "wp trace (GetMountRef E target podName) (\<lambda>es r. list_all (only_unmounts target) es)"
    unfolding GetMountRef_def by (auto intro!: wp_bind wp_client wp_return)
  have del: "wp trace (DUmount E target podName) (\<lambda>es r. release_trace E target podName (u @ es) r)"
    if "list_all (only_unmounts target) u" for u
    by (rule wp_mono [OF wp_DUmount]) (use that in \<open>auto simp: release_trace_def\<close>)
  have rest: "wp trace (bindE (GetMountRef E target podName) (\<lambda>refs.
      if refs = 0 then DUmount E target podName else return (Ok ())))
      (\<lambda>es r. release_trace E target podName (u @ es) r)" if u: "list_all (only_unmounts target) u" for u
    by (intro wp_bindE wp_mono [OF ref])
       (use u in \<open>auto intro!: wp_return release_trace_quiet del [of "u @ _", simplified] split: result.split\<close>)
  show ?thesis
    unfolding umount_and_release_def
    by (intro wp_bindE wp_mono [OF umount])
       (auto intro!: wp_return release_trace_quiet rest split: result.split)
qed

lemma only_unmounts_trace:
  "quiet reads \<Longrightarrow> list_all (only_unmounts t) es \<Longrightarrow> quiet es \<Longrightarrow> unmount_trace E t (reads @ es) r"
  unfolding unmount_trace_def by (rule exI [of _ reads], rule exI [of _ es]) simp

lemma reads_only_trace: "quiet es \<Longrightarrow> unmount_trace E t es r"
  using only_unmounts_trace [of es t "[]"] by simp

lemma wp_find_mount_pods:
  "wp trace (find_mount_pods E u) (\<lambda>es r. quiet es \<and>
     (\<forall>pods po. r = Ok pods \<longrightarrow> po \<in> set pods \<longrightarrow> list_ex (answered po) es))"
  unfolding find_mount_pods_def exact_pod_def GenPodNameByUniqueId_def
  by (auto intro!: wp_bind wp_bindE wp_client wp_return simp: answered_def split: result.splits if_splits)

lemma find_Some_set: "find P xs = Some x \<Longrightarrow> x \<in> set xs \<and> P x"
  by (induction xs) (auto split: if_splits)

lemma wp_DfsUnmount: "wp trace (DfsUnmount E D volumeId target) (unmount_trace E target)"
proof -
  have none: "wp trace (umount_and_release E D target []) (\<lambda>es. unmount_trace E target (reads @ es))"
    if "quiet reads" for reads
    by (rule wp_mono [OF wp_umount_and_release]) (use that in \<open>auto intro: only_unmounts_trace\<close>)
  have some: "wp trace (locked i (umount_and_release E D target (pod_Name po)))
      (\<lambda>es. unmount_trace E target (reads @ es))"
    if "quiet reads" "list_ex (answered po) reads" "mhas (annos po) (GetReferenceKey target)"
      "i = GetPodLock (mget (pod_Labels po) PodHashLabelKey)" for reads po i
    by (rule wp_locked, rule wp_mono [OF wp_umount_and_release])
       (use that in \<open>unfold unmount_trace_def, blast\<close>)
  show ?thesis
    unfolding DfsUnmount_def getUniqueId_def Let_def
    by (intro wp_bindE wp_return, simp, intro wp_bindE wp_mono [OF wp_find_mount_pods])
       (auto intro!: wp_return reads_only_trace none some dest!: find_Some_set split: result.split option.split)
qed


subsection \<open>Making the target directory\<close>

text \<open>What the loop of \<open>CreateTarget\<close> needs: \<open>K\<close> counts the mounts of the target, checking and
  waiting do not change it, the check finds a corrupted mount only where one is mounted, a lazy
  unmount removes one, and neither the end of a context nor a timeout looks like a corrupted mount.\<close>

definition target_progress :: "'w env \<Rightarrow> ('w \<Rightarrow> nat) \<Rightarrow> string \<Rightarrow> bool" where
  "target_progress E K t \<longleftrightarrow> \<not> mnt_corrupted E (MsgErr ''function timeout'') \<and>
     (\<forall>w. K (snd (mnt_path_exists E t w)) = K w \<and> K (snd (os_wait E w)) = K w \<and>
        (\<forall>e. fst (mnt_path_exists E t w) = Err e \<and> mnt_corrupted E e \<longrightarrow> 0 < K w) \<and>
        (\<forall>e. fst (os_wait E w) = ParentDone e \<longrightarrow> \<not> mnt_corrupted E e) \<and>
        (0 < K w \<longrightarrow> K (snd (os_umount_lazy E t w)) < K w))"

lemma run_check_target:
  assumes "target_progress E K t"
    and "run_state (DoWithTimeout E (do { r \<leftarrow> call (mnt_path_exists E t) (EvPathExists t); return (err_of r) })) s = (e, s')"
  shows "K (ext s') = K (ext s) \<and> (\<forall>er. e = Some er \<longrightarrow> mnt_corrupted E er \<longrightarrow> 0 < K (ext s))"
proof -
  note prog = assms(1) [unfolded target_progress_def]
  show ?thesis
    using assms(2) prog
    by (auto simp: DoWithTimeout_def run_call case_prod_unfold split: wait_end.splits)
       (metis err_of.elims option.distinct(1) option.inject)+
qed

lemma CreateTarget_ends:
  assumes "target_progress E K t" and "K (ext s) < fuel"
  shows "fst (run_state (CreateTarget E fuel t) s) \<noteq> OutOfFuel"
  using assms(2)
proof (induction fuel arbitrary: s)
  case (Suc fuel)
  obtain e s1 where check: "run_state (DoWithTimeout E (do {
      r \<leftarrow> call (mnt_path_exists E t) (EvPathExists t); return (err_of r) })) s = (e, s1)"
    by (metis surj_pair)
  note K1 = run_check_target [OF assms(1) check]
  show ?case
  proof (cases e)
    case None
    obtain m s2 where "run_state (call (os_mkdir_all E t 493) (EvMkdirAll t)) s1 = (m, s2)" by (metis surj_pair)
    with None check show ?thesis by (cases m) simp_all
  next
    case (Some er)
    show ?thesis
    proof (cases "mnt_corrupted E er")
      case True
      let ?s2 = "s1\<lparr>ext := snd (os_umount_lazy E t (ext s1)), trace := trace s1 @ [EvUmountLazy t (fst (os_umount_lazy E t (ext s1)))]\<rparr>"
      have "K (snd (os_umount_lazy E t (ext s1))) < K (ext s1)"
        using assms(1) [unfolded target_progress_def] K1 Some True by metis
      then have "K (ext ?s2) < fuel" using K1 Suc.prems by simp
      from Suc.IH [OF this] show ?thesis
        using check Some True by (simp add: UmountPath_def run_call)
    qed (use check Some in simp)
  qed
qed simp

text \<open>C31: when a lazy unmount removes a mount of the target, \<open>CreateTarget\<close> returns: it needs at most one
  round per mount of the target and one more.\<close>

theorem CreateTarget_terminates:
  assumes "target_progress E K target" and "K (ext w) < fuel"
  shows "fst (run_state (CreateTarget E fuel target) w) \<noteq> OutOfFuel"
  using assms by (rule CreateTarget_ends)

text \<open>A target with stacked corrupted mounts, as many as the state says.\<close>

definition stacked_env :: "nat env" where
  "stacked_env = idle_env\<lparr>mnt_path_exists := (\<lambda>_ w. (if 0 < w then Err (OsErr (OsOther ''corrupt'')) else Ok True, w)),
     mnt_corrupted := (\<lambda>e. e = OsErr (OsOther ''corrupt'')),
     os_umount_lazy := (\<lambda>_ w. (('''', None), w - 1))\<rparr>"

theorem CreateTarget_terminates_witness:
  "fst (run_state (CreateTarget stacked_env 4 ''/pods/a'') (idle_world 3)) \<noteq> OutOfFuel"
  by (rule CreateTarget_terminates [where K = "\<lambda>w. w"])
     (auto simp: target_progress_def stacked_env_def idle_env_def idle_world_def)

subsection \<open>Statistics\<close>

lemma sint_small: "unat (x :: u64) < 2 ^ 63 \<Longrightarrow> sint x = uint x"
proof -
  assume "unat x < 2 ^ 63"
  then have "int (unat x) < int (2 ^ 63)" by (simp only: of_nat_less_iff)
  then have "signed_take_bit 63 (uint x) = uint x" by (intro signed_take_bit_int_eq_self) (simp_all add: order_trans [of _ 0])
  then show ?thesis by (simp add: sint_uint)
qed

definition accounts :: "VolumeUsage \<Rightarrow> bool" where
  "accounts u \<longleftrightarrow> 0 \<le> Available u \<and> 0 \<le> Used u \<and> Available u + Used u = Total u"

lemma usage_accounts:
  assumes "free \<le> blocks" and "unat blocks < 2 ^ 63"
  shows "accounts (usage blocks free u)"
proof -
  have le: "unat free \<le> unat blocks" using assms(1) by (simp add: word_le_nat_alt)
  have "unat (blocks - free) = unat blocks - unat free" using assms(1) by (rule unat_sub)
  then have "sint free = uint free" "sint blocks = uint blocks" "sint (blocks - free) = uint (blocks - free)"
    using assms(2) le by (simp_all add: sint_small)
  moreover have "uint (blocks - free) = uint blocks - uint free" using assms(1) by (simp add: word_le_def uint_sub_lem)
  ultimately show ?thesis using assms(1) by (simp add: usage_def accounts_def word_le_def)
qed

text \<open>A sensible answer of \<open>statfs\<close>: not more free than there is, and sizes of at most 63 bits.\<close>

definition sane_statfs :: "Statfs_t \<Rightarrow> bool" where
  "sane_statfs s \<longleftrightarrow> Bfree s \<le> Blocks s \<and> Ffree s \<le> Files s \<and>
     unat (Bsize s) * unat (Blocks s) < 2 ^ 63 \<and> unat (Files s) < 2 ^ 63"

lemma sane_bytes:
  assumes "sane_statfs s"
  shows "Bsize s * Bfree s \<le> Bsize s * Blocks s" and "unat (Bsize s * Blocks s) < 2 ^ 63"
proof -
  have le: "unat (Bfree s) \<le> unat (Blocks s)" using assms by (simp add: sane_statfs_def word_le_nat_alt)
  have small: "unat (Bsize s) * unat (Blocks s) < 2 ^ 63" using assms by (simp add: sane_statfs_def)
  have free: "unat (Bsize s) * unat (Bfree s) \<le> unat (Bsize s) * unat (Blocks s)" using le by (rule mult_le_mono2)
  have "unat (Bsize s * Blocks s) = unat (Bsize s) * unat (Blocks s)"
    "unat (Bsize s * Bfree s) = unat (Bsize s) * unat (Bfree s)"
    using small order_le_less_trans [OF free small] by (simp_all only: unat_word_ariths) simp_all
  with small free show "Bsize s * Bfree s \<le> Bsize s * Blocks s" "unat (Bsize s * Blocks s) < 2 ^ 63"
    by (simp_all add: word_le_nat_alt)
qed



subsection \<open>Volumes and quotas\<close>

lemma sdiv_1024: "0 \<le> x \<Longrightarrow> x sdiv 1024 = x div (1024 :: int)" "x \<le> 0 \<Longrightarrow> x sdiv 1024 \<le> (0 :: int)"
  by (cases "x = 0"; simp add: signed_divide_int_def)+

lemma quota_gib_pos: "0 < quota_gib c \<longleftrightarrow> 2 ^ 30 \<le> c"
proof (cases "0 \<le> c")
  case True
  then have "quota_gib c = c div 1024 div 1024 div 1024" by (simp add: quota_gib_def sdiv_1024)
  also have "\<dots> = c div 2 ^ 30" by (simp flip: zdiv_zmult2_eq)
  finally show ?thesis using pos_imp_zdiv_pos_iff [of "2 ^ 30" c] by simp
next
  case False
  then have "quota_gib c \<le> 0" unfolding quota_gib_def by (intro sdiv_1024(2)) simp
  with False show ?thesis by simp
qed

lemma run_CreateVolume:
  assumes "run_state (CreateVolume E req) w = (Ok v, w')"
  shows "cvol_Id v = cv_Name req \<and> cvol_CapacityBytes v = required_bytes (cv_CapacityRange req) \<and>
     0 < quota_gib (cvol_CapacityBytes v) \<and> map_of (vols w') (cv_Name req) = Some (cvol_CapacityBytes v) \<and>
     cvol_Context v = mput (mput (mputs [] (cv_Parameters req)) ''subPath'' (subPath_of (cv_Name req)))
        ''capacity'' (int_str (cvol_CapacityBytes v))"
proof -
  let ?cap = "required_bytes (cv_CapacityRange req)"
  let ?w1 = "w\<lparr>vols := mput (vols w) (cv_Name req) ?cap\<rparr>"
  have run: "run_state (create_directory E req ?cap) ?w1 = (Ok v, w')"
    using assms by (auto simp: CreateVolume_def Let_def split: if_splits)
  have "vols w' = mput (vols w) (cv_Name req) ?cap"
    using keepsD [OF frame_create_directory [of vols] run] by simp
  moreover have made: "wpOk (create_directory E req ?cap) (\<lambda>es v. 0 < quota_gib ?cap \<and> cvol_Id v = cv_Name req \<and>
      cvol_CapacityBytes v = ?cap \<and>
      cvol_Context v = mput (mput (mputs [] (cv_Parameters req)) ''subPath'' (subPath_of (cv_Name req)))
        ''capacity'' (int_str ?cap))"
  proof -
    have quota: "wpOk (do { q \<leftarrow> SetQuota E s None p ?cap; case q of Some e \<Rightarrow> return (Err (f e)) | None \<Rightarrow> return (Ok v) })
        (\<lambda>es v'. 0 < quota_gib ?cap \<and> v' = v)" for s p f v
      unfolding SetQuota_def wpOk_def
      by (auto intro!: wp_bind wp_call wp_return simp: Let_def split: option.split)
    have "runs (DfsCreateVol E v p s)" for v p s
      unfolding DfsCreateVol_def by (auto simp: Let_def intro!: runs_rules split: option.split)
    then show ?thesis
      unfolding create_directory_def Let_def
      by (intro wpOk_bind_rpc [OF wpOk_runs] wpOk_mono [OF quota]) simp_all
  qed
  ultimately show ?thesis
    using wpD [OF made [unfolded wpOk_def] run] by (auto simp: AList.update_conv')
qed


definition volume_request :: CreateVolumeRequest where
  "volume_request = \<lparr>cv_Name = ''pvc-1'', cv_CapacityRange = Some \<lparr>RequiredBytes = 2147483648, LimitBytes = 0\<rparr>,
     cv_VolumeCapabilities = [\<lparr>vc_AccessType = MountAccess [], vc_AccessMode = MULTI_NODE_MULTI_WRITER\<rparr>],
     cv_Parameters = [], cv_Secrets = [(''name'', ''fs1'')]\<rparr>"


text \<open>The quotas a call sets.\<close>

definition quota_at :: "(string \<Rightarrow> bool) \<Rightarrow> event \<Rightarrow> bool" where
  "quota_at P ev \<longleftrightarrow> (case ev of EvExecEnv args _ _ \<Rightarrow> \<exists>sec p cap. args = quota_args sec p cap \<and> P p | _ \<Rightarrow> True)"

lemma quota_at_simps [simp]:
  "quota_at P (EvExec a o1)" "quota_at P (EvGetPV n pv)" "quota_at P (EvGetPVC n ns pvc)" "quota_at P (EvGetPod n ns po)"
  "quota_at P (EvWait wt)" "quota_at P (EvStat p e)" "quota_at P (EvMkdirAll p e)"
  "quota_at P (EvExecEnv args envs o2) \<longleftrightarrow> (\<exists>sec p cap. args = quota_args sec p cap \<and> P p)"
  by (simp_all add: quota_at_def)

abbreviation quotas_at :: "(string \<Rightarrow> bool) \<Rightarrow> event list \<Rightarrow> bool" where
  "quotas_at P es \<equiv> list_all (quota_at P) es"

lemma quotas_SetQuota: "P p \<Longrightarrow> wp trace (SetQuota E sec s p cap) (\<lambda>es _. quotas_at P es)"
  unfolding SetQuota_def by (auto intro!: wp_bind wp_call wp_return simp: Let_def) blast

lemma quotas_find_app_pv: "wp trace (find_app_pv E a b vs) (\<lambda>es _. quotas_at P es)"
  by (induction vs) (auto intro!: wp_bindE wp_client wp_return elim!: wp_mono split: VolumeSource.split option.split result.split)

lemma quotas_InitDfs: "wp trace (InitDfs E D v t sec ctx opts) (\<lambda>es _. quotas_at P es)"
proof -
  have pv: "wp trace (lookup_pv E D a b) (\<lambda>es _. quotas_at P es)" for a b
    unfolding lookup_pv_def GetPVWithVolumeHandleOrAppInfo_def
    by (auto intro!: wp_bind wp_bindE wp_client wp_return wp_mono [OF quotas_find_app_pv] split: result.split option.split)
  have fs: "wp trace (CreateFS E s) (\<lambda>es _. quotas_at P es)" for s
    unfolding CreateFS_def CheckFsExisted_def run_tool_def config_quota_def
    by (auto intro!: wp_bind wp_bindE wp_call wp_return simp: Let_def split: result.split option.split prod.split)
  have st: "wp trace (init_setting E D v t sec ctx opts p c) (\<lambda>es _. quotas_at P es)" for ctx p c
    unfolding init_setting_def getUniqueId_def
    by (auto intro!: wp_bind wp_bindE wp_return wp_mono [OF fs] simp: Let_def split: result.split)
  show ?thesis
    unfolding InitDfs_def
    by (auto intro!: wp_bindE wp_return wp_mono [OF pv] wp_mono [OF st] simp: Let_def split: result.split)
qed

lemma quotas_CreateVolume:
  "wp trace (CreateVolume E req) (\<lambda>es _. quotas_at (\<lambda>p. p = PathJoin [''/'', subPath_of (cv_Name req)]) es)"
  unfolding CreateVolume_def create_directory_def DfsCreateVol_def
  by (auto intro!: wp_bind wp_bindE wp_gets wp_modify wp_call wp_return
      wp_mono [OF quotas_SetQuota [where P = "\<lambda>p. p = PathJoin [''/'', subPath_of (cv_Name req)]"]]
      simp: Let_def split: result.split option.split)

lemma quotas_ControllerExpandVolume:
  assumes "\<not> cfg_Provisioner E"
  shows "wp trace (ControllerExpandVolume E D req)
     (\<lambda>es _. quotas_at (\<lambda>p. \<exists>subdir. p = PathJoin [subdir, ce_VolumeId req]) es)"
  unfolding ControllerExpandVolume_def GetSubPath_def
  using assms
  by (auto intro!: wp_bind wp_bindE wp_return
      wp_mono [OF quotas_InitDfs [where P = "\<lambda>p. \<exists>subdir. p = PathJoin [subdir, ce_VolumeId req]"]]
      wp_mono [OF quotas_SetQuota [where P = "\<lambda>p. \<exists>subdir. p = PathJoin [subdir, ce_VolumeId req]"]]
      simp: Let_def rpc_error_def split: result.splits option.split) blast+

lemma Split_snoc: "d \<notin> set c \<Longrightarrow> Split (a @ [d] @ c) [d] = Split a [d] @ [c]"
proof -
  assume c: "d \<notin> set c"
  have ne: "Split a [d] \<noteq> []" by (metis Join.simps(1) Join_Split Split_char_single append.right_neutral list.distinct(1) neq_Nil_conv set_empty2 empty_iff)
  have "Join (Split a [d] @ [c]) [d] = a @ [d] @ c"
    using Join_append [OF ne, of "[c]" "[d]"] by (simp add: Join_Split)
  moreover have "Split (Join (Split a [d] @ [c]) [d]) [d] = Split a [d] @ [c]"
    using c by (intro Split_Join) (auto simp: list_all_iff dest: Split_char_pieces)
  ultimately show ?thesis by simp
qed

lemma PathJoin_last:
  assumes "plain c"
  shows "\<exists>pre. PathJoin [s, c] = pre @ c"
proof -
  have c: "c \<noteq> []" "CHR ''/'' \<notin> set c" "c \<noteq> ''.''" "c \<noteq> ''..''" using assms by (auto simp: plain_def)
  have last_piece: "\<exists>pre. Clean p = pre @ c" if "\<exists>cs. Split p ''/'' = cs @ [c]" for p
  proof -
    from that obtain cs where "Split p ''/'' = cs @ [c]" ..
    then have "\<exists>ds. rev (fold (clean_step (HasPrefix p ''/'')) (Split p ''/'') []) = ds @ [c]" using c by simp
    then obtain ds where "rev (fold (clean_step (HasPrefix p ''/'')) (Split p ''/'') []) = ds @ [c]" ..
    moreover have "\<exists>pre. Join (ds @ [c]) ''/'' = pre @ c" using Join_append [of ds "[c]"] by (cases "ds = []") auto
    ultimately show ?thesis by (auto simp: Clean_def Let_def)
  qed
  show ?thesis
  proof (cases "s = []")
    case True
    with c last_piece [of c] show ?thesis by (simp add: PathJoin_def Split_char_single)
  next
    case False
    with c last_piece [of "s @ ''/'' @ c"] Split_snoc [of "CHR ''/''" c s] show ?thesis by (simp add: PathJoin_def)
  qed
qed



end
