(* ===== verification/Provisioner.thy ===== *)
theory Provisioner
  imports Services
begin

text \<open>
  The provisioner, \<open>pkg/dingofs-driver/provisioner.go\<close>, with \<open>ResolveSecret\<close> of
  \<open>util/resource/pvc.go\<close>: it makes the volume of a claim from the parameters of its storage class
  and deletes the directory of a volume that nobody else uses. The loop that calls it belongs to
  the library \<open>sig-storage-lib-external-provisioner\<close>.
\<close>

section \<open>Definitions\<close>

subsection \<open>Variables in parameters\<close>

text \<open>\<open>os.Expand\<close>: the name after a dollar and the number of bytes it takes.\<close>

definition isShellSpecialVar :: "char \<Rightarrow> bool" where
  "isShellSpecialVar c \<longleftrightarrow> c \<in> set ''*#$@!?-0123456789''"

definition getShellName :: "string \<Rightarrow> string \<times> nat" where
  "getShellName s =
     (case s of
        [] \<Rightarrow> ([], 0)
      | c # rest \<Rightarrow>
          if c = CHR ''{'' then
            if length s > 2 \<and> isShellSpecialVar (s ! 1) \<and> s ! 2 = CHR ''}'' then ([s ! 1], 3)
            else if CHR ''}'' \<in> set rest then
              (let name = takeWhile (\<lambda>x. x \<noteq> CHR ''}'') rest in
               if name = [] then ([], 2) else (name, length name + 2))
            else ([], 1)
          else if isShellSpecialVar c then ([c], 1)
          else let name = takeWhile word_char s in (name, length name))"

function Expand :: "string \<Rightarrow> (string \<Rightarrow> string) \<Rightarrow> string" where
  "Expand [] f = []"
| "Expand (c # cs) f =
     (if c = CHR ''$'' \<and> cs \<noteq> [] then
        (case getShellName cs of (name, w) \<Rightarrow>
          (if name = [] \<and> w > 0 then [] else if name = [] then ''$'' else f name) @ Expand (drop w cs) f)
      else c # Expand cs f)"
  by pat_completeness auto
termination
  by (relation "measure (\<lambda>(s, f). length s)") auto

definition resolve_key :: "ObjectMeta \<Rightarrow> string \<Rightarrow> string \<Rightarrow> string" where
  "resolve_key meta pvName k =
     (if k = ''pvc.name'' then mget (om_data (meta_pvc meta)) ''name''
      else if k = ''pvc.namespace'' then mget (om_data (meta_pvc meta)) ''namespace''
      else if k = ''pv.name'' then pvName
      else case find (\<lambda>(ak, av). k = ''pvc.annotations['' @ [CHR 0x27] @ ak @ [CHR 0x27] @ '']'')
                  (om_annotations (meta_pvc meta)) of
             Some (ak, av) \<Rightarrow> av
           | None \<Rightarrow> '''')"

definition ResolveSecret :: "ObjectMeta \<Rightarrow> string \<Rightarrow> string \<Rightarrow> string" where
  "ResolveSecret meta str pvName = Expand str (resolve_key meta pvName)"

subsection \<open>Provisioning\<close>

record StorageClass =
  sc_Name :: string
  sc_Parameters :: "string smap"
  sc_MountOptions :: "string list"
  sc_ReclaimPolicy :: "string option"

record ProvisionOptions =
  po_StorageClass :: StorageClass
  po_PVName :: string
  po_PVC :: PersistentVolumeClaim
  po_SelectedNode :: "Node option"

definition resolved_params :: "ObjectMeta \<Rightarrow> string \<Rightarrow> string smap \<Rightarrow> string smap" where
  "resolved_params pvMeta pvName params =
     fold (\<lambda>(k, v) m. mput m k
            (if HasPrefix k ''csi.storage.k8s.io/'' then ResolveSecret pvMeta v pvName
             else StringParser pvMeta (mget params k))) params []"

definition sub_path :: "string \<Rightarrow> string smap \<Rightarrow> string" where
  "sub_path pvName scParams = (if mget scParams ''pathPattern'' \<noteq> [] then mget scParams ''pathPattern'' else pvName)"

definition resolved_mount_options :: "ObjectMeta \<Rightarrow> string list \<Rightarrow> string list" where
  "resolved_mount_options pvMeta mos = concat (map (\<lambda>mo. Split (TrimSpace (StringParser pvMeta mo)) '','') mos)"

definition volume_context :: "codec \<Rightarrow> PersistentVolumeClaim \<Rightarrow> string \<Rightarrow> string smap \<Rightarrow> string smap" where
  "volume_context C pvc subPath scParams =
     mputs [(''subPath'', subPath),
            (''capacity'', int_str (case map_of (pvc_Requests pvc) ''storage'' of
                 Some q \<Rightarrow> Quantity_Value C q | None \<Rightarrow> 0))] scParams"

definition provisioned_pv ::
  "'w env \<Rightarrow> ProvisionOptions \<Rightarrow> string smap \<Rightarrow> string smap \<Rightarrow> string list \<Rightarrow> string \<Rightarrow> PersistentVolume" where
  "provisioned_pv E options scParams volCtx mountOptions policy =
     (let pvc = po_PVC options;
          expandRef = (if mget scParams ControllerExpandSecretName \<noteq> [] \<and> mget scParams ControllerExpandSecretNamespace \<noteq> []
            then Some (mget scParams ControllerExpandSecretName, mget scParams ControllerExpandSecretNamespace) else None)
      in \<lparr>pv_Name = po_PVName options, pv_UID = '''', pv_DeletionTimestamp = None,
          pv_StorageClassName = sc_Name (po_StorageClass options),
          pv_CSI = Some \<lparr>csi_Driver = cfg_DriverName E, csi_VolumeHandle = po_PVName options,
            csi_VolumeAttributes = volCtx,
            csi_NodePublishSecretRef = Some (mget scParams PublishSecretName, mget scParams PublishSecretNamespace),
            csi_ControllerExpandSecretRef = expandRef, csi_ReadOnly = False, csi_FSType = ''dingofs''\<rparr>,
          pv_ClaimRef = None, pv_MountOptions = mountOptions, pv_ReclaimPolicy = policy,
          pv_Capacity = [(''storage'', case map_of (pvc_Requests pvc) ''storage'' of Some q \<Rightarrow> q | None \<Rightarrow> 0)],
          pv_AccessModes = pvc_AccessModes pvc, pv_VolumeMode = pvc_VolumeMode pvc\<rparr>)"

text \<open>The bytes of a secret as the map the provider gets.\<close>

definition secret_data :: "Secret \<Rightarrow> string smap" where
  "secret_data secret = mputs [] (sec_Data secret)"

definition Provision ::
  "'w env \<Rightarrow> codec \<Rightarrow> ProvisionOptions \<Rightarrow> ('w, PersistentVolume result) io" where
  "Provision E C options =
     (let pvc = po_PVC options; sc = po_StorageClass options; pvName = po_PVName options in
      if pvc_Selector pvc \<noteq> None then return (Err (MsgErr ''claim Selector is not supported''))
      else let pvMeta = NewObjectMeta pvc (po_SelectedNode options);
               scParams = resolved_params pvMeta pvName (sc_Parameters sc);
               subPath = sub_path pvName scParams
           in if list_ex (\<lambda>am. am = ''ReadOnlyMany'') (pvc_AccessModes pvc) \<and> mget (sc_Parameters sc) ''pathPattern'' = []
              then return (Err (GrpcErr InvalidArgument ''Dynamic mounting uses the sub-path named pv name as data isolation, so read-only mode cannot be used.''))
              else let mountOptions = resolved_mount_options pvMeta (sc_MountOptions sc);
                       volCtx = volume_context C pvc subPath scParams in do {
                s \<leftarrow> GetSecret E (mget scParams ProvisionerSecretName) (mget scParams ProvisionerSecretNamespace);
                bindE (return (wrapR ''unable to provision new pv: '' s)) (\<lambda>secret.
                bindE (DfsCreateVol E pvName subPath (secret_data secret)) (\<lambda>_.
                  case sc_ReclaimPolicy sc of
                    None \<Rightarrow> return Panic
                  | Some policy \<Rightarrow> do {
                      _ \<leftarrow> (if policy = ''Delete'' \<and> mget (sc_Parameters sc) ''secretFinalizer'' = ''true''
                            then AddSecretFinalizer E secret Finalizer else return None);
                      return (Ok (provisioned_pv E options scParams volCtx mountOptions policy)) })) })"

text \<open>Taking the finalizer from the secret that no other volume uses.\<close>

definition drop_finalizer :: "'w env \<Rightarrow> PersistentVolume \<Rightarrow> Secret \<Rightarrow> ('w, unit result) io" where
  "drop_finalizer E volume secret =
     bindE (CheckForSecretFinalizer E volume) (\<lambda>shouldRemove.
       if shouldRemove then do { e \<leftarrow> RemoveSecretFinalizer E secret Finalizer; return (result_of e) }
       else return (Ok ()))"

definition delete_directory :: "'w env \<Rightarrow> driver \<Rightarrow> PersistentVolume \<Rightarrow> CSISource \<Rightarrow> ('w, unit result) io" where
  "delete_directory E D volume csi =
     (case csi_NodePublishSecretRef csi of
        None \<Rightarrow> return Panic
      | Some (secretName, secretNamespace) \<Rightarrow>
          bindE (GetSecret E secretName secretNamespace) (\<lambda>secret. do {
            d \<leftarrow> DfsDeleteVol E D (pv_Name volume) (mget (csi_VolumeAttributes csi) ''subPath'') (Some (secret_data secret));
            bindE (return (wrapR ''unable to provision delete volume: '' d)) (\<lambda>_.
              if mget (csi_VolumeAttributes csi) ''secretFinalizer'' = ''true'' then drop_finalizer E volume secret
              else return (Ok ())) }))"

definition Delete :: "'w env \<Rightarrow> driver \<Rightarrow> PersistentVolume \<Rightarrow> ('w, unit result) io" where
  "Delete E D volume =
     (if pv_ReclaimPolicy volume \<noteq> ''Delete'' then return (Ok ())
      else case pv_CSI volume of
        None \<Rightarrow> return Panic
      | Some csi \<Rightarrow>
          bindE (CheckForSubPath E volume (mget (csi_VolumeAttributes csi) ''pathPattern'')) (\<lambda>shouldDeleted.
            if \<not> shouldDeleted then return (Ok ()) else delete_directory E D volume csi))"

section \<open>Lemmas\<close>

text \<open>Deleting a directory starts with the creation of a job; every other event leaves directories alone.\<close>

definition keeps_directory :: "event \<Rightarrow> bool" where
  "keeps_directory ev \<longleftrightarrow> (case ev of EvCreateJob _ _ \<Rightarrow> False | _ \<Rightarrow> True)"

text \<open>A list of volumes in which no other live volume of the class has the sub-path of this one.\<close>

definition unshared :: "PersistentVolume \<Rightarrow> CSISource \<Rightarrow> event \<Rightarrow> bool" where
  "unshared volume csi ev \<longleftrightarrow> (case ev of
       EvListPV (Ok pvs) \<Rightarrow> list_all (\<lambda>pv. other_live volume pv \<longrightarrow>
          csi_attr_of pv ''subPath'' \<noteq> Ok (mget (csi_VolumeAttributes csi) ''subPath'')) pvs
     | _ \<Rightarrow> False)"

lemma no_shared_subpath_True:
  "no_shared_subpath volume p pvs = Ok True \<Longrightarrow>
     list_all (\<lambda>pv. other_live volume pv \<longrightarrow> csi_attr_of pv ''subPath'' \<noteq> Ok p) pvs"
  by (induction pvs) (auto simp: bindR_Ok_iff split: if_splits)

lemma wp_CheckForSubPath:
  assumes "pv_CSI volume = Some csi"
  shows "wp trace (CheckForSubPath E volume pat) (\<lambda>es r. list_all keeps_directory es \<and>
     (r = Ok True \<longrightarrow> pat = [] \<or> list_ex (unshared volume csi) es))"
proof -
  have "csi_attr_of volume k = Ok (mget (csi_VolumeAttributes csi) k)" for k
    by (simp add: csi_attr_of_def assms)
  then show ?thesis
    unfolding CheckForSubPath_def
    by (auto intro!: wp_bindE wp_client wp_return
        simp: keeps_directory_def unshared_def split: result.splits) (rule no_shared_subpath_True)
qed

lemma runs_client_more [runs_rules]: "runs (GetSecret E n ns)" "runs (ListPersistentVolumes E)" "runs (PatchSecret E sec d)"
  "runs (GetJob E n ns)" "runs (CreateJob E job)" "runs (DeleteJob E n ns)" "runs (ListPod E ns ls fs)"
  "runs (GetPodLog E n ns cn)" "runs (UpdateSecret E sec)" "runs (CreateSecret E sec)"
  unfolding runs_def by (auto intro: wp_client)

lemma runs_retry [runs_rules]: "runs m \<Longrightarrow> runs (RetryOnConflict n m)"
  by (induction n) (auto intro!: runs_rules)

lemma runs_job [runs_rules]: "runs (job_incomplete E j)"
  unfolding job_incomplete_def getNotCompleteCnLog_def
  by (auto intro!: runs_rules split: result.split list.split option.split)

lemma runs_wait_job [runs_rules]: "runs (waitUtilJobCompleted E n j)"
  by (induction n) (auto intro!: runs_rules split: result.split)

lemma runs_MountPods_DeleteVolume [runs_rules]: "runs (MountPods.DeleteVolume E C img n s)"
  unfolding MountPods.DeleteVolume_def createOrUpdateSecret_def CreateOrUpdateSecret_def
  by (auto intro!: runs_rules split: result.split)

lemma runs_InitDfs [runs_rules]: "runs (InitDfs E D v t sec ctx opts)"
  unfolding InitDfs_def init_setting_def getUniqueId_def by (auto intro!: runs_rules simp: Let_def)

lemma runs_DfsDeleteVol [runs_rules]: "runs (DfsDeleteVol E D v p sec)"
  unfolding DfsDeleteVol_def DfsCleanupMountPoint_def by (auto intro!: runs_rules simp: Let_def split: option.split)

lemma runs_delete_directory [runs_rules]: "runs (delete_directory E D volume csi)"
  unfolding delete_directory_def drop_finalizer_def CheckForSecretFinalizer_def RemoveSecretFinalizer_def
    patchSecretFinalizer_def
  by (auto intro!: runs_rules split: option.split)

section \<open>Properties\<close>

text \<open>C17: the provisioner deletes the directory of a volume only when the reclaim policy says so and, for a
  volume whose directory comes from a path pattern, after a list of all volumes showed no other
  live volume of its storage class with the same directory.\<close>

theorem Delete_only_unshared:
  "wp trace (Delete E D volume) (\<lambda>es r. list_all keeps_directory es \<or>
     pv_ReclaimPolicy volume = ''Delete'' \<and> (\<exists>csi. pv_CSI volume = Some csi \<and>
       (mget (csi_VolumeAttributes csi) ''pathPattern'' = [] \<or> list_ex (unshared volume csi) es)))"
proof (cases "pv_CSI volume")
  case None
  then show ?thesis unfolding Delete_def by (auto intro!: wp_return)
next
  case (Some csi)
  then show ?thesis
    unfolding Delete_def
    by (auto intro!: wp_return wp_bindE wp_mono [OF wp_CheckForSubPath [OF Some]] wp_runs runs_rules
        split: result.split)
qed

text \<open>The directory of a volume in the file system of its secret, and the event that it is there: it was
  found, or made.\<close>

definition volume_directory :: "string \<Rightarrow> string \<Rightarrow> string" where
  "volume_directory fsName subPath = PathJoin [PathJoin [HostContainerDir @ DefaultHostDfsPath, fsName], subPath]"

definition has_directory :: "string \<Rightarrow> event \<Rightarrow> bool" where
  "has_directory p ev \<longleftrightarrow> (case ev of
       EvStat q e \<Rightarrow> q = p \<and> \<not> IsNotExist e
     | EvMkdirAll q e \<Rightarrow> q = p \<and> e = None
     | _ \<Rightarrow> False)"

lemma wpOk_DfsCreateVol:
  "wpOk (DfsCreateVol E v subPath sec) (\<lambda>es _. list_ex (has_directory (volume_directory (mget sec ''name'') subPath)) es)"
  unfolding DfsCreateVol_def wpOk_def Let_def
  by (auto intro!: wp_bind wp_call wp_return simp: has_directory_def volume_directory_def split: option.splits)

lemma map_of_fold_put:
  "map_of (fold (\<lambda>(k, v) m. mput m k (g k v)) ps m0) k = None \<longleftrightarrow> map_of m0 k = None \<and> k \<notin> fst ` set ps"
  by (induction ps arbitrary: m0) (auto simp: AList.update_conv' split: if_splits)

lemma resolved_params_None: "map_of (resolved_params meta n ps) k = None \<longleftrightarrow> k \<notin> fst ` set ps"
  unfolding resolved_params_def using map_of_fold_put [of "\<lambda>k v. if HasPrefix k ''csi.storage.k8s.io/''
      then ResolveSecret meta v n else StringParser meta (mget ps k)" ps "[]" k] by simp

lemma mget_mputs_other: "map_of ps k = None \<Longrightarrow> mget (mputs m ps) k = mget m k"
  by (induction ps arbitrary: m) (auto split: if_splits)

lemma wpOk_Provision:
  assumes sub: "''subPath'' \<notin> fst ` set (sc_Parameters (po_StorageClass options))"
  shows "wpOk (Provision E C options) (\<lambda>es pv. pv_Name pv = po_PVName options \<and>
     (case pv_CSI pv of None \<Rightarrow> False | Some csi \<Rightarrow> csi_VolumeHandle csi = po_PVName options \<and>
        (\<exists>fs. list_ex (has_directory (volume_directory fs (mget (csi_VolumeAttributes csi) ''subPath''))) es)))"
proof -
  let ?meta = "NewObjectMeta (po_PVC options) (po_SelectedNode options)" and ?sc = "po_StorageClass options"
  let ?ps = "resolved_params ?meta (po_PVName options) (sc_Parameters ?sc)"
  let ?sub = "sub_path (po_PVName options) ?ps"
  let ?ctx = "volume_context C (po_PVC options) ?sub ?ps"
  have ctx: "mget ?ctx ''subPath'' = ?sub"
    using sub by (simp add: volume_context_def mget_mputs_other resolved_params_None) (simp add: mget_def)
  have fin: "runs (if b then AddSecretFinalizer E secret fz else return None)" for b secret fz
    unfolding AddSecretFinalizer_def patchSecretFinalizer_def by (auto intro!: runs_rules)
  let ?Q = "\<lambda>es pv. pv_Name pv = po_PVName options \<and>
     (case pv_CSI pv of None \<Rightarrow> False | Some csi \<Rightarrow> csi_VolumeHandle csi = po_PVName options \<and>
        (\<exists>fs. list_ex (has_directory (volume_directory fs (mget (csi_VolumeAttributes csi) ''subPath''))) es))"
  have Q: "?Q es (provisioned_pv E options ?ps ?ctx mo policy)"
    if "list_ex (has_directory (volume_directory fs ?sub)) es" for es fs mo policy
    using that by (auto simp: provisioned_pv_def Let_def ctx)
  have tail: "wpOk (case sc_ReclaimPolicy ?sc of None \<Rightarrow> return Panic | Some policy \<Rightarrow> do {
      _ \<leftarrow> (if policy = ''Delete'' \<and> b then AddSecretFinalizer E secret Finalizer else return None);
      return (Ok (provisioned_pv E options ?ps ?ctx mo policy)) }) (\<lambda>es'. ?Q (es1 @ es2 @ es @ es'))"
    if "list_ex (has_directory (volume_directory fs ?sub)) es" for fs es1 es2 es b secret mo
  proof (cases "sc_ReclaimPolicy ?sc")
    case (Some policy)
    have "wpOk (do { _ \<leftarrow> (if policy = ''Delete'' \<and> b then AddSecretFinalizer E secret Finalizer else return None);
      return (Ok (provisioned_pv E options ?ps ?ctx mo policy)) }) (\<lambda>es'. ?Q (es1 @ es2 @ es @ es'))"
    proof (rule wpOk_bind [OF fin [unfolded runs_def]], rule wpOk_return, unfold result.inject)
      fix es' :: "event list" and pv
      assume pv: "provisioned_pv E options ?ps ?ctx mo policy = pv"
      have "list_ex (has_directory (volume_directory fs ?sub)) (es1 @ es2 @ es @ es' @ [])" using that by simp
      from Q [OF this, of mo policy] show "?Q (es1 @ es2 @ es @ es' @ []) pv" unfolding pv .
    qed
    with Some show ?thesis by simp
  qed (simp, rule wpOk_return, simp)
  have body: "wpOk (do { s \<leftarrow> GetSecret E n ns; bindE (return (wrapR msg s)) (\<lambda>secret.
      bindE (DfsCreateVol E (po_PVName options) ?sub (secret_data secret)) (\<lambda>_.
        case sc_ReclaimPolicy ?sc of None \<Rightarrow> return Panic | Some policy \<Rightarrow> do {
          _ \<leftarrow> (if policy = ''Delete'' \<and> b then AddSecretFinalizer E secret Finalizer else return None);
          return (Ok (provisioned_pv E options ?ps ?ctx mo policy)) })) }) ?Q" for n ns msg b mo
    by (rule wpOk_bind [OF runs_client_more(1) [unfolded runs_def]],
        rule wpOk_bindE [OF wpOk_return [where Q = "\<lambda>_ _. True"]], simp,
        rule wpOk_bindE [OF wpOk_DfsCreateVol], rule tail)
  show ?thesis
    unfolding Provision_def Let_def by (auto intro!: wpOk_return body)
qed


definition sample_claim :: PersistentVolumeClaim where
  "sample_claim = \<lparr>pvc_Name = ''c'', pvc_Namespace = ''d'', pvc_UID = ''u'', pvc_Labels = [], pvc_Annotations = [],
     pvc_StorageClassName = None, pvc_VolumeName = '''', pvc_Selector = None, pvc_AccessModes = [''ReadWriteMany''],
     pvc_VolumeMode = None, pvc_Requests = []\<rparr>"

definition sample_options :: ProvisionOptions where
  "sample_options = \<lparr>po_StorageClass = \<lparr>sc_Name = ''sc'', sc_Parameters = [(''pathPattern'', ''p'')],
     sc_MountOptions = [], sc_ReclaimPolicy = Some ''Delete''\<rparr>, po_PVName = ''pvc-1'', po_PVC = sample_claim,
     po_SelectedNode = None\<rparr>"


end
