(* ===== verification/Fuse.thy ===== *)
theory Fuse
  imports Paths Prelude
begin

text \<open>
  Passing of FUSE file descriptors, \<open>pkg/fuse/passfd.go\<close>. The driver keeps the descriptor of the FUSE
  device of a mount pod while the pod restarts: a pod sends it over a socket and gets it back.

  The objects of the code are pointers to structures that goroutines share, so the state has a heap:
  a pointer is an index of \<open>heap\<close>, the map from pod hashes holds pointers. \<open>open_fds\<close> are the
  received descriptors that are open in the process, \<open>closed\<close> logs every \<open>syscall.Close\<close>, \<open>files\<close> the
  operations on files and sockets. Answers of the operating system and of the
  peer are arguments. A handler is split where it gives up its locks, so that the steps of
  different goroutines can interleave.
\<close>

section \<open>Definitions\<close>

subsection \<open>State\<close>

record fd =
  fd_done :: bool
  fuseFd :: int
  fuseSetting :: string
  serverAddress :: string
  serverAddressInPod :: string

datatype file_op = OpMkdirAll string | OpRemoveAll string | OpRemove string | OpListen string

record Fds =
  basePath :: string
  fds :: "nat smap"
  heap :: "fd list"
  servers :: "nat list"
  open_fds :: "int list"
  closed :: "(int \<times> bool) list"
  files :: "file_op list"

definition InitFds :: "string \<Rightarrow> Fds" where
  "InitFds base = \<lparr>basePath = base, fds = [], heap = [], servers = [], open_fds = [], closed = [], files = []\<rparr>"

definition file_log :: "file_op \<Rightarrow> Fds \<Rightarrow> Fds" where
  "file_log op s = s\<lparr>files := files s @ [op]\<rparr>"

text \<open>\<open>syscall.Close\<close>, logged with whether the descriptor was one of the received ones and open.\<close>

definition sys_close :: "int \<Rightarrow> Fds \<Rightarrow> Fds" where
  "sys_close n s = s\<lparr>open_fds := remove1 n (open_fds s), closed := closed s @ [(n, n \<in> set (open_fds s))]\<rparr>"

definition set_fd :: "nat \<Rightarrow> (fd \<Rightarrow> fd) \<Rightarrow> Fds \<Rightarrow> Fds" where
  "set_fd p f s = s\<lparr>heap := (heap s)[p := f (heap s ! p)]\<rparr>"

definition socket_of :: "Fds \<Rightarrow> string \<Rightarrow> string" where
  "socket_of s podHashVal = PathJoin [basePath s, podHashVal, ''fuse_fd_csi_comm.sock'']"

definition socket_in_pod :: "Fds \<Rightarrow> string" where
  "socket_in_pod s = PathJoin [basePath s, ''fuse_fd_csi_comm.sock'']"

definition new_fd :: "Fds \<Rightarrow> string \<Rightarrow> fd" where
  "new_fd s podHashVal = \<lparr>fd_done = False, fuseFd = 0, fuseSetting = ''FUSE'',
     serverAddress = socket_of s podHashVal, serverAddressInPod = socket_in_pod s\<rparr>"

definition put_fd :: "string \<Rightarrow> fd \<Rightarrow> Fds \<Rightarrow> Fds" where
  "put_fd podHashVal f s = s\<lparr>heap := heap s @ [f], fds := mput (fds s) podHashVal (length (heap s))\<rparr>"

subsection \<open>Entries\<close>

text \<open>\<open>exist\<close> says whether the parent directory exists, \<open>e\<close> is how making it ended.\<close>

definition GetFdAddress :: "bool \<Rightarrow> err option \<Rightarrow> string \<Rightarrow> Fds \<Rightarrow> string result \<times> Fds" where
  "GetFdAddress exist e podHashVal s =
     (case map_of (fds s) podHashVal of
        Some p \<Rightarrow> (Ok (serverAddressInPod (heap s ! p)), s)
      | None \<Rightarrow>
          (let s = (if \<not> exist then file_log (OpMkdirAll (PathJoin [basePath s, podHashVal])) s else s) in
           case e of
             Some er \<Rightarrow> (Err er, s)
           | None \<Rightarrow> (Ok (socket_in_pod s), put_fd podHashVal (new_fd s podHashVal) s)))"

text \<open>\<open>StopFd\<close>: closing the channel twice is a panic. The answer is the state after the call.\<close>

definition StopFd :: "bool \<Rightarrow> string \<Rightarrow> Fds \<Rightarrow> Fds result" where
  "StopFd stat_ok podHashVal s =
     (let parent = PathJoin [basePath s, podHashVal] in
      case map_of (fds s) podHashVal of
        None \<Rightarrow> Ok (if stat_ok then file_log (OpRemoveAll parent) s else s)
      | Some p \<Rightarrow>
          if fd_done (heap s ! p) then Panic
          else Ok (file_log (OpRemoveAll parent)
            ((set_fd p (\<lambda>f. f\<lparr>fd_done := True\<rparr>) s)\<lparr>fds := mdel (fds s) podHashVal\<rparr>)))"

definition CloseFd :: "string \<Rightarrow> Fds \<Rightarrow> Fds" where
  "CloseFd podHashVal s =
     (case map_of (fds s) podHashVal of
        None \<Rightarrow> s
      | Some p \<Rightarrow>
          (let s = set_fd p (\<lambda>f. f\<lparr>fuseFd := -1\<rparr>) (sys_close (fuseFd (heap s ! p)) s)
           in s\<lparr>fds := mput (fds s) podHashVal p\<rparr>))"

subsection \<open>The server of an entry\<close>

text \<open>\<open>serveFuseFD\<close> starts two goroutines: one accepts connections, one waits for the channel. \<open>servers\<close>
  are the pointers the second kind waits for.\<close>

definition serveFuseFD :: "bool \<Rightarrow> string \<Rightarrow> Fds \<Rightarrow> Fds" where
  "serveFuseFD listen_ok podHashVal s =
     (case map_of (fds s) podHashVal of
        None \<Rightarrow> s
      | Some p \<Rightarrow>
          (let addr = serverAddress (heap s ! p); s = file_log (OpRemove addr) s in
           if listen_ok then (file_log (OpListen addr) s)\<lparr>servers := servers s @ [p]\<rparr> else s))"

definition ServeFuseFd :: "bool \<Rightarrow> string \<Rightarrow> Fds \<Rightarrow> unit result \<times> Fds" where
  "ServeFuseFd listen_ok podHashVal s =
     (if mhas (fds s) podHashVal then (Ok (), serveFuseFD listen_ok podHashVal s)
      else (Err (MsgErr (''fuse fd of podHashVal '' @ podHashVal @ '' not found in global fuse fds'')), s))"

text \<open>The goroutine that waited for the channel.\<close>

definition server_stopped :: "nat \<Rightarrow> Fds \<Rightarrow> Fds" where
  "server_stopped p s =
     (let s = sys_close (fuseFd (heap s ! p)) s
      in file_log (OpRemove (serverAddress (heap s ! p))) (s\<lparr>servers := remove1 p (servers s)\<rparr>))"

subsection \<open>Messages\<close>

text \<open>
  What \<open>recvmsg\<close> gave: an error, or the bytes, the error of splitting the control messages, and per
  control message its descriptors and the error of reading them.
\<close>

datatype recv = RecvErr err | Received string "err option" "(int list \<times> err option) list"

fun rights_of :: "(int list \<times> err option) list \<Rightarrow> int list \<Rightarrow> err option \<Rightarrow> int list \<times> int list \<times> err option" where
  "rights_of [] acc e = (acc, [], e)"
| "rights_of ((ns, e') # rs) acc e =
     (case e' of
        Some er \<Rightarrow> ([], acc @ ns, Some er)
      | None \<Rightarrow> rights_of rs (acc @ ns) None)"

text \<open>The bytes, the descriptors and the error; descriptors of a broken message are closed. What was
  received is open in the process first.\<close>

definition getFd :: "nat \<Rightarrow> recv \<Rightarrow> Fds \<Rightarrow> (string \<times> int list \<times> err option) \<times> Fds" where
  "getFd num r s =
     (if num < 1 then (([], [], None), s)
      else case r of
        RecvErr e \<Rightarrow> (([], [], Some e), s)
      | Received msg e rs \<Rightarrow>
          (case rights_of rs [] e of (ns, bad, e') \<Rightarrow>
             ((msg, ns, e'), fold sys_close bad (s\<lparr>open_fds := open_fds s @ concat (map fst rs)\<rparr>))))"

text \<open>\<open>putFd\<close> sends copies; only its error matters here.\<close>

definition putFd :: "err option \<Rightarrow> int list \<Rightarrow> err option" where
  "putFd e ns = (if ns = [] then None else e)"

subsection \<open>A request of a mount pod\<close>

text \<open>Sending under the lock of the entry: whether the handler goes on, and the descriptors sent.\<close>

definition handle_send :: "err option \<Rightarrow> nat \<Rightarrow> Fds \<Rightarrow> (bool \<times> int list) \<times> Fds" where
  "handle_send e p s =
     (let n = fuseFd (heap s ! p); ns = 0 # (if n > 0 then [n] else []) in
      case putFd e ns of
        Some _ \<Rightarrow> ((False, ns), s)
      | None \<Rightarrow> ((True, ns), if n > 0 then set_fd p (\<lambda>f. f\<lparr>fuseFd := -1\<rparr>) (sys_close n s) else s))"

text \<open>Keeping what the pod sent, under the lock of the entry.\<close>

definition handle_keep :: "string \<Rightarrow> int list \<Rightarrow> nat \<Rightarrow> Fds \<Rightarrow> Fds" where
  "handle_keep msg ns p s =
     (if msg \<noteq> ''CLOSE'' \<and> fuseFd (heap s ! p) \<le> 0 \<and> length ns \<ge> 1
      then set_fd p (\<lambda>f. f\<lparr>fuseFd := ns ! 0, fuseSetting := msg\<rparr>) s
      else fold sys_close ns s)"

definition handle_recv :: "recv \<Rightarrow> nat \<Rightarrow> Fds \<Rightarrow> bool \<times> Fds" where
  "handle_recv r p s =
     (case getFd 1 r s of ((msg, ns, e), s) \<Rightarrow>
       (case e of Some _ \<Rightarrow> (False, s) | None \<Rightarrow> (True, handle_keep msg ns p s)))"

definition handle_put :: "string \<Rightarrow> nat \<Rightarrow> Fds \<Rightarrow> Fds" where
  "handle_put podHashVal p s = s\<lparr>fds := mput (fds s) podHashVal p\<rparr>"

text \<open>The whole handler, when nothing runs in between.\<close>

definition handleFDRequest :: "string \<Rightarrow> err option \<Rightarrow> recv \<Rightarrow> Fds \<Rightarrow> Fds" where
  "handleFDRequest podHashVal e r s =
     (case map_of (fds s) podHashVal of
        None \<Rightarrow> s
      | Some p \<Rightarrow>
          (case handle_send e p s of ((sent, _), s) \<Rightarrow>
            if \<not> sent then s
            else case handle_recv r p s of (ok, s) \<Rightarrow> if \<not> ok then s else handle_put podHashVal p s))"

subsection \<open>Entries found at the start\<close>

text \<open>\<open>found\<close> is the check of the path, \<open>dial\<close> and \<open>send\<close> the errors of connecting and sending back.\<close>

definition getFuseFd :: "bool result \<Rightarrow> err option \<Rightarrow> recv \<Rightarrow> Fds \<Rightarrow> (int \<times> string) result \<times> Fds" where
  "getFuseFd found dial r s =
     (if found \<noteq> Ok True \<or> dial \<noteq> None then (Ok (-1, []), s)
      else case getFd 2 r s of ((msg, ns, e), s) \<Rightarrow>
        (case e of
           Some _ \<Rightarrow> (Ok (-1, []), s)
         | None \<Rightarrow>
             (case ns of
                [] \<Rightarrow> (Panic, s)
              | n # rest \<Rightarrow>
                  (let s = sys_close n s in
                   case rest of [] \<Rightarrow> (Ok (0, []), s) | m # _ \<Rightarrow> (Ok (m, msg), s)))))"

definition parseFuse :: "bool result \<Rightarrow> err option \<Rightarrow> recv \<Rightarrow> bool \<Rightarrow> string \<Rightarrow> Fds \<Rightarrow> unit result \<times> Fds" where
  "parseFuse found dial r listen_ok podHashVal s =
     (case getFuseFd found dial r s of
        (Ok (n, setting), s) \<Rightarrow>
          if n \<le> 0 then (Ok (), s)
          else (Ok (), serveFuseFD listen_ok podHashVal
                 (put_fd podHashVal ((new_fd s podHashVal)\<lparr>fuseFd := n, fuseSetting := setting\<rparr>) s))
      | (Err e, s) \<Rightarrow> (Err e, s)
      | (Panic, s) \<Rightarrow> (Panic, s)
      | (OutOfFuel, s) \<Rightarrow> (OutOfFuel, s))"

text \<open>
  \<open>ParseFuseFds\<close>: a directory of the base path with how reading it ended, and per entry of it the
  answers for its socket. Entries that are not directories are skipped.
\<close>

record sub_entry =
  se_Name :: string
  se_found :: "bool result"
  se_dial :: "err option"
  se_recv :: recv
  se_listen :: bool

record dir_entry =
  de_Name :: string
  de_IsDir :: bool
  de_entries :: "sub_entry list result"

fun parse_entries :: "string \<Rightarrow> sub_entry list \<Rightarrow> Fds \<Rightarrow> unit result \<times> Fds" where
  "parse_entries podHashVal [] s = (Ok (), s)"
| "parse_entries podHashVal (e # es) s =
     (if HasPrefix (se_Name e) ''fuse_fd_comm.'' then
        (case parseFuse (se_found e) (se_dial e) (se_recv e) (se_listen e) podHashVal s of
           (Ok _, s) \<Rightarrow> parse_entries podHashVal es s
         | (r, s) \<Rightarrow> (r, s))
      else parse_entries podHashVal es s)"

fun parse_dirs :: "dir_entry list \<Rightarrow> Fds \<Rightarrow> unit result \<times> Fds" where
  "parse_dirs [] s = (Ok (), s)"
| "parse_dirs (d # ds) s =
     (if \<not> de_IsDir d then parse_dirs ds s
      else case de_entries d of
        Ok es \<Rightarrow> (case parse_entries (de_Name d) es s of (Ok _, s) \<Rightarrow> parse_dirs ds s | (r, s) \<Rightarrow> (r, s))
      | Err e \<Rightarrow> (Err e, s)
      | Panic \<Rightarrow> (Panic, s)
      | OutOfFuel \<Rightarrow> (OutOfFuel, s))"

definition ParseFuseFds :: "dir_entry list result \<Rightarrow> Fds \<Rightarrow> unit result \<times> Fds" where
  "ParseFuseFds ds s =
     (case ds of
        Ok ds \<Rightarrow> parse_dirs ds s
      | Err e \<Rightarrow> (Err e, s)
      | Panic \<Rightarrow> (Panic, s)
      | OutOfFuel \<Rightarrow> (OutOfFuel, s))"

definition InitGlobalFds :: "string \<Rightarrow> dir_entry list result \<Rightarrow> unit result \<times> Fds" where
  "InitGlobalFds base ds = ParseFuseFds ds (InitFds base)"

section \<open>Descriptors and their owners\<close>

text \<open>What a peer may send: at most \<open>num\<close> descriptors in one control message, which the kernel numbers
  anew.\<close>

definition good_recv :: "nat \<Rightarrow> recv \<Rightarrow> Fds \<Rightarrow> bool" where
  "good_recv num r s \<longleftrightarrow> (case r of
       RecvErr _ \<Rightarrow> True
     | Received _ _ rs \<Rightarrow> length rs \<le> 1 \<and> length (concat (map fst rs)) \<le> num \<and> distinct (concat (map fst rs)) \<and>
         list_all (\<lambda>n. 0 < n \<and> n \<notin> set (open_fds s)) (concat (map fst rs)))"

text \<open>
  The steps of the service when a request runs without another step in between: entries are made,
  served once, stopped and closed, the goroutine of a stopped entry ends, a mount pod hands over
  descriptors to an entry that is served, and entries are found at the start.
\<close>

inductive fuse_step :: "Fds \<Rightarrow> Fds \<Rightarrow> bool" where
  get: "fuse_step s (snd (GetFdAddress exist e h s))"
| serve: "map_of (fds s) h = Some p \<Longrightarrow> p \<notin> set (servers s) \<Longrightarrow> fuse_step s (snd (ServeFuseFd listen_ok h s))"
| stop: "StopFd stat_ok h s = Ok s' \<Longrightarrow> fuse_step s s'"
| server: "p \<in> set (servers s) \<Longrightarrow> fd_done (heap s ! p) \<Longrightarrow> fuse_step s (server_stopped p s)"
| close: "fuse_step s (CloseFd h s)"
| request: "map_of (fds s) h = Some p \<Longrightarrow> p \<in> set (servers s) \<Longrightarrow> good_recv 1 r s \<Longrightarrow>
    fuse_step s (handleFDRequest h e r s)"
| found: "\<not> mhas (fds s) h \<Longrightarrow> good_recv 2 r s \<Longrightarrow> parseFuse found dial r True h s = (Ok (), s') \<Longrightarrow> fuse_step s s'"

text \<open>The served entries that own a descriptor.\<close>

definition owners :: "Fds \<Rightarrow> nat set" where
  "owners s = {p \<in> set (servers s). 0 < fuseFd (heap s ! p)}"

text \<open>Pointers are valid, no entry of the map is stopped, an entry that is not served has no descriptor, the
  open descriptors are exactly those of the owners, each of one owner, and no descriptor was closed
  that was not open.\<close>

definition fd_wf :: "Fds \<Rightarrow> bool" where
  "fd_wf s \<longleftrightarrow> wf_map (fds s) \<and> distinct (map snd (fds s)) \<and> distinct (servers s) \<and>
     (\<forall>p \<in> snd ` set (fds s) \<union> set (servers s). p < length (heap s)) \<and>
     (\<forall>p \<in> snd ` set (fds s). \<not> fd_done (heap s ! p) \<and> (p \<in> set (servers s) \<or> fuseFd (heap s ! p) \<le> 0))"

text \<open>\<open>X\<close> are open descriptors that a running handler holds and no entry owns yet.\<close>

definition fd_owned :: "int set \<Rightarrow> Fds \<Rightarrow> bool" where
  "fd_owned X s \<longleftrightarrow> inj_on (\<lambda>p. fuseFd (heap s ! p)) (owners s) \<and> distinct (open_fds s) \<and>
     set (open_fds s) = (\<lambda>p. fuseFd (heap s ! p)) ` owners s \<union> X \<and>
     (\<lambda>p. fuseFd (heap s ! p)) ` owners s \<inter> X = {} \<and>
     list_all (\<lambda>(n, b). n \<le> 0 \<or> b) (closed s)"

definition fd_inv :: "Fds \<Rightarrow> bool" where
  "fd_inv s \<longleftrightarrow> fd_wf s \<and> fd_owned {} s"

lemma sys_close_sel [simp]: "fds (sys_close n s) = fds s" "heap (sys_close n s) = heap s" "servers (sys_close n s) = servers s"
  "basePath (sys_close n s) = basePath s" "open_fds (sys_close n s) = remove1 n (open_fds s)"
  "closed (sys_close n s) = closed s @ [(n, n \<in> set (open_fds s))]" "owners (sys_close n s) = owners s"
  by (simp_all add: sys_close_def owners_def)

lemma set_fd_sel [simp]: "fds (set_fd p f s) = fds s" "heap (set_fd p f s) = (heap s)[p := f (heap s ! p)]"
  "servers (set_fd p f s) = servers s" "open_fds (set_fd p f s) = open_fds s" "closed (set_fd p f s) = closed s"
  "basePath (set_fd p f s) = basePath s"
  by (simp_all add: set_fd_def)

lemma file_log_sel [simp]: "fds (file_log op s) = fds s" "heap (file_log op s) = heap s" "servers (file_log op s) = servers s"
  "open_fds (file_log op s) = open_fds s" "closed (file_log op s) = closed s" "owners (file_log op s) = owners s"
  "basePath (file_log op s) = basePath s"
  by (simp_all add: file_log_def owners_def)

lemma fd_inv_cong:
  "fds s' = fds s \<Longrightarrow> heap s' = heap s \<Longrightarrow> servers s' = servers s \<Longrightarrow> open_fds s' = open_fds s \<Longrightarrow> closed s' = closed s \<Longrightarrow>
   fd_inv s' = fd_inv s"
  by (simp add: fd_inv_def fd_wf_def fd_owned_def owners_def)

lemma fd_inv_file_log [simp]: "fd_inv (file_log op s) = fd_inv s"
  by (rule fd_inv_cong) simp_all

lemma fd_wf_cong: "fds s' = fds s \<Longrightarrow> heap s' = heap s \<Longrightarrow> servers s' = servers s \<Longrightarrow> fd_wf s' = fd_wf s"
  by (simp add: fd_wf_def)

lemma fd_wf_sys_close [simp]: "fd_wf (sys_close n s) = fd_wf s"
  by (rule fd_wf_cong) simp_all

lemma fd_wf_set_fd:
  assumes "fd_wf s" and p: "p < length (heap s)" and "fd_done (g (heap s ! p)) = fd_done (heap s ! p)"
    and "p \<in> set (servers s) \<or> fuseFd (g (heap s ! p)) \<le> 0"
  shows "fd_wf (set_fd p g s)"
proof -
  have nth: "(heap s)[p := g (heap s ! p)] ! q = (if q = p then g (heap s ! p) else heap s ! q)" for q
    using p by (simp add: nth_list_update)
  show ?thesis using assms by (auto simp: fd_wf_def nth)
qed

text \<open>Giving up the descriptor of an entry: it is closed, and the entry has none afterwards.\<close>

lemma fd_inv_drop:
  assumes "fd_inv s" and "p < length (heap s)" and "p \<in> set (servers s) \<or> fuseFd (heap s ! p) \<le> 0"
  shows "fd_inv (set_fd p (\<lambda>f. f\<lparr>fuseFd := -1\<rparr>) (sys_close (fuseFd (heap s ! p)) s))"
proof -
  note wf = assms(1) [unfolded fd_inv_def, THEN conjunct1] and ow = assms(1) [unfolded fd_inv_def, THEN conjunct2]
  let ?n = "fuseFd (heap s ! p)" and ?s = "set_fd p (\<lambda>f. f\<lparr>fuseFd := -1\<rparr>) (sys_close (fuseFd (heap s ! p)) s)"
  have own: "owners ?s = owners s - {p}"
    using assms by (auto simp: owners_def nth_list_update)
  have img: "(\<lambda>q. fuseFd (heap ?s ! q)) ` owners ?s = (\<lambda>q. fuseFd (heap s ! q)) ` (owners s - {p})"
    unfolding own by (auto simp: nth_list_update)
  have inj: "inj_on (\<lambda>q. fuseFd (heap ?s ! q)) (owners ?s)"
    using ow unfolding own by (auto simp: fd_owned_def inj_on_def nth_list_update)
  have op: "?n > 0 \<Longrightarrow> p \<in> owners s" using assms(3) by (auto simp: owners_def)
  have "set (open_fds ?s) = (\<lambda>q. fuseFd (heap s ! q)) ` (owners s - {p})"
  proof (cases "?n > 0")
    case True
    then show ?thesis using ow op inj_on_image_set_diff [of "\<lambda>q. fuseFd (heap s ! q)" "owners s" "owners s" "{p}"]
      by (simp add: fd_owned_def)
  next
    case False
    then have "p \<notin> owners s" by (simp add: owners_def)
    moreover have "?n \<notin> set (open_fds s)" using False ow by (auto simp: fd_owned_def owners_def)
    ultimately show ?thesis using ow by (simp add: fd_owned_def remove1_idem)
  qed
  moreover have "?n \<le> 0 \<or> ?n \<in> set (open_fds s)" using op ow by (fastforce simp: fd_owned_def)
  moreover have "distinct (open_fds ?s)" "list_all (\<lambda>(n, b). n \<le> 0 \<or> b) (closed s)" using ow by (simp_all add: fd_owned_def)
  ultimately have "fd_owned {} ?s"
    using inj img by (simp add: fd_owned_def)
  moreover have "fd_wf ?s" using wf assms(2) by (intro fd_wf_set_fd) simp_all
  ultimately show ?thesis by (simp add: fd_inv_def)
qed

text \<open>Descriptors that a handler received: held by it until they are closed or kept.\<close>

lemma fd_owned_close:
  assumes "fd_owned X s" and "n \<in> X"
  shows "fd_owned (X - {n}) (sys_close n s)"
proof -
  define I where "I = (\<lambda>p. fuseFd (heap s ! p)) ` owners s"
  have a: "inj_on (\<lambda>p. fuseFd (heap s ! p)) (owners s)" "distinct (open_fds s)" "set (open_fds s) = I \<union> X"
    "I \<inter> X = {}" "list_all (\<lambda>(n, b). n \<le> 0 \<or> b) (closed s)"
    using assms(1) unfolding fd_owned_def I_def by blast+
  have "set (remove1 n (open_fds s)) = I \<union> (X - {n})"
    unfolding set_remove1_eq [OF a(2)] a(3) using a(4) assms(2) by blast
  moreover have "I \<inter> (X - {n}) = {}" using a(4) by blast
  moreover have "n \<in> set (open_fds s)" using a(3) assms(2) by blast
  ultimately show ?thesis
    unfolding fd_owned_def sys_close_sel I_def [symmetric] using a(1,2,5) distinct_remove1 [OF a(2)]
    by (intro conjI) (simp_all only: list_all_append prod.case simp_thms list.pred_inject)
qed

lemma fd_owned_close_all:
  "fd_owned X s \<Longrightarrow> distinct ns \<Longrightarrow> set ns \<subseteq> X \<Longrightarrow> fd_owned (X - set ns) (fold sys_close ns s)"
proof (induction ns arbitrary: X s)
  case (Cons n ns)
  then have "fd_owned (X - {n}) (sys_close n s)" by (intro fd_owned_close) auto
  moreover have "set ns \<subseteq> X - {n}" "distinct ns" using Cons.prems by auto
  ultimately have "fd_owned (X - {n} - set ns) (fold sys_close ns (sys_close n s))" using Cons.IH by blast
  moreover have "X - {n} - set ns = X - set (n # ns)" by auto
  ultimately show ?case by simp
qed simp

lemma fold_sys_close_sel [simp]: "fds (fold sys_close ns s) = fds s" "heap (fold sys_close ns s) = heap s"
  "servers (fold sys_close ns s) = servers s"
  by (induction ns arbitrary: s) simp_all

lemma fd_wf_fold_close [simp]: "fd_wf (fold sys_close ns s) = fd_wf s"
  by (rule fd_wf_cong) simp_all

lemma fd_owned_receive:
  assumes "fd_owned {} s" "distinct ns" "list_all (\<lambda>n. 0 < n \<and> n \<notin> set (open_fds s)) ns"
  shows "fd_owned (set ns) (s\<lparr>open_fds := open_fds s @ ns\<rparr>)"
  using assms by (auto simp: fd_owned_def owners_def list_all_iff)

lemma fd_owned_keep:
  assumes "fd_owned {n} s" "0 < n" "p \<in> set (servers s)" "p < length (heap s)" "fuseFd (heap s ! p) \<le> 0"
  shows "fd_owned {} (set_fd p (\<lambda>f. f\<lparr>fuseFd := n, fuseSetting := msg\<rparr>) s)"
proof -
  let ?s = "set_fd p (\<lambda>f. f\<lparr>fuseFd := n, fuseSetting := msg\<rparr>) s"
  have nth: "heap ?s ! q = (if q = p then (heap s ! p)\<lparr>fuseFd := n, fuseSetting := msg\<rparr> else heap s ! q)" for q
    using assms(4) by (simp add: nth_list_update)
  have notp: "p \<notin> owners s" using assms(5) by (simp add: owners_def)
  have own: "owners ?s = insert p (owners s)"
    using assms(2,3) unfolding owners_def by (auto simp: nth simp del: set_fd_sel(2))
  have img: "(\<lambda>q. fuseFd (heap ?s ! q)) ` owners s = (\<lambda>q. fuseFd (heap s ! q)) ` owners s"
    using notp by (intro image_cong) (auto simp: nth simp del: set_fd_sel(2))
  have inj: "inj_on (\<lambda>q. fuseFd (heap ?s ! q)) (owners s)"
    using assms(1) notp by (auto simp: fd_owned_def inj_on_def nth simp del: set_fd_sel(2))
  have pn: "fuseFd (heap ?s ! p) = n" by (simp add: nth del: set_fd_sel(2))
  show ?thesis
    using assms(1) notp inj pn unfolding fd_owned_def own
    by (simp add: img del: set_fd_sel(2))
qed

text \<open>What \<open>getFd\<close> leaves open is what it answers.\<close>

lemma getFd_owned:
  assumes "fd_owned {} s" "good_recv num r s" "0 < num" "getFd num r s = ((msg, ns, e), s')"
  shows "fd_owned (set ns) s' \<and> distinct ns \<and> length ns \<le> num \<and> list_all (\<lambda>n. 0 < n) ns \<and> (e \<noteq> None \<longrightarrow> ns = []) \<and>
     fds s' = fds s \<and> heap s' = heap s \<and> servers s' = servers s \<and> basePath s' = basePath s"
proof (cases r)
  case (RecvErr er)
  with assms show ?thesis by (auto simp: getFd_def)
next
  case (Received m pe rs)
  have base: "basePath (fold sys_close xs t) = basePath t" for xs t by (induction xs arbitrary: t) simp_all
  show ?thesis
  proof (cases rs)
    case Nil
    with Received assms show ?thesis by (cases pe) (auto simp: getFd_def fd_owned_def owners_def)
  next
    case (Cons x xs)
    obtain ms e' where x: "x = (ms, e')" by (cases x)
    let ?t = "s\<lparr>open_fds := open_fds s @ ms\<rparr>"
    have one: "xs = []" and fresh: "distinct ms" "list_all (\<lambda>n. 0 < n \<and> n \<notin> set (open_fds s)) ms" "length ms \<le> num"
      using assms(2) Received Cons x by (auto simp: good_recv_def)
    have rec: "fd_owned (set ms) ?t" using assms(1) fresh by (intro fd_owned_receive)
    show ?thesis
    proof (cases e')
      case None
      with Received Cons x one assms(3,4) rec fresh show ?thesis by (auto simp: getFd_def list_all_iff)
    next
      case (Some er)
      with Received Cons x one assms(3,4) fd_owned_close_all [OF rec fresh(1) subset_refl] show ?thesis
        by (auto simp: getFd_def base)
    qed
  qed
qed

subsection \<open>Every step keeps the invariant\<close>

lemma mput_absent: "\<not> mhas m k \<Longrightarrow> mput m k v = m @ [(k, v)]"
  by (induction m) (auto simp: mhas_def split: if_splits)

lemma mput_same: "map_of m k = Some v \<Longrightarrow> mput m k v = m"
  by (induction m) (auto split: if_splits)

lemma map_of_ptr: "map_of (fds s) h = Some p \<Longrightarrow> p \<in> snd ` set (fds s)"
  by (force dest: map_of_SomeD)

lemma fd_inv_ptr:
  assumes "fd_inv s" and "map_of (fds s) h = Some p"
  shows "p < length (heap s)" and "\<not> fd_done (heap s ! p)" and "p \<in> set (servers s) \<or> fuseFd (heap s ! p) \<le> 0"
  using assms map_of_ptr [OF assms(2)] by (auto simp: fd_inv_def fd_wf_def)

lemma fd_inv_CloseFd: "fd_inv s \<Longrightarrow> fd_inv (CloseFd h s)"
proof (cases "map_of (fds s) h")
  case (Some p)
  assume inv: "fd_inv s"
  let ?s = "set_fd p (\<lambda>f. f\<lparr>fuseFd := -1\<rparr>) (sys_close (fuseFd (heap s ! p)) s)"
  have "fd_inv ?s" using inv fd_inv_ptr [OF inv Some] by (intro fd_inv_drop)
  then have "fd_inv (?s\<lparr>fds := fds s\<rparr>)" by (subst fd_inv_cong [of _ ?s]) simp_all
  then show ?thesis using Some by (simp add: CloseFd_def Let_def mput_same)
qed (simp add: CloseFd_def)

lemma fd_wf_put_fd:
  assumes "fd_wf s" and "\<not> mhas (fds s) h" and "\<not> fd_done f" and "fuseFd f \<le> 0"
  shows "fd_wf (put_fd h f s)"
proof -
  have old: "p \<noteq> length (heap s)" "p < Suc (length (heap s))" if "p \<in> snd ` set (fds s) \<union> set (servers s)" for p
    using assms(1) that by (auto simp: fd_wf_def less_Suc_eq)
  show ?thesis
    using assms old by (auto simp: fd_wf_def put_fd_def mput_absent nth_append wf_map_def mhas_iff)
qed

lemma owners_put_fd:
  assumes "fd_wf s"
  shows "owners (put_fd h f s) = owners s"
    and "p \<in> owners s \<Longrightarrow> heap (put_fd h f s) ! p = heap s ! p"
  using assms by (auto simp: owners_def put_fd_def fd_wf_def nth_append)

lemma fd_owned_put_fd:
  assumes wf: "fd_wf s" and ow: "fd_owned X s"
  shows "fd_owned X (put_fd h f s)"
proof -
  have im: "(\<lambda>p. fuseFd (heap (put_fd h f s) ! p)) ` owners s = (\<lambda>p. fuseFd (heap s ! p)) ` owners s"
    using owners_put_fd(2) [OF wf] by (intro image_cong) simp_all
  have inj: "inj_on (\<lambda>p. fuseFd (heap (put_fd h f s) ! p)) (owners s)"
    using ow owners_put_fd(2) [OF wf] by (simp add: fd_owned_def inj_on_def)
  have "open_fds (put_fd h f s) = open_fds s" "closed (put_fd h f s) = closed s" by (simp_all add: put_fd_def)
  with ow inj im show ?thesis by (simp add: fd_owned_def owners_put_fd(1) [OF wf])
qed

lemma fd_inv_put_fd:
  "fd_inv s \<Longrightarrow> \<not> mhas (fds s) h \<Longrightarrow> \<not> fd_done f \<Longrightarrow> fuseFd f \<le> 0 \<Longrightarrow> fd_inv (put_fd h f s)"
  by (simp add: fd_inv_def fd_wf_put_fd fd_owned_put_fd)

lemma fd_inv_GetFdAddress: "fd_inv s \<Longrightarrow> fd_inv (snd (GetFdAddress exist e h s))"
  by (auto simp: GetFdAddress_def Let_def new_fd_def mhas_def intro!: fd_inv_put_fd split: option.split)

lemma fd_served:
  assumes wf: "fd_wf s" and ow: "fd_owned X s" and "map_of (fds s) h = Some p" and "p \<notin> set (servers s)"
  shows "fd_wf (s\<lparr>servers := servers s @ [p]\<rparr>)" and "fd_owned X (s\<lparr>servers := servers s @ [p]\<rparr>)"
proof -
  have p: "p \<in> snd ` set (fds s)" using assms(3) by (rule map_of_ptr)
  with assms have "owners (s\<lparr>servers := servers s @ [p]\<rparr>) = owners s" by (auto simp: owners_def fd_wf_def)
  with ow show "fd_owned X (s\<lparr>servers := servers s @ [p]\<rparr>)" by (simp add: fd_owned_def)
  show "fd_wf (s\<lparr>servers := servers s @ [p]\<rparr>)" using assms p by (auto simp: fd_wf_def)
qed

lemma fd_inv_serve:
  "fd_inv s \<Longrightarrow> map_of (fds s) h = Some p \<Longrightarrow> p \<notin> set (servers s) \<Longrightarrow> fd_inv (s\<lparr>servers := servers s @ [p]\<rparr>)"
  unfolding fd_inv_def by (elim conjE, intro conjI; rule fd_served; assumption)

lemma fd_inv_ServeFuseFd:
  assumes "fd_inv s" and "map_of (fds s) h = Some p" and "p \<notin> set (servers s)"
  shows "fd_inv (snd (ServeFuseFd ok h s))"
proof -
  have "fd_inv (t\<lparr>servers := servers t @ [p]\<rparr>)" if "t = file_log a (file_log b s)" for t a b
    using assms that by (intro fd_inv_serve [of _ h]) simp_all
  then show ?thesis using assms by (simp add: ServeFuseFd_def serveFuseFD_def Let_def mhas_def)
qed

lemma fd_inv_StopFd:
  assumes "fd_inv s" and "StopFd ok h s = Ok s'"
  shows "fd_inv s'"
proof (cases "map_of (fds s) h")
  case None
  with assms show ?thesis by (auto simp: StopFd_def Let_def split: if_splits)
next
  case (Some p)
  let ?s = "(set_fd p (\<lambda>f. f\<lparr>fd_done := True\<rparr>) s)\<lparr>fds := mdel (fds s) h\<rparr>"
  have s': "s' = file_log (OpRemoveAll (PathJoin [basePath s, h])) ?s"
    using assms(2) Some by (simp add: StopFd_def Let_def split: if_splits)
  have nth: "heap ?s ! q = (if q = p then (heap s ! p)\<lparr>fd_done := True\<rparr> else heap s ! q)" for q
    using fd_inv_ptr(1) [OF assms(1) Some] by (simp add: nth_list_update)
  have fd: "fuseFd (heap ?s ! q) = fuseFd (heap s ! q)" for q by (simp only: nth) simp
  have "owners ?s = owners s" unfolding owners_def fd by simp
  with assms(1) have owned: "fd_owned {} ?s" unfolding fd_owned_def fd by (simp add: fd_inv_def fd_owned_def)
  have gone: "p \<notin> snd ` set (mdel (fds s) h)"
  proof
    assume "p \<in> snd ` set (mdel (fds s) h)"
    then obtain k where "(k, p) \<in> set (fds s)" "k \<noteq> h" by (auto simp: AList.delete_eq)
    moreover have "(h, p) \<in> set (fds s)" using Some by (rule map_of_SomeD)
    ultimately show False using assms(1) inj_onD [of snd "set (fds s)" "(k, p)" "(h, p)"]
      by (simp add: fd_inv_def fd_wf_def distinct_map)
  qed
  have sub: "snd ` set (mdel (fds s) h) \<subseteq> snd ` set (fds s)" by (auto simp: AList.delete_eq)
  have dist: "distinct (map snd (mdel (fds s) h))"
    using assms(1) by (simp add: fd_inv_def fd_wf_def AList.delete_eq distinct_map_filter)
  have live: "\<not> fd_done (heap ?s ! q) \<and> (q \<in> set (servers s) \<or> fuseFd (heap ?s ! q) \<le> 0)"
    if "q \<in> snd ` set (mdel (fds s) h)" for q
  proof -
    have "q \<noteq> p" "q \<in> snd ` set (fds s)" using that gone sub by auto
    then show ?thesis using assms(1) unfolding nth by (auto simp: fd_inv_def fd_wf_def)
  qed
  have "fd_wf ?s"
    using assms(1) dist sub live by (auto simp: fd_inv_def fd_wf_def)
  with owned show ?thesis unfolding s' fd_inv_file_log by (simp add: fd_inv_def)
qed

text \<open>The goroutine of a stopped entry closes the descriptor the entry owned.\<close>

lemma fd_inv_server_stopped:
  assumes "fd_inv s" and "p \<in> set (servers s)" and "fd_done (heap s ! p)"
  shows "fd_inv (server_stopped p s)"
proof -
  let ?n = "fuseFd (heap s ! p)"
  let ?t = "set_fd p (\<lambda>f. f\<lparr>fuseFd := -1\<rparr>) (sys_close ?n s)" and ?u = "(sys_close ?n s)\<lparr>servers := remove1 p (servers s)\<rparr>"
  have p: "p < length (heap s)" and dist: "distinct (servers s)" using assms by (auto simp: fd_inv_def fd_wf_def)
  have t: "fd_inv ?t" using assms p by (intro fd_inv_drop) auto
  have notin: "p \<notin> snd ` set (fds s)" using assms by (auto simp: fd_inv_def fd_wf_def)
  have heap: "q \<noteq> p \<Longrightarrow> heap ?t ! q = heap ?u ! q" for q by simp
  have own: "owners ?u = owners ?t" "p \<notin> owners ?t"
    using p dist by (auto simp: owners_def nth_list_update)
  have fd: "fuseFd (heap ?u ! q) = fuseFd (heap ?t ! q)" if "q \<in> owners ?t" for q
    using that own(2) heap [of q] by metis
  have im: "(\<lambda>q. fuseFd (heap ?u ! q)) ` owners ?t = (\<lambda>q. fuseFd (heap ?t ! q)) ` owners ?t"
    using fd by (rule image_cong [OF refl])
  have inj: "inj_on (\<lambda>q. fuseFd (heap ?u ! q)) (owners ?t)"
    using t fd unfolding fd_inv_def fd_owned_def by (metis (no_types, lifting) inj_on_cong)
  have "fd_owned {} ?u"
    using t inj unfolding fd_inv_def fd_owned_def own im by simp
  moreover have "fd_wf ?u"
    using assms(1) notin by (auto simp: fd_inv_def fd_wf_def dest: notin_set_remove1 set_remove1_subset [THEN subsetD])
  ultimately have "fd_inv ?u" by (simp add: fd_inv_def)
  then show ?thesis by (simp add: server_stopped_def Let_def)
qed

lemma fd_wf_keep:
  "fd_wf s \<Longrightarrow> p \<in> set (servers s) \<Longrightarrow> fd_wf (set_fd p (\<lambda>f. f\<lparr>fuseFd := n, fuseSetting := msg\<rparr>) s)"
  by (rule fd_wf_set_fd) (auto simp: fd_wf_def)

lemma fd_inv_recv:
  assumes "fd_inv s" and "p \<in> set (servers s)" and "good_recv 1 r s"
  shows "fd_inv (snd (handle_recv r p s)) \<and> fds (snd (handle_recv r p s)) = fds s"
proof -
  obtain msg ns e s1 where g: "getFd 1 r s = ((msg, ns, e), s1)" by (metis prod.exhaust)
  have G: "fd_owned (set ns) s1" "distinct ns" "length ns \<le> 1" "list_all (\<lambda>n. 0 < n) ns" "e \<noteq> None \<longrightarrow> ns = []"
    "fds s1 = fds s" "heap s1 = heap s" "servers s1 = servers s"
    using getFd_owned [OF _ assms(3) _ g] assms(1) by (simp_all add: fd_inv_def)
  have wf: "fd_wf s1" using assms(1) fd_wf_cong [OF G(6-8)] by (simp add: fd_inv_def)
  have p: "p < length (heap s1)" "p \<in> set (servers s1)" using wf assms(2) G(7,8) by (auto simp: fd_wf_def)
  show ?thesis
  proof (cases e)
    case (Some er)
    with g G(1,5,6) wf show ?thesis by (simp add: handle_recv_def fd_inv_def)
  next
    case None
    show ?thesis
    proof (cases "msg \<noteq> ''CLOSE'' \<and> fuseFd (heap s1 ! p) \<le> 0 \<and> length ns \<ge> 1")
      case True
      with G(3) obtain n where n: "ns = [n]" by (cases ns) auto
      have "fd_owned {} (set_fd p (\<lambda>f. f\<lparr>fuseFd := n, fuseSetting := msg\<rparr>) s1)"
        using G(1,4) n p True by (intro fd_owned_keep) simp_all
      with fd_wf_keep [OF wf p(2)] True n None g G(6) show ?thesis by (simp add: handle_recv_def handle_keep_def fd_inv_def)
    next
      case False
      with None g G(6) have r: "snd (handle_recv r p s) = fold sys_close ns s1" by (auto simp: handle_recv_def handle_keep_def)
      show ?thesis unfolding r using fd_owned_close_all [OF G(1,2) subset_refl] wf G(6) by (simp add: fd_inv_def)
    qed
  qed
qed

lemma fd_inv_send:
  assumes "fd_inv s" and "map_of (fds s) h = Some p"
  shows "fd_inv (snd (handle_send e p s)) \<and> fds (snd (handle_send e p s)) = fds s \<and>
    servers (snd (handle_send e p s)) = servers s"
  using assms fd_inv_ptr [OF assms] fd_inv_drop [of s p]
  by (simp add: handle_send_def Let_def putFd_def split: option.split)

lemma good_recv_send: "good_recv num r s \<Longrightarrow> good_recv num r (snd (handle_send e p s))"
  using notin_set_remove1
  by (fastforce simp: good_recv_def handle_send_def Let_def putFd_def list_all_iff split: recv.splits option.splits)

lemma fd_inv_request:
  assumes "fd_inv s" and "map_of (fds s) h = Some p" and "p \<in> set (servers s)" and "good_recv 1 r s"
  shows "fd_inv (handleFDRequest h e r s)"
proof -
  obtain sent ns s1 where send: "handle_send e p s = ((sent, ns), s1)" by (metis prod.exhaust)
  have s1: "fd_inv s1" "fds s1 = fds s" "p \<in> set (servers s1)" "good_recv 1 r s1"
    using fd_inv_send [OF assms(1,2), of e] good_recv_send [OF assms(4), of e p] assms(3) send by simp_all
  obtain ok s2 where recv: "handle_recv r p s1 = (ok, s2)" by (metis prod.exhaust)
  have s2: "fd_inv s2" "fds s2 = fds s" using fd_inv_recv [OF s1(1,3,4)] s1(2) recv by simp_all
  have "fd_inv (s2\<lparr>fds := fds s\<rparr>)" using s2 by (subst fd_inv_cong [of _ s2]) simp_all
  with s1 s2 send recv assms(2) show ?thesis by (simp add: handleFDRequest_def handle_put_def mput_same)
qed

text \<open>An entry made for a descriptor that was found, and served at once.\<close>

lemma fd_inv_adopt:
  assumes wf: "fd_wf s" and ow: "fd_owned {n} s" and "0 < n" and new: "\<not> mhas (fds s) h"
  shows "fd_inv (serveFuseFD True h (put_fd h ((new_fd s h)\<lparr>fuseFd := n, fuseSetting := m\<rparr>) s))"
proof -
  let ?p = "length (heap s)" and ?f = "new_fd s h"
  let ?t = "put_fd h ?f s" let ?u = "?t\<lparr>servers := servers ?t @ [?p]\<rparr>"
  have t: "fd_wf ?t" "fd_owned {n} ?t" "map_of (fds ?t) h = Some ?p" "?p \<notin> set (servers ?t)"
    using fd_wf_put_fd [OF wf new, of ?f] fd_owned_put_fd [OF wf ow] wf
    by (auto simp: put_fd_def new_fd_def AList.update_conv' fd_wf_def)
  note u = fd_served [OF t]
  have "fd_owned {} (set_fd ?p (\<lambda>f. f\<lparr>fuseFd := n, fuseSetting := m\<rparr>) ?u)"
    using u(2) assms(3) by (intro fd_owned_keep) (simp_all add: put_fd_def new_fd_def nth_append)
  moreover have "fd_wf (set_fd ?p (\<lambda>f. f\<lparr>fuseFd := n, fuseSetting := m\<rparr>) ?u)"
    using u(1) by (rule fd_wf_keep) simp
  ultimately have "fd_inv (set_fd ?p (\<lambda>f. f\<lparr>fuseFd := n, fuseSetting := m\<rparr>) ?u)" by (simp add: fd_inv_def)
  then show ?thesis
    by (elim fd_inv_cong [THEN iffD1, rotated -1])
      (simp_all add: serveFuseFD_def put_fd_def new_fd_def set_fd_def file_log_def AList.update_conv' Let_def nth_append)
qed

lemma fd_inv_found:
  assumes "fd_inv s" and "\<not> mhas (fds s) h" and "good_recv 2 r s" and "parseFuse found dial r True h s = (Ok (), s')"
  shows "fd_inv s'"
proof (cases "found \<noteq> Ok True \<or> dial \<noteq> None")
  case True
  with assms show ?thesis by (auto simp: parseFuse_def getFuseFd_def)
next
  case False
  obtain msg ns e s1 where g: "getFd 2 r s = ((msg, ns, e), s1)" by (metis prod.exhaust)
  have G: "fd_owned (set ns) s1" "distinct ns" "length ns \<le> 2" "list_all (\<lambda>n. 0 < n) ns" "e \<noteq> None \<longrightarrow> ns = []"
    "fds s1 = fds s" "heap s1 = heap s" "servers s1 = servers s"
    using getFd_owned [OF _ assms(3) _ g] assms(1) by (simp_all add: fd_inv_def)
  have wf: "fd_wf s1" using assms(1) fd_wf_cong [OF G(6-8)] by (simp add: fd_inv_def)
  consider (err) er where "e = Some er" | (none) "e = None" "ns = []" | (one) n where "e = None" "ns = [n]"
    | (two) n m where "e = None" "ns = [n, m]"
    using G(3) by (cases e; cases ns; cases "tl ns") auto
  then show ?thesis
  proof cases
    case err
    with G(1,5) wf g False assms(4) show ?thesis by (auto simp: parseFuse_def getFuseFd_def fd_inv_def)
  next
    case none
    with g False assms(4) show ?thesis by (auto simp: parseFuse_def getFuseFd_def)
  next
    case one
    then have "fd_inv (sys_close n s1)" using fd_owned_close [OF G(1), of n] wf by (simp add: fd_inv_def)
    with one g False assms(4) show ?thesis by (auto simp: parseFuse_def getFuseFd_def Let_def)
  next
    case two
    let ?t = "sys_close n s1"
    have "fd_owned {m} ?t" using fd_owned_close [OF G(1), of n] two G(2) by (simp add: insert_Diff_if)
    then have "fd_inv (serveFuseFD True h (put_fd h ((new_fd ?t h)\<lparr>fuseFd := m, fuseSetting := msg\<rparr>) ?t))"
      using wf G(4,6) two assms(2) by (intro fd_inv_adopt) simp_all
    with two G(4) g False assms(4) show ?thesis by (auto simp: parseFuse_def getFuseFd_def Let_def)
  qed
qed


lemma fd_inv_step: "fuse_step s t \<Longrightarrow> fd_inv s \<Longrightarrow> fd_inv t"
proof (induction rule: fuse_step.induct)
  case get
  then show ?case by (rule fd_inv_GetFdAddress)
next
  case serve
  then show ?case by (intro fd_inv_ServeFuseFd)
next
  case stop
  then show ?case by (rule fd_inv_StopFd [rotated])
next
  case server
  then show ?case by (intro fd_inv_server_stopped)
next
  case close
  then show ?case by (rule fd_inv_CloseFd)
next
  case request
  then show ?case by (intro fd_inv_request)
next
  case found
  then show ?case by (rule fd_inv_found [rotated])
qed

lemma fd_inv_InitFds: "fd_inv (InitFds base)"
  by (simp add: fd_inv_def fd_wf_def fd_owned_def owners_def InitFds_def)

interpretation fuse: invariant_system "\<lambda>s. s = InitFds base" fuse_step fd_inv for base
  by unfold_locales (auto intro: fd_inv_InitFds fd_inv_step)

lemma handle_recv_done:
  assumes "p < length (heap s)"
  shows "fd_done (heap (snd (handle_recv r p s)) ! p) = fd_done (heap s ! p)"
  using assms by (cases r) (auto simp: handle_recv_def getFd_def handle_keep_def split: option.split prod.split)

section \<open>Properties\<close>


definition served_fds :: "Fds" where
  "served_fds = snd (ServeFuseFd True ''h'' (snd (GetFdAddress True None ''h'' (InitFds ''/tmp''))))"

lemma served_fds_reachable: "reachable (\<lambda>s. s = InitFds ''/tmp'') fuse_step served_fds"
proof -
  let ?a = "snd (GetFdAddress True None ''h'' (InitFds ''/tmp''))"
  have "reachable (\<lambda>s. s = InitFds ''/tmp'') fuse_step ?a"
    by (rule reach_step [OF reach_init]) (auto intro: fuse_step.get)
  moreover have "fuse_step ?a served_fds" unfolding served_fds_def
    by (rule fuse_step.serve [of _ _ 0]) (simp_all add: GetFdAddress_def InitFds_def put_fd_def Let_def)
  ultimately show ?thesis by (rule reach_step)
qed

lemma served_fds_eval: "map_of (fds served_fds) ''h'' = Some 0" "servers served_fds = [0]" "open_fds served_fds = []"
  "length (heap served_fds) = 1" "fuseFd (heap served_fds ! 0) = 0" "fd_done (heap served_fds ! 0) = False"
  "fds served_fds = [(''h'', 0)]"
  by (simp_all add: served_fds_def GetFdAddress_def InitFds_def put_fd_def ServeFuseFd_def serveFuseFD_def mhas_def
    Let_def file_log_def new_fd_def)




text \<open>C35: A request that is interrupted by \<open>StopFd\<close> puts the stopped entry back into the map at its end, and the next
  \<open>StopFd\<close> for that pod closes the closed channel, a panic of the driver.\<close>

theorem StopFd_during_request_panics:
  assumes "map_of (fds s) h = Some p" and "p < length (heap s)"
    and "StopFd ok h s = Ok s1" and "handle_recv r p s1 = (True, s2)"
  shows "StopFd ok' h (handle_put h p s2) = Panic"
proof -
  have "fd_done (heap s1 ! p)" and "length (heap s1) = length (heap s)"
    using assms(1-3) by (auto simp: StopFd_def Let_def split: if_splits)
  then have "fd_done (heap s2 ! p)" using assms(2) handle_recv_done [of p s1 r] assms(4) by simp
  then show ?thesis by (simp add: StopFd_def handle_put_def AList.update_conv' Let_def)
qed

theorem StopFd_during_request_panics_witness:
  "case StopFd True ''h'' served_fds of
     Ok s \<Rightarrow> StopFd True ''h'' (handle_put ''h'' 0 (snd (handle_recv (Received ''FUSE'' None []) 0 s))) = Panic
   | _ \<Rightarrow> False"
proof -
  obtain s where s: "StopFd True ''h'' served_fds = Ok s" by (simp add: StopFd_def served_fds_eval Let_def)
  moreover have "handle_recv (Received ''FUSE'' None []) 0 s = (True, snd (handle_recv (Received ''FUSE'' None []) 0 s))"
    by (simp add: handle_recv_def getFd_def)
  ultimately show ?thesis
    using StopFd_during_request_panics [of served_fds "''h''" 0 True s "Received ''FUSE'' None []" _ True]
    by (simp add: served_fds_eval)
qed

end
