(* ===== verification/Controllers.thy ===== *)
theory Controllers
  imports Provider PodDriver
begin

text \<open>
  The controllers of \<open>pkg/controller\<close>: \<open>mount_controller.go\<close> frees mount pods of nodes without a driver,
  \<open>app_controller.go\<close> ends mount sidecars of finished application pods, \<open>job_controller.go\<close> recycles jobs,
  \<open>pod_controller.go\<close> runs the pod driver on events and \<open>secret_controller.go\<close> keeps secrets up to date;
  \<open>reconciler.go\<close> runs the pod driver by polling. The controller runtime that queues requests is
  outside: a controller is its event predicates and its \<open>Reconcile\<close>.
\<close>

section \<open>Definitions\<close>

subsection \<open>Results and watched objects\<close>

record reconcile_Result =
  rr_Requeue :: bool
  rr_RequeueAfter :: int

definition no_requeue :: reconcile_Result where
  "no_requeue = \<lparr>rr_Requeue = False, rr_RequeueAfter = 0\<rparr>"

text \<open>\<open>Reconcile\<close> returns a result and an error.\<close>

type_synonym reconciled = "(reconcile_Result \<times> err option) result"

definition finished :: "err option \<Rightarrow> reconciled" where
  "finished e = Ok (no_requeue, e)"

text \<open>An object of an event, before its type assertion.\<close>

datatype kobject = PodObject Pod | JobObject Job | SecretObject Secret | OtherObject

text \<open>Reading an object: a missing one is not an error and ends the call.\<close>

definition with_found :: "('w, 'a result) io \<Rightarrow> ('a \<Rightarrow> ('w, reconciled) io) \<Rightarrow> ('w, reconciled) io" where
  "with_found get f = do {
     r \<leftarrow> get;
     case r of
       Ok x \<Rightarrow> f x
     | Err e \<Rightarrow> return (finished (if IsNotFound (Some e) then None else Some e))
     | Panic \<Rightarrow> return Panic
     | OutOfFuel \<Rightarrow> return OutOfFuel }"

text \<open>An error ends the call and is its answer.\<close>

definition orFail :: "('w, 'a result) io \<Rightarrow> ('a \<Rightarrow> ('w, reconciled) io) \<Rightarrow> ('w, reconciled) io" where
  "orFail m f = do {
     r \<leftarrow> m;
     case r of
       Ok x \<Rightarrow> f x
     | Err e \<Rightarrow> return (finished (Some e))
     | Panic \<Rightarrow> return Panic
     | OutOfFuel \<Rightarrow> return OutOfFuel }"

definition minute :: int where
  "minute = 60 * second"

text \<open>\<open>t.Sub(u)\<close> saturates at the bounds of a 64 bit duration.\<close>

definition time_Sub :: "int \<Rightarrow> int \<Rightarrow> int" where
  "time_Sub t u = max (- (2 ^ 63)) (min (2 ^ 63 - 1) (t - u))"

definition csi_node_pods :: "'w env \<Rightarrow> string \<Rightarrow> ('w, Pod list result) io" where
  "csi_node_pods E nodeName =
     ListPod E (cfg_Namespace E) [(CSINodeLabelKey, CSINodeLabelValue)] [(''spec.nodeName'', nodeName)]"

subsection \<open>Mount pods of nodes without a driver (mount\_controller.go)\<close>

definition MountController_Reconcile :: "'w env \<Rightarrow> string \<Rightarrow> string \<Rightarrow> ('w, reconciled) io" where
  "MountController_Reconcile E name namespace =
     with_found (GetPod E name namespace) (\<lambda>mountPod.
       if pod_DeletionTimestamp mountPod = None then return (finished None)
       else if \<not> ContainsString (pod_Finalizers mountPod) Finalizer then return (finished None)
       else orFail (csi_node_pods E (spec_NodeName (pod_Spec mountPod))) (\<lambda>csiPods.
         if csiPods \<noteq> [] then return (finished None)
         else do {
           e \<leftarrow> RemoveFinalizer E mountPod Finalizer;
           return (finished e) }))"

definition deleted_mount_pod :: "Pod \<Rightarrow> bool" where
  "deleted_mount_pod pod \<longleftrightarrow> pod_DeletionTimestamp pod \<noteq> None \<and> ContainsString (pod_Finalizers pod) Finalizer"

definition mount_CreateFunc :: "kobject \<Rightarrow> bool result" where
  "mount_CreateFunc obj = (case obj of PodObject pod \<Rightarrow> Ok (deleted_mount_pod pod) | _ \<Rightarrow> Panic)"

text \<open>The name of the new object is logged before the type assertion is looked at.\<close>

definition mount_UpdateFunc :: "kobject \<Rightarrow> kobject \<Rightarrow> bool result" where
  "mount_UpdateFunc old new =
     (case new of
        PodObject podNew \<Rightarrow>
          (case old of
             PodObject podOld \<Rightarrow>
               Ok (pod_ResourceVersion podNew \<noteq> pod_ResourceVersion podOld \<and> deleted_mount_pod podNew)
           | _ \<Rightarrow> Ok False)
      | _ \<Rightarrow> Panic)"

definition mount_DeleteFunc :: "kobject \<Rightarrow> bool result" where
  "mount_DeleteFunc obj = (case obj of PodObject pod \<Rightarrow> Ok (deleted_mount_pod pod) | _ \<Rightarrow> Panic)"

subsection \<open>Sidecars of application pods (app\_controller.go)\<close>

definition is_mount_container :: "string \<Rightarrow> bool" where
  "is_mount_container n \<longleftrightarrow> Contains n MountContainerName"

text \<open>The last loop of \<open>ShouldInQueue\<close>.\<close>

definition container_settled :: "ContainerStatus \<Rightarrow> bool" where
  "container_settled cs \<longleftrightarrow>
     (if is_mount_container (cs_Name cs) then cs_Running cs else cs_Terminated cs \<noteq> None)"

definition ShouldInQueue :: "Pod option \<Rightarrow> bool" where
  "ShouldInQueue pod =
     (case pod of
        None \<Rightarrow> False
      | Some pod \<Rightarrow>
          if CheckExpectValue (pod_Labels pod) InjectSidecarDisable ''true'' then False
          else if RestartPolicy (pod_Spec pod) = ''Always'' then False
          else if \<not> list_ex (\<lambda>c. is_mount_container (c_Name c)) (Containers (pod_Spec pod)) then False
          else if pod_Phase pod \<noteq> ''Running'' \<or> length (pod_ContainerStatuses pod) < 2 then False
          else list_all container_settled (pod_ContainerStatuses pod))"

text \<open>The zero value of \<open>time.Time\<close>, the first of January of the year 1, in nanoseconds from the epoch.\<close>

definition zero_time :: int where
  "zero_time = - 62135596800 * second"

fun app_exited_time :: "ContainerStatus list \<Rightarrow> int \<Rightarrow> int" where
  "app_exited_time [] t = t"
| "app_exited_time (cs # css) t =
     app_exited_time css
       (if \<not> is_mount_container (cs_Name cs) then
          (case cs_Terminated cs of
             Some tm \<Rightarrow> if FinishedAt tm > t then FinishedAt tm else t
           | None \<Rightarrow> t)
        else t)"

definition umountFuseSidecar :: "'w env \<Rightarrow> Pod \<Rightarrow> Container \<Rightarrow> ('w, err option) io" where
  "umountFuseSidecar E pod c =
     (if c_Name c = [] then return None
      else case c_PreStop c of
        None \<Rightarrow> return None
      | Some cmd \<Rightarrow> do {
          (sout, serr, e) \<leftarrow> ExecuteInContainer E (pod_Name pod) (pod_Namespace pod) (c_Name c) cmd;
          case e of
            None \<Rightarrow> return None
          | Some er \<Rightarrow>
              if nothing_mounted serr then return None
              else if Contains (err_str er) ''exit code 137'' then return None
              else return (Some er) })"

fun umountFuseSidecars :: "'w env \<Rightarrow> Pod \<Rightarrow> Container list \<Rightarrow> ('w, err option) io" where
  "umountFuseSidecars E pod [] = return None"
| "umountFuseSidecars E pod (c # cs) =
     (if is_mount_container (c_Name c) then do {
        e \<leftarrow> umountFuseSidecar E pod c;
        case e of Some er \<Rightarrow> return (Some er) | None \<Rightarrow> umountFuseSidecars E pod cs }
      else umountFuseSidecars E pod cs)"

definition kill_command :: "string list" where
  "kill_command = [''sh'', ''-c'', ''pkill dingo-fuse'']"

definition killFuseProcess :: "'w env \<Rightarrow> Pod \<Rightarrow> Container \<Rightarrow> ('w, err option) io" where
  "killFuseProcess E pod c =
     (if c_Name c = [] then return None
      else do {
        (sout, serr, e) \<leftarrow> ExecuteInContainer E (pod_Name pod) (pod_Namespace pod) (c_Name c) kill_command;
        return e })"

fun killFuseProcesss :: "'w env \<Rightarrow> Pod \<Rightarrow> Container list \<Rightarrow> ('w, err option) io" where
  "killFuseProcesss E pod [] = return None"
| "killFuseProcesss E pod (c # cs) =
     (if is_mount_container (c_Name c) then do {
        e \<leftarrow> killFuseProcess E pod c;
        case e of Some er \<Rightarrow> return (Some er) | None \<Rightarrow> killFuseProcesss E pod cs }
      else killFuseProcesss E pod cs)"

text \<open>The clock is read only when some application container has ended.\<close>

definition AppController_Reconcile :: "'w env \<Rightarrow> string \<Rightarrow> string \<Rightarrow> ('w, reconciled) io" where
  "AppController_Reconcile E name namespace =
     with_found (GetPod E name namespace) (\<lambda>pod.
       if \<not> ShouldInQueue (Some pod) then return (finished None)
       else let exited = app_exited_time (pod_ContainerStatuses pod) zero_time in do {
         expired \<leftarrow> (if exited = zero_time then return False
                     else do {
                       now \<leftarrow> call (os_now E) EvNow;
                       return (time_Sub now exited > 5 * minute) });
         if expired then do {
           e \<leftarrow> killFuseProcesss E pod (Containers (pod_Spec pod));
           return (finished e) }
         else do {
           e \<leftarrow> umountFuseSidecars E pod (Containers (pod_Spec pod));
           return (case e of
               Some er \<Rightarrow> finished (Some er)
             | None \<Rightarrow> Ok (\<lparr>rr_Requeue = False, rr_RequeueAfter = 5 * minute\<rparr>, None)) } })"

definition app_CreateFunc :: "kobject \<Rightarrow> bool result" where
  "app_CreateFunc obj = (case obj of PodObject pod \<Rightarrow> Ok (ShouldInQueue (Some pod)) | _ \<Rightarrow> Ok False)"

definition app_UpdateFunc :: "kobject \<Rightarrow> kobject \<Rightarrow> bool result" where
  "app_UpdateFunc old new =
     (case (new, old) of
        (PodObject podNew, PodObject podOld) \<Rightarrow>
          Ok (pod_ResourceVersion podNew \<noteq> pod_ResourceVersion podOld \<and> ShouldInQueue (Some podNew))
      | _ \<Rightarrow> Ok False)"

definition app_DeleteFunc :: "kobject \<Rightarrow> bool result" where
  "app_DeleteFunc obj = Ok False"

subsection \<open>Jobs (job\_controller.go)\<close>

definition job_recycled :: "'w env \<Rightarrow> Job \<Rightarrow> ('w, bool) io" where
  "job_recycled E job = do {
     now \<leftarrow> call (os_now E) EvNow;
     return (IsJobShouldBeRecycled now job) }"

definition JobController_Reconcile :: "'w env \<Rightarrow> string \<Rightarrow> string \<Rightarrow> ('w, reconciled) io" where
  "JobController_Reconcile E name namespace =
     with_found (GetJob E name namespace) (\<lambda>job.
       let nodeName = spec_NodeName (job_PodSpec job) in
       if job_DeletionTimestamp job \<noteq> None then return (finished None)
       else if nodeName = [] then do {
         old \<leftarrow> job_recycled E job;
         if old then do {
           e \<leftarrow> DeleteJob E (job_Name job) (job_Namespace job);
           return (finished e) }
         else return (finished None) }
       else orFail (csi_node_pods E nodeName) (\<lambda>csiPods. do {
         old \<leftarrow> (if csiPods = [] then return True else job_recycled E job);
         if old then do {
           e \<leftarrow> DeleteJob E (job_Name job) (job_Namespace job);
           return (case e of
               Some er \<Rightarrow> Ok (\<lparr>rr_Requeue = True, rr_RequeueAfter = 0\<rparr>, Some er)
             | None \<Rightarrow> finished None) }
         else return (finished None) }))"

definition job_CreateFunc :: "kobject \<Rightarrow> bool result" where
  "job_CreateFunc obj = (case obj of JobObject job \<Rightarrow> Ok (job_DeletionTimestamp job = None) | _ \<Rightarrow> Panic)"

definition job_UpdateFunc :: "kobject \<Rightarrow> kobject \<Rightarrow> bool result" where
  "job_UpdateFunc old new =
     (case new of
        JobObject jobNew \<Rightarrow>
          (case old of
             JobObject jobOld \<Rightarrow>
               Ok (job_ResourceVersion jobNew \<noteq> job_ResourceVersion jobOld \<and> job_DeletionTimestamp jobNew = None)
           | _ \<Rightarrow> Ok False)
      | _ \<Rightarrow> Panic)"

definition job_DeleteFunc :: "kobject \<Rightarrow> bool result" where
  "job_DeleteFunc obj = (case obj of JobObject job \<Rightarrow> Ok (job_DeletionTimestamp job = None) | _ \<Rightarrow> Panic)"

subsection \<open>Mount pods of this node (pod\_controller.go)\<close>

definition on_node :: "'w env \<Rightarrow> Pod \<Rightarrow> bool" where
  "on_node E pod \<longleftrightarrow> spec_NodeName (pod_Spec pod) = cfg_NodeName E \<or>
     mget (NodeSelector (pod_Spec pod)) hostnameLabel = cfg_NodeName E"

text \<open>When the pod is looked at again after a run without error.\<close>

definition pod_requeue :: "'w env \<Rightarrow> Pod \<Rightarrow> Result \<Rightarrow> ('w, reconciled) io" where
  "pod_requeue E mountPod result =
     (let delayAtStr = mget (annos mountPod) DeleteDelayAtKey in
      if delayAtStr \<noteq> [] then
        orFail (return (GetTime E delayAtStr)) (\<lambda>delayAt. do {
          now \<leftarrow> call (os_now E) EvNow;
          return (Ok (\<lparr>rr_Requeue = True, rr_RequeueAfter = (if delayAt < now then 0 else time_Sub delayAt now)\<rparr>, None)) })
      else return (Ok (\<lparr>rr_Requeue = True,
             rr_RequeueAfter = (if \<not> RequeueImmediately result then 10 * minute else RequeueAfter result)\<rparr>, None)))"

definition PodController_Reconcile :: "'w env \<Rightarrow> codec \<Rightarrow> nat \<Rightarrow> string \<Rightarrow> string \<Rightarrow> ('w, reconciled) io" where
  "PodController_Reconcile E C fuel name namespace =
     with_found (GetPod E name namespace) (\<lambda>mountPod.
       if \<not> on_node E mountPod then return (finished None)
       else orFail (parse E newMountInfoTable) (\<lambda>mit.
       orFail (ListPodExists E '''' UniqueIdKey [(''spec.nodeName'', cfg_NodeName E)]) (\<lambda>podLists.
       orFail (Run E C fuel (setPodsStatus mit (Some podLists)) (Some mountPod)) (\<lambda>(result, e).
         case e of
           Some er \<Rightarrow> return (finished (Some er))
         | None \<Rightarrow> pod_requeue E mountPod result))))"

definition pod_CreateFunc :: "'w env \<Rightarrow> kobject \<Rightarrow> bool result" where
  "pod_CreateFunc E obj = (case obj of PodObject pod \<Rightarrow> Ok (on_node E pod) | _ \<Rightarrow> Panic)"

definition pod_UpdateFunc :: "'w env \<Rightarrow> kobject \<Rightarrow> kobject \<Rightarrow> bool result" where
  "pod_UpdateFunc E old new =
     (case new of
        PodObject podNew \<Rightarrow>
          if \<not> on_node E podNew then Ok False
          else (case old of
             PodObject podOld \<Rightarrow> Ok (pod_ResourceVersion podNew \<noteq> pod_ResourceVersion podOld)
           | _ \<Rightarrow> Ok False)
      | _ \<Rightarrow> Panic)"

definition pod_DeleteFunc :: "'w env \<Rightarrow> kobject \<Rightarrow> bool result" where
  "pod_DeleteFunc E obj = (case obj of PodObject pod \<Rightarrow> Ok (on_node E pod) | _ \<Rightarrow> Panic)"

subsection \<open>Secrets (secret\_controller.go)\<close>

definition hour :: int where
  "hour = 60 * minute"

text \<open>The checks of \<open>checkAndCleanOrphanSecret\<close> that need no clock, in their order, and the one after it.\<close>

definition orphan_candidate :: "'w env \<Rightarrow> Secret \<Rightarrow> bool" where
  "orphan_candidate E sec \<longleftrightarrow>
     sec_Namespace sec = cfg_Namespace E \<and> \<not> mhas (sec_Labels sec) DingofsSecretLabelKey \<and>
     HasPrefix (sec_Name sec) ''dingofs-'' \<and> HasSuffix (sec_Name sec) ''-secret'' \<and>
     (mhas (sec_Data sec) ''token'' \<or> mhas (sec_Data sec) ''metaurl'')"

definition checkAndCleanOrphanSecret :: "'w env \<Rightarrow> Secret \<Rightarrow> ('w, unit result) io" where
  "checkAndCleanOrphanSecret E sec =
     (if \<not> orphan_candidate E sec then return (Ok ())
      else do {
        now \<leftarrow> call (os_now E) EvNow;
        if \<not> now > sec_CreationTimestamp sec + hour then return (Ok ())
        else if \<not> mhas (sec_Data sec) ''check_mount.sh'' then return (Ok ())
        else do {
          r \<leftarrow> GetPod E (TrimSuffix (sec_Name sec) ''-secret'') (sec_Namespace sec);
          case r of
            Panic \<Rightarrow> return Panic
          | OutOfFuel \<Rightarrow> return OutOfFuel
          | _ \<Rightarrow>
              if IsNotFound (err_of r) then do {
                e \<leftarrow> DeleteSecret E (sec_Name sec) (sec_Namespace sec);
                return (result_of e) }
              else return (Ok ()) } })"

text \<open>The configuration that the client wrote, injected into the secret.\<close>

definition inject_initconfig :: "'w env \<Rightarrow> Secret \<Rightarrow> string smap \<Rightarrow> string \<Rightarrow> ('w, reconciled) io" where
  "inject_initconfig E sec secretsMap confPath =
     orFail (call (os_read_file E confPath) (\<lambda>r. EvReadFile confPath (err_of r))) (\<lambda>confs.
     orFail (do { e \<leftarrow> UpdateSecret E (sec\<lparr>sec_StringData := mput secretsMap ''initconfig'' confs\<rparr>);
                  return (result_of e) }) (\<lambda>_.
       return (Ok (\<lparr>rr_Requeue = True, rr_RequeueAfter = hour\<rparr>, None))))"

text \<open>\<open>NewDfsProvider(nil, nil)\<close> has no client. The directory is removed however the call ends.\<close>

definition refresh_secret :: "'w env \<Rightarrow> driver \<Rightarrow> Secret \<Rightarrow> ('w, reconciled) io" where
  "refresh_secret E D sec =
     orFail (InitDfs E (D\<lparr>hasClient := False\<rparr>) '''' '''' (Some (sec_Data sec)) None None) (\<lambda>(s, _).
     orFail (call (os_mkdir_temp E ''dingofs-'') (EvMkdirTemp ''dingofs-'')) (\<lambda>tempConfDir. do {
       let s = s\<lparr>ClientConfPath := tempConfDir\<rparr>;
       r \<leftarrow> orFail (AuthFs E (Some (sec_Data sec)) s True) (\<lambda>(_, secretsMap).
         inject_initconfig E sec secretsMap (PathJoin [tempConfDir, Name s @ ''.conf'']));
       _ \<leftarrow> call (os_remove_all E tempConfDir) (EvRemoveAll tempConfDir);
       return r }))"

definition SecretController_Reconcile :: "'w env \<Rightarrow> driver \<Rightarrow> string \<Rightarrow> string \<Rightarrow> ('w, reconciled) io" where
  "SecretController_Reconcile E D name namespace =
     with_found (GetSecret E name namespace) (\<lambda>sec.
     orFail (checkAndCleanOrphanSecret E sec) (\<lambda>_.
       if \<not> mhas (sec_Data sec) ''token'' then return (finished None)
       else if \<not> mhas (sec_Data sec) ''name'' then return (finished None)
       else refresh_secret E D sec))"

definition secret_CreateFunc :: "kobject \<Rightarrow> bool result" where
  "secret_CreateFunc obj = (case obj of SecretObject _ \<Rightarrow> Ok True | _ \<Rightarrow> Panic)"

definition secret_UpdateFunc :: "kobject \<Rightarrow> kobject \<Rightarrow> bool result" where
  "secret_UpdateFunc old new =
     (case (new, old) of
        (SecretObject secretNew, SecretObject secretOld) \<Rightarrow>
          Ok (sec_ResourceVersion secretNew \<noteq> sec_ResourceVersion secretOld)
      | _ \<Rightarrow> Ok False)"

definition secret_DeleteFunc :: "kobject \<Rightarrow> bool result" where
  "secret_DeleteFunc obj = (case obj of SecretObject _ \<Rightarrow> Ok False | _ \<Rightarrow> Panic)"

subsection \<open>The polling reconciler (reconciler.go)\<close>

text \<open>
  The back-off of client-go is a parameter: whether an identifier is backed off, and
  the table after a failure, a success and the removal of old entries.
\<close>

record 'b backoff =
  IsInBackOffSinceUpdate :: "string \<Rightarrow> int \<Rightarrow> 'b \<Rightarrow> bool"
  bo_Next :: "string \<Rightarrow> int \<Rightarrow> 'b \<Rightarrow> 'b"
  bo_Reset :: "string \<Rightarrow> 'b \<Rightarrow> 'b"
  bo_GC :: "int \<Rightarrow> 'b \<Rightarrow> 'b"

record PodStatus =
  ps_status :: podStatus
  syncAt :: int
  nextSyncAt :: int

record 'b poll_state =
  lastPodStatus :: "PodStatus smap"
  backOff :: 'b

definition zero_PodStatus :: PodStatus where
  "zero_PodStatus = \<lparr>ps_status = podReady, syncAt = zero_time, nextSyncAt = zero_time\<rparr>"

definition is_mount_pod :: "'w env \<Rightarrow> Pod \<Rightarrow> bool" where
  "is_mount_pod E pod \<longleftrightarrow> pod_Namespace pod = cfg_Namespace E \<and> map_of (pod_Labels pod) PodTypeKey = Some PodTypeValue"

text \<open>A pod that is skipped: its status is the one of the last run and its next time has not come.\<close>

definition pod_skipped :: "'w env \<Rightarrow> PodStatus smap \<Rightarrow> Pod \<Rightarrow> ('w, bool) io" where
  "pod_skipped E known pod =
     (case map_of known (pod_Name pod) of
        Some st \<Rightarrow>
          if ps_status st = getPodStatus (Some pod) then do {
            now \<leftarrow> call (os_now E) EvNow;
            return (now < nextSyncAt st) }
          else return False
      | None \<Rightarrow> return False)"

text \<open>The pods of a round that get a goroutine.\<close>

fun due_pods :: "'w env \<Rightarrow> PodStatus smap \<Rightarrow> Pod list \<Rightarrow> ('w, Pod list) io" where
  "due_pods E known [] = return []"
| "due_pods E known (pod # pods) =
     (if \<not> is_mount_pod E pod then due_pods E known pods
      else do {
        skipped \<leftarrow> pod_skipped E known pod;
        rest \<leftarrow> due_pods E known pods;
        return (if skipped then rest else pod # rest) })"

text \<open>The next time a pod is looked at, after a run without error.\<close>

definition next_sync :: "int \<Rightarrow> Result \<Rightarrow> int" where
  "next_sync now result =
     (if RequeueImmediately result then now
      else if RequeueAfter result > 0 then now + RequeueAfter result
      else now + 10 * minute)"

definition backOffID :: "Pod \<Rightarrow> string" where
  "backOffID pod = ''mountpod/'' @ pod_Name pod"

text \<open>A goroutine: the context of the group may be done, the pod may be backed off. A panic of the driver ends the process.\<close>

definition sync_pod :: "'w env \<Rightarrow> codec \<Rightarrow> nat \<Rightarrow> 'b backoff \<Rightarrow> mountInfoTable \<Rightarrow> Pod \<Rightarrow> 'b poll_state \<Rightarrow> ('w, 'b poll_state result) io" where
  "sync_pod E C fuel B mit pod st = do {
     stop \<leftarrow> call (os_ctx_err E) EvCtxErr;
     if stop \<noteq> None then return (Ok st)
     else do {
       clock \<leftarrow> call (os_now E) EvNow;
       if IsInBackOffSinceUpdate B (backOffID pod) clock (backOff st) then return (Ok st)
       else bindE (Run E C fuel mit (Some pod)) (\<lambda>(result, e). do {
         sync \<leftarrow> call (os_now E) EvNow;
         let ps = (\<lambda>t. \<lparr>ps_status = getPodStatus (Some pod), syncAt = sync, nextSyncAt = t\<rparr>);
         case e of
           Some _ \<Rightarrow> do {
             failed \<leftarrow> call (os_now E) EvNow;
             now \<leftarrow> call (os_now E) EvNow;
             return (Ok (st\<lparr>lastPodStatus := mput (lastPodStatus st) (pod_Name pod) (ps now),
               backOff := bo_Next B (backOffID pod) failed (backOff st)\<rparr>)) }
         | None \<Rightarrow> do {
             now \<leftarrow> call (os_now E) EvNow;
             return (Ok (st\<lparr>lastPodStatus := mput (lastPodStatus st) (pod_Name pod) (ps (next_sync now result)),
               backOff := bo_Reset B (backOffID pod) (backOff st)\<rparr>)) } }) } }"

fun sync_pods :: "'w env \<Rightarrow> codec \<Rightarrow> nat \<Rightarrow> 'b backoff \<Rightarrow> mountInfoTable \<Rightarrow> Pod list \<Rightarrow> 'b poll_state \<Rightarrow> ('w, 'b poll_state result) io" where
  "sync_pods E C fuel B mit [] st = return (Ok st)"
| "sync_pods E C fuel B mit (pod # pods) st =
     bindE (sync_pod E C fuel B mit pod st) (sync_pods E C fuel B mit pods)"

text \<open>
  One round of \<open>doReconcile\<close>. The goroutines of the round touch only the entries of their own pods, so
  running them one after the other, in the order of the list, gives the state they leave. Rounds with an error of the kubelet
  or of the mount table change nothing.
\<close>

definition reconcile_round :: "'w env \<Rightarrow> codec \<Rightarrow> nat \<Rightarrow> 'b backoff \<Rightarrow> 'b poll_state \<Rightarrow> ('w, 'b poll_state result) io" where
  "reconcile_round E C fuel B st = do {
     r \<leftarrow> call (k_kubelet_pods E) EvKubeletPods;
     case r of
       Ok pods \<Rightarrow> do {
         m \<leftarrow> parse E newMountInfoTable;
         case m of
           Ok mit \<Rightarrow> do {
             due \<leftarrow> due_pods E (lastPodStatus st) pods;
             now \<leftarrow> call (os_now E) EvNow;
             sync_pods E C fuel B (setPodsStatus mit (Some pods)) due (st\<lparr>backOff := bo_GC B now (backOff st)\<rparr>) }
         | Err _ \<Rightarrow> return (Ok st) | Panic \<Rightarrow> return Panic | OutOfFuel \<Rightarrow> return OutOfFuel }
     | Err _ \<Rightarrow> return (Ok st)
     | Panic \<Rightarrow> return Panic
     | OutOfFuel \<Rightarrow> return OutOfFuel }"

text \<open>The first \<open>n\<close> rounds of the loop of \<open>doReconcile\<close>, which never ends.\<close>

fun doReconcile :: "'w env \<Rightarrow> codec \<Rightarrow> nat \<Rightarrow> 'b backoff \<Rightarrow> nat \<Rightarrow> 'b poll_state \<Rightarrow> ('w, 'b poll_state result) io" where
  "doReconcile E C fuel B 0 st = return (Ok st)"
| "doReconcile E C fuel B (Suc n) st =
     bindE (reconcile_round E C fuel B st) (\<lambda>st. do { emit EvSleep; doReconcile E C fuel B n st })"

definition StartReconciler ::
  "'w env \<Rightarrow> driver \<Rightarrow> ('w, 'a result) io \<Rightarrow> ('w, unit result) io" where
  "StartReconciler E D newClient =
     bindE (return (dr_atoi D (dr_kubeletPort D))) (\<lambda>port.
     bindE (return (dr_newClient D (dr_hostIp D) port)) (\<lambda>_.
     bindE (call (k_kubelet_pods E) EvKubeletPods) (\<lambda>_.
     bindE newClient (\<lambda>_. do {
       emit (EvGo ''doReconcile'');
       return (Ok ()) }))))"

section \<open>Lemmas\<close>

lemma wp_with_found:
  assumes "wp trace get (\<lambda>es r. (\<forall>x. r = Ok x \<longrightarrow> wp trace (f x) (\<lambda>es'. Q (es @ es'))) \<and>
    (\<forall>e. r = Err e \<longrightarrow> Q es (finished (if IsNotFound (Some e) then None else Some e))) \<and>
    (r = Panic \<longrightarrow> Q es Panic) \<and> (r = OutOfFuel \<longrightarrow> Q es OutOfFuel))"
  shows "wp trace (with_found get f) Q"
  unfolding with_found_def
  by (rule wp_bind, rule wp_mono [OF assms]) (auto intro!: wp_return split: result.split)

lemma wp_orFail:
  assumes "wp trace m (\<lambda>es r. (\<forall>x. r = Ok x \<longrightarrow> wp trace (f x) (\<lambda>es'. Q (es @ es'))) \<and>
    (\<forall>e. r = Err e \<longrightarrow> Q es (finished (Some e))) \<and> (r = Panic \<longrightarrow> Q es Panic) \<and> (r = OutOfFuel \<longrightarrow> Q es OutOfFuel))"
  shows "wp trace (orFail m f) Q"
  unfolding orFail_def
  by (rule wp_bind, rule wp_mono [OF assms]) (auto intro!: wp_return split: result.split)

subsection \<open>Mount pods without a driver\<close>

text \<open>What a call may do to a mount pod: nothing but reading it and the driver's pods, or, when the
  pod is being deleted and the driver has no pod on its node, dropping the finalizer and nothing else.\<close>

definition frees_unmanaged :: "'w env \<Rightarrow> string \<Rightarrow> string \<Rightarrow> event list \<Rightarrow> bool" where
  "frees_unmanaged E name namespace es \<longleftrightarrow>
     list_all (\<lambda>ev. case ev of EvGetPod _ _ _ \<Rightarrow> True | EvListPod _ _ _ _ \<Rightarrow> True | _ \<Rightarrow> False) es \<or>
     (case es of
        [EvGetPod ns n (Ok pod), EvListPod lns ls fs (Ok []), EvPatchPod pns pn p e] \<Rightarrow>
          ns = namespace \<and> n = name \<and> pod_DeletionTimestamp pod \<noteq> None \<and> Finalizer \<in> set (pod_Finalizers pod) \<and>
          lns = cfg_Namespace E \<and> ls = [(''app'', ''dingofs-csi-node'')] \<and> fs = [(''spec.nodeName'', spec_NodeName (pod_Spec pod))] \<and>
          pns = pod_Namespace pod \<and> pn = pod_Name pod \<and>
          p = JSONPatch [PatchListValue ''replace'' ''/metadata/finalizers'' (filter (\<lambda>f. f \<noteq> Finalizer) (pod_Finalizers pod))]
      | _ \<Rightarrow> False)"

text \<open>C23: the mount controller takes the finalizer off a mount pod only when the pod is being deleted
  and no pod of the driver runs on its node, takes exactly that finalizer off, and does nothing else
  to the cluster.\<close>

theorem MountController_frees_unmanaged:
  "wp trace (MountController_Reconcile E name namespace) (\<lambda>es r. frees_unmanaged E name namespace es)"
  unfolding MountController_Reconcile_def csi_node_pods_def RemoveFinalizer_def
  by (auto intro!: wp_with_found wp_orFail wp_client wp_bind wp_return
      simp: frees_unmanaged_def ContainsString_iff remove_loop_filter config_defs)

subsection \<open>Sidecars\<close>

text \<open>Every application container of the pod ended more than five minutes before \<open>now\<close>.\<close>

definition apps_ended :: "Pod \<Rightarrow> int \<Rightarrow> bool" where
  "apps_ended pod now \<longleftrightarrow>
     list_all (\<lambda>cs. is_mount_container (cs_Name cs) \<or>
       (case cs_Terminated cs of Some t \<Rightarrow> now - FinishedAt t > 5 * minute | None \<Rightarrow> False)) (pod_ContainerStatuses pod)"

text \<open>A command in a sidecar: the hook of the container, or the end of the client when the
  application ended long ago.\<close>

definition sidecar_event :: "Pod \<Rightarrow> event list \<Rightarrow> event \<Rightarrow> bool" where
  "sidecar_event pod before ev \<longleftrightarrow> (case ev of
     EvExecIn n ns cn cmd e \<Rightarrow> n = pod_Name pod \<and> ns = pod_Namespace pod \<and>
       list_ex (\<lambda>c. c_Name c = cn \<and> is_mount_container cn \<and>
         (c_PreStop c = Some cmd \<or>
          cmd = kill_command \<and> list_ex (\<lambda>b. case b of EvNow now \<Rightarrow> apps_ended pod now | _ \<Rightarrow> False) before))
       (Containers (pod_Spec pod))
   | EvNow _ \<Rightarrow> True
   | _ \<Rightarrow> False)"

definition app_trace :: "string \<Rightarrow> string \<Rightarrow> event list \<Rightarrow> bool" where
  "app_trace name namespace es \<longleftrightarrow> (case es of
     EvGetPod ns n r # rest \<Rightarrow> ns = namespace \<and> n = name \<and>
       (rest = [] \<or> (case r of Ok pod \<Rightarrow> ShouldInQueue (Some pod) \<and> list_all (sidecar_event pod rest) rest | _ \<Rightarrow> False))
   | _ \<Rightarrow> False)"

lemma app_exited_time_mono: "t \<le> app_exited_time css t"
proof (induction css arbitrary: t)
  case (Cons cs css)
  then show ?case using order_trans [OF _ Cons.IH] by (auto split: option.split)
qed simp

lemma app_exited_time_upper:
  "cs \<in> set css \<Longrightarrow> \<not> is_mount_container (cs_Name cs) \<Longrightarrow> cs_Terminated cs = Some tm \<Longrightarrow>
   FinishedAt tm \<le> app_exited_time css t"
proof (induction css arbitrary: t)
  case (Cons c css)
  show ?case
  proof (cases "cs = c")
    case True
    with Cons.prems app_exited_time_mono [of _ css] show ?thesis
      by (auto split: if_splits) (meson app_exited_time_mono linorder_not_less order_trans less_imp_le)+
  next
    case False
    with Cons show ?thesis by simp
  qed
qed simp

lemma apps_ended_after:
  assumes "ShouldInQueue (Some pod)" and "time_Sub now (app_exited_time (pod_ContainerStatuses pod) zero_time) > 5 * minute"
  shows "apps_ended pod now"
proof -
  have late: "now - app_exited_time (pod_ContainerStatuses pod) zero_time > 5 * minute"
    using assms(2) by (simp add: time_Sub_def minute_def second_def)
  have "case cs_Terminated cs of Some t \<Rightarrow> now - FinishedAt t > 5 * minute | None \<Rightarrow> False"
    if cs: "cs \<in> set (pod_ContainerStatuses pod)" and app: "\<not> is_mount_container (cs_Name cs)" for cs
  proof -
    have "cs_Terminated cs \<noteq> None"
      using assms(1) cs app by (auto simp: ShouldInQueue_def list_all_iff container_settled_def split: if_splits)
    then obtain tm where tm: "cs_Terminated cs = Some tm" by auto
    with app_exited_time_upper [OF cs app tm, of zero_time] late show ?thesis by simp
  qed
  then show ?thesis by (auto simp: apps_ended_def list_all_iff)
qed

lemma wp_umountFuseSidecars:
  "set cs \<subseteq> set (Containers (pod_Spec pod)) \<Longrightarrow>
   wp trace (umountFuseSidecars E pod cs) (\<lambda>es r. list_all (sidecar_event pod before) es)"
proof (induction cs)
  case (Cons c cs)
  then have IH: "wp trace (umountFuseSidecars E pod cs) (\<lambda>es r. list_all (sidecar_event pod before) es)" by simp
  have "wp trace (umountFuseSidecar E pod c) (\<lambda>es r. list_all (sidecar_event pod before) es)" if "is_mount_container (c_Name c)"
    unfolding umountFuseSidecar_def using Cons.prems that
    by (auto intro!: wp_return wp_bind wp_client_exec simp: sidecar_event_def list_ex_iff split: option.split)
  then show ?case by (auto intro!: IH wp_bind wp_return elim!: wp_mono intro: wp_mono [OF IH] split: option.split)
qed (auto intro: wp_return)

lemma wp_killFuseProcesss:
  assumes "list_ex (\<lambda>b. case b of EvNow now \<Rightarrow> apps_ended pod now | _ \<Rightarrow> False) before"
  shows "set cs \<subseteq> set (Containers (pod_Spec pod)) \<Longrightarrow>
   wp trace (killFuseProcesss E pod cs) (\<lambda>es r. list_all (sidecar_event pod before) es)"
proof (induction cs)
  case (Cons c cs)
  then have IH: "wp trace (killFuseProcesss E pod cs) (\<lambda>es r. list_all (sidecar_event pod before) es)" by simp
  have "wp trace (killFuseProcess E pod c) (\<lambda>es r. list_all (sidecar_event pod before) es)" if "is_mount_container (c_Name c)"
    unfolding killFuseProcess_def using Cons.prems that assms
    by (auto intro!: wp_return wp_bind wp_client_exec simp: sidecar_event_def list_ex_iff [of _ "Containers (pod_Spec pod)"])
  then show ?case by (auto intro!: IH wp_bind wp_return elim!: wp_mono intro: wp_mono [OF IH] split: option.split)
qed (auto intro: wp_return)

lemma sidecar_event_more: "sidecar_event pod [EvNow now] ev \<Longrightarrow> sidecar_event pod (EvNow now # es) ev"
  by (cases ev) (auto simp: sidecar_event_def list_ex_iff)

lemma sidecar_events_more:
  "list_all (sidecar_event pod [EvNow now]) evs \<Longrightarrow> list_all (sidecar_event pod (EvNow now # es)) evs"
  by (erule list.pred_mono_strong) (rule sidecar_event_more)

lemma sidecar_event_now: "sidecar_event pod es (EvNow now)"
  by (simp add: sidecar_event_def)

lemma sidecar_events_any: "list_all (sidecar_event pod []) evs \<Longrightarrow> list_all (sidecar_event pod es) evs"
  by (erule list.pred_mono_strong) (auto simp: sidecar_event_def list_ex_iff split: event.splits)

text \<open>C24: the application controller runs commands only in mount sidecars of a pod whose application containers have
  all ended while the sidecars run. It runs the hook of a sidecar, and ends the client by force only
  when every application container ended more than five minutes ago.\<close>

theorem AppController_ends_sidecars:
  "wp trace (AppController_Reconcile E name namespace) (\<lambda>es r. app_trace name namespace es)"
proof -
  have umount: "wp trace (umountFuseSidecars E pod (Containers (pod_Spec pod))) (\<lambda>es r. list_all (sidecar_event pod es') es)"
    for pod es' by (rule wp_umountFuseSidecars) simp
  have kill: "wp trace (killFuseProcesss E pod (Containers (pod_Spec pod))) (\<lambda>es r. list_all (sidecar_event pod [EvNow now]) es)"
    if "ShouldInQueue (Some pod)" "time_Sub now (app_exited_time (pod_ContainerStatuses pod) zero_time) > 5 * minute" for pod now
    using apps_ended_after [OF that] by (intro wp_killFuseProcesss) simp_all
  show ?thesis
    unfolding AppController_Reconcile_def Let_def
    by (auto intro!: wp_with_found wp_client wp_bind wp_call wp_return wp_mono [OF umount [where es' = "[]"]] wp_mono [OF kill]
        simp: app_trace_def sidecar_events_any sidecar_event_now) (assumption, rule sidecar_events_more)
qed

subsection \<open>Secrets\<close>

definition quiet_secret :: "event \<Rightarrow> bool" where
  "quiet_secret ev \<longleftrightarrow> (case ev of EvDeleteSecret _ _ _ \<Rightarrow> False | EvMkdirTemp _ _ \<Rightarrow> False | _ \<Rightarrow> True)"

text \<open>A secret is deleted at most once, at the start of a call, when its checks hold.\<close>

definition deletes_orphan :: "'w env \<Rightarrow> event list \<Rightarrow> bool" where
  "deletes_orphan E es \<longleftrightarrow>
     list_all (\<lambda>ev. case ev of EvDeleteSecret _ _ _ \<Rightarrow> False | _ \<Rightarrow> True) es \<or>
     (case es of
        EvGetSecret _ _ (Ok sec) # EvNow now # EvGetPod pns pn (Err (ApiErr NotFound _)) # EvDeleteSecret ns n _ # rest \<Rightarrow>
          n = sec_Name sec \<and> ns = sec_Namespace sec \<and> ns = cfg_Namespace E \<and> pns = ns \<and> n = pn @ ''-secret'' \<and>
          HasPrefix n ''dingofs-'' \<and> \<not> mhas (sec_Labels sec) DingofsSecretLabelKey \<and>
          mhas (sec_Data sec) ''check_mount.sh'' \<and> now - sec_CreationTimestamp sec > hour \<and>
          list_all (\<lambda>ev. case ev of EvDeleteSecret _ _ _ \<Rightarrow> False | _ \<Rightarrow> True) rest
      | _ \<Rightarrow> False)"

text \<open>Every temporary directory is removed later.\<close>

fun removes_temp :: "event list \<Rightarrow> bool" where
  "removes_temp [] = True"
| "removes_temp (ev # es) =
     ((case ev of
         EvMkdirTemp _ (Ok d) \<Rightarrow> list_ex (\<lambda>e. case e of EvRemoveAll d' _ \<Rightarrow> d' = d | _ \<Rightarrow> False) es
       | _ \<Rightarrow> True) \<and> removes_temp es)"

definition no_delete :: "event \<Rightarrow> bool" where
  "no_delete ev \<longleftrightarrow> (case ev of EvDeleteSecret _ _ _ \<Rightarrow> False | _ \<Rightarrow> True)"

definition no_temp :: "event \<Rightarrow> bool" where
  "no_temp ev \<longleftrightarrow> (case ev of EvMkdirTemp _ _ \<Rightarrow> False | _ \<Rightarrow> True)"

lemma quiet_secret_iff: "quiet_secret ev \<longleftrightarrow> no_delete ev \<and> no_temp ev"
  by (cases ev) (simp_all add: quiet_secret_def no_delete_def no_temp_def)

lemma removes_temp_quiet: "list_all no_temp es \<Longrightarrow> removes_temp es"
  by (induction es) (auto simp: no_temp_def split: event.splits)

lemma removes_temp_append: "list_all no_temp es \<Longrightarrow> removes_temp (es @ es') = removes_temp es'"
  by (induction es) (auto simp: no_temp_def split: event.splits)

lemma quiet_CreateFS: "wp trace (CreateFS E s) (\<lambda>es _. list_all quiet_secret es)"
  unfolding CreateFS_def CheckFsExisted_def run_tool_def config_quota_def
  by (auto intro!: wp_bind wp_bindE wp_call wp_return simp: Let_def quiet_secret_def split: result.split option.split prod.split)

lemma quiet_InitDfs:
  "wp trace (InitDfs E (D\<lparr>hasClient := False\<rparr>) v t sec ctx opts) (\<lambda>es _. list_all quiet_secret es)"
  unfolding InitDfs_def init_setting_def getUniqueId_def lookup_pv_def
  by (auto intro!: wp_bind wp_bindE wp_return wp_mono [OF quiet_CreateFS] simp: Let_def split: result.split)

lemma quiet_AuthFs: "wp trace (AuthFs E sec s force) (\<lambda>es _. list_all quiet_secret es)"
  unfolding AuthFs_def run_auth_def command_error_def
  by (auto intro!: wp_bind wp_bindE wp_call wp_return simp: Let_def quiet_secret_def
      split: result.split option.split prod.split)

lemma quiet_inject: "wp trace (inject_initconfig E sec m p) (\<lambda>es _. list_all quiet_secret es)"
  unfolding inject_initconfig_def
  by (auto intro!: wp_bind wp_orFail wp_call wp_client wp_return simp: quiet_secret_def)

lemma wp_refresh_secret:
  "wp trace (refresh_secret E D sec) (\<lambda>es _. list_all no_delete es \<and> removes_temp es)"
proof -
  have q: "list_all quiet_secret es \<Longrightarrow> list_all no_delete es" "list_all quiet_secret es \<Longrightarrow> list_all no_temp es" for es
    by (auto simp: list_all_iff quiet_secret_iff)
  have upd: "wp trace (orFail (AuthFs E (Some (sec_Data sec)) s True) (\<lambda>(_, m). inject_initconfig E sec m (p s)))
     (\<lambda>es _. list_all quiet_secret es)" for s p
    by (auto intro!: wp_orFail wp_mono [OF quiet_AuthFs] wp_mono [OF quiet_inject])
  show ?thesis
    unfolding refresh_secret_def
    by (auto intro!: wp_orFail wp_bind wp_call wp_return wp_mono [OF quiet_InitDfs] wp_mono [OF upd]
        simp: Let_def q removes_temp_append removes_temp_quiet no_delete_def split: result.splits)
qed

definition orphan_check :: "'w env \<Rightarrow> Secret \<Rightarrow> event list \<Rightarrow> bool" where
  "orphan_check E sec es \<longleftrightarrow> list_all no_temp es \<and>
     (list_all no_delete es \<or>
      (\<exists>now msg e. es = [EvNow now, EvGetPod (sec_Namespace sec) (TrimSuffix (sec_Name sec) ''-secret'') (Err (ApiErr NotFound msg)),
                    EvDeleteSecret (sec_Namespace sec) (sec_Name sec) e] \<and>
         orphan_candidate E sec \<and> mhas (sec_Data sec) ''check_mount.sh'' \<and> now > sec_CreationTimestamp sec + hour))"

lemma wp_checkAndCleanOrphanSecret:
  "wp trace (checkAndCleanOrphanSecret E sec) (\<lambda>es r. orphan_check E sec es)"
  unfolding checkAndCleanOrphanSecret_def orphan_check_def
  by (auto intro!: wp_bind wp_call wp_client wp_return simp: no_delete_def no_temp_def IsNotFound_def
      split: result.split err.splits api_reason.splits)

lemma deletes_orphan_quiet: "list_all no_delete es \<Longrightarrow> deletes_orphan E es"
  unfolding deletes_orphan_def no_delete_def by simp

lemma orphan_check_trace:
  assumes "orphan_check E sec es" and "list_all no_delete es'" and "removes_temp es'"
  shows "deletes_orphan E (EvGetSecret ns n (Ok sec) # es @ es') \<and> removes_temp (EvGetSecret ns n (Ok sec) # es @ es')"
proof
  show "removes_temp (EvGetSecret ns n (Ok sec) # es @ es')"
    using assms by (simp add: orphan_check_def removes_temp_append)
  consider "list_all no_delete es"
    | now msg e where "es = [EvNow now, EvGetPod (sec_Namespace sec) (TrimSuffix (sec_Name sec) ''-secret'')
         (Err (ApiErr NotFound msg)), EvDeleteSecret (sec_Namespace sec) (sec_Name sec) e]"
        "orphan_candidate E sec" "mhas (sec_Data sec) ''check_mount.sh''" "now > sec_CreationTimestamp sec + hour"
    using assms(1) unfolding orphan_check_def by blast
  then show "deletes_orphan E (EvGetSecret ns n (Ok sec) # es @ es')"
  proof cases
    case 1
    with assms(2) show ?thesis by (intro deletes_orphan_quiet) (simp add: no_delete_def)
  next
    case 2
    then obtain p where "sec_Name sec = p @ ''-secret''" by (auto simp: orphan_candidate_def HasSuffix_iff)
    with 2 assms(2) show ?thesis
      by (simp add: deletes_orphan_def orphan_candidate_def no_delete_def [abs_def])
  qed
qed

text \<open>C25: the secret controller deletes a secret only when it is an unlabelled secret of a mount pod in the namespace of
  the driver, more than an hour old, whose pod the API server does not know; and every temporary
  directory it makes for a configuration is removed before the call ends.\<close>

theorem SecretController_cleans_up:
  "wp trace (SecretController_Reconcile E D name namespace) (\<lambda>es r. deletes_orphan E es \<and> removes_temp es)"
proof -
  have rest: "wp trace (if \<not> mhas (sec_Data sec) ''token'' then return (finished None)
      else if \<not> mhas (sec_Data sec) ''name'' then return (finished None) else refresh_secret E D sec)
     (\<lambda>es' r. deletes_orphan E (EvGetSecret namespace name (Ok sec) # es @ es') \<and>
        removes_temp (EvGetSecret namespace name (Ok sec) # es @ es'))" if "orphan_check E sec es" for sec es
    using orphan_check_trace [OF that] orphan_check_trace [OF that, of "[]"]
    by (auto intro!: wp_return wp_mono [OF wp_refresh_secret])
  show ?thesis
    unfolding SecretController_Reconcile_def
  proof (rule wp_with_found, rule wp_client, safe)
    fix sec
    show "wp trace (orFail (checkAndCleanOrphanSecret E sec) (\<lambda>_. if \<not> mhas (sec_Data sec) ''token'' then return (finished None)
        else if \<not> mhas (sec_Data sec) ''name'' then return (finished None) else refresh_secret E D sec))
       (\<lambda>es' r. deletes_orphan E ([EvGetSecret namespace name (Ok sec)] @ es') \<and>
          removes_temp ([EvGetSecret namespace name (Ok sec)] @ es'))"
      using rest [of sec] orphan_check_trace [of E sec _ "[]"]
      by (intro wp_orFail wp_mono [OF wp_checkAndCleanOrphanSecret])
         (simp del: removes_temp.simps(2) split del: if_split)
  qed (simp_all add: deletes_orphan_def)
qed

subsection \<open>Polling\<close>

text \<open>The reference: a mount pod is due at a time unless its status is the one of the last run and its
  next time has not come.\<close>

definition due_at :: "'w env \<Rightarrow> PodStatus smap \<Rightarrow> int \<Rightarrow> Pod \<Rightarrow> bool" where
  "due_at E known now pod \<longleftrightarrow> is_mount_pod E pod \<and>
     (case map_of known (pod_Name pod) of
        Some st \<Rightarrow> ps_status st \<noteq> getPodStatus (Some pod) \<or> nextSyncAt st \<le> now
      | None \<Rightarrow> True)"

definition clock_within :: "int \<Rightarrow> int \<Rightarrow> event \<Rightarrow> bool" where
  "clock_within lo hi ev \<longleftrightarrow> (case ev of EvNow t \<Rightarrow> lo \<le> t \<and> t \<le> hi | _ \<Rightarrow> False)"

lemma wp_pod_skipped:
  assumes "is_mount_pod E pod"
  shows "wp trace (pod_skipped E known pod) (\<lambda>es skipped. list_all (clock_within lo hi) es \<longrightarrow>
     (skipped \<longrightarrow> \<not> due_at E known lo pod) \<and> (\<not> skipped \<longrightarrow> due_at E known hi pod))"
  using assms unfolding pod_skipped_def
  by (auto intro!: wp_bind wp_call wp_return simp: due_at_def clock_within_def split: option.split)

lemma wp_due_pods:
  "wp trace (due_pods E known pods) (\<lambda>es due. list_all (clock_within lo hi) es \<longrightarrow>
     set (filter (due_at E known lo) pods) \<subseteq> set due \<and> set due \<subseteq> set (filter (due_at E known hi) pods))"
proof (induction pods)
  case (Cons pod pods)
  show ?case
  proof (cases "is_mount_pod E pod")
    case True
    then show ?thesis
      unfolding due_pods.simps
      by (auto intro!: wp_bind wp_return wp_mono [OF wp_pod_skipped [OF True, where lo = lo and hi = hi]] wp_mono [OF Cons.IH]
          split: if_splits)
  next
    case False
    then show ?thesis using Cons.IH by (auto simp: due_at_def elim!: wp_mono)
  qed
qed (auto intro: wp_return)

text \<open>C26: the pods that a round of the polling reconciler looks at are the mount pods that are due: when the
  clock stays between two times during the scan, every mount pod that is due at the first time is
  looked at, and every pod that is looked at is due at the second one.\<close>

theorem due_pods_are_due:
  assumes "run_state (due_pods E known pods) s = (due, s')" and "trace s' = trace s @ es"
    and "list_all (clock_within lo hi) es"
  shows "set (filter (due_at E known lo) pods) \<subseteq> set due \<and> set due \<subseteq> set (filter (due_at E known hi) pods)"
  using wpD [OF wp_due_pods [of E known pods lo hi] assms(1)] assms(2,3) by auto

definition mount_pod :: "string \<Rightarrow> Pod" where
  "mount_pod name = zero_Pod\<lparr>pod_Name := name, pod_Namespace := ''kube-system'', pod_Labels := [(PodTypeKey, PodTypeValue)]\<rparr>"

definition polled :: "PodStatus smap" where
  "polled = [(''a'', \<lparr>ps_status = getPodStatus (Some (mount_pod ''a'')), syncAt = -7, nextSyncAt = 5\<rparr>),
             (''b'', \<lparr>ps_status = getPodStatus (Some (mount_pod ''b'')), syncAt = -7, nextSyncAt = -1\<rparr>)]"

theorem due_pods_are_due_witness:
  "set (fst (run_state (due_pods (idle_env :: unit env) polled (map mount_pod [''a'', ''b'', ''c''])) (idle_world ()))) =
     {mount_pod ''b'', mount_pod ''c''}"
proof -
  have due: "due_at (idle_env :: unit env) polled 0 (mount_pod n) = (n \<noteq> ''a'')" if "n \<in> {''a'', ''b'', ''c''}" for n
    using that by (auto simp: due_at_def is_mount_pod_def mount_pod_def polled_def idle_env_def config_defs
      getPodStatus_def IsPodError_def IsPodReady_def zero_Pod_def)
  obtain r w where run: "run_state (due_pods (idle_env :: unit env) polled (map mount_pod [''a'', ''b'', ''c''])) (idle_world ()) = (r, w)"
    by (metis surj_pair)
  have "trace w = trace (idle_world ()) @ [EvNow 0, EvNow 0]"
    using arg_cong [OF run, of "\<lambda>x. trace (snd x)"]
    by (simp add: polled_def run_call pod_skipped_def idle_env_def is_mount_pod_def mount_pod_def config_defs zero_Pod_def idle_world_def
      getPodStatus_def)
  from due_pods_are_due [OF run this, of 0 0] run due show ?thesis
    by (auto simp: clock_within_def)
qed

end
