(* ===== verification/Startup.thy ===== *)
theory Startup
  imports Controllers Fuse Provisioner
begin

text \<open>
  Starting the driver: \<open>cmd/main.go\<close>, \<open>cmd/node.go\<close>, \<open>cmd/controller.go\<close>, the managers of \<open>cmd/app\<close>, \<open>NewClient\<close> of
  \<open>k8sclient/client.go\<close>, \<open>dingofs-driver/driver.go\<close> and \<open>identity.go\<close>, \<open>ParseEndpoint\<close> of \<open>util/util.go\<close>. The package
  variables of \<open>pkg/config\<close>, constants for the services, are a record here that the start fills from
  flags and the environment of the process.
\<close>

section \<open>Definitions\<close>

subsection \<open>Package variables, flags and the outside at the start\<close>

record config =
  DriverName :: string
  NodeName :: string
  Namespace :: string
  PodName :: string
  HostIp :: string
  KubeletPort :: string
  ReconcileTimeout :: int
  SecretReconcilerInterval :: int
  CSIPod :: Pod
  MountManager :: bool
  Immutable :: bool
  Provisioner :: bool
  CacheClientConf :: bool
  LocalPV :: bool
  DFSConfigPath :: string
  DFSMountPriorityName :: string
  DFSMountPreemptionPolicy :: string
  DefaultMountImage :: string
  MountPointPath_cfg :: string

definition config_init :: config where
  "config_init = \<lparr>DriverName = ''csi.dingofs.com'', NodeName = '''', Namespace = '''', PodName = '''', HostIp = '''',
     KubeletPort = '''', ReconcileTimeout = 5 * minute, SecretReconcilerInterval = hour, CSIPod = zero_Pod,
     MountManager = False, Immutable = False, Provisioner = False, CacheClientConf = False, LocalPV = False,
     DFSConfigPath = ''/var/lib/dingofs/config'', DFSMountPriorityName = ''system-node-critical'',
     DFSMountPreemptionPolicy = '''', DefaultMountImage = ''dingodatabase/dingofs-csi:latest'',
     MountPointPath_cfg = ''/var/lib/dingofs/volume''\<rparr>"

record flags =
  fl_version :: bool
  fl_endpoint :: string
  fl_nodeID :: string
  fl_provisioner :: bool
  fl_cacheConf :: bool
  fl_podManager :: bool
  fl_localPV :: bool
  fl_leaderElectionNamespace :: string

datatype controller = MountController | JobController | SecretController | PodController

text \<open>
  Libraries and the operating system at the start: the configuration inside a cluster and the
  clientset, the managers of the controller runtime, the daemon set of the node plugin, directories, sockets and the gRPC server, \<open>url.Parse\<close> and \<open>time.ParseDuration\<close>,
  and how often the retry of client-go tries.
\<close>

record 'w start_api =
  su_getenv :: "string \<Rightarrow> string"
  su_inCluster :: "'w \<Rightarrow> bool result \<times> 'w"
  su_newForConfig :: "'w \<Rightarrow> unit result \<times> 'w"
  su_getDaemonSet :: "string \<Rightarrow> string \<Rightarrow> 'w \<Rightarrow> PodSpec result \<times> 'w"
  su_readDirs :: "'w \<Rightarrow> dir_entry list result \<times> 'w"
  su_listen :: "string \<Rightarrow> string \<Rightarrow> 'w \<Rightarrow> err option \<times> 'w"
  su_serve :: "'w \<Rightarrow> err option \<times> 'w"
  su_getConfig :: "'w \<Rightarrow> unit result \<times> 'w"
  su_newManager :: "string \<Rightarrow> string smap \<Rightarrow> 'w \<Rightarrow> unit result \<times> 'w"
  su_setup :: "controller \<Rightarrow> 'w \<Rightarrow> err option \<times> 'w"
  su_startManager :: "'w \<Rightarrow> err option \<times> 'w"
  su_url_Parse :: "string \<Rightarrow> (string \<times> string \<times> string) result"
  su_retries :: nat

text \<open>How the process goes on: it runs, it ends with a status, or it crashes.\<close>

datatype 'a proc = Runs 'a | Exits int | Crashes

definition bindP :: "('w, 'a proc) io \<Rightarrow> ('a \<Rightarrow> ('w, 'b proc) io) \<Rightarrow> ('w, 'b proc) io" where
  "bindP m f = do {
     r \<leftarrow> m;
     case r of Runs x \<Rightarrow> f x | Exits n \<Rightarrow> return (Exits n) | Crashes \<Rightarrow> return Crashes }"

text \<open>The code logs an error and calls \<open>os.Exit(1)\<close>.\<close>

definition orExit :: "('w, 'a result) io \<Rightarrow> ('w, 'a proc) io" where
  "orExit m = do {
     r \<leftarrow> m;
     return (case r of Ok x \<Rightarrow> Runs x | Err _ \<Rightarrow> Exits 1 | Panic \<Rightarrow> Crashes | OutOfFuel \<Rightarrow> Crashes) }"

text \<open>A call that the trace does not show.\<close>

definition ask :: "('w \<Rightarrow> 'r \<times> 'w) \<Rightarrow> ('w, 'r) io" where
  "ask f = State (\<lambda>s. case f (ext s) of (r, w) \<Rightarrow> (r, s\<lparr>ext := w\<rparr>))"

subsection \<open>The client (client.go)\<close>

text \<open>\<open>strconv.Atoi\<close>.\<close>

definition Atoi :: "string \<Rightarrow> int result" where
  "Atoi s =
     (let (neg, rest) = split_sign s in
      case (if rest = [] then None else uint_digits False 10 0 rest) of
        None \<Rightarrow> Err (MsgErr (''strconv.Atoi: parsing '' @ go_quote s @ '': invalid syntax''))
      | Some n \<Rightarrow>
          if \<not> neg \<and> n \<ge> 2 ^ 63 \<or> neg \<and> n > 2 ^ 63
          then Err (MsgErr (''strconv.Atoi: parsing '' @ go_quote s @ '': value out of range''))
          else Ok (if neg then - n else n))"

record K8sClient =
  enableAPIServerListCache :: bool
  kc_QPS :: "int option"
  kc_Burst :: "int option"

definition env_int :: "'w start_api \<Rightarrow> string \<Rightarrow> int option result" where
  "env_int A key = (if su_getenv A key = [] then Ok None else bindR (Atoi (su_getenv A key)) (\<lambda>n. Ok (Some n)))"

definition NewClient :: "'w start_api \<Rightarrow> ('w, K8sClient result) io" where
  "NewClient A =
     bindE (ask (su_inCluster A)) (\<lambda>found.
       if \<not> found then return (Err (GrpcErr GrpcNotFound ''Can't get kube InClusterConfig''))
       else bindE (return (env_int A ''KUBE_QPS'')) (\<lambda>qps.
       bindE (return (env_int A ''KUBE_BURST'')) (\<lambda>burst.
       bindE (ask (su_newForConfig A)) (\<lambda>_.
         return (Ok \<lparr>enableAPIServerListCache = (su_getenv A ''ENABLE_APISERVER_LIST_CACHE'' = ''true''),
           kc_QPS = qps, kc_Burst = burst\<rparr>)))))"

subsection \<open>Configuration of the node plugin (cmd/node.go)\<close>

text \<open>\<open>strconv.ParseBool\<close>.\<close>

definition strconv_ParseBool :: "string \<Rightarrow> bool option" where
  "strconv_ParseBool s =
     (if s \<in> set [''1'', ''t'', ''T'', ''true'', ''TRUE'', ''True''] then Some True
      else if s \<in> set [''0'', ''f'', ''F'', ''false'', ''FALSE'', ''False''] then Some False
      else None)"

definition env_or :: "'w start_api \<Rightarrow> string \<Rightarrow> string \<Rightarrow> string" where
  "env_or A key dflt = (if su_getenv A key \<noteq> [] then su_getenv A key else dflt)"

text \<open>A duration of the environment only raises the value; one that cannot be read is zero.\<close>

definition env_raise :: "'w env \<Rightarrow> 'w start_api \<Rightarrow> string \<Rightarrow> int \<Rightarrow> int" where
  "env_raise E A key val =
     (if su_getenv A key = [] then val
      else let d = (case t_parse_duration E (su_getenv A key) of Some d \<Rightarrow> d | None \<Rightarrow> 0) in
        if d > val then d else val)"

definition node_config :: "'w env \<Rightarrow> 'w start_api \<Rightarrow> flags \<Rightarrow> config \<Rightarrow> config" where
  "node_config E A fl c =
     c\<lparr>LocalPV := fl_localPV fl, DriverName := env_or A ''DRIVER_NAME'' (DriverName c),
       Immutable := (case strconv_ParseBool (su_getenv A ''DINGOFS_IMMUTABLE'') of Some b \<Rightarrow> b | None \<Rightarrow> Immutable c),
       NodeName := su_getenv A ''NODE_NAME'', Namespace := su_getenv A ''DINGOFS_MOUNT_NAMESPACE'',
       PodName := su_getenv A ''POD_NAME'', MountPointPath_cfg := su_getenv A ''DINGOFS_MOUNT_PATH'',
       DFSConfigPath := su_getenv A ''DINGOFS_CONFIG_PATH'', HostIp := su_getenv A ''HOST_IP'',
       KubeletPort := su_getenv A ''KUBELET_PORT'',
       ReconcileTimeout := env_raise E A ''DINGOFS_RECONCILE_TIMEOUT'' (ReconcileTimeout c),
       SecretReconcilerInterval := env_raise E A ''DINGOFS_CONFIG_UPDATE_INTERVAL'' (SecretReconcilerInterval c),
       DFSMountPriorityName := env_or A ''DINGOFS_MOUNT_PRIORITY_NAME'' (DFSMountPriorityName c),
       DFSMountPreemptionPolicy := env_or A ''DINGOFS_MOUNT_PREEMPTION_POLICY'' (DFSMountPreemptionPolicy c),
       DefaultMountImage := env_or A ''DINGOFS_MOUNT_IMAGE'' (DefaultMountImage c)\<rparr>"

text \<open>\<open>parseNodeConfig\<close> of \<open>cmd/node.go\<close>: the variables, and the table of file descriptors.\<close>

definition parseNodeConfig :: "'w env \<Rightarrow> 'w start_api \<Rightarrow> flags \<Rightarrow> config \<Rightarrow> ('w, (config \<times> Fds) proc) io" where
  "parseNodeConfig E A fl c =
     (let c = node_config E A fl c in
      if PodName c = [] \<or> Namespace c = [] then return (Exits 1)
      else bindP (orExit (NewClient A)) (\<lambda>_.
        bindP (orExit (GetPod E (PodName c) (Namespace c))) (\<lambda>pod. do {
          ds \<leftarrow> ask (su_readDirs A);
          case InitGlobalFds ''/tmp'' ds of
            (Ok _, tab) \<Rightarrow> return (Runs (c\<lparr>CSIPod := pod\<rparr>, tab))
          | (Err _, _) \<Rightarrow> return (Exits 1)
          | _ \<Rightarrow> return Crashes })))"

subsection \<open>Configuration of the controller plugin (cmd/controller.go)\<close>

definition controller_config :: "'w start_api \<Rightarrow> flags \<Rightarrow> config \<Rightarrow> config proc" where
  "controller_config A fl c =
     (let c = c\<lparr>Provisioner := fl_provisioner fl, CacheClientConf := fl_cacheConf fl, LocalPV := fl_localPV fl,
            DriverName := env_or A ''DRIVER_NAME'' (DriverName c), MountManager := True\<rparr>;
          rest = (\<lambda>c. c\<lparr>NodeName := su_getenv A ''NODE_NAME'', Namespace := su_getenv A ''DINGOFS_MOUNT_NAMESPACE'',
            MountPointPath_cfg := su_getenv A ''DINGOFS_MOUNT_PATH'', DFSConfigPath := su_getenv A ''DINGOFS_CONFIG_PATH'',
            DefaultMountImage := env_or A ''DINGOFS_MOUNT_IMAGE'' (DefaultMountImage c)\<rparr>)
      in if su_getenv A ''DINGOFS_IMMUTABLE'' = [] then Runs (rest c)
         else case strconv_ParseBool (su_getenv A ''DINGOFS_IMMUTABLE'') of
           Some b \<Rightarrow> Runs (rest (c\<lparr>Immutable := b\<rparr>))
         | None \<Rightarrow> Exits 1)"

text \<open>The pod of the driver gets the template of the daemon set of the node plugin.\<close>

definition parseControllerConfig :: "'w start_api \<Rightarrow> flags \<Rightarrow> config \<Rightarrow> ('w, config proc) io" where
  "parseControllerConfig A fl c =
     bindP (return (controller_config A fl c)) (\<lambda>c.
     bindP (orExit (NewClient A)) (\<lambda>_.
     bindP (orExit (ask (su_getDaemonSet A (env_or A ''DINGOFS_CSI_NODE_DS_NAME'' ''dingofs-csi-node'') (Namespace c)))) (\<lambda>spec.
       return (Runs (c\<lparr>CSIPod := zero_Pod\<lparr>pod_Spec := spec\<rparr>\<rparr>)))))"

subsection \<open>The driver (driver.go)\<close>

text \<open>\<open>parseNodeConfig\<close> of \<open>driver.go\<close>. The first container of the pod is read for a log line.\<close>

definition driver_parseNodeConfig :: "'w env \<Rightarrow> 'w start_api \<Rightarrow> config \<Rightarrow> ('w, config proc) io" where
  "driver_parseNodeConfig E A c =
     (let c = c\<lparr>DriverName := env_or A ''DRIVER_NAME'' (DriverName c), NodeName := su_getenv A ''NODE_NAME'',
            Namespace := su_getenv A ''DINGOFS_MOUNT_NAMESPACE'', PodName := su_getenv A ''POD_NAME''\<rparr> in
      bindP (orExit (NewClient A)) (\<lambda>_.
      bindP (orExit (GetPod E (PodName c) (Namespace c))) (\<lambda>pod.
        return (if Containers (pod_Spec pod) = [] then Crashes else Runs (c\<lparr>CSIPod := pod\<rparr>)))))"

record Driver =
  dv_endpoint :: string
  dv_nodeID :: string
  dv_leaderElectionNamespace :: string
  dv_client :: K8sClient

definition leader_namespace :: "flags \<Rightarrow> config \<Rightarrow> string" where
  "leader_namespace fl c = (if fl_leaderElectionNamespace fl = [] then Namespace c else fl_leaderElectionNamespace fl)"

text \<open>\<open>NewDriver\<close> makes the three services; the node service reads its configuration when it is made.\<close>

definition NewDriver :: "'w env \<Rightarrow> 'w start_api \<Rightarrow> flags \<Rightarrow> config \<Rightarrow> ('w, (Driver \<times> config) proc) io" where
  "NewDriver E A fl c =
     bindP (orExit (NewClient A)) (\<lambda>k8sClient.
     bindP (driver_parseNodeConfig E A c) (\<lambda>c.
       return (Runs (\<lparr>dv_endpoint = fl_endpoint fl, dv_nodeID = fl_nodeID fl,
         dv_leaderElectionNamespace = leader_namespace fl c, dv_client = k8sClient\<rparr>, c))))"

text \<open>\<open>util.ParseEndpoint\<close>; the socket of an earlier run is removed.\<close>

definition ParseEndpoint :: "'w env \<Rightarrow> 'w start_api \<Rightarrow> string \<Rightarrow> ('w, (string \<times> string) result) io" where
  "ParseEndpoint E A endpoint =
     (case su_url_Parse A endpoint of
        Ok (scheme, host, path) \<Rightarrow>
          (let addr = PathJoin [host, path]; scheme = map lower scheme in
           if scheme = ''tcp'' then return (Ok (scheme, addr))
           else if scheme = ''unix'' then do {
             let addr = PathJoin [''/'', addr];
             e \<leftarrow> call (os_remove E addr) (EvRemove addr);
             return (if e = None \<or> IsNotExist e then Ok (scheme, addr)
               else Err (MsgErr (''could not remove unix domain socket '' @ go_quote addr @ '': '' @ go_err e))) }
           else return (Err (MsgErr (''unsupported protocol: '' @ scheme))))
      | Err e \<Rightarrow> return (Err (MsgErr (''could not parse endpoint: '' @ err_str e)))
      | Panic \<Rightarrow> return Panic
      | OutOfFuel \<Rightarrow> return OutOfFuel)"

text \<open>The error when serving ends.\<close>

definition Driver_Run :: "'w env \<Rightarrow> 'w start_api \<Rightarrow> config \<Rightarrow> Driver \<Rightarrow> ('w, unit result) io" where
  "Driver_Run E A c d = do {
     (if Provisioner c then emit (EvGo ''provisioner'') else return ());
     bindE (ParseEndpoint E A (dv_endpoint d)) (\<lambda>(scheme, addr). do {
       e \<leftarrow> ask (su_listen A scheme addr);
       case e of
         Some er \<Rightarrow> return (Err er)
       | None \<Rightarrow> do { s \<leftarrow> ask (su_serve A); return (result_of s) } }) }"

definition serve_driver :: "'w env \<Rightarrow> 'w start_api \<Rightarrow> flags \<Rightarrow> config \<Rightarrow> ('w, config proc) io" where
  "serve_driver E A fl c =
     bindP (NewDriver E A fl c) (\<lambda>(d, c). do {
       emit (EvGo ''drv.Stop'');
       bindP (orExit (Driver_Run E A c d)) (\<lambda>_. return (Runs c)) })"

subsection \<open>Managers of controllers (cmd/app)\<close>

text \<open>The labels that an object must have to reach the cache of a manager.\<close>

definition mount_manager_selector :: "string smap" where
  "mount_manager_selector = [(PodTypeKey, PodTypeValue), (JobTypeKey, JobTypeValue)]"

definition pod_manager_selector :: "string smap" where
  "pod_manager_selector = [(PodTypeKey, PodTypeValue)]"

definition new_manager :: "'w start_api \<Rightarrow> string \<Rightarrow> string smap \<Rightarrow> ('w, K8sClient result) io" where
  "new_manager A leaderElectionID sel =
     bindE (ask (su_getConfig A)) (\<lambda>_.
     bindE (ask (su_newManager A leaderElectionID sel)) (\<lambda>_. NewClient A))"

definition NewMountManager :: "'w start_api \<Rightarrow> ('w, K8sClient result) io" where
  "NewMountManager A = new_manager A ''mount.dingofs.com'' mount_manager_selector"

definition NewPodManager :: "'w start_api \<Rightarrow> ('w, K8sClient result) io" where
  "NewPodManager A = new_manager A ''pod.dingofs.com'' pod_manager_selector"

definition register :: "'w start_api \<Rightarrow> controller \<Rightarrow> ('w, unit result) io" where
  "register A ct = do { e \<leftarrow> ask (su_setup A ct); return (result_of e) }"

text \<open>
  \<open>Start\<close> of the mount manager gives up silently when a controller cannot be registered; only a manager
  that fails to start ends the process.
\<close>

definition MountManager_Start :: "'w start_api \<Rightarrow> config \<Rightarrow> ('w, unit proc) io" where
  "MountManager_Start A c = do {
     r \<leftarrow> bindE (register A MountController) (\<lambda>_.
          bindE (register A JobController) (\<lambda>_.
            if CacheClientConf c then register A SecretController else return (Ok ())));
     case r of
       Ok _ \<Rightarrow> do { e \<leftarrow> ask (su_startManager A); return (if e = None then Runs () else Exits 1) }
     | Err _ \<Rightarrow> return (Runs ())
     | _ \<Rightarrow> return Crashes }"

definition PodManager_Start :: "'w start_api \<Rightarrow> ('w, unit result) io" where
  "PodManager_Start A =
     bindE (register A PodController) (\<lambda>_. do { e \<leftarrow> ask (su_startManager A); return (result_of e) })"

text \<open>The goroutines of \<open>controllerRun\<close> and of \<open>nodeRun\<close> that run the managers.\<close>

definition mount_manager_goroutine :: "'w start_api \<Rightarrow> config \<Rightarrow> ('w, unit proc) io" where
  "mount_manager_goroutine A c = do {
     r \<leftarrow> NewMountManager A;
     case r of
       Ok _ \<Rightarrow> MountManager_Start A c
     | Err _ \<Rightarrow> return (Runs ())
     | _ \<Rightarrow> return Crashes }"

definition pod_manager_goroutine :: "'w start_api \<Rightarrow> ('w, unit proc) io" where
  "pod_manager_goroutine A =
     bindP (orExit (NewPodManager A)) (\<lambda>_. orExit (PodManager_Start A))"

text \<open>
  The servers of profiles, over the answers of the calls of \<open>http.ListenAndServe\<close> so far: the ports that were
  tried, and how the process goes on.
\<close>

fun controller_pprof :: "int \<Rightarrow> err option list \<Rightarrow> int list \<times> unit proc" where
  "controller_pprof port [] = ([port], Runs ())"
| "controller_pprof port (e # es) =
     (if e \<noteq> None then ([port], Exits 1)
      else case controller_pprof (port + 1) es of (ports, r) \<Rightarrow> (port # ports, r))"

fun node_pprof :: "int \<Rightarrow> err option list \<Rightarrow> int list \<times> unit proc" where
  "node_pprof port [] = ([port], Runs ())"
| "node_pprof port (_ # es) = (case node_pprof (port + 1) es of (ports, r) \<Rightarrow> (port # ports, r))"

subsection \<open>The two plugins and main\<close>

definition controllerRun :: "'w env \<Rightarrow> 'w start_api \<Rightarrow> flags \<Rightarrow> config \<Rightarrow> ('w, config proc) io" where
  "controllerRun E A fl c =
     bindP (parseControllerConfig A fl c) (\<lambda>c.
       if fl_nodeID fl = [] then return (Exits 1)
       else do {
         emit (EvGo ''pprof'');
         (if MountManager c then emit (EvGo ''mount manager'') else return ());
         serve_driver E A fl c })"

text \<open>\<open>retry.OnError\<close> of client-go for an error of any kind; how many further times is a parameter.\<close>

fun OnError :: "nat \<Rightarrow> ('w, 'a result) io \<Rightarrow> ('w, 'a result) io" where
  "OnError 0 fn = fn"
| "OnError (Suc n) fn = do {
     r \<leftarrow> fn;
     case r of Err _ \<Rightarrow> do { emit EvSleep; OnError n fn } | _ \<Rightarrow> return r }"

text \<open>
  Whether the pod manager has to watch the API server: the kubelet is polled when its address is known
  and it answers.
\<close>

definition needStartPodManager :: "'w env \<Rightarrow> 'w start_api \<Rightarrow> driver \<Rightarrow> config \<Rightarrow> ('w, bool proc) io" where
  "needStartPodManager E A D c =
     (if KubeletPort c \<noteq> [] \<and> HostIp c \<noteq> [] then do {
        r \<leftarrow> OnError (su_retries A)
              (StartReconciler E (D\<lparr>dr_kubeletPort := KubeletPort c, dr_hostIp := HostIp c\<rparr>) (NewClient A));
        return (case r of Ok _ \<Rightarrow> Runs False | Err _ \<Rightarrow> Runs True | Panic \<Rightarrow> Crashes | OutOfFuel \<Rightarrow> Crashes) }
      else return (Runs True))"

definition nodeRun :: "'w env \<Rightarrow> 'w start_api \<Rightarrow> driver \<Rightarrow> flags \<Rightarrow> config \<Rightarrow> ('w, (config \<times> Fds) proc) io" where
  "nodeRun E A D fl c =
     bindP (parseNodeConfig E A fl c) (\<lambda>(c, tab).
       if fl_nodeID fl = [] then return (Exits 1)
       else do {
         emit (EvGo ''pprof'');
         bindP (if fl_podManager fl then needStartPodManager E A D c else return (Runs False)) (\<lambda>need. do {
           (if need then emit (EvGo ''pod manager'') else return ());
           bindP (serve_driver E A fl c) (\<lambda>c. return (Runs (c, tab))) }) })"

definition run_csi :: "'w env \<Rightarrow> 'w start_api \<Rightarrow> driver \<Rightarrow> flags \<Rightarrow> config \<Rightarrow> ('w, unit proc) io" where
  "run_csi E A D fl c =
     (let podName = su_getenv A ''POD_NAME'' in
      bindP (if Contains podName ''csi-controller'' then controllerRun E A fl c else return (Runs c)) (\<lambda>c.
      bindP (if Contains podName ''csi-node'' then bindP (nodeRun E A D fl c) (\<lambda>_. return (Runs ()))
             else return (Runs ())) (\<lambda>_. return (Runs ()))))"

text \<open>The command of \<open>main\<close>; \<open>version\<close> is what \<open>GetVersionJSON\<close> answers.\<close>

definition main_command ::
  "'w env \<Rightarrow> 'w start_api \<Rightarrow> driver \<Rightarrow> string result \<Rightarrow> flags \<Rightarrow> ('w, unit proc) io" where
  "main_command E A D version fl =
     (if fl_version fl then return (case version of Ok _ \<Rightarrow> Exits 0 | Err _ \<Rightarrow> Exits 1 | _ \<Rightarrow> Crashes)
      else run_csi E A D fl config_init)"

text \<open>The package variables as the services read them.\<close>

definition with_config :: "config \<Rightarrow> 'w env \<Rightarrow> 'w env" where
  "with_config c E =
     E\<lparr>cfg_NodeName := NodeName c, cfg_Namespace := Namespace c, cfg_DriverName := DriverName c,
       cfg_Provisioner := Provisioner c, cfg_LocalPV := LocalPV c, cfg_Immutable := Immutable c,
       cfg_CSIPod := CSIPod c\<rparr>"

subsection \<open>Identity of the plugin (identity.go)\<close>

datatype plugin_capability = CONTROLLER_SERVICE

definition GetPluginInfo :: "config \<Rightarrow> string result" where
  "GetPluginInfo c = Ok (DriverName c)"

definition GetPluginCapabilities :: "plugin_capability list result" where
  "GetPluginCapabilities = Ok [CONTROLLER_SERVICE]"

definition Probe :: "unit result" where
  "Probe = Ok ()"

section \<open>Lemmas\<close>

lemma wp_ask [wp_rules]: "(\<And>r. Q [] r) \<Longrightarrow> wp trace (ask f) Q"
  unfolding wp_def ask_def by (auto simp: case_prod_unfold)

lemma wp_bindP [wp_rules]:
  assumes "wp trace m (\<lambda>es r. (\<forall>x. r = Runs x \<longrightarrow> wp trace (f x) (\<lambda>es'. Q (es @ es'))) \<and>
    (\<forall>n. r = Exits n \<longrightarrow> Q es (Exits n)) \<and> (r = Crashes \<longrightarrow> Q es Crashes))"
  shows "wp trace (bindP m f) Q"
  unfolding bindP_def
  by (rule wp_bind, rule wp_mono [OF assms]) (auto intro: wp_return split: proc.split)

lemma wp_orExit [wp_rules]:
  assumes "wp trace m (\<lambda>es r. (\<forall>x. r = Ok x \<longrightarrow> Q es (Runs x)) \<and> Q es (Exits 1) \<and> Q es Crashes)"
  shows "wp trace (orExit m) Q"
  unfolding orExit_def by (rule wp_bind, rule wp_mono [OF assms]) (auto intro!: wp_return split: result.split)

text \<open>Making a client leaves no event.\<close>

lemma wp_NewClient [wp_rules]: "(\<And>r. Q [] r) \<Longrightarrow> wp trace (NewClient A) Q"
  unfolding NewClient_def by (auto intro!: wp_bindE wp_ask wp_return split: result.split)

lemma env_raise_ge: "val \<le> env_raise E A key val"
  by (simp add: env_raise_def Let_def)

section \<open>The node plugin\<close>

definition node_ready :: "config \<Rightarrow> bool" where
  "node_ready c \<longleftrightarrow> PodName c \<noteq> [] \<and> Namespace c \<noteq> [] \<and> 5 * minute \<le> ReconcileTimeout c \<and>
     hour \<le> SecretReconcilerInterval c \<and> \<not> MountManager c \<and> \<not> Provisioner c"

lemma node_config_ready:
  assumes "PodName (node_config E A fl config_init) \<noteq> []" "Namespace (node_config E A fl config_init) \<noteq> []"
  shows "node_ready ((node_config E A fl config_init)\<lparr>CSIPod := pod\<rparr>)"
  using assms env_raise_ge by (auto simp: node_ready_def node_config_def config_init_def)

definition from_env :: "'w start_api \<Rightarrow> config \<Rightarrow> bool" where
  "from_env A c \<longleftrightarrow> PodName c = su_getenv A ''POD_NAME'' \<and> Namespace c = su_getenv A ''DINGOFS_MOUNT_NAMESPACE''"

text \<open>How often a goroutine was started.\<close>

definition starts :: "string \<Rightarrow> event list \<Rightarrow> nat" where
  "starts g es = count_list es (EvGo g)"

lemma starts_simps [simp]:
  "starts g [] = 0" "starts g (es @ es') = starts g es + starts g es'"
  "starts g (EvGo h # es) = (if g = h then Suc (starts g es) else starts g es)"
  "starts g (EvSleep # es) = starts g es" "starts g (EvKubeletPods r # es) = starts g es"
  "starts g (EvGetPod n ns p # es) = starts g es" "starts g (EvRemove q e # es) = starts g es"
  by (auto simp: starts_def)

lemma wp_parseNodeConfig:
  "wp trace (parseNodeConfig E A fl config_init) (\<lambda>es r. (\<forall>g. starts g es = 0) \<and>
     (\<forall>c tab. r = Runs (c, tab) \<longrightarrow> node_ready c \<and> from_env A c))"
  unfolding parseNodeConfig_def Let_def
  by (auto intro!: wp_bindP wp_orExit wp_NewClient wp_client wp_bind wp_ask wp_return node_config_ready
      simp: from_env_def split: prod.split result.split)
    (simp_all add: node_config_def)

lemma wp_StartReconciler:
  assumes "\<And>Q. (\<And>r. Q [] r) \<Longrightarrow> wp trace nc Q"
  shows "wp trace (StartReconciler E D nc) (\<lambda>es r. \<forall>g. starts g es = (if g = ''doReconcile'' \<and> (\<exists>x. r = Ok x) then 1 else 0))"
  unfolding StartReconciler_def
  by (auto intro!: wp_bindE wp_bind assms wp_call wp_emit wp_return split: result.split)

text \<open>However often it is tried, at most one reconciler is started.\<close>

lemma wp_OnError_StartReconciler:
  assumes "\<And>Q. (\<And>r. Q [] r) \<Longrightarrow> wp trace nc Q"
  shows "wp trace (OnError n (StartReconciler E D nc))
    (\<lambda>es r. \<forall>g. starts g es = (if g = ''doReconcile'' \<and> (\<exists>x. r = Ok x) then 1 else 0))"
proof (induction n)
  case 0
  then show ?case using wp_StartReconciler [OF assms] by simp
next
  case (Suc n)
  then show ?case
    by (auto intro!: wp_bind wp_emit wp_return wp_mono [OF wp_StartReconciler [OF assms]] wp_mono [OF Suc] split: result.split)
qed

lemma wp_needStartPodManager:
  "wp trace (needStartPodManager E A D c) (\<lambda>es r. (\<forall>g. g \<noteq> ''doReconcile'' \<longrightarrow> starts g es = 0) \<and>
     (\<forall>need. r = Runs need \<longrightarrow> starts ''doReconcile'' es = (if need then 0 else 1)))"
  unfolding needStartPodManager_def
  by (auto intro!: wp_bind wp_return wp_mono [OF wp_OnError_StartReconciler] wp_NewClient split: result.splits)

lemma wp_Driver_Run:
  "wp trace (Driver_Run E A c d) (\<lambda>es r. \<forall>g. g \<noteq> ''provisioner'' \<longrightarrow> starts g es = 0)"
  unfolding Driver_Run_def ParseEndpoint_def Let_def
  by (auto intro!: wp_bind wp_bindE wp_emit wp_call wp_ask wp_return split: result.split option.split)

text \<open>The driver reads the names of its pod again, from the same variables.\<close>

lemma wp_driver_parseNodeConfig:
  assumes "node_ready c" "from_env A c"
  shows "wp trace (driver_parseNodeConfig E A c) (\<lambda>es r. (\<forall>g. starts g es = 0) \<and> (\<forall>c'. r = Runs c' \<longrightarrow> node_ready c'))"
  unfolding driver_parseNodeConfig_def Let_def using assms
  by (auto intro!: wp_bindP wp_orExit wp_NewClient wp_client wp_return simp: node_ready_def from_env_def split: if_splits)

lemma wp_serve_driver:
  assumes "node_ready c" "from_env A c"
  shows "wp trace (serve_driver E A fl c) (\<lambda>es r. (\<forall>g. g \<notin> {''provisioner'', ''drv.Stop''} \<longrightarrow> starts g es = 0) \<and>
    (\<forall>c'. r = Runs c' \<longrightarrow> node_ready c'))"
  unfolding serve_driver_def NewDriver_def
  by (auto intro!: wp_bindP wp_orExit wp_NewClient wp_bind wp_emit wp_return
      wp_mono [OF wp_driver_parseNodeConfig [OF assms]] wp_mono [OF wp_Driver_Run])

text \<open>C27: a node plugin that comes to make its driver has a node id, and it watches its pods in exactly one way when
  its pod manager is enabled, by polling the kubelet or through the API server, however often the kubelet
  had to be asked; it does not watch at all otherwise. The configuration it serves with names its own pod
  and namespace and keeps the lower bounds of the two intervals.\<close>

theorem nodeRun_watches_once:
  "wp trace (nodeRun E A D fl config_init) (\<lambda>es r.
     (0 < starts ''drv.Stop'' es \<longrightarrow> fl_nodeID fl \<noteq> [] \<and>
        starts ''doReconcile'' es + starts ''pod manager'' es = (if fl_podManager fl then 1 else 0)) \<and>
     (\<forall>c tab. r = Runs (c, tab) \<longrightarrow> node_ready c))"
  unfolding nodeRun_def
  by (auto intro!: wp_bindP wp_bind wp_emit wp_return wp_mono [OF wp_parseNodeConfig] wp_mono [OF wp_needStartPodManager]
      wp_mono [OF wp_serve_driver] split: if_splits)

definition start_getenv :: "string \<Rightarrow> string" where
  "start_getenv key = mget [(''POD_NAME'', ''dingofs-csi-node-x''), (''DINGOFS_MOUNT_NAMESPACE'', ''dingofs''),
     (''NODE_NAME'', ''node1''), (''KUBELET_PORT'', ''10250''), (''HOST_IP'', ''10.0.0.1''),
     (''DINGOFS_RECONCILE_TIMEOUT'', ''1s'')] key"

definition start_sample :: "unit start_api" where
  "start_sample = \<lparr>su_getenv = start_getenv, su_inCluster = Pair (Ok True), su_newForConfig = Pair (Ok ()),
     su_getDaemonSet = (\<lambda>_ _. Pair (Ok (zero_PodSpec\<lparr>spec_NodeName := ''daemon''\<rparr>))), su_readDirs = Pair (Ok []),
     su_listen = (\<lambda>_ _. Pair None), su_serve = Pair None, su_getConfig = Pair (Ok ()), su_newManager = (\<lambda>_ _. Pair (Ok ())),
     su_setup = (\<lambda>_. Pair None), su_startManager = Pair None,
     su_url_Parse = (\<lambda>_. Ok (''unix'', ''tmp'', ''/csi.sock'')), su_retries = 3\<rparr>"

definition flags_sample :: flags where
  "flags_sample = \<lparr>fl_version = False, fl_endpoint = ''unix://tmp/csi.sock'', fl_nodeID = ''node1'', fl_provisioner = False,
     fl_cacheConf = True, fl_podManager = True, fl_localPV = False, fl_leaderElectionNamespace = ''''\<rparr>"

definition start_env :: "unit env" where
  "start_env = idle_env\<lparr>k_pod_get := \<lambda>_ _. Pair (Ok (Some (zero_Pod\<lparr>pod_Spec := zero_PodSpec\<lparr>Containers := [zero_Container]\<rparr>\<rparr>)))\<rparr>"

lemma run_ask: "run_state (ask f) s = (case f (ext s) of (r, w) \<Rightarrow> (r, s\<lparr>ext := w\<rparr>))"
  by (simp add: ask_def)

lemmas start_eval = run_ask run_call bindP_def bindE_def orExit_def start_getenv_def start_sample_def flags_sample_def
  start_env_def publish_driver_def config_init_def mget_def env_or_def emit_def idle_world_def

theorem nodeRun_watches_once_witness:
  "\<exists>es. trace (snd (run_state (nodeRun start_env start_sample publish_driver flags_sample config_init) (idle_world ()))) = es \<and>
     0 < starts ''drv.Stop'' es \<and> starts ''doReconcile'' es + starts ''pod manager'' es = 1"
proof -
  let ?w = "snd (run_state (nodeRun start_env start_sample publish_driver flags_sample config_init) (idle_world ()))"
  have "0 < starts ''drv.Stop'' (trace ?w)"
    by (simp add: nodeRun_def parseNodeConfig_def node_config_def NewClient_def env_int_def start_eval needStartPodManager_def
        numeral_3_eq_3 StartReconciler_def serve_driver_def NewDriver_def driver_parseNodeConfig_def GetPod_def Driver_Run_def
        ParseEndpoint_def InitGlobalFds_def ParseFuseFds_def IsNotExist_def idle_env_def env_raise_def Let_def)
  moreover have "trace (idle_world ()) = []" "fl_podManager flags_sample" by (simp_all add: idle_world_def flags_sample_def)
  ultimately show ?thesis
    using nodeRun_watches_once [of start_env start_sample publish_driver flags_sample] unfolding wp_def by (metis append_Nil)
qed

section \<open>The controller plugin\<close>

lemma newJob_node_fields:
  "newJob E C img s name = Ok (job, s') \<Longrightarrow> NodeSelector (job_PodSpec job) = NodeSelector (pod_Spec (cfg_CSIPod E)) \<and>
     Affinity (job_PodSpec job) = Affinity (pod_Spec (cfg_CSIPod E)) \<and>
     Tolerations (job_PodSpec job) = Tolerations (pod_Spec (cfg_CSIPod E)) \<and> job_Labels job = [(JobTypeKey, JobTypeValue)]"
  by (auto simp: newJob_def mk_job_def bindR_Ok_iff Let_def)

text \<open>The driver keeps the pod that the API server names for it.\<close>

lemma wp_GetPod_own:
  assumes own: "\<And>w. fst (k_pod_get E ns n w) = Ok (Some own)" and "\<And>es. Q es (Ok own)"
  shows "wp trace (GetPod E n ns) Q"
  unfolding wp_def GetPod_def call_def using assms by (simp add: case_prod_unfold)

text \<open>C29: the pod template that the controller plugin takes from the daemon set of the node plugin, so that the jobs it makes
  inherit it, does not survive the making of the driver: the driver stores the pod of the controller itself
  in the same variable, and jobs get the node selector, affinity and tolerations of that pod.\<close>

theorem NewDriver_drops_node_template:
  assumes own: "\<And>w. fst (k_pod_get E (su_getenv A ''DINGOFS_MOUNT_NAMESPACE'') (su_getenv A ''POD_NAME'') w) = Ok (Some own)"
  shows "wp trace (bindP (parseControllerConfig A fl c) (NewDriver E A fl)) (\<lambda>es r. \<forall>d c'. r = Runs (d, c') \<longrightarrow>
    CSIPod c' = own \<and> (\<forall>C img s name job s'. newJob (with_config c' E) C img s name = Ok (job, s') \<longrightarrow>
      NodeSelector (job_PodSpec job) = NodeSelector (pod_Spec own) \<and> Affinity (job_PodSpec job) = Affinity (pod_Spec own) \<and>
      Tolerations (job_PodSpec job) = Tolerations (pod_Spec own)))"
  unfolding parseControllerConfig_def NewDriver_def driver_parseNodeConfig_def Let_def
  by (auto intro!: wp_bindP wp_orExit wp_NewClient wp_ask wp_return wp_GetPod_own [OF own] split: if_splits)
    (drule newJob_node_fields, simp add: with_config_def)+

theorem NewDriver_drops_node_template_witness:
  "\<exists>d c'. fst (run_state (bindP (parseControllerConfig start_sample flags_sample config_init)
      (NewDriver start_env start_sample flags_sample)) (idle_world ())) = Runs (d, c') \<and>
     spec_NodeName (pod_Spec (CSIPod c')) \<noteq> ''daemon''"
proof -
  let ?m = "bindP (parseControllerConfig start_sample flags_sample config_init) (NewDriver start_env start_sample flags_sample)"
  let ?own = "zero_Pod\<lparr>pod_Spec := zero_PodSpec\<lparr>Containers := [zero_Container]\<rparr>\<rparr>"
  have "\<exists>d c'. fst (run_state ?m (idle_world ())) = Runs (d, c')"
    by (simp add: parseControllerConfig_def controller_config_def NewClient_def env_int_def start_eval NewDriver_def
        driver_parseNodeConfig_def GetPod_def Let_def)
  moreover have "wp trace ?m (\<lambda>es r. \<forall>d c'. r = Runs (d, c') \<longrightarrow> CSIPod c' = ?own)"
    using NewDriver_drops_node_template [of start_env start_sample ?own flags_sample config_init]
    by (auto simp: start_env_def elim: wp_mono)
  ultimately obtain d c' where "fst (run_state ?m (idle_world ())) = Runs (d, c')" "CSIPod c' = ?own"
    unfolding wp_def by metis
  then show ?thesis by (auto simp: zero_PodSpec_def)
qed

section \<open>The caches of the managers\<close>

lemma genCommonPod_labels:
  "genCommonPod E C img s cn = Ok (pod, s') \<Longrightarrow> \<exists>attr. attr_of s' = Ok attr \<and> pod_Labels pod = fst (genMetadata s' attr)"
  by (auto simp: genCommonPod_def bindR_Ok_iff Let_def case_prod_unfold AddFinalizer_def upd_c0_def)

text \<open>C28: the cache of the mount manager asks for the label of mount pods and for the label of jobs on one and the same
  object. With a selector that requires each of its labels, as selectors made of a set of labels do, it
  holds no mount pod whose configuration does not add the label of jobs, no job and no secret that the
  driver makes, so the controllers of the mount manager are never called for them; the cache of the pod manager
  does hold the mount pods that keep their label.\<close>

theorem mount_manager_sees_nothing:
  assumes sel: "\<And>sel labels. matches sel labels \<longleftrightarrow> list_all (\<lambda>(k, v). map_of labels k = Some v) sel"
  and pod: "genCommonPod E C img s cn = Ok (pod, s')" and attr: "attr_of s' = Ok attr"
  and free: "wf_map (pa_Labels attr)" "map_of (pa_Labels attr) JobTypeKey = None" "map_of (pa_Labels attr) PodTypeKey = None"
  and job: "newJob E C img s name = Ok (job, s'')" and sec: "NewSecret s = Ok secret"
  shows "\<not> matches mount_manager_selector (pod_Labels pod) \<and> \<not> matches mount_manager_selector (job_Labels job) \<and>
    \<not> matches mount_manager_selector (sec_Labels secret) \<and> matches pod_manager_selector (pod_Labels pod)"
proof -
  have "pod_Labels pod = mputs [(PodTypeKey, PodTypeValue), (PodVolumeIdLabelKey, UniqueId s')] (pa_Labels attr)"
    using genCommonPod_labels [OF pod] attr by (simp add: genMetadata_def Let_def)
  moreover have "job_Labels job = [(JobTypeKey, JobTypeValue)]" using newJob_node_fields [OF job] by simp
  moreover have "sec_Labels secret = [(DingofsSecretLabelKey, ''true'')]" using sec by (auto simp: NewSecret_def bindR_Ok_iff Let_def)
  ultimately show ?thesis using free
    by (simp add: sel mount_manager_selector_def pod_manager_selector_def map_of_mputs map_add_def config_defs)
qed

definition label_setting :: DfsSetting where
  "label_setting = zero_DfsSetting\<lparr>Name := ''fs1'', Attr := Some zero_PodAttr\<rparr>"

definition all_labels :: "string smap \<Rightarrow> string smap \<Rightarrow> bool" where
  "all_labels sel labels \<longleftrightarrow> list_all (\<lambda>(k, v). map_of labels k = Some v) sel"

lemma label_setting_pod:
  "case genCommonPod sample_env sample_codec ''img'' (label_setting\<lparr>SecretName := sn\<rparr>) genCommonContainer of
     Ok (pod, s') \<Rightarrow> (case attr_of s' of Ok attr \<Rightarrow> pa_Labels attr = [] | _ \<Rightarrow> False) | _ \<Rightarrow> False"
  by (simp add: genCommonPod_def GenPodAttrWithCfg_def label_setting_def zero_PodAttr_def
        ApplyConfigPatch_def GenMountPodPatch_def attr_of_def Let_def
        genDfsVolumes_def sample_codec_def sample_env_def idle_env_def
        zero_DfsSetting_def zero_MountPodPatch_def opt_list_def zero_Pod_def zero_PodSpec_def
        case_prod_unfold)

lemma label_setting_makes_pod:
  obtains pod s' attr where
    "genCommonPod sample_env sample_codec ''img'' (label_setting\<lparr>SecretName := sn\<rparr>) genCommonContainer = Ok (pod, s')"
    "attr_of s' = Ok attr" "pa_Labels attr = []"
  using label_setting_pod [of sn] by (auto split: result.split_asm) (metis result.exhaust)

theorem mount_manager_sees_nothing_witness:
  "\<exists>pod s' job s'' secret. genCommonPod sample_env sample_codec ''img'' label_setting genCommonContainer = Ok (pod, s') \<and>
     newJob sample_env sample_codec ''img'' label_setting ''job1'' = Ok (job, s'') \<and> NewSecret label_setting = Ok secret \<and>
     \<not> all_labels mount_manager_selector (pod_Labels pod) \<and> \<not> all_labels mount_manager_selector (job_Labels job) \<and>
     \<not> all_labels mount_manager_selector (sec_Labels secret) \<and> all_labels pod_manager_selector (pod_Labels pod)"
proof -
  have "label_setting\<lparr>SecretName := []\<rparr> = label_setting" by (simp add: label_setting_def zero_DfsSetting_def)
  with label_setting_makes_pod [of "[]"] obtain pod s' attr where
    pod: "genCommonPod sample_env sample_codec ''img'' label_setting genCommonContainer = Ok (pod, s')"
    "attr_of s' = Ok attr" "pa_Labels attr = []" by metis
  obtain p t a where "genCommonPod sample_env sample_codec ''img'' (label_setting\<lparr>SecretName := ''job1'' @ ''-secret''\<rparr>)
      genCommonContainer = Ok (p, t)" "attr_of t = Ok a"
    by (rule label_setting_makes_pod [of "''job1'' @ ''-secret''"])
  then obtain job s'' where job: "newJob sample_env sample_codec ''img'' label_setting ''job1'' = Ok (job, s'')"
    by (simp add: newJob_def Let_def)
  obtain secret where sec: "NewSecret label_setting = Ok secret"
    by (simp add: NewSecret_def attr_of_def label_setting_def Let_def)
  show ?thesis
    using mount_manager_sees_nothing [where matches = all_labels, OF all_labels_def pod(1,2) _ _ _ job sec] pod job sec by auto
qed

section \<open>The servers of profiles\<close>

text \<open>The node plugin tries one port after the other; the controller plugin ends at the first port that is taken.\<close>

lemma node_pprof_ports: "node_pprof port es = (map (\<lambda>i. port + int i) [0..<Suc (length es)], Runs ())"
proof (induction es arbitrary: port)
  case (Cons e es)
  show ?case by (simp add: Cons upt_conv_Cons map_Suc_upt [symmetric] algebra_simps comp_def del: upt_Suc map_Suc_upt)
qed simp

lemma controller_pprof_first_error:
  "list_all (\<lambda>e. e = None) es \<Longrightarrow> snd (controller_pprof port (es @ Some e # es')) = Exits 1"
proof (induction es arbitrary: port)
  case (Cons o' es)
  then have "snd (controller_pprof (port + 1) (es @ Some e # es')) = Exits 1" by simp
  with Cons.prems show ?case by (simp add: case_prod_unfold)
qed simp

lemma main_command_other_pod:
  "\<not> Contains (su_getenv A ''POD_NAME'') ''csi-controller'' \<Longrightarrow> \<not> Contains (su_getenv A ''POD_NAME'') ''csi-node'' \<Longrightarrow>
   \<not> fl_version fl \<Longrightarrow> main_command E A D v fl = return (Runs ())"
  by (simp add: main_command_def run_csi_def bindP_def)

end
