(* ===== verification/Lookup.thy ===== *)
theory Lookup
  imports Startup
begin

text \<open>
  Lookups around pods: the namespace and the volumes of a pod (\<open>util/resource/namespace.go\<close>, \<open>volume.go\<close>), volumes by
  their handle (\<open>k8sclient/client.go\<close>), the client of the kubelet (\<open>k8sclient/kubelet_client.go\<close>) and the port of the
  metrics of a mount pod (\<open>builder/base.go\<close>).
\<close>

section \<open>Definitions\<close>

subsection \<open>The namespace of a pod (namespace.go)\<close>

text \<open>Whether a workload exists, by name and namespace, as the API server answers.\<close>

record 'w workload_api =
  wl_replicaSet :: "string \<Rightarrow> string \<Rightarrow> 'w \<Rightarrow> err option \<times> 'w"
  wl_statefulSet :: "string \<Rightarrow> string \<Rightarrow> 'w \<Rightarrow> err option \<times> 'w"
  wl_daemonSet :: "string \<Rightarrow> string \<Rightarrow> 'w \<Rightarrow> err option \<times> 'w"

definition GetReplicaSet :: "'w workload_api \<Rightarrow> string \<Rightarrow> string \<Rightarrow> ('w, unit result) io" where
  "GetReplicaSet W name ns = do { e \<leftarrow> ask (wl_replicaSet W name ns); return (result_of e) }"

definition GetStatefulSet :: "'w workload_api \<Rightarrow> string \<Rightarrow> string \<Rightarrow> ('w, unit result) io" where
  "GetStatefulSet W name ns = do { e \<leftarrow> ask (wl_statefulSet W name ns); return (result_of e) }"

definition GetDaemonSet :: "'w workload_api \<Rightarrow> string \<Rightarrow> string \<Rightarrow> ('w, unit result) io" where
  "GetDaemonSet W name ns = do { e \<leftarrow> ask (wl_daemonSet W name ns); return (result_of e) }"

fun checkOwner :: "'w env \<Rightarrow> 'w workload_api \<Rightarrow> OwnerReference list \<Rightarrow> string \<Rightarrow> ('w, unit result) io" where
  "checkOwner E W [] namespace = return (Err (MsgErr ''no owner found''))"
| "checkOwner E W (ow # ows) namespace =
     (if own_Kind ow = ''ReplicaSet'' then GetReplicaSet W (own_Name ow) namespace
      else if own_Kind ow = ''StatefulSet'' then GetStatefulSet W (own_Name ow) namespace
      else if own_Kind ow = ''DaemonSet'' then GetDaemonSet W (own_Name ow) namespace
      else if own_Kind ow = ''Job'' then bindE (GetJob E (own_Name ow) namespace) (\<lambda>_. return (Ok ()))
      else checkOwner E W ows namespace)"

text \<open>Volumes of the driver that have a claim, as the name and the namespace of the claim.\<close>

definition driver_claim :: "'w env \<Rightarrow> PersistentVolume \<Rightarrow> (string \<times> string) option" where
  "driver_claim E pv =
     (case pv_CSI pv of
        Some csi \<Rightarrow> if csi_Driver csi = cfg_DriverName E then pv_ClaimRef pv else None
      | None \<Rightarrow> None)"

definition driver_claims :: "'w env \<Rightarrow> PersistentVolume list \<Rightarrow> (string \<times> string) list" where
  "driver_claims E pvs = List.map_filter (driver_claim E) pvs"

fun claim_namespace ::
  "'w env \<Rightarrow> 'w workload_api \<Rightarrow> OwnerReference list \<Rightarrow> string \<Rightarrow> (string \<times> string) list \<Rightarrow> ('w, string option result) io" where
  "claim_namespace E W ownerRefs pvcName [] = return (Ok None)"
| "claim_namespace E W ownerRefs pvcName ((name, ns) # claims) =
     (if name = pvcName then do {
        r \<leftarrow> checkOwner E W ownerRefs ns;
        case r of
          Ok _ \<Rightarrow> return (Ok (Some ns))
        | Err e \<Rightarrow> if IsNotFound (Some e) then claim_namespace E W ownerRefs pvcName claims else return (Err e)
        | Panic \<Rightarrow> return Panic
        | OutOfFuel \<Rightarrow> return OutOfFuel }
      else claim_namespace E W ownerRefs pvcName claims)"

fun volumes_namespace ::
  "'w env \<Rightarrow> 'w workload_api \<Rightarrow> OwnerReference list \<Rightarrow> (string \<times> string) list \<Rightarrow> Volume list \<Rightarrow> ('w, string result) io" where
  "volumes_namespace E W ownerRefs claims [] = return (Ok '''')"
| "volumes_namespace E W ownerRefs claims (volume # volumes) =
     (case vol_Source volume of
        ClaimVolume pvcName _ \<Rightarrow>
          bindE (claim_namespace E W ownerRefs pvcName claims) (\<lambda>found.
            case found of Some ns \<Rightarrow> return (Ok ns) | None \<Rightarrow> volumes_namespace E W ownerRefs claims volumes)
      | _ \<Rightarrow> volumes_namespace E W ownerRefs claims volumes)"

text \<open>The owners of the pod are an argument, \<open>None\<close> when the pod has no list of owners.\<close>

definition GetNamespace :: "'w env \<Rightarrow> 'w workload_api \<Rightarrow> Pod \<Rightarrow> OwnerReference list option \<Rightarrow> ('w, string result) io" where
  "GetNamespace E W pod ownerRefs =
     (if pod_Namespace pod \<noteq> [] then return (Ok (pod_Namespace pod))
      else case ownerRefs of
        None \<Rightarrow> return (Ok ''default'')
      | Some os \<Rightarrow> bindE (ListPersistentVolumes E) (\<lambda>pvs.
          volumes_namespace E W os (driver_claims E pvs) (Volumes (pod_Spec pod))))"

text \<open>\<open>GetVolumes\<close> of \<open>volume.go\<close>: whether the pod uses volumes of the driver, and which; the namespace is stored in the pod.\<close>

definition GetVolumes ::
  "'w env \<Rightarrow> 'w workload_api \<Rightarrow> Pod \<Rightarrow> OwnerReference list option \<Rightarrow> ('w, (bool \<times> PVPair list \<times> Pod) result) io" where
  "GetVolumes E W pod ownerRefs =
     bindE (GetNamespace E W pod ownerRefs) (\<lambda>namespace.
       let pod = pod\<lparr>pod_Namespace := namespace\<rparr> in
       bindE (getVol E pod namespace) (\<lambda>pairs. return (Ok (pairs \<noteq> [], pairs, pod))))"

definition ListPersistentVolumesByVolumeHandle :: "'w env \<Rightarrow> string \<Rightarrow> ('w, PersistentVolume list result) io" where
  "ListPersistentVolumesByVolumeHandle E volumeHandle =
     bindE (ListPersistentVolumes E) (\<lambda>pvs.
       return (Ok (filter (\<lambda>pv. case pv_CSI pv of Some csi \<Rightarrow> csi_VolumeHandle csi = volumeHandle | None \<Rightarrow> False) pvs)))"

subsection \<open>The client of the kubelet (kubelet_client.go)\<close>

record TLSConfig =
  CAFile :: string
  CAData :: string
  CertFile :: string
  CertData :: string
  KeyFile :: string
  KeyData :: string
  Insecure :: bool

record KubeletClientConfig =
  Address :: string
  Port :: int
  TLSClient :: TLSConfig
  BearerToken :: string
  HTTPTimeout :: int

record transport_Config =
  TLS :: TLSConfig
  tc_BearerToken :: string

text \<open>Functions of client-go.\<close>

record 'tls tls_api =
  HasCA :: "transport_Config \<Rightarrow> bool"
  tlsConfigFor :: "transport_Config \<Rightarrow> 'tls option result"
  wrappers :: "transport_Config \<Rightarrow> err option"

definition transportConfig :: "'tls tls_api \<Rightarrow> KubeletClientConfig \<Rightarrow> transport_Config" where
  "transportConfig T c =
     (let cfg = \<lparr>TLS = (TLSClient c)\<lparr>Insecure := False\<rparr>, tc_BearerToken = BearerToken c\<rparr>
      in if \<not> HasCA T cfg then cfg\<lparr>TLS := (TLS cfg)\<lparr>Insecure := True\<rparr>\<rparr> else cfg)"

text \<open>
  A transport: the configuration of its TLS connections, if it has its own, and the one its HTTP
  requests are wrapped with.
\<close>

record 'tls Transport =
  tr_tls :: "'tls option"
  tr_wrapped :: transport_Config

definition makeTransport :: "'tls tls_api \<Rightarrow> KubeletClientConfig \<Rightarrow> bool \<Rightarrow> 'tls Transport result" where
  "makeTransport T config insecureSkipTLSVerify =
     (let pre = transportConfig T config;
          pre = (if insecureSkipTLSVerify
                 then pre\<lparr>TLS := (TLS pre)\<lparr>Insecure := True, CAData := '''', CAFile := ''''\<rparr>\<rparr> else pre)
      in bindR (tlsConfigFor T pre) (\<lambda>tls.
         case wrappers T (transportConfig T config) of
           Some e \<Rightarrow> Err e
         | None \<Rightarrow> Ok \<lparr>tr_tls = tls, tr_wrapped = transportConfig T config\<rparr>))"

record 'tls KubeletClient =
  kl_host :: string
  kl_port :: int
  kl_transport :: "'tls Transport"
  kl_timeout :: int

definition serviceAccountTokenFile :: string where
  "serviceAccountTokenFile = ''/var/run/secrets/kubernetes.io/serviceaccount/token''"

text \<open>A product of durations wraps around at 64 bits.\<close>

definition seconds :: "int \<Rightarrow> int" where
  "seconds n = sint (word_of_int n * word_of_int second :: 64 word)"

definition kubelet_token :: "'w env \<Rightarrow> 'w start_api \<Rightarrow> ('w, string result) io" where
  "kubelet_token E A =
     (if su_getenv A ''KUBELET_CLIENT_CERT'' = [] \<and> su_getenv A ''KUBELET_CLIENT_KEY'' = [] then do {
        r \<leftarrow> ask (os_read_file E serviceAccountTokenFile);
        return (wrapR ''in cluster mode, find token failed: '' r) }
      else return (Ok ''''))"

definition kubelet_timeout :: "'w start_api \<Rightarrow> int result" where
  "kubelet_timeout A =
     (if su_getenv A ''KUBELET_TIMEOUT'' = [] then Ok 10
      else wrapR ''got error when parsing kubelet timeout: '' (Atoi (su_getenv A ''KUBELET_TIMEOUT'')))"

definition NewKubeletClient ::
  "'w env \<Rightarrow> 'w start_api \<Rightarrow> 'tls tls_api \<Rightarrow> string \<Rightarrow> int \<Rightarrow> ('w, 'tls KubeletClient result) io" where
  "NewKubeletClient E A T host port =
     bindE (kubelet_token E A) (\<lambda>token.
     bindE (return (kubelet_timeout A)) (\<lambda>timeout.
       let config = \<lparr>Address = host, Port = port, TLSClient = \<lparr>CAFile = '''', CAData = '''',
             CertFile = su_getenv A ''KUBELET_CLIENT_CERT'', CertData = '''', KeyFile = su_getenv A ''KUBELET_CLIENT_KEY'',
             KeyData = '''', Insecure = True\<rparr>, BearerToken = token, HTTPTimeout = seconds timeout\<rparr>
       in bindE (return (makeTransport T config (Insecure (TLSClient config)))) (\<lambda>trans.
         return (Ok \<lparr>kl_host = Address config, kl_port = Port config, kl_transport = trans,
           kl_timeout = HTTPTimeout config\<rparr>))))"

text \<open>The body of an answer and its pods are read by the standard library: \<open>get\<close> and \<open>unmarshal\<close>.\<close>

definition GetNodeRunningPods ::
  "(string \<Rightarrow> 'w \<Rightarrow> string result \<times> 'w) \<Rightarrow> (string \<Rightarrow> Pod list result) \<Rightarrow> 'tls KubeletClient \<Rightarrow> ('w, Pod list result) io" where
  "GetNodeRunningPods get unmarshal kc =
     bindE (ask (get (''https://'' @ kl_host kc @ '':'' @ int_str (kl_port kc) @ ''/pods/''))) (\<lambda>body.
       if body = ''Unauthorized'' then return (Err (MsgErr ''unauthorized''))
       else return (unmarshal body))"

subsection \<open>The port of the metrics (base.go)\<close>

definition is_digit :: "char \<Rightarrow> bool" where
  "is_digit c \<longleftrightarrow> c \<in> set ''0123456789''"

text \<open>
  The group of \<open>metrics=.*:([0-9]{1,6})\<close> in a text that starts with \<open>metrics=\<close>: the last colon of the first line
  that a digit follows.
\<close>

fun last_port :: "string \<Rightarrow> string option" where
  "last_port [] = None"
| "last_port (c # cs) =
     (case last_port cs of
        Some ds \<Rightarrow> Some ds
      | None \<Rightarrow>
          if c = CHR '':'' \<and> takeWhile is_digit cs \<noteq> [] then Some (take 6 (takeWhile is_digit cs)) else None)"

fun metrics_match :: "string \<Rightarrow> string option" where
  "metrics_match [] = None"
| "metrics_match (c # cs) =
     (case (if HasPrefix (c # cs) ''metrics='' then last_port (takeWhile (\<lambda>d. d \<noteq> CHR 0x0A) (drop 8 (c # cs))) else None) of
        Some ds \<Rightarrow> Some ds
      | None \<Rightarrow> metrics_match cs)"

definition genMetricsPort :: "DfsSetting \<Rightarrow> int" where
  "genMetricsPort s =
     fold (\<lambda>option port.
       if HasPrefix option ''metrics='' then
         (case metrics_match option of
            Some ds \<Rightarrow> (case uint_digits False 10 0 ds of Some n \<Rightarrow> n | None \<Rightarrow> 0)
          | None \<Rightarrow> port)
       else port) (MountOptions s) 9567"

subsection \<open>Calls that nothing makes (client.go, util.go, fs\_util.go)\<close>

text \<open>Calls of the API server and of the operating system that are not in the environment. An absent pod or job is not updated.\<close>

record 'w unused_api =
  un_pod_update :: "Pod \<Rightarrow> 'w \<Rightarrow> err option \<times> 'w"
  un_job_update :: "Job \<Rightarrow> 'w \<Rightarrow> err option \<times> 'w"
  un_sc_list :: "'w \<Rightarrow> string list result \<times> 'w"
  un_find_process :: "int \<Rightarrow> 'w \<Rightarrow> err option \<times> 'w"
  un_kill :: "int \<Rightarrow> 'w \<Rightarrow> err option \<times> 'w"

definition UpdatePod :: "'w unused_api \<Rightarrow> Pod option \<Rightarrow> ('w, err option) io" where
  "UpdatePod U pod = (case pod of None \<Rightarrow> return None | Some pod \<Rightarrow> ask (un_pod_update U pod))"

definition UpdateJob :: "'w unused_api \<Rightarrow> Job option \<Rightarrow> ('w, err option) io" where
  "UpdateJob U job = (case job of None \<Rightarrow> return None | Some job \<Rightarrow> ask (un_job_update U job))"

definition ListStorageClasses :: "'w unused_api \<Rightarrow> ('w, string list result) io" where
  "ListStorageClasses U = ask (un_sc_list U)"

definition KillProcess :: "'w unused_api \<Rightarrow> int \<Rightarrow> ('w, err option) io" where
  "KillProcess U pid = do {
     e \<leftarrow> ask (un_find_process U pid);
     case e of
       Some er \<Rightarrow> return (Some (MsgErr (''failed to find process: '' @ err_str er)))
     | None \<Rightarrow> do {
         e \<leftarrow> ask (un_kill U pid);
         return (case e of Some er \<Rightarrow> Some (MsgErr (''failed to kill process: '' @ err_str er)) | None \<Rightarrow> None) } }"

definition GetDfsID :: "string \<Rightarrow> string result" where
  "GetDfsID name = Ok ''''"

subsection \<open>The logger of a context (log.go)\<close>

text \<open>The value a context has under the key of the logger: a logger or anything else. \<open>WithName\<close> of klog is a parameter.\<close>

datatype 'l ctx_value = CtxLogger 'l | CtxOther

type_synonym 'l log_context = "'l ctx_value option"

definition WithLog :: "'l log_context \<Rightarrow> 'l \<Rightarrow> 'l log_context" where
  "WithLog parentCtx log = Some (CtxLogger log)"

text \<open>The type assertion panics on a value that is no logger.\<close>

definition GenLog :: "('l \<Rightarrow> string \<Rightarrow> 'l) \<Rightarrow> 'l log_context \<Rightarrow> 'l \<Rightarrow> string \<Rightarrow> 'l result" where
  "GenLog WithName ctx log name =
     bindR (case ctx of None \<Rightarrow> Ok log | Some (CtxLogger l) \<Rightarrow> Ok l | Some CtxOther \<Rightarrow> Panic) (\<lambda>log.
       Ok (if name \<noteq> [] then WithName log name else log))"

section \<open>Lemmas\<close>

subsection \<open>Namespaces\<close>

definition claims_of :: "Pod \<Rightarrow> string set" where
  "claims_of pod = {c. \<exists>v b. v \<in> set (Volumes (pod_Spec pod)) \<and> vol_Source v = ClaimVolume c b}"

lemma wp_checkOwner: "(\<And>es r. Q es r) \<Longrightarrow> wp trace (checkOwner E W ows ns) Q"
  by (induction ows) (auto simp: GetReplicaSet_def GetStatefulSet_def GetDaemonSet_def
    intro!: wp_bind wp_bindE wp_ask wp_client wp_return split: result.split)

lemma wp_claim_namespace:
  "wp trace (claim_namespace E W ows name claims) (\<lambda>es r. \<forall>ns. r = Ok (Some ns) \<longrightarrow> (name, ns) \<in> set claims)"
proof (induction claims)
  case (Cons claim claims)
  then show ?case
    by (cases claim) (auto intro!: wp_bind wp_checkOwner wp_return elim!: wp_mono split: result.split)
qed (auto intro: wp_return)

lemma wp_volumes_namespace:
  "wp trace (volumes_namespace E W ows claims vs) (\<lambda>es r. \<forall>ns. r = Ok ns \<longrightarrow> ns = [] \<or>
     (\<exists>name b v. (name, ns) \<in> set claims \<and> v \<in> set vs \<and> vol_Source v = ClaimVolume name b))"
proof (induction vs)
  case (Cons v vs)
  then show ?case
    by (fastforce intro!: wp_bindE wp_return wp_mono [OF wp_claim_namespace] elim!: wp_mono split: VolumeSource.split result.split option.split)
qed (auto intro: wp_return)

text \<open>Where the namespace of a pod comes from.\<close>

definition namespace_from :: "'w env \<Rightarrow> Pod \<Rightarrow> OwnerReference list option \<Rightarrow> event list \<Rightarrow> string \<Rightarrow> bool" where
  "namespace_from E pod ownerRefs es ns \<longleftrightarrow>
     (if pod_Namespace pod \<noteq> [] then ns = pod_Namespace pod
      else if ownerRefs = None then ns = ''default''
      else ns = [] \<or> (\<exists>pvs pv name. EvListPV (Ok pvs) \<in> set es \<and> pv \<in> set pvs \<and> driver_claim E pv = Some (name, ns) \<and>
        name \<in> claims_of pod))"

lemma GetNamespace_source:
  "wp trace (GetNamespace E W pod ownerRefs) (\<lambda>es r. \<forall>ns. r = Ok ns \<longrightarrow> namespace_from E pod ownerRefs es ns)"
  unfolding GetNamespace_def
  by (auto simp: namespace_from_def claims_of_def driver_claims_def List.map_filter_def intro!: wp_return wp_bindE wp_client wp_mono [OF wp_volumes_namespace]
      split: option.split result.split) blast

subsection \<open>The kubelet\<close>

text \<open>The client of the kubelet never checks the certificate of the kubelet.\<close>

lemma makeTransport_unchecked:
  "makeTransport T c True = Ok t \<Longrightarrow>
     \<exists>cfg. tlsConfigFor T cfg = Ok (tr_tls t) \<and> Insecure (TLS cfg) \<and> CAData (TLS cfg) = [] \<and> CAFile (TLS cfg) = [] \<and> tc_BearerToken cfg = BearerToken c"
  by (auto simp: makeTransport_def bindR_Ok_iff Let_def transportConfig_def split: option.splits if_splits)

lemma seconds_exact:
  assumes "\<bar>n\<bar> \<le> 9223372036"
  shows "seconds n = n * second"
proof -
  have "seconds n = sint (word_of_int (n * second) :: 64 word)" by (simp only: seconds_def wi_hom_mult)
  moreover have "- (2 ^ 63) \<le> n * second \<and> n * second < 2 ^ 63" using assms by (auto simp: second_def)
  ultimately show ?thesis by (simp add: sint_sbintrunc' signed_take_bit_int_eq_self del: of_int_mult)
qed

lemma seconds_wraps: "seconds 9223372037 < 0"
  by (simp add: seconds_def second_def)

subsection \<open>Metrics\<close>

lemma last_port_digits: "list_all is_digit ds \<Longrightarrow> last_port ds = None"
  by (induction ds) (auto simp: is_digit_def)

lemma last_port_host:
  assumes "list_all is_digit ds" "ds \<noteq> []" "length ds \<le> 6"
  shows "last_port (host @ CHR '':'' # ds) = Some ds"
proof (induction host)
  case Nil
  have tw: "takeWhile is_digit ds = ds" using assms by (subst takeWhile_eq_all_conv) (simp add: list_all_iff)
  show ?case using assms by (simp add: last_port_digits tw)
qed simp


lemma digit_char_val: "d < 10 \<Longrightarrow> digit_val (digit_char d) = Some (int d) \<and> is_digit (digit_char d) \<and> digit_char d \<noteq> CHR 0x0A"
  by (auto simp: less_Suc_eq numeral_eq_Suc digit_char_def digit_val_def is_digit_def)

lemma uint_digits_chars:
  "\<forall>d \<in> set ds. d < 10 \<Longrightarrow> uint_digits False 10 (int a) (map digit_char ds) = Some (int (foldl (\<lambda>a d. 10 * a + d) a ds))"
proof (induction ds arbitrary: a)
  case (Cons d ds)
  then have "uint_digits False 10 (int (10 * a + d)) (map digit_char ds) =
      Some (int (foldl (\<lambda>a d. 10 * a + d) (10 * a + d) ds))" by (intro Cons.IH) simp
  moreover have "int (10 * a + d) = int a * 10 + int d" by simp
  ultimately show ?case using Cons.prems digit_char_val [of d] by (simp add: mult.commute)
qed simp

lemma uint_digits_nat_str: "uint_digits False 10 0 (nat_str n) = Some (int n)"
proof -
  have "\<forall>d \<in> set (nat_digits n). d < 10" using nat_digits_lt by blast
  from uint_digits_chars [OF this, of 0] digits_val_nat_digits [of n] show ?thesis
    by (simp add: nat_str_def digits_val_def)
qed

lemma length_nat_digits: "n < 10 ^ Suc k \<Longrightarrow> length (nat_digits n) \<le> Suc k"
proof (induction k arbitrary: n)
  case 0
  then show ?case by (simp add: nat_digits.simps [of n])
next
  case (Suc k)
  then have "n div 10 < 10 ^ Suc k" by (simp add: less_mult_imp_div_less)
  with Suc.IH [of "n div 10"] show ?case by (subst nat_digits.simps) simp
qed

text \<open>The port of the last option for metrics is the one in its address.\<close>

lemma genMetricsPort_reads:
  assumes opts: "MountOptions s = opts @ [''metrics='' @ host @ '':'' @ nat_str n]"
    and host: "CHR 0x0A \<notin> set host" and n: "n < 1000000"
  shows "genMetricsPort s = int n"
proof -
  have ds: "\<forall>d \<in> set (nat_digits n). d < 10" using nat_digits_lt by blast
  have "list_all is_digit (nat_str n)" "CHR 0x0A \<notin> set (nat_str n)"
    using ds digit_char_val unfolding nat_str_def list_all_iff by (auto dest!: bspec) metis
  moreover have "nat_str n \<noteq> []" by (simp add: nat_str_def nat_digits.simps [of n])
  moreover have "length (nat_str n) \<le> 6" using length_nat_digits [of n 5] n by (simp add: nat_str_def)
  moreover from host calculation(2) have "takeWhile (\<lambda>d. d \<noteq> CHR 0x0A) (host @ '':'' @ nat_str n) = host @ '':'' @ nat_str n"
    by (subst takeWhile_eq_all_conv) auto
  ultimately have "last_port (takeWhile (\<lambda>d. d \<noteq> CHR 0x0A) (host @ '':'' @ nat_str n)) = Some (nat_str n)"
    by (simp only: append_Cons append_Nil) (rule last_port_host)
  then have "metrics_match (''metrics='' @ host @ '':'' @ nat_str n) = Some (nat_str n)"
    by (simp add: HasPrefix_def)
  then show ?thesis by (simp add: genMetricsPort_def opts uint_digits_nat_str HasPrefix_def)
qed

subsection \<open>Contexts and processes\<close>

text \<open>The logger that was put into a context is the one that is taken out, whatever the logger of the caller is.\<close>

lemma GenLog_WithLog: "GenLog WithName (WithLog ctx l) log name = Ok (if name \<noteq> [] then WithName l name else l)"
  by (simp add: GenLog_def WithLog_def)

lemma GenLog_panics_iff: "GenLog WithName ctx log name = Panic \<longleftrightarrow> ctx = Some CtxOther"
  by (auto simp: GenLog_def split: option.splits ctx_value.splits)

text \<open>Only a process that was found is killed.\<close>

lemma KillProcess_not_found:
  "un_find_process U pid (ext w) = (Some e, w') \<Longrightarrow>
     run_state (KillProcess U pid) w = (Some (MsgErr (''failed to find process: '' @ err_str e)), w\<lparr>ext := w'\<rparr>)"
  by (simp add: KillProcess_def run_ask)

end
