(* ===== verification/CsiCommon.thy ===== *)
theory CsiCommon
  imports Startup
begin

text \<open>
  The generic CSI server of \<open>pkg/csicommon\<close> and the version of \<open>util/version.go\<close>: the description of a driver, the default
  answers of the three services and the server that serves them. No other package uses it.
\<close>

section \<open>Definitions\<close>

subsection \<open>Versions (version.go)\<close>

record VersionInfo =
  DriverVersion :: string
  GitCommit :: string
  BuildDate :: string
  GoVersion :: string
  Compiler :: string
  Platform :: string

text \<open>What the linker sets and what the runtime knows of itself.\<close>

record build_info =
  driverVersion :: string
  gitCommit :: string
  buildDate :: string
  rt_Version :: string
  rt_Compiler :: string
  rt_GOOS :: string
  rt_GOARCH :: string

definition zero_VersionInfo :: VersionInfo where
  "zero_VersionInfo = \<lparr>DriverVersion = '''', GitCommit = '''', BuildDate = '''', GoVersion = '''', Compiler = '''', Platform = ''''\<rparr>"

definition GetVersion :: "build_info \<Rightarrow> VersionInfo" where
  "GetVersion b = \<lparr>DriverVersion = driverVersion b, GitCommit = gitCommit b, BuildDate = buildDate b,
     GoVersion = rt_Version b, Compiler = rt_Compiler b, Platform = rt_GOOS b @ ''/'' @ rt_GOARCH b\<rparr>"

definition GetVersionJSON :: "(VersionInfo \<Rightarrow> string result) \<Rightarrow> build_info \<Rightarrow> string result" where
  "GetVersionJSON marshal b = marshal (GetVersion b)"

subsection \<open>The driver (driver.go)\<close>

datatype rpc_type = RPC_UNKNOWN | CREATE_DELETE_VOLUME | PUBLISH_UNPUBLISH_VOLUME | LIST_VOLUMES | GET_CAPACITY
  | CREATE_DELETE_SNAPSHOT | LIST_SNAPSHOTS | CLONE_VOLUME | PUBLISH_READONLY | EXPAND_VOLUME

type_synonym access_mode = nat

record CSIDriver =
  drv_Name :: string
  drv_NodeID :: string
  drv_Version :: VersionInfo
  drv_cap :: "rpc_type list"
  drv_vc :: "access_mode list"

text \<open>A driver without a name, a node or a version is the nil pointer.\<close>

definition NewCSIDriver :: "string \<Rightarrow> VersionInfo \<Rightarrow> string \<Rightarrow> CSIDriver option" where
  "NewCSIDriver name version nodeID =
     (if name = [] then None else if nodeID = [] then None
      else if version = zero_VersionInfo then None
      else Some \<lparr>drv_Name = name, drv_NodeID = nodeID, drv_Version = version, drv_cap = [], drv_vc = []\<rparr>)"

definition ValidateControllerServiceRequest :: "(rpc_type \<Rightarrow> string) \<Rightarrow> CSIDriver \<Rightarrow> rpc_type \<Rightarrow> unit result" where
  "ValidateControllerServiceRequest show_rpc d c =
     (if c = RPC_UNKNOWN then Ok ()
      else if c \<in> set (drv_cap d) then Ok ()
      else Err (GrpcErr InvalidArgument (show_rpc c)))"

definition AddControllerServiceCapabilities :: "rpc_type list \<Rightarrow> CSIDriver \<Rightarrow> CSIDriver" where
  "AddControllerServiceCapabilities cl d = d\<lparr>drv_cap := cl\<rparr>"

definition AddVolumeCapabilityAccessModes :: "access_mode list \<Rightarrow> CSIDriver \<Rightarrow> access_mode list \<times> CSIDriver" where
  "AddVolumeCapabilityAccessModes vc d = (vc, d\<lparr>drv_vc := vc\<rparr>)"

definition GetVolumeCapabilityAccessModes :: "CSIDriver \<Rightarrow> access_mode list" where
  "GetVolumeCapabilityAccessModes d = drv_vc d"

subsection \<open>Default answers (controllerserver-default.go, nodeserver-default.go, identityserver-default.go)\<close>

datatype default_controller_call = Default_CreateVolume | Default_DeleteVolume | Default_ControllerPublishVolume
  | Default_ControllerUnpublishVolume | Default_ValidateVolumeCapabilities | Default_ListVolumes | Default_GetCapacity
  | Default_CreateSnapshot | Default_DeleteSnapshot | Default_ListSnapshots | Default_ControllerExpandVolume
  | Default_ControllerGetVolume

definition default_controller :: "default_controller_call \<Rightarrow> unit result" where
  "default_controller c = Err (GrpcErr Unimplemented '''')"

text \<open>A server whose driver is nil panics when it reads a field of it.\<close>

definition default_ControllerGetCapabilities :: "CSIDriver option \<Rightarrow> rpc_type list result" where
  "default_ControllerGetCapabilities d = (case d of None \<Rightarrow> Panic | Some d \<Rightarrow> Ok (drv_cap d))"

datatype default_node_call = Default_NodePublishVolume | Default_NodeUnpublishVolume | Default_NodeGetVolumeStats
  | Default_NodeStageVolume | Default_NodeUnstageVolume | Default_NodeExpandVolume

fun default_node :: "default_node_call \<Rightarrow> unit result" where
  "default_node Default_NodePublishVolume = Err (GrpcErr Unimplemented '''')"
| "default_node Default_NodeUnpublishVolume = Err (GrpcErr Unimplemented '''')"
| "default_node Default_NodeGetVolumeStats = Err (GrpcErr Unimplemented '''')"
| "default_node Default_NodeStageVolume = Panic"
| "default_node Default_NodeUnstageVolume = Panic"
| "default_node Default_NodeExpandVolume = Panic"

definition default_NodeGetInfo :: "CSIDriver option \<Rightarrow> string result" where
  "default_NodeGetInfo d = (case d of None \<Rightarrow> Panic | Some d \<Rightarrow> Ok (drv_NodeID d))"

definition default_NodeGetCapabilities :: "rpc_type list result" where
  "default_NodeGetCapabilities = Ok [RPC_UNKNOWN]"

text \<open>The name and the version of the plugin.\<close>

definition default_GetPluginInfo :: "CSIDriver option \<Rightarrow> (string \<times> string) result" where
  "default_GetPluginInfo d =
     (case d of
        None \<Rightarrow> Panic
      | Some d \<Rightarrow>
          if drv_Name d = [] then Err (GrpcErr Unavailable ''Driver name not configured'')
          else if drv_Version d = zero_VersionInfo then Err (GrpcErr Unavailable ''Driver is missing version'')
          else Ok (drv_Name d, DriverVersion (drv_Version d)))"

definition default_Probe :: "unit result" where
  "default_Probe = Ok ()"

definition default_GetPluginCapabilities :: "plugin_capability list result" where
  "default_GetPluginCapabilities = Ok [CONTROLLER_SERVICE]"

subsection \<open>The server (utils.go, server.go)\<close>

definition csi_ParseEndpoint :: "string \<Rightarrow> (string \<times> string) result" where
  "csi_ParseEndpoint ep =
     (if HasPrefix (map lower ep) ''unix://'' \<or> HasPrefix (map lower ep) ''tcp://'' then
        (case SplitN2 ep ''://'' of
           [proto, addr] \<Rightarrow> if addr \<noteq> [] then Ok (proto, addr) else Err (MsgErr (''Invalid endpoint: '' @ ep))
         | _ \<Rightarrow> Panic)
      else Err (MsgErr (''Invalid endpoint: '' @ ep)))"

text \<open>\<open>klog.Fatal\<close> ends the process with status 255. The error of serving is not read.\<close>

definition csi_serve :: "'w env \<Rightarrow> 'w start_api \<Rightarrow> string \<Rightarrow> ('w, unit proc) io" where
  "csi_serve E A endpoint =
     (case csi_ParseEndpoint endpoint of
        Ok (proto, addr) \<Rightarrow>
          bindP (if proto = ''unix'' then do {
                   e \<leftarrow> call (os_remove E (''/'' @ addr)) (EvRemove (''/'' @ addr));
                   return (if e \<noteq> None \<and> \<not> IsNotExist e then Exits 255 else Runs (''/'' @ addr)) }
                 else return (Runs addr)) (\<lambda>addr. do {
            e \<leftarrow> ask (su_listen A proto addr);
            if e \<noteq> None then return (Exits 255)
            else do { _ \<leftarrow> ask (su_serve A); return (Runs ()) } })
      | Err _ \<Rightarrow> return (Exits 255)
      | _ \<Rightarrow> return Crashes)"

text \<open>\<open>Start\<close> serves in a goroutine and \<open>Wait\<close> waits on a counter that nothing lowers.\<close>

record grpc_server =
  wg :: nat
  serving :: "string list"

definition server_Start :: "string \<Rightarrow> grpc_server \<Rightarrow> grpc_server" where
  "server_Start endpoint s = s\<lparr>wg := Suc (wg s), serving := serving s @ [endpoint]\<rparr>"

definition server_Wait_returns :: "grpc_server \<Rightarrow> bool" where
  "server_Wait_returns s \<longleftrightarrow> wg s = 0"

definition Run_PublishServer :: "string \<Rightarrow> grpc_server" where
  "Run_PublishServer endpoint = server_Start endpoint \<lparr>wg = 0, serving = []\<rparr>"

section \<open>Lemmas\<close>

lemma Validate_after_Add:
  "ValidateControllerServiceRequest sh (AddControllerServiceCapabilities cl d) c = Ok () \<longleftrightarrow> c = RPC_UNKNOWN \<or> c \<in> set cl"
  by (simp add: ValidateControllerServiceRequest_def AddControllerServiceCapabilities_def)

text \<open>A driver that \<open>NewCSIDriver\<close> makes is complete: every default answer about it is a value.\<close>

lemma NewCSIDriver_complete:
  "NewCSIDriver name version nodeID = Some d \<Longrightarrow>
     default_GetPluginInfo (Some d) = Ok (name, DriverVersion version) \<and> default_NodeGetInfo (Some d) = Ok nodeID \<and> nodeID \<noteq> []"
  by (auto simp: NewCSIDriver_def default_GetPluginInfo_def default_NodeGetInfo_def split: if_splits)

text \<open>Once a server was started, waiting for it never ends, whatever becomes of the serving.\<close>

lemma Run_PublishServer_waits: "\<not> server_Wait_returns (Run_PublishServer endpoint)"
  by (simp add: Run_PublishServer_def server_Start_def server_Wait_returns_def)

text \<open>The endpoint has a second part whenever its scheme was recognized.\<close>

lemma lower_fixed: "lower c = d \<Longrightarrow> (of_char d :: int) < 97 \<Longrightarrow> c = d"
  by (auto simp: lower_def split: if_splits)

lemma Contains_after_scheme: "HasPrefix (map lower ep) (p @ ''://'') \<Longrightarrow> Contains ep ''://''"
proof (induction p arbitrary: ep)
  case Nil
  then obtain a b c r where "ep = a # b # c # r" "lower a = CHR '':''" "lower b = CHR ''/''" "lower c = CHR ''/''"
    by (cases ep; cases "tl ep"; cases "tl (tl ep)") (auto simp: HasPrefix_def)
  then show ?case using lower_fixed [of a] lower_fixed [of b] lower_fixed [of c] by (simp add: HasPrefix_def)
next
  case (Cons q p)
  then obtain c cs where "ep = c # cs" "HasPrefix (map lower cs) (p @ ''://'')"
    by (cases ep) (auto simp: HasPrefix_def)
  with Cons.IH show ?case by simp
qed

lemma csi_ParseEndpoint_total: "csi_ParseEndpoint ep \<noteq> Panic"
proof -
  have "Contains ep ''://''" if "HasPrefix (map lower ep) ''unix://'' \<or> HasPrefix (map lower ep) ''tcp://''"
    using that Contains_after_scheme [of ep "''unix''"] Contains_after_scheme [of ep "''tcp''"] by auto
  then show ?thesis using Index_neg_iff [of ep "''://''"] by (auto simp: csi_ParseEndpoint_def SplitN2_def Let_def)
qed

end
