(* ===== verification/Lifecycle.thy ===== *)
theory Lifecycle
  imports Services PodDriver
begin

text \<open>
  The life of mount pods across the operations that share them. The pods in the API server are seen through
  their annotations and whether they are being deleted; the laws of the API server are the predicate
  \<open>api_server\<close>. The critical sections of publishing (\<open>dmount_locked\<close>), unpublishing (\<open>umount_and_release\<close>) and of the reconciler
  (\<open>check_annotations_locked\<close>), which exclude each other by the lock of the mount pod, are the steps of a system, in
  which a published target never loses its mount pod.
\<close>

section \<open>Mount pods in the API server\<close>

record pod_view =
  mp_annos :: "string smap"
  mp_deleting :: bool

type_synonym pods = "string \<times> string \<Rightarrow> pod_view option"

definition pod_view_of :: "Pod \<Rightarrow> pod_view" where
  "pod_view_of pod = \<lparr>mp_annos = annos pod, mp_deleting = (pod_DeletionTimestamp pod \<noteq> None)\<rparr>"

text \<open>
  What the patches of the driver do to the annotations: a JSON patch replaces the map or removes a key,
  a merge patch adds keys; patches of labels and finalizers leave annotations alone.
\<close>

fun patch_op :: "PatchOp \<Rightarrow> string smap \<Rightarrow> string smap" where
  "patch_op (PatchMapValue op path m) a = (if op = ''replace'' \<and> path = ''/metadata/annotations'' then m else a)"
| "patch_op (PatchDelValue op path) a =
     (if op = ''remove'' \<and> HasPrefix path ''/metadata/annotations/'' then mdel a (drop 22 path) else a)"
| "patch_op (PatchListValue op path xs) a = a"

fun patch_annos :: "Patch \<Rightarrow> string smap \<Rightarrow> string smap" where
  "patch_annos (JSONPatch ops) a = fold patch_op ops a"
| "patch_annos (StrategicMergePatch what m) a = (if what = ''annotations'' then mputs a m else a)"

text \<open>
  The API server: a pod that is read is the pod it has, under the name that was asked for; what is not found
  is not there; a successful patch changes the pod by the patch, a failed one nothing; a pod is created only
  where none is, and a deleted pod is gone or being deleted.
\<close>

definition reads_pods :: "'w env \<Rightarrow> ('w \<Rightarrow> pods) \<Rightarrow> bool" where
  "reads_pods E st \<longleftrightarrow> (\<forall>ns n w. st (snd (k_pod_get E ns n w)) = st w \<and>
     (case fst (k_pod_get E ns n w) of
        Ok (Some p) \<Rightarrow> pod_Name p = n \<and> pod_Namespace p = ns \<and> wf_map (annos p) \<and> st w (ns, n) = Some (pod_view_of p)
      | Err e \<Rightarrow> IsNotFound (Some e) \<longrightarrow> st w (ns, n) = None
      | _ \<Rightarrow> True))"

definition patches_pods :: "'w env \<Rightarrow> ('w \<Rightarrow> pods) \<Rightarrow> bool" where
  "patches_pods E st \<longleftrightarrow> (\<forall>ns n d w.
     case fst (k_pod_patch E ns n d w) of
       None \<Rightarrow> (\<exists>v. st w (ns, n) = Some v \<and>
         st (snd (k_pod_patch E ns n d w)) = (st w)((ns, n) \<mapsto> v\<lparr>mp_annos := patch_annos d (mp_annos v)\<rparr>))
     | Some _ \<Rightarrow> st (snd (k_pod_patch E ns n d w)) = st w)"

definition creates_pods :: "'w env \<Rightarrow> ('w \<Rightarrow> pods) \<Rightarrow> bool" where
  "creates_pods E st \<longleftrightarrow> (\<forall>pod w.
     case fst (k_pod_create E pod w) of
       Ok _ \<Rightarrow> st w (pod_Namespace pod, pod_Name pod) = None \<and> st (snd (k_pod_create E pod w)) =
         (st w)((pod_Namespace pod, pod_Name pod) \<mapsto> \<lparr>mp_annos = annos pod, mp_deleting = False\<rparr>)
     | _ \<Rightarrow> st (snd (k_pod_create E pod w)) = st w)"

definition deletes_pods :: "'w env \<Rightarrow> ('w \<Rightarrow> pods) \<Rightarrow> bool" where
  "deletes_pods E st \<longleftrightarrow> (\<forall>ns n w.
     case fst (k_pod_delete E ns n w) of
       None \<Rightarrow> st (snd (k_pod_delete E ns n w)) = (st w)((ns, n) := None) \<or>
         (\<exists>v. st w (ns, n) = Some v \<and> st (snd (k_pod_delete E ns n w)) = (st w)((ns, n) \<mapsto> v\<lparr>mp_deleting := True\<rparr>))
     | Some _ \<Rightarrow> st (snd (k_pod_delete E ns n w)) = st w)"

text \<open>Calls about anything else leave the pods alone.\<close>

definition quiet_call :: "('w \<Rightarrow> pods) \<Rightarrow> ('w \<Rightarrow> 'r \<times> 'w) \<Rightarrow> bool" where
  "quiet_call st f \<longleftrightarrow> (\<forall>w. st (snd (f w)) = st w)"

definition other_calls_quiet :: "'w env \<Rightarrow> ('w \<Rightarrow> pods) \<Rightarrow> bool" where
  "other_calls_quiet E st \<longleftrightarrow>
     (\<forall>ns ls fs. quiet_call st (k_pod_list E ns ls fs)) \<and> (\<forall>ls. quiet_call st (k_node_list E ls)) \<and>
     (\<forall>ns n. quiet_call st (k_secret_get E ns n)) \<and> (\<forall>s. quiet_call st (k_secret_create E s)) \<and>
     (\<forall>s. quiet_call st (k_secret_update E s)) \<and> (\<forall>ns n. quiet_call st (k_secret_delete E ns n)) \<and>
     (\<forall>s. quiet_call st (k_service_create E s)) \<and> (\<forall>ns n. quiet_call st (k_service_delete E ns n)) \<and>
     (\<forall>ns n. quiet_call st (k_configmap_create E ns n)) \<and>
     (\<forall>n. quiet_call st (k_pv_get E n)) \<and> (\<forall>ns n. quiet_call st (k_pvc_get E ns n)) \<and>
     (\<forall>p. quiet_call st (os_stat E p)) \<and> (\<forall>p m. quiet_call st (os_mkdir_all E p m)) \<and>
     (\<forall>p. quiet_call st (os_umount_lazy E p)) \<and> (\<forall>n. quiet_call st (os_intn E n)) \<and>
     (\<forall>p. quiet_call st (os_port_free E p)) \<and> quiet_call st (os_now E) \<and> quiet_call st (os_wait E) \<and> quiet_call st (os_ctx_err E) \<and>
     (\<forall>p. quiet_call st (mnt_path_exists E p)) \<and> (\<forall>p. quiet_call st (mnt_cleanup E p))"

definition api_server :: "'w env \<Rightarrow> ('w \<Rightarrow> pods) \<Rightarrow> bool" where
  "api_server E st \<longleftrightarrow>
     reads_pods E st \<and> patches_pods E st \<and> creates_pods E st \<and> deletes_pods E st \<and> other_calls_quiet E st"

section \<open>A logic of pods\<close>

text \<open>Started with the pods \<open>ps\<close>, the result and the pods afterwards have the property.\<close>

definition hwp :: "('w \<Rightarrow> pods) \<Rightarrow> pods \<Rightarrow> ('w, 'a) io \<Rightarrow> ('a \<Rightarrow> pods \<Rightarrow> bool) \<Rightarrow> bool" where
  "hwp st ps m Q \<longleftrightarrow> (\<forall>s. st (ext s) = ps \<longrightarrow> Q (fst (run_state m s)) (st (ext (snd (run_state m s)))))"

lemma hwpD: "hwp st (st (ext s)) m Q \<Longrightarrow> run_state m s = (r, s') \<Longrightarrow> Q r (st (ext s'))"
  by (auto simp: hwp_def)

lemma hwp_mono: "hwp st ps m Q \<Longrightarrow> (\<And>r qs. Q r qs \<Longrightarrow> R r qs) \<Longrightarrow> hwp st ps m R"
  by (auto simp: hwp_def)

lemma hwp_return: "Q x ps \<Longrightarrow> hwp st ps (return x) Q"
  by (simp add: hwp_def)

lemma hwp_bind: "hwp st ps m (\<lambda>x qs. hwp st qs (f x) Q) \<Longrightarrow> hwp st ps (State_Monad.bind m f) Q"
  by (simp add: hwp_def case_prod_unfold)

lemma hwp_bindE:
  assumes "hwp st ps m (\<lambda>r qs. case r of Ok x \<Rightarrow> hwp st qs (f x) Q | Err e \<Rightarrow> Q (Err e) qs | Panic \<Rightarrow> Q Panic qs
    | OutOfFuel \<Rightarrow> Q OutOfFuel qs)"
  shows "hwp st ps (bindE m f) Q"
  unfolding bindE_def by (rule hwp_bind, rule hwp_mono [OF assms]) (auto intro: hwp_return split: result.splits)

lemma hwp_emit: "Q () ps \<Longrightarrow> hwp st ps (emit ev) Q"
  by (simp add: hwp_def run_emit)

text \<open>A part of the program that leaves the pods alone.\<close>

abbreviation still :: "('w \<Rightarrow> pods) \<Rightarrow> ('w, 'a) io \<Rightarrow> bool" where
  "still st m \<equiv> keeps (\<lambda>s. st (ext s)) m"

lemma hwp_still: "still st m \<Longrightarrow> (\<And>r. Q r ps) \<Longrightarrow> hwp st ps m Q"
  by (simp add: hwp_def keeps_def)

lemma hwp_RetryOnConflict:
  assumes "hwp st ps fn (\<lambda>r qs. (IsConflict (err_of r) \<longrightarrow> qs = ps) \<and> Q r qs)"
  shows "hwp st ps (RetryOnConflict n fn) Q"
proof (induction n)
  case 0
  from assms show ?case by (auto elim: hwp_mono)
next
  case (Suc n)
  then show ?case
    by (auto intro!: hwp_bind hwp_emit hwp_return intro: hwp_mono [OF assms] split: if_splits)
qed

section \<open>Calls\<close>

lemma still_call: "quiet_call st f \<Longrightarrow> still st (call f ev)"
  by (simp add: keeps_def run_call quiet_call_def)

lemma still_emit: "still st (emit ev)"
  by (simp add: keeps_def run_emit)

lemma still_gets: "still st (gets f)"
  by (simp add: keeps_def)

lemmas still_splits = if_split option.split result.split prod.split list.split wait_end.split

lemmas still_steps = keeps_bind keeps_bindE keeps_return still_emit keeps_RetryOnConflict still_gets

lemma still_client:
  assumes "api_server E st"
  shows "still st (ListPod E ns ls fs)" "still st (ListNode E ls)" "still st (GetSecret E n ns)"
    "still st (CreateSecret E sec)" "still st (UpdateSecret E sec)" "still st (DeleteSecret E n ns)"
    "still st (DeleteService E n ns)" "still st (isPortAvailable E p)"
    "still st (GetPersistentVolume E n)" "still st (GetPersistentVolumeClaim E n ns)"
  using assms unfolding client_defs api_server_def other_calls_quiet_def by (auto intro!: still_call)

lemma still_os:
  assumes "api_server E st"
  shows "still st (call (os_stat E p) ev1)" "still st (call (os_mkdir_all E p mode) ev2)" "still st (call (os_umount_lazy E p) ev3)"
    "still st (call (os_intn E n) ev4)" "still st (call (os_now E) ev5)" "still st (call (os_wait E) ev6)"
    "still st (call (mnt_path_exists E p) ev7)" "still st (call (mnt_cleanup E p) ev8)"
    "still st (call (k_service_create E svc) ev9)" "still st (call (k_configmap_create E ns n') ev10)"
    "still st (call (os_ctx_err E) ev11)"
  using assms unfolding api_server_def other_calls_quiet_def by (auto intro!: still_call)

lemmas still_rules = still_steps still_client still_os

lemma still_GetPod: "api_server E st \<Longrightarrow> still st (GetPod E n ns)"
  unfolding GetPod_def
  by (rule still_call) (auto simp: api_server_def reads_pods_def quiet_call_def case_prod_unfold)

lemma hwp_call: "(\<And>w. st w = ps \<Longrightarrow> Q (fst (f w)) (st (snd (f w)))) \<Longrightarrow> hwp st ps (call f ev) Q"
  by (simp add: hwp_def run_call)

lemma hwp_GetPod:
  assumes "api_server E st"
    and "\<And>p. pod_Name p = n \<Longrightarrow> pod_Namespace p = ns \<Longrightarrow> wf_map (annos p) \<Longrightarrow> ps (ns, n) = Some (pod_view_of p) \<Longrightarrow> Q (Ok p) ps"
    and "\<And>e. (IsNotFound (Some e) \<Longrightarrow> ps (ns, n) = None) \<Longrightarrow> Q (Err e) ps" and "Q Panic ps" and "Q OutOfFuel ps"
  shows "hwp st ps (GetPod E n ns) Q"
proof -
  have "reads_pods E st" using assms(1) by (simp add: api_server_def)
  then have ans: "st (snd (k_pod_get E ns n w)) = st w \<and> (case fst (k_pod_get E ns n w) of
        Ok (Some p) \<Rightarrow> pod_Name p = n \<and> pod_Namespace p = ns \<and> wf_map (annos p) \<and> st w (ns, n) = Some (pod_view_of p)
      | Err e \<Rightarrow> IsNotFound (Some e) \<longrightarrow> st w (ns, n) = None
      | _ \<Rightarrow> True)" for w unfolding reads_pods_def by blast
  have nil: "Q (Err (MsgErr m)) ps" for m by (rule assms(3)) (simp add: IsNotFound_def)
  show ?thesis
    unfolding GetPod_def
  proof (rule hwp_call)
    fix w assume w: "st w = ps"
    show "Q (fst ((case k_pod_get E ns n w of (r, w') \<Rightarrow>
        ((case r of Ok None \<Rightarrow> Err (MsgErr (''retrieved pod is nil for name: '' @ n @ '' in namespace: '' @ ns))
          | Ok (Some p) \<Rightarrow> Ok p | Err e \<Rightarrow> Err e | Panic \<Rightarrow> Panic | OutOfFuel \<Rightarrow> OutOfFuel), w'))))
      (st (snd (case k_pod_get E ns n w of (r, w') \<Rightarrow>
        ((case r of Ok None \<Rightarrow> Err (MsgErr (''retrieved pod is nil for name: '' @ n @ '' in namespace: '' @ ns))
          | Ok (Some p) \<Rightarrow> Ok p | Err e \<Rightarrow> Err e | Panic \<Rightarrow> Panic | OutOfFuel \<Rightarrow> OutOfFuel), w'))))"
      using ans [of w] w assms(2-) nil
      by (cases "fst (k_pod_get E ns n w)") (auto simp: case_prod_unfold split: option.splits)
  qed
qed

lemma patches_podsD:
  assumes "patches_pods E st"
  shows "fst (k_pod_patch E ns n d w) = None \<Longrightarrow> \<exists>v. st w (ns, n) = Some v \<and>
      st (snd (k_pod_patch E ns n d w)) = (st w)((ns, n) \<mapsto> v\<lparr>mp_annos := patch_annos d (mp_annos v)\<rparr>)"
    and "fst (k_pod_patch E ns n d w) = Some e \<Longrightarrow> st (snd (k_pod_patch E ns n d w)) = st w"
  using assms [unfolded patches_pods_def, rule_format, where ns = ns and n = n and d = d and w = w] by auto

text \<open>What is left of a pod that was deleted.\<close>

definition deleted_from :: "pod_view option \<Rightarrow> pod_view option \<Rightarrow> bool" where
  "deleted_from v x \<longleftrightarrow> x = None \<or> x = map_option (mp_deleting_update (\<lambda>_. True)) v"

lemma deletes_podsD:
  assumes "deletes_pods E st"
  shows "fst (k_pod_delete E ns n w) = None \<Longrightarrow> 
      \<exists>x. deleted_from (st w (ns, n)) x \<and> st (snd (k_pod_delete E ns n w)) = (st w)((ns, n) := x)"
    and "fst (k_pod_delete E ns n w) = Some e \<Longrightarrow> st (snd (k_pod_delete E ns n w)) = st w"
  using assms [unfolded deletes_pods_def, rule_format, where ns = ns and n = n and w = w] by (auto simp: deleted_from_def)

lemma hwp_PatchPod:
  assumes "api_server E st"
    and "\<And>v. ps (pod_Namespace pod, pod_Name pod) = Some v \<Longrightarrow>
      Q None (ps((pod_Namespace pod, pod_Name pod) \<mapsto> v\<lparr>mp_annos := patch_annos d (mp_annos v)\<rparr>))"
    and "\<And>e. Q (Some e) ps"
  shows "hwp st ps (PatchPod E pod d) Q"
  unfolding PatchPod_def
proof (rule hwp_call)
  fix w assume "st w = ps"
  moreover have "patches_pods E st" using assms(1) by (simp add: api_server_def)
  ultimately show "Q (fst (k_pod_patch E (pod_Namespace pod) (pod_Name pod) d w))
      (st (snd (k_pod_patch E (pod_Namespace pod) (pod_Name pod) d w)))"
    using assms(2,3) patches_podsD [of E st "pod_Namespace pod" "pod_Name pod" d w]
    by (cases "fst (k_pod_patch E (pod_Namespace pod) (pod_Name pod) d w)") auto
qed

lemma hwp_DeletePod:
  assumes "api_server E st"
    and "\<And>x. deleted_from (ps (pod_Namespace pod, pod_Name pod)) x \<Longrightarrow> Q None (ps((pod_Namespace pod, pod_Name pod) := x))"
    and "\<And>e. Q (Some e) ps"
  shows "hwp st ps (DeletePod E pod) Q"
  unfolding DeletePod_def
proof (rule hwp_call)
  fix w assume "st w = ps"
  moreover have "deletes_pods E st" using assms(1) by (simp add: api_server_def)
  ultimately show "Q (fst (k_pod_delete E (pod_Namespace pod) (pod_Name pod) w))
      (st (snd (k_pod_delete E (pod_Namespace pod) (pod_Name pod) w)))"
    using assms(2,3) deletes_podsD [of E st "pod_Namespace pod" "pod_Name pod" w]
    by (cases "fst (k_pod_delete E (pod_Namespace pod) (pod_Name pod) w)") auto
qed

lemma still_random_port: "api_server E st \<Longrightarrow> still st (random_port E n)"
  by (induction n) (auto intro!: still_rules simp: Let_def)

lemma still_createSerivce: "api_server E st \<Longrightarrow> still st (createSerivce E a b c d)"
  unfolding createSerivce_def by (auto intro!: still_rules simp: Let_def split: still_splits)

lemma still_findAvailableNodePort: "api_server E st \<Longrightarrow> still st (findAvailableNodePort E p)"
  unfolding findAvailableNodePort_def by (auto intro!: still_rules still_random_port)

lemma hwp_CreatePod:
  assumes api: "api_server E st"
    and ok: "\<And>r. ps (pod_Namespace pod, pod_Name pod) = None \<Longrightarrow>
      Q r (ps((pod_Namespace pod, pod_Name pod) \<mapsto> \<lparr>mp_annos = annos pod, mp_deleting = False\<rparr>))"
    and fails: "\<And>r. (\<forall>x. r \<noteq> Ok x) \<Longrightarrow> Q r ps"
  shows "hwp st ps (CreatePod E pod) Q"
proof -
  have create: "creates_pods E st" using api by (simp add: api_server_def)
  have tail: "hwp st qs (case r of
       Ok mntPod \<Rightarrow> do {
         p \<leftarrow> findAvailableNodePort E (generateNodePort (pod_Name pod));
         case p of
           Ok metricPort \<Rightarrow> do {
             s \<leftarrow> createSerivce E (mget (NodeSelector (pod_Spec pod)) ''kubernetes.io/hostname'')
                   (pod_Namespace pod) (pod_Name pod) metricPort;
             return (if s = Panic then Panic else Ok mntPod) }
         | _ \<Rightarrow> return Panic }
     | _ \<Rightarrow> return r) Q" if "\<And>r'. (\<exists>x. r = Ok x) \<or> r' = r \<Longrightarrow> Q r' qs" for r qs
    using that by (auto intro!: hwp_bind hwp_return hwp_still [OF still_findAvailableNodePort [OF api]]
        hwp_still [OF still_createSerivce [OF api]] split: result.split)
  show ?thesis
    unfolding CreatePod_def
  proof (rule hwp_bind, rule hwp_call, rule tail)
    fix w r' assume w: "st w = ps" and r': "(\<exists>x. fst (k_pod_create E pod w) = Ok x) \<or> r' = fst (k_pod_create E pod w)"
    from create have "case fst (k_pod_create E pod w) of
       Ok _ \<Rightarrow> st w (pod_Namespace pod, pod_Name pod) = None \<and> st (snd (k_pod_create E pod w)) =
         (st w)((pod_Namespace pod, pod_Name pod) \<mapsto> \<lparr>mp_annos = annos pod, mp_deleting = False\<rparr>)
     | _ \<Rightarrow> st (snd (k_pod_create E pod w)) = st w" unfolding creates_pods_def by blast
    with w r' ok fails show "Q r' (st (snd (k_pod_create E pod w)))" by (cases "fst (k_pod_create E pod w)") auto
  qed
qed

section \<open>References of living pods\<close>

text \<open>A living pod holds the reference of a target.\<close>

definition alive :: "pods \<Rightarrow> string \<Rightarrow> string \<Rightarrow> string \<Rightarrow> bool" where
  "alive ps ns n t \<longleftrightarrow> (\<exists>v. ps (ns, n) = Some v \<and> \<not> mp_deleting v \<and> t \<in> refs (mp_annos v))"

text \<open>The keys of the targets that are used hold nothing but these targets.\<close>

definition sane_annos :: "string set \<Rightarrow> string smap \<Rightarrow> bool" where
  "sane_annos T a \<longleftrightarrow> (\<forall>t \<in> T. map_of a (GetReferenceKey t) \<in> {None, Some t})"

definition sane :: "string set \<Rightarrow> pods \<Rightarrow> bool" where
  "sane T ps \<longleftrightarrow> (\<forall>key v. ps key = Some v \<longrightarrow> sane_annos T (mp_annos v))"

text \<open>Of the references that living pods held, at most those of \<open>X\<close> are lost.\<close>

definition loses :: "string set \<Rightarrow> (string \<times> string \<times> string) set \<Rightarrow> pods \<Rightarrow> pods \<Rightarrow> bool" where
  "loses T X ps qs \<longleftrightarrow> (sane T ps \<longrightarrow>
     sane T qs \<and> (\<forall>ns n t. t \<in> T \<longrightarrow> alive ps ns n t \<longrightarrow> alive qs ns n t \<or> (ns, n, t) \<in> X))"

lemma loses_refl [simp, intro]: "loses T X ps ps"
  by (simp add: loses_def)

lemma loses_trans: "loses T X ps qs \<Longrightarrow> loses T Y qs rs \<Longrightarrow> loses T (X \<union> Y) ps rs"
  unfolding loses_def by blast

lemma loses_mono: "loses T X ps qs \<Longrightarrow> X \<subseteq> Y \<Longrightarrow> loses T Y ps qs"
  unfolding loses_def by blast

text \<open>A change of the annotations of one pod.\<close>

lemma loses_annos:
  assumes "ps (ns, n) = Some v" and "sane_annos T (mp_annos v) \<Longrightarrow> sane_annos T a"
    and "\<And>t. sane_annos T (mp_annos v) \<Longrightarrow> t \<in> T \<Longrightarrow> t \<in> refs (mp_annos v) \<Longrightarrow> t \<in> refs a \<or> (ns, n, t) \<in> X"
  shows "loses T X ps (ps((ns, n) \<mapsto> v\<lparr>mp_annos := a\<rparr>))"
  using assms unfolding loses_def sane_def alive_def by (auto split: if_splits)

lemma loses_deleted:
  assumes "deleted_from (ps (ns, n)) x" and "\<And>v t. ps (ns, n) = Some v \<Longrightarrow> t \<in> T \<Longrightarrow> t \<notin> refs (mp_annos v)"
  shows "loses T X ps (ps((ns, n) := x))"
  using assms unfolding loses_def sane_def alive_def deleted_from_def by (auto split: if_splits)

lemma loses_created:
  assumes "ps (ns, n) = None" and "sane_annos T (mp_annos v)"
  shows "loses T X ps (ps((ns, n) \<mapsto> v))"
  using assms unfolding loses_def sane_def alive_def by (auto split: if_splits)

subsection \<open>Adding a reference\<close>

lemma sane_add_ref: "inj_on GetReferenceKey T \<Longrightarrow> t \<in> T \<Longrightarrow> sane_annos T a \<Longrightarrow> sane_annos T (add_ref a t)"
  by (auto simp: sane_annos_def add_ref_def AList.delete_conv' AList.update_conv' dest: inj_onD)

lemma loses_add_ref:
  assumes "ps (ns, n) = Some v" "inj_on GetReferenceKey T" "t \<in> T"
  shows "loses T {} ps (ps((ns, n) \<mapsto> v\<lparr>mp_annos := add_ref (mp_annos v) t\<rparr>))"
proof (rule loses_annos [of ps, OF assms(1)])
  show "sane_annos T (mp_annos v) \<Longrightarrow> sane_annos T (add_ref (mp_annos v) t)" using sane_add_ref assms by blast
  show "t' \<in> refs (add_ref (mp_annos v) t) \<or> (ns, n, t') \<in> {}" if "t' \<in> T" "t' \<in> refs (mp_annos v)" for t'
    using that assms(2,3) inj_onD [of GetReferenceKey T t' t] by (auto simp: refs_add_ref)
qed

lemma hwp_AddRefOfMount:
  assumes api: "api_server E st" and inj: "inj_on GetReferenceKey T" and t: "t \<in> T"
  shows "hwp st ps (AddRefOfMount E t n) (\<lambda>r qs. loses T {} ps qs \<and>
    (r = Ok () \<longrightarrow> sane T ps \<longrightarrow> alive qs (cfg_Namespace E) n t))"
  unfolding AddRefOfMount_def Let_def ReplacePodAnnotation_def
proof (intro hwp_RetryOnConflict hwp_bindE hwp_GetPod [OF api], goal_cases)
  case (1 p)
  have has: "mhas (annos p) (GetReferenceKey t) \<Longrightarrow> \<not> mp_deleting (pod_view_of p) \<Longrightarrow> sane T ps \<Longrightarrow> alive ps (cfg_Namespace E) n t"
    using 1 t unfolding alive_def sane_def sane_annos_def refs_def pod_view_of_def mhas_def by (force split: option.splits)
  have add: "loses T {} ps (ps((cfg_Namespace E, n) \<mapsto> (pod_view_of p)\<lparr>mp_annos := add_ref (annos p) t\<rparr>)) \<and>
      (\<not> mp_deleting (pod_view_of p) \<longrightarrow> alive (ps((cfg_Namespace E, n) \<mapsto> (pod_view_of p)\<lparr>mp_annos := add_ref (annos p) t\<rparr>))
        (cfg_Namespace E) n t)"
    using loses_add_ref [of ps, OF 1(4) inj t] by (auto simp: alive_def refs_add_ref pod_view_of_def)
  show ?case
    using 1 has add by (auto intro!: hwp_return hwp_bind hwp_PatchPod [OF api] simp: pod_view_of_def IsConflict_def)
qed auto



subsection \<open>Removing references\<close>

lemma patch_annos_remove:
  "patch_annos (JSONPatch (map (\<lambda>k. PatchDelValue ''remove'' (''/metadata/annotations/'' @ k)) ks)) a = fold (\<lambda>k m. mdel m k) ks a"
  by (induction ks arbitrary: a) (auto simp: HasPrefix_def)

lemma map_of_del_keys: "map_of (fold (\<lambda>k m. mdel m k) ks a) = (map_of a) |` (- set ks)"
  by (induction ks arbitrary: a) (auto simp: AList.delete_conv' restrict_map_def fun_eq_iff)

lemma loses_del_keys:
  assumes "ps (ns, n) = Some v"
  shows "loses T {(ns, n, t) | t. GetReferenceKey t \<in> set ks} ps
    (ps((ns, n) \<mapsto> v\<lparr>mp_annos := patch_annos (JSONPatch (map (\<lambda>k. PatchDelValue ''remove'' (''/metadata/annotations/'' @ k)) ks)) (mp_annos v)\<rparr>))"
  unfolding patch_annos_remove
proof (rule loses_annos [of ps, OF assms])
  show "sane_annos T (mp_annos v) \<Longrightarrow> sane_annos T (fold (\<lambda>k m. mdel m k) ks (mp_annos v))"
    by (auto simp: sane_annos_def map_of_del_keys restrict_map_def)
qed (auto simp: refs_def map_of_del_keys restrict_map_def)

lemma hwp_DelPodAnnotation:
  assumes "api_server E st" and "\<And>e. Q (Some e) ps"
    and "\<And>v. ps (pod_Namespace pod, pod_Name pod) = Some v \<Longrightarrow>
      Q None (ps((pod_Namespace pod, pod_Name pod) \<mapsto> v\<lparr>mp_annos := fold (\<lambda>k m. mdel m k) ks (mp_annos v)\<rparr>))"
  shows "hwp st ps (DelPodAnnotation E pod ks) Q"
  unfolding DelPodAnnotation_def by (rule hwp_PatchPod [OF assms(1)]) (use assms patch_annos_remove in auto)

lemma loses_del_ref:
  assumes "ps (ns, n) = Some v" "inj_on GetReferenceKey T" "t \<in> T"
  shows "loses T {(ns, n, t)} ps (ps((ns, n) \<mapsto> v\<lparr>mp_annos := mdel (mp_annos v) (GetReferenceKey t)\<rparr>))"
proof (rule loses_annos [of ps, OF assms(1)])
  show "sane_annos T (mp_annos v) \<Longrightarrow> sane_annos T (mdel (mp_annos v) (GetReferenceKey t))"
    by (auto simp: sane_annos_def AList.delete_conv')
  show "t' \<in> refs (mdel (mp_annos v) (GetReferenceKey t)) \<or> (ns, n, t') \<in> {(ns, n, t)}" if "t' \<in> T" "t' \<in> refs (mp_annos v)" for t'
    using that assms(2,3) inj_onD [of GetReferenceKey T t' t] by (auto simp: refs_def AList.delete_conv')
qed

text \<open>A pod holds no reference of a target.\<close>

definition unreferenced :: "pods \<Rightarrow> string \<Rightarrow> string \<Rightarrow> string \<Rightarrow> bool" where
  "unreferenced ps ns n t \<longleftrightarrow> (\<forall>v. ps (ns, n) = Some v \<longrightarrow> t \<notin> refs (mp_annos v))"

lemma unreferenced_None: "ps (ns, n) = None \<Longrightarrow> unreferenced ps ns n t"
  by (simp add: unreferenced_def)

lemma still_umount_stale: "api_server E st \<Longrightarrow> still st (umount_stale E k p)"
  by (induction k) (auto intro!: still_rules split: still_splits)

lemma hwp_del_ref_once:
  assumes api: "api_server E st" and inj: "inj_on GetReferenceKey T" and t: "t \<in> T"
    and pod: "pod_Name pod = n" "pod_Namespace pod = ns"
  shows "hwp st ps (del_ref_once E pod (GetReferenceKey t)) (\<lambda>r qs. (IsConflict (err_of r) \<longrightarrow> qs = ps) \<and>
    loses T {(ns, n, t)} ps qs \<and> (r = Ok () \<longrightarrow> unreferenced qs ns n t))"
  unfolding del_ref_once_def
proof (intro hwp_bindE hwp_GetPod [OF api], goal_cases)
  case (1 p)
  then show ?case
    using pod loses_del_ref [of ps ns n "pod_view_of p", OF _ inj t]
    by (auto intro!: hwp_return hwp_bind hwp_DelPodAnnotation [OF api]
        simp: unreferenced_def pod_view_of_def refs_def AList.delete_conv' mhas_def IsConflict_def split: option.splits)
qed (auto simp: IsConflict_def)

lemma hwp_UmountTarget:
  assumes api: "api_server E st" and inj: "inj_on GetReferenceKey T" and t: "t \<in> T"
  shows "hwp st ps (UmountTarget E k t n) (\<lambda>r qs. loses T {(cfg_Namespace E, n, t)} ps qs \<and>
    (r = Ok () \<longrightarrow> n \<noteq> [] \<longrightarrow> unreferenced qs (cfg_Namespace E) n t))"
proof -
  have del: "hwp st ps (RetryOnConflict j (del_ref_once E pod (GetReferenceKey t))) (\<lambda>r qs. loses T {(cfg_Namespace E, n, t)} ps qs \<and>
    (r = Ok () \<longrightarrow> n \<noteq> [] \<longrightarrow> unreferenced qs (cfg_Namespace E) n t))" if "pod_Name pod = n" "pod_Namespace pod = cfg_Namespace E" for j pod
    by (rule hwp_RetryOnConflict, rule hwp_mono [OF hwp_del_ref_once [OF api inj t that]]) auto
  show ?thesis
    unfolding UmountTarget_def
    by (auto intro!: hwp_bindE hwp_bind hwp_return hwp_still [OF still_umount_stale [OF api]] hwp_still [OF still_os(8) [OF api]]
        hwp_GetPod [OF api] hwp_mono [OF del] simp: unreferenced_None split: result.splits option.splits)
qed


subsection \<open>Deleting a pod\<close>

lemma refs_mput_other: "k \<notin> range GetReferenceKey \<Longrightarrow> refs (mput a k x) = refs a"
  by (auto simp: refs_def AList.update_conv')

lemma DeleteDelayAt_no_ref: "DeleteDelayAtKey \<notin> range GetReferenceKey"
  by auto

lemma loses_delay_mark:
  "ps (ns, n) = Some v \<Longrightarrow> loses T X ps (ps((ns, n) \<mapsto> v\<lparr>mp_annos := mput (mp_annos v) DeleteDelayAtKey d\<rparr>))"
  by (rule loses_annos [of ps]) (auto simp: refs_mput_other DeleteDelayAt_no_ref sane_annos_def AList.update_conv')

lemma still_GetTimeAfterDelay: "api_server E st \<Longrightarrow> still st (GetTimeAfterDelay E d)"
  unfolding GetTimeAfterDelay_def by (auto intro!: still_rules split: still_splits)

lemma hwp_ShouldDelay:
  assumes api: "api_server E st"
  shows "hwp st ps (ShouldDelay E pod) (\<lambda>x qs. loses T {} ps qs \<and> (\<not> fst x \<or> snd x \<noteq> None \<longrightarrow> qs = ps))"
  unfolding ShouldDelay_def AddPodAnnotation_def
  by (auto intro!: hwp_return hwp_bind hwp_still [OF still_GetTimeAfterDelay [OF api]] hwp_PatchPod [OF api] hwp_still [OF still_os(5) [OF api]]
      loses_delay_mark split: option.split result.split)

lemma no_refs: "wf_map (annos p) \<Longrightarrow> GetRef p = 0 \<Longrightarrow> refs (annos p) = {}"
  using annotations.count_zero [of "annos p"] by (simp add: GetRef_count)

lemma hwp_DUmount:
  assumes api: "api_server E st"
  shows "hwp st ps (DUmount E t n) (\<lambda>r qs. loses T {} ps qs)"
proof -
  have del: "hwp st ps (dumount_delete E n p (delay, e)) (\<lambda>r qs. (IsConflict (err_of r) \<longrightarrow> qs = ps) \<and> loses T {} ps qs)"
    if "ps (pod_Namespace p, pod_Name p) = Some (pod_view_of p)" "refs (annos p) = {}" for p delay e
    using that unfolding dumount_delete_def
    by (auto intro!: hwp_return hwp_bind hwp_DeletePod [OF api] hwp_still [OF still_client(6) [OF api]] hwp_still [OF still_client(7) [OF api]]
        loses_deleted simp: pod_view_of_def IsConflict_def split: option.split result.split)
  have skip: "hwp st qs (dumount_delete E n p (True, None)) (\<lambda>r qs. (IsConflict (err_of r) \<longrightarrow> qs = ps) \<and> loses T {} ps qs)"
    if "loses T {} ps qs" for p qs
    using that unfolding dumount_delete_def by (auto intro!: hwp_return simp: IsConflict_def)
  show ?thesis
    unfolding DUmount_def dumount_once_def
  proof (intro hwp_RetryOnConflict hwp_bind hwp_GetPod [OF api], goal_cases)
    case (1 p)
    have "hwp st ps (ShouldDelay E p) (\<lambda>x qs. hwp st qs (dumount_delete E n p x)
        (\<lambda>r rs. (IsConflict (err_of r) \<longrightarrow> rs = ps) \<and> loses T {} ps rs))" if "GetRef p = 0"
    proof (rule hwp_mono [OF hwp_ShouldDelay [OF api, where T = T]])
      fix x :: "bool \<times> err option" and qs assume "loses T {} ps qs \<and> (\<not> fst x \<or> snd x \<noteq> None \<longrightarrow> qs = ps)"
      then show "hwp st qs (dumount_delete E n p x) (\<lambda>r rs. (IsConflict (err_of r) \<longrightarrow> rs = ps) \<and> loses T {} ps rs)"
        using that 1 no_refs [of p] del [of p] skip by (cases x; cases "snd x"; cases "fst x") auto
    qed
    then show ?case by (auto intro!: hwp_return hwp_bind)
  qed (auto intro!: hwp_return simp: IsConflict_def)
qed

lemma hwp_umount_and_release:
  assumes api: "api_server E st" and inj: "inj_on GetReferenceKey T" and t: "t \<in> T"
  shows "hwp st ps (umount_and_release E D t n) (\<lambda>r qs. loses T {(cfg_Namespace E, n, t)} ps qs)"
proof -
  have rel: "hwp st qs (DUmount E t n) (\<lambda>r rs. loses T {(cfg_Namespace E, n, t)} ps rs)" if "loses T {(cfg_Namespace E, n, t)} ps qs" for qs
    using loses_trans [OF that, where Y = "{}"] by (auto intro!: hwp_mono [OF hwp_DUmount [OF api, where T = T]])
  have ref: "still st (GetMountRef E t n)"
    unfolding GetMountRef_def by (auto intro!: still_rules still_GetPod [OF api])
  show ?thesis
    unfolding umount_and_release_def
    by (auto intro!: hwp_bindE hwp_return hwp_mono [OF hwp_UmountTarget [OF api inj t]] hwp_still [OF ref] rel split: result.splits if_splits)
qed


subsection \<open>A released pod\<close>

text \<open>A pod that is neither referenced nor kept by a delay is being deleted.\<close>

definition settled :: "pods \<Rightarrow> string \<Rightarrow> string \<Rightarrow> bool" where
  "settled ps ns n \<longleftrightarrow> (\<forall>v. ps (ns, n) = Some v \<longrightarrow>
     mp_deleting v \<or> refs (mp_annos v) \<noteq> {} \<or> mhas (mp_annos v) DeleteDelayTimeKey)"

text \<open>What an attempt to release a pod leads to: no reference appears, and a success settles the pod.\<close>

definition release_outcome :: "string \<Rightarrow> string \<Rightarrow> pods \<Rightarrow> unit result \<Rightarrow> pods \<Rightarrow> bool" where
  "release_outcome ns n ps r qs \<longleftrightarrow>
     (\<forall>t. unreferenced ps ns n t \<longrightarrow> unreferenced qs ns n t) \<and> (r = Ok () \<longrightarrow> settled qs ns n)"

lemma mput_other [simp]: "mhas (mput m k v) k' \<longleftrightarrow> k' = k \<or> mhas m k'"
  by (auto simp: mhas_def AList.update_conv')

lemma release_outcome_same [simp]: "release_outcome ns n ps (Err e) ps" "release_outcome ns n ps Panic ps"
    "release_outcome ns n ps OutOfFuel ps" "release_outcome ns n ps (Ok ()) ps \<longleftrightarrow> settled ps ns n"
  by (simp_all add: release_outcome_def)

lemma release_outcome_deleted:
  assumes "deleted_from (ps (ns, n)) x"
  shows "release_outcome ns n ps r (ps((ns, n) := x))"
  using assms by (auto simp: release_outcome_def deleted_from_def settled_def unreferenced_def)

lemma hwp_ShouldDelay_marks:
  assumes api: "api_server E st" and p: "ps (pod_Namespace p, pod_Name p) = Some (pod_view_of p)"
  shows "hwp st ps (ShouldDelay E p) (\<lambda>x qs.
    (\<not> fst x \<or> snd x \<noteq> None \<longrightarrow> qs = ps) \<and> (fst x \<longrightarrow> release_outcome (pod_Namespace p) (pod_Name p) ps (Ok ()) qs))"
  unfolding ShouldDelay_def AddPodAnnotation_def using p
  by (auto intro!: hwp_return hwp_bind hwp_still [OF still_GetTimeAfterDelay [OF api]] hwp_PatchPod [OF api] hwp_still [OF still_os(5) [OF api]]
      simp: release_outcome_def settled_def unreferenced_def pod_view_of_def refs_mput_other DeleteDelayAt_no_ref mhas_def AList.update_conv'
      split: option.split result.split if_splits)

lemma hwp_DUmount_releases:
  assumes api: "api_server E st"
  shows "hwp st ps (DUmount E t n) (release_outcome (cfg_Namespace E) n ps)"
proof -
  let ?Q = "\<lambda>r qs. (IsConflict (err_of r) \<longrightarrow> qs = ps) \<and> release_outcome (cfg_Namespace E) n ps r qs"
  have del: "hwp st ps (dumount_delete E n p (delay, e)) ?Q"
    if "pod_Namespace p = cfg_Namespace E" "pod_Name p = n" "\<not> delay \<or> e \<noteq> None" for p delay e
    using that unfolding dumount_delete_def
    by (auto intro!: hwp_return hwp_bind hwp_DeletePod [OF api] hwp_still [OF still_client(6) [OF api]] hwp_still [OF still_client(7) [OF api]]
        release_outcome_deleted simp: IsConflict_def split: option.split result.split)
  have skip: "hwp st qs (dumount_delete E n p (True, None)) ?Q" if "release_outcome (cfg_Namespace E) n ps (Ok ()) qs" for p qs
    using that unfolding dumount_delete_def by (auto intro!: hwp_return simp: IsConflict_def)
  show ?thesis
    unfolding DUmount_def dumount_once_def
  proof (intro hwp_RetryOnConflict hwp_bind hwp_GetPod [OF api], goal_cases)
    case (1 p)
    then have p: "ps (pod_Namespace p, pod_Name p) = Some (pod_view_of p)" by simp
    have "hwp st ps (ShouldDelay E p) (\<lambda>x qs. hwp st qs (dumount_delete E n p x) ?Q)"
    proof (rule hwp_mono [OF hwp_ShouldDelay_marks [of E st ps, OF api p]])
      fix x :: "bool \<times> err option" and qs
      assume "(\<not> fst x \<or> snd x \<noteq> None \<longrightarrow> qs = ps) \<and> (fst x \<longrightarrow> release_outcome (pod_Namespace p) (pod_Name p) ps (Ok ()) qs)"
      then show "hwp st qs (dumount_delete E n p x) ?Q"
        using 1 del [of p] skip by (cases x; cases "snd x"; cases "fst x") auto
    qed
    moreover have "settled ps (cfg_Namespace E) n" if "GetRef p \<noteq> 0"
      using that 1 annotations.count_zero [of "annos p"] by (auto simp: settled_def pod_view_of_def GetRef_count)
    ultimately show ?case by (auto intro!: hwp_return hwp_bind)
  qed (auto intro!: hwp_return simp: settled_def)
qed

lemma hwp_GetMountRef:
  assumes api: "api_server E st"
  shows "hwp st ps (GetMountRef E t n) (\<lambda>r qs. qs = ps \<and> (\<forall>c. r = Ok c \<longrightarrow> c \<noteq> 0 \<longrightarrow> settled ps (cfg_Namespace E) n))"
  unfolding GetMountRef_def
proof (intro hwp_bind hwp_GetPod [OF api] hwp_return, goal_cases)
  case (1 p)
  then show ?case using annotations.count_zero [of "annos p"] by (auto simp: settled_def pod_view_of_def GetRef_count)
qed auto

lemma hwp_release:
  assumes api: "api_server E st" and inj: "inj_on GetReferenceKey T" and t: "t \<in> T" and n: "n \<noteq> []"
  shows "hwp st ps (umount_and_release E D t n) (\<lambda>r qs. r = Ok () \<longrightarrow> unreferenced qs (cfg_Namespace E) n t \<and> settled qs (cfg_Namespace E) n)"
proof -
  let ?Q = "\<lambda>r qs. r = Ok () \<longrightarrow> unreferenced qs (cfg_Namespace E) n t \<and> settled qs (cfg_Namespace E) n"
  have dumount: "hwp st qs (DUmount E t n) ?Q" if "unreferenced qs (cfg_Namespace E) n t" for qs
    using that by (intro hwp_mono [OF hwp_DUmount_releases [OF api]]) (auto simp: release_outcome_def)
  have rest: "hwp st qs (bindE (GetMountRef E t n) (\<lambda>refs. if refs = 0 then DUmount E t n else return (Ok ()))) ?Q"
    if "unreferenced qs (cfg_Namespace E) n t" for qs
    by (rule hwp_bindE, rule hwp_mono [OF hwp_GetMountRef [OF api]])
      (use that dumount in \<open>auto intro!: hwp_return split: result.split\<close>)
  show ?thesis
    unfolding umount_and_release_def
    by (rule hwp_bindE, rule hwp_mono [OF hwp_UmountTarget [OF api inj t]]) (use n in \<open>auto intro!: rest split: result.split\<close>)
qed

subsection \<open>Publishing a target\<close>

text \<open>The pods built for a setting are in the namespace of the driver and come without references.\<close>

definition plain_pod :: "'w env \<Rightarrow> string set \<Rightarrow> Pod \<Rightarrow> bool" where
  "plain_pod E T pod \<longleftrightarrow> pod_Namespace pod = cfg_Namespace E \<and> (\<forall>t \<in> T. map_of (annos pod) (GetReferenceKey t) = None)"

definition plain_setting :: "'w env \<Rightarrow> codec \<Rightarrow> string \<Rightarrow> string set \<Rightarrow> DfsSetting \<Rightarrow> bool" where
  "plain_setting E C mountImage T s \<longleftrightarrow> (\<forall>mp sn pod s'.
     genCommonPod E C mountImage (s\<lparr>MountPath := mp, SecretName := sn\<rparr>) genCommonContainer = Ok (pod, s') \<longrightarrow> plain_pod E T pod)"

lemma annos_volumes [simp]: "annos (add_volumes vs vms p) = annos p" "annos (upd_c0 f p) = annos p"
  by (simp_all add: annos_def)

lemma still_publish:
  assumes api: "api_server E st"
  shows "still st (CreateOrUpdateSecret E sec)" "still st (make_mount_dir E k p)" "still st (RandStringRunes E j)"
    "still st (initFuseConfig E ns pod)"
proof -
  show "still st (CreateOrUpdateSecret E sec)"
    unfolding CreateOrUpdateSecret_def using api by (auto intro!: still_rules split: still_splits)
  show "still st (make_mount_dir E k p)"
    unfolding make_mount_dir_def using api by (auto intro!: still_rules still_umount_stale split: still_splits)
  show "still st (RandStringRunes E j)"
    using api by (induction j) (auto intro!: still_rules split: still_splits)
  show "still st (initFuseConfig E ns pod)"
    unfolding initFuseConfig_def using api by (auto intro!: still_rules split: still_splits)
qed

lemma still_GenMountPodName: "api_server E st \<Longrightarrow> still st (GenMountPodName E s)"
  unfolding GenMountPodName_def GenPodNameByUniqueId_def
  by (auto intro!: still_rules still_publish split: still_splits)

lemma still_mount_dir: "api_server E st \<Longrightarrow> still st (DoWithTimeoutR E (make_mount_dir E k p))"
  unfolding DoWithTimeoutR_def by (auto intro!: still_rules still_publish split: still_splits)

lemma hwp_initFuseConfig:
  assumes api: "api_server E st" and "\<And>vs vms. Q (Ok (add_volumes vs vms pod)) ps" "\<And>e. Q (Err e) ps"
  shows "hwp st ps (initFuseConfig E ns pod) Q"
  unfolding initFuseConfig_def
  using assms by (auto intro!: hwp_bind hwp_still [OF still_os(10) [OF api]] hwp_return split: option.split)

lemma hwp_NewMountPod:
  assumes api: "api_server E st"
    and ok: "\<And>pod s'. pod_Name pod = podName \<Longrightarrow>
      (\<exists>p. genCommonPod E C mountImage s genCommonContainer = Ok (p, s') \<and> annos pod = annos p \<and> pod_Namespace pod = pod_Namespace p) \<Longrightarrow>
      Q (Ok (pod, s')) ps"
    and fails: "\<And>e. Q (Err e) ps" "Q Panic ps" "Q OutOfFuel ps"
  shows "hwp st ps (NewMountPod E C mountImage s podName) Q"
  unfolding NewMountPod_def
  by (auto simp: annos_def intro!: hwp_bindE hwp_return hwp_initFuseConfig [OF api] ok fails split: result.split)

lemma hwp_place_pod:
  assumes api: "api_server E st"
    and "\<And>p. pod_Name p = pod_Name pod \<Longrightarrow> pod_Namespace p = pod_Namespace pod \<Longrightarrow> annos p = annos pod \<Longrightarrow> Q p ps"
  shows "hwp st ps (place_pod E appinfo pod) Q"
  unfolding place_pod_def Let_def
  by (auto intro!: hwp_bind hwp_return hwp_still [OF still_client(2) [OF api]] hwp_still [OF still_GetPod [OF api]] assms(2)
      simp: annos_def split: option.split result.split)


text \<open>What a step of publishing does: no reference is lost, and when it succeeds a living pod holds that of the target.\<close>

definition published_by :: "'w env \<Rightarrow> string set \<Rightarrow> pods \<Rightarrow> string \<Rightarrow> string \<Rightarrow> 'a result \<Rightarrow> pods \<Rightarrow> bool" where
  "published_by E T ps n t r qs \<longleftrightarrow> loses T {} ps qs \<and> ((\<exists>x. r = Ok x) \<longrightarrow> sane T ps \<longrightarrow> alive qs (cfg_Namespace E) n t)"

lemma published_by_fails [simp]: "published_by E T ps n t (Err e) ps" "published_by E T ps n t Panic ps" "published_by E T ps n t OutOfFuel ps"
  by (simp_all add: published_by_def)

lemma sane_new_pod:
  "inj_on GetReferenceKey T \<Longrightarrow> t \<in> T \<Longrightarrow> (\<forall>t\<in>T. map_of a (GetReferenceKey t) = None) \<Longrightarrow> sane_annos T (mput a (GetReferenceKey t) t)"
  by (auto simp: sane_annos_def AList.update_conv' dest: inj_onD)

lemma published_by_create:
  assumes "inj_on GetReferenceKey T" "t \<in> T" "plain_pod E T p" "ps (pod_Namespace p, n) = None"
  shows "published_by E T ps n t r (ps((pod_Namespace p, n) \<mapsto> \<lparr>mp_annos = mput (annos p) (GetReferenceKey t) t, mp_deleting = False\<rparr>))"
proof -
  have "loses T {} ps (ps((pod_Namespace p, n) \<mapsto> \<lparr>mp_annos = mput (annos p) (GetReferenceKey t) t, mp_deleting = False\<rparr>))"
    by (rule loses_created) (use assms sane_new_pod in \<open>auto simp: plain_pod_def\<close>)
  then show ?thesis using assms by (auto simp: published_by_def alive_def plain_pod_def refs_def AList.update_conv')
qed

lemma annos_new_labels [simp]: "annos (pod\<lparr>pod_Annotations := Some m, pod_Labels := l\<rparr>) = m"
  by (simp add: annos_def)

lemma hwp_create_mount_pod:
  assumes api: "api_server E st" and inj: "inj_on GetReferenceKey T" and t: "TargetPath s \<in> T"
    and plain: "\<And>p s'. genCommonPod E C mountImage s genCommonContainer = Ok (p, s') \<Longrightarrow> plain_pod E T p"
  shows "hwp st ps (create_mount_pod E C mountImage n s appinfo secret) (published_by E T ps n (TargetPath s))"
  unfolding create_mount_pod_def Let_def
proof (intro hwp_bindE hwp_NewMountPod [OF api] hwp_return, goal_cases)
  case (1 pod s')
  then obtain p where p: "plain_pod E T p" "annos pod = annos p" "pod_Namespace pod = pod_Namespace p" using plain by blast
  show ?case
    using 1(1) p
    by (auto intro!: hwp_bindE hwp_bind hwp_return hwp_place_pod [OF api] hwp_still [OF still_publish(1) [OF api]] hwp_CreatePod [OF api]
        published_by_create [OF inj t p(1)] split: result.split)
qed auto

lemma published_by_more:
  "loses T {} ps qs \<Longrightarrow> published_by E T qs n t r rs \<Longrightarrow> published_by E T ps n t r rs"
  using loses_trans [of T "{}" ps qs "{}" rs] by (auto simp: published_by_def loses_def)

lemma hwp_create_or_add:
  assumes api: "api_server E st" and inj: "inj_on GetReferenceKey T" and t: "TargetPath s \<in> T"
    and plain: "\<And>p s'. genCommonPod E C mountImage s genCommonContainer = Ok (p, s') \<Longrightarrow> plain_pod E T p"
  shows "hwp st ps (create_or_add E C mountImage k n s appinfo secret) (published_by E T ps n (TargetPath s))"
proof (induction k)
  case (Suc k)
  have "hwp st ps (AddRefOfMount E (TargetPath s) n) (\<lambda>r qs. published_by E T ps n (TargetPath s) (bindR r (\<lambda>_. Ok s)) qs)"
    by (rule hwp_mono [OF hwp_AddRefOfMount [OF api inj t]]) (auto simp: published_by_def bindR_Ok_iff)
  then have "hwp st ps (bindE (AddRefOfMount E (TargetPath s) n) (\<lambda>_. return (Ok s))) (published_by E T ps n (TargetPath s))"
    by (intro hwp_bindE) (auto elim!: hwp_mono intro: hwp_return split: result.split)
  then have "hwp st ps (bindE (CreateOrUpdateSecret E secret) (\<lambda>_. bindE (AddRefOfMount E (TargetPath s) n) (\<lambda>_. return (Ok s))))
      (published_by E T ps n (TargetPath s))"
    by (auto intro!: hwp_bindE [where m = "CreateOrUpdateSecret E secret"] hwp_still [OF still_publish(1) [OF api]] split: result.split)
  moreover have "hwp st ps (create_mount_pod E C mountImage n s appinfo secret) (published_by E T ps n (TargetPath s))"
    by (rule hwp_create_mount_pod [OF api inj t plain])
  ultimately show ?case
    using Suc by (auto intro!: hwp_bind hwp_return hwp_emit hwp_GetPod [OF api])
qed (auto intro: hwp_return)


lemma hwp_createPodOrAddRef:
  assumes api: "api_server E st" and inj: "inj_on GetReferenceKey T" and t: "TargetPath s \<in> T" and plain: "plain_setting E C mountImage T s"
  shows "hwp st ps (createPodOrAddRef E C mountImage k n s appinfo) (published_by E T ps n (TargetPath s))"
proof -
  define s1 where "s1 sfx = s\<lparr>MountPath := MountPath s @ sfx, SecretName := ''dingofs-'' @ UniqueId s @ ''-secret''\<rparr>" for sfx
  have t1: "TargetPath (s1 sfx) = TargetPath s" for sfx by (simp add: s1_def)
  have "hwp st ps (create_or_add E C mountImage k n (s1 sfx) appinfo sec) (published_by E T ps n (TargetPath s))" for sfx sec
    using hwp_create_or_add [OF api inj, of "s1 sfx" C mountImage ps k n appinfo sec] t plain
    unfolding t1 by (auto simp: s1_def plain_setting_def)
  then show ?thesis
    unfolding createPodOrAddRef_def Let_def s1_def [symmetric]
    by (auto intro!: hwp_bindE hwp_return hwp_still [OF still_mount_dir [OF api]] split: result.split)
qed

lemma hwp_SetMountLabel:
  assumes api: "api_server E st"
  shows "hwp st ps (SetMountLabel E u m p ns) (\<lambda>r qs. qs = ps)"
  unfolding SetMountLabel_def AddPodLabel_def
  by (auto intro!: hwp_bindE hwp_bind hwp_return hwp_GetPod [OF api] hwp_PatchPod [OF api] simp: map_upd_triv)

text \<open>The critical section of \<open>DMount\<close>.\<close>

lemma hwp_dmount_locked:
  assumes api: "api_server E st" and inj: "inj_on GetReferenceKey T" and t: "TargetPath s \<in> T" and plain: "plain_setting E C mountImage T s"
  shows "hwp st ps (dmount_locked E C mountImage k appinfo s) (\<lambda>r qs. loses T {} ps qs \<and>
    (\<forall>s' n. r = Ok (s', n) \<longrightarrow> sane T ps \<longrightarrow> alive qs (cfg_Namespace E) n (TargetPath s)))"
proof -
  have create: "hwp st ps (bindE (createPodOrAddRef E C mountImage k n s appinfo) (\<lambda>s'. return (Ok (s', n)))) (\<lambda>r qs. loses T {} ps qs \<and>
    (\<forall>s' n. r = Ok (s', n) \<longrightarrow> sane T ps \<longrightarrow> alive qs (cfg_Namespace E) n (TargetPath s)))" for n
    by (rule hwp_bindE, rule hwp_mono [OF hwp_createPodOrAddRef [OF api inj t plain]])
      (auto intro!: hwp_return simp: published_by_def split: result.split)
  have label: "hwp st ps (case appinfo of Some app \<Rightarrow>
        if app_Name app \<noteq> [] \<and> app_Namespace app \<noteq> [] then SetMountLabel E u n (app_Name app) (app_Namespace app) else return (Ok ())
      | None \<Rightarrow> return (Ok ())) (\<lambda>r qs. qs = ps)" for u n
    by (auto intro: hwp_return hwp_SetMountLabel [OF api] split: option.split)
  show ?thesis
    unfolding dmount_locked_def
    by (rule hwp_bindE, rule hwp_still [OF still_GenMountPodName [OF api]])
      (auto intro!: hwp_bindE [OF hwp_mono [OF label]] create split: result.split)
qed


subsection \<open>The reconciler removes dead references\<close>

text \<open>What the check of the annotations may lose: references, in the copy of the pod it was given, of application pods that are gone.\<close>

definition dead_refs :: "mountInfoTable \<Rightarrow> Pod \<Rightarrow> (string \<times> string \<times> string) set" where
  "dead_refs mit pod = {(pod_Namespace pod, pod_Name pod, t) | t. t \<in> refs (annos pod) \<and> \<not> ref_alive mit t}"

lemma dead_keys_refs:
  assumes "wf_map (annos pod)" "sane_annos T (annos pod)" "t \<in> T" "GetReferenceKey t \<in> set (dead_keys mit pod)"
  shows "(pod_Namespace pod, pod_Name pod, t) \<in> dead_refs mit pod"
proof -
  from assms(4) dead_keys_set [of mit pod] obtain u where u: "GetReferenceKey t = GetReferenceKey u" "(GetReferenceKey u, u) \<in> set (annos pod)" "\<not> ref_alive mit u"
    using DeleteDelayAt_no_ref by auto
  then have "map_of (annos pod) (GetReferenceKey t) = Some u" using assms(1) by (simp add: wf_map_def)
  with assms(2,3) u show ?thesis by (auto simp: sane_annos_def dead_refs_def refs_def)
qed

lemma hwp_remove_dead_refs:
  assumes api: "api_server E st" and pod: "wf_map (annos pod)" "sane_annos T (annos pod)"
  shows "hwp st ps (remove_dead_refs E pod (dead_keys mit pod)) (\<lambda>r qs. loses T (dead_refs mit pod) ps qs)"
proof -
  have "loses T (dead_refs mit pod) ps (ps((pod_Namespace pod, pod_Name pod) \<mapsto> v\<lparr>mp_annos := fold (\<lambda>k m. mdel m k) (dead_keys mit pod) (mp_annos v)\<rparr>))"
    if "ps (pod_Namespace pod, pod_Name pod) = Some v" for v
    by (rule loses_annos [of ps, OF that])
      (use dead_keys_refs [OF pod] in \<open>auto simp: sane_annos_def refs_def map_of_del_keys restrict_map_def\<close>)
  then show ?thesis
    unfolding remove_dead_refs_def
    by (auto intro!: hwp_bindE hwp_bind hwp_return hwp_GetPod [OF api] hwp_DelPodAnnotation [OF api])
qed

lemma hwp_delete_unreferenced:
  assumes api: "api_server E st"
  shows "hwp st ps (delete_unreferenced E pod) (\<lambda>r qs. loses T {} ps qs)"
  unfolding delete_unreferenced_def
proof (intro hwp_bindE hwp_GetPod [OF api], goal_cases)
  case (1 p)
  then have "refs (annos p) = {}" if "GetAllRefKeys p = []" using that no_refs [of p] GetAllRefKeys_count [of p] by simp
  with 1 show ?case
    by (auto intro!: hwp_return hwp_bind hwp_DeletePod [OF api] hwp_still [OF still_client(6) [OF api]] loses_deleted
        simp: pod_view_of_def split: option.split)
qed auto

lemma hwp_check_annotations_locked:
  assumes api: "api_server E st" and pod: "wf_map (annos pod)" "sane_annos T (annos pod)"
  shows "hwp st ps (check_annotations_locked E mit pod) (\<lambda>r qs. loses T (dead_refs mit pod) ps qs)"
proof -
  let ?X = "dead_refs mit pod"
  have delete: "hwp st rs (delete_unreferenced E pod) (\<lambda>r us. loses T ?X ps us)" if "loses T ?X ps rs" for rs
    using loses_trans [OF that, where Y = "{}"] by (auto intro!: hwp_mono [OF hwp_delete_unreferenced [OF api]])
  have delay: "hwp st qs (delay_or_delete E pod) (\<lambda>r rs. loses T ?X ps rs)" if qs: "loses T ?X ps qs" for qs
    unfolding delay_or_delete_def
    by (rule hwp_bind, rule hwp_mono [OF hwp_ShouldDelay [OF api, where T = T]])
      (use loses_trans [OF qs, where Y = "{}"] in \<open>auto intro!: delete hwp_return split: option.split\<close>)
  show ?thesis
    unfolding check_annotations_locked_def
    by (rule hwp_bindE) (auto intro!: hwp_mono [OF hwp_remove_dead_refs [OF api pod]] hwp_return delay split: result.split)
qed


subsection \<open>The reconciler creates deleted pods again\<close>

text \<open>The configuration that is applied to the copy of a pod keeps its references sane.\<close>

definition sane_patch :: "'w env \<Rightarrow> codec \<Rightarrow> string set \<Rightarrow> Pod \<Rightarrow> bool" where
  "sane_patch E C T pod \<longleftrightarrow> sane_annos T (annos pod) \<and>
     (\<forall>w p. fst (run_state (applyConfigPatch E C (copy_pod pod)) w) = Ok p \<longrightarrow> sane_annos T (annos p))"

lemma annos_copy_pod [simp]: "annos (copy_pod pod) = annos pod"
  by (simp add: copy_pod_def AddFinalizer_def annos_def zero_Pod_def)

lemma hwp_result: "hwp st ps m Q \<Longrightarrow> hwp st ps m (\<lambda>r qs. Q r qs \<and> (\<exists>w. fst (run_state m w) = r))"
  by (auto simp: hwp_def)


lemma still_recreate:
  assumes api: "api_server E st"
  shows "still st (applyConfigPatch E C pod)" "still st (mkrMp E pod)"
proof -
  have "still st (GenPodAttrWithMountPod E C p)" for p
    unfolding GenPodAttrWithMountPod_def Let_def using api by (auto intro!: still_rules split: still_splits)
  then show "still st (applyConfigPatch E C pod)"
    unfolding applyConfigPatch_def by (auto intro!: still_rules simp: Let_def split: still_splits)
  show "still st (mkrMp E pod)"
    unfolding mkrMp_def DoWithTimeoutR_def using api by (auto intro!: still_rules split: still_splits)
qed

lemma hwp_create_sane:
  assumes api: "api_server E st" and "sane_annos T (annos pod)"
  shows "hwp st ps (do { c \<leftarrow> CreatePod E pod; case c of Ok _ \<Rightarrow> return (Ok (a, None)) | Err e \<Rightarrow> return (Ok (b, Some e))
    | Panic \<Rightarrow> return Panic | OutOfFuel \<Rightarrow> return OutOfFuel }) (\<lambda>r qs. loses T {} ps qs)"
  using assms(2) by (auto intro!: hwp_bind hwp_return hwp_CreatePod [OF api] loses_created split: result.split)

lemma hwp_recreate_pod:
  assumes api: "api_server E st" and pod: "sane_patch E C T pod"
  shows "hwp st ps (recreate_pod E C pod) (\<lambda>r qs. loses T {} ps qs)"
proof -
  have apply_patch: "hwp st ps (applyConfigPatch E C (copy_pod pod)) (\<lambda>r qs. qs = ps \<and> (\<forall>p. r = Ok p \<longrightarrow> sane_annos T (annos p)))"
    using pod still_recreate(1) [OF api, of C "copy_pod pod"] by (auto simp: hwp_def sane_patch_def keeps_def)
  show ?thesis
    unfolding recreate_pod_def ignoreE_def Let_def
    by (rule hwp_bind, rule hwp_mono [OF apply_patch])
      (use pod in \<open>auto intro!: hwp_return hwp_bind [where m = "mkrMp _ _"] hwp_still [OF still_recreate(2) [OF api]] hwp_create_sane [OF api]
        simp: sane_patch_def split: result.split\<close>)
qed

lemma map_of_filter_key:
  "wf_map m \<Longrightarrow> map_of (filter (\<lambda>(k, t). k = GetReferenceKey t) m) k =
     (case map_of m k of Some t \<Rightarrow> if k = GetReferenceKey t then Some t else None | None \<Rightarrow> None)"
  by (induction m) (auto simp: wf_map_def map_of_eq_None_iff image_iff split: option.split)

lemma map_of_exist_targets:
  "wf_map (annos pod) \<Longrightarrow> map_of (mputs a (GetAllRefKeys pod)) k =
     (case map_of (annos pod) k of Some t \<Rightarrow> if k = GetReferenceKey t then Some t else map_of a k | None \<Rightarrow> map_of a k)"
proof -
  assume wf: "wf_map (annos pod)"
  then have "wf_map (GetAllRefKeys pod)" by (simp add: GetAllRefKeys_filter wf_map_def distinct_map_filter)
  then show ?thesis
    using wf by (simp add: map_of_mputs map_add_def GetAllRefKeys_filter map_of_filter_key split: option.split)
qed

lemma exist_targets_key:
  assumes "wf_map (annos pod)" "sane_annos T (annos pod)" "t \<in> T"
  shows "map_of (mputs a (GetAllRefKeys pod)) (GetReferenceKey t) \<in> {Some t, map_of a (GetReferenceKey t)}"
  using bspec [OF assms(2) [unfolded sane_annos_def] assms(3)] unfolding map_of_exist_targets [OF assms(1)] by auto

lemma sane_exist_targets:
  "wf_map (annos pod) \<Longrightarrow> sane_annos T (annos pod) \<Longrightarrow> sane_annos T a \<Longrightarrow> sane_annos T (mputs a (GetAllRefKeys pod))"
  using exist_targets_key [of pod T _ a] unfolding sane_annos_def by (metis insert_iff singletonD)

lemma refs_exist_targets:
  "wf_map (annos pod) \<Longrightarrow> sane_annos T (annos pod) \<Longrightarrow> t \<in> T \<Longrightarrow> t \<in> refs a \<Longrightarrow> t \<in> refs (mputs a (GetAllRefKeys pod))"
  using exist_targets_key [of pod T t a] by (auto simp: refs_def)

lemma hwp_wait_recreate:
  assumes api: "api_server E st" and pod: "sane_patch E C T pod" and wf: "wf_map (annos pod)"
  shows "hwp st ps (wait_recreate E C k pod (GetAllRefKeys pod)) (\<lambda>r qs. loses T {} ps qs)"
proof (induction k)
  case (Suc k)
  have "loses T {} ps (ps((pod_Namespace pod, pod_Name pod) \<mapsto> v\<lparr>mp_annos := mputs (mp_annos v) (GetAllRefKeys pod)\<rparr>))"
    if v: "ps (pod_Namespace pod, pod_Name pod) = Some v" for v
    using pod by (intro loses_annos [of ps, OF v]) (auto simp: sane_patch_def intro: sane_exist_targets [OF wf] refs_exist_targets [OF wf])
  then have merge: "hwp st ps (ReplacePodAnnotation E pod (mputs (annos p) (GetAllRefKeys pod))) (\<lambda>r qs. loses T {} ps qs)"
    if "ps (pod_Namespace pod, pod_Name pod) = Some (pod_view_of p)" for p
    unfolding ReplacePodAnnotation_def
    by (intro hwp_PatchPod [OF api]) (use that in \<open>auto simp: pod_view_of_def simp del: fun_upd_apply\<close>)
  from Suc show ?case
    by (auto intro!: hwp_bind hwp_return hwp_emit hwp_GetPod [OF api] hwp_mono [OF merge] hwp_recreate_pod [OF api pod])
qed (auto intro: hwp_return)


subsection \<open>Deploying a failed pod again\<close>

text \<open>What becomes of the pod: it is left alone, deleted, or replaced by one with the annotations of the copy.\<close>

definition redeployed :: "Pod \<Rightarrow> pods \<Rightarrow> pods \<Rightarrow> bool" where
  "redeployed pod ps qs \<longleftrightarrow> (let key = (pod_Namespace pod, pod_Name pod) in qs = ps \<or>
     (\<exists>x. qs = ps(key := x) \<and> (deleted_from (ps key) x \<or> x = Some \<lparr>mp_annos = annos pod, mp_deleting = False\<rparr>)))"

lemma redeployed_rules [simp]:
  "redeployed pod ps ps"
  "deleted_from (ps (pod_Namespace pod, pod_Name pod)) x \<Longrightarrow> redeployed pod ps (ps((pod_Namespace pod, pod_Name pod) := x))"
  "redeployed pod ps (ps((pod_Namespace pod, pod_Name pod) \<mapsto> \<lparr>mp_annos = annos pod, mp_deleting = False\<rparr>))"
  unfolding redeployed_def Let_def by blast+

lemma hwp_RemoveFinalizer:
  assumes api: "api_server E st"
  shows "hwp st ps (RemoveFinalizer E pod f) (\<lambda>r qs. qs = ps)"
  unfolding RemoveFinalizer_def by (rule hwp_PatchPod [OF api]) (auto simp: map_upd_triv)

lemma still_wait_deleted: "api_server E st \<Longrightarrow> still st (wait_deleted E k pod)"
  by (induction k) (auto intro!: still_rules still_GetPod split: still_splits)

lemma copied_pod [simp]:
  "annos (DeleteResourceOfPod (copy_pod pod)) = annos pod" "pod_Name (DeleteResourceOfPod (copy_pod pod)) = pod_Name pod"
  "pod_Namespace (DeleteResourceOfPod (copy_pod pod)) = pod_Namespace pod"
  by (simp_all add: DeleteResourceOfPod_def copy_pod_def AddFinalizer_def annos_def zero_Pod_def)

lemma hwp_ignoreE:
  "hwp st ps m (\<lambda>r qs. hwp st qs k Q \<and> Q Panic qs \<and> Q OutOfFuel qs) \<Longrightarrow> hwp st ps (ignoreE m k) Q"
  unfolding ignoreE_def by (rule hwp_bind, erule hwp_mono) (auto intro: hwp_return split: result.split)

lemma hwp_redeploy:
  assumes api: "api_server E st"
  shows "hwp st ps (redeploy E k pod onTimeout) (\<lambda>r qs. redeployed pod ps qs)"
proof -
  let ?key = "(pod_Namespace pod, pod_Name pod)"
  have create: "hwp st (ps(?key := x)) (ignoreE (CreatePod E (DeleteResourceOfPod (copy_pod pod))) (return (Ok (noResult, None)))) (\<lambda>r rs. redeployed pod ps rs)"
    if "deleted_from (ps ?key) x" for x
    using that by (auto intro!: hwp_ignoreE hwp_CreatePod [OF api] hwp_return)
  show ?thesis
    unfolding redeploy_def Let_def
    apply (rule hwp_bind, rule hwp_mono [OF hwp_RemoveFinalizer [OF api]], simp, rule hwp_bind, rule hwp_DeletePod [OF api])
    using create
    by (auto intro!: hwp_return hwp_bindE [OF hwp_still [OF still_wait_deleted [OF api]]] hwp_ignoreE [where m = "mkrMp _ _"] hwp_still [OF still_recreate(2) [OF api]]
        split: result.split)
qed

lemma hwp_resource_handler:
  assumes api: "api_server E st"
  shows "hwp st ps (resource_handler E k pod onTimeout) (\<lambda>r qs. redeployed pod ps qs)"
  unfolding resource_handler_def locked_def Let_def
  by (auto intro!: hwp_bind hwp_emit hwp_return hwp_mono [OF hwp_redeploy [OF api]])

section \<open>The system\<close>

text \<open>
  A state is the world and the pairs of a mount pod and a target that are published. The steps are whole critical sections,
  on arbitrary settings and on copies of pods that may be out of date; a publication that succeeds is recorded, an unpublication and a dead
  reference end it, and outside of the driver only pods that are being deleted go away.
\<close>

definition only_deleted_go :: "pods \<Rightarrow> pods \<Rightarrow> bool" where
  "only_deleted_go ps qs \<longleftrightarrow>
     (\<forall>key. qs key = ps key \<or> (qs key = None \<and> (\<exists>v. ps key = Some v \<and> mp_deleting v)))"

inductive cluster_step ::
  "'w env \<Rightarrow> codec \<Rightarrow> string \<Rightarrow> nat \<Rightarrow> driver \<Rightarrow> ('w \<Rightarrow> pods) \<Rightarrow> string set \<Rightarrow>
     'w world \<times> (string \<times> string) set \<Rightarrow> 'w world \<times> (string \<times> string) set \<Rightarrow> bool"
  for E C mountImage fuel D st T where
  publish: "TargetPath s \<in> T \<Longrightarrow> plain_setting E C mountImage T s \<Longrightarrow>
    run_state (dmount_locked E C mountImage fuel appInfo s) w = (Ok (s', n), w') \<Longrightarrow>
    cluster_step E C mountImage fuel D st T (w, pub) (w', insert (n, TargetPath s) pub)"
| publish_fails: "TargetPath s \<in> T \<Longrightarrow> plain_setting E C mountImage T s \<Longrightarrow>
    run_state (dmount_locked E C mountImage fuel appInfo s) w = (r, w') \<Longrightarrow> (\<forall>x. r \<noteq> Ok x) \<Longrightarrow>
    cluster_step E C mountImage fuel D st T (w, pub) (w', pub)"
| unpublish: "t \<in> T \<Longrightarrow> run_state (umount_and_release E D t n) w = (r, w') \<Longrightarrow>
    cluster_step E C mountImage fuel D st T (w, pub) (w', pub - {(n, t)})"
| check: "wf_map (annos pod) \<Longrightarrow> sane_annos T (annos pod) \<Longrightarrow>
    run_state (check_annotations_locked E mit pod) w = (r', w') \<Longrightarrow>
    cluster_step E C mountImage fuel D st T (w, pub)
      (w', pub - {(pod_Name pod, t) | t. t \<in> refs (annos pod) \<and> \<not> ref_alive mit t})"
| recreate: "wf_map (annos pod) \<Longrightarrow> sane_patch E C T pod \<Longrightarrow>
    run_state (wait_recreate E C fuel pod (GetAllRefKeys pod)) w = (h, w') \<Longrightarrow>
    cluster_step E C mountImage fuel D st T (w, pub) (w', pub)"
| outside: "only_deleted_go (st (ext w)) (st (ext w')) \<Longrightarrow> cluster_step E C mountImage fuel D st T (w, pub) (w', pub)"

definition cluster_init :: "('w \<Rightarrow> pods) \<Rightarrow> string set \<Rightarrow> 'w world \<times> (string \<times> string) set \<Rightarrow> bool" where
  "cluster_init st T s \<longleftrightarrow> sane T (st (ext (fst s))) \<and> snd s = {}"

definition cluster_inv :: "'w env \<Rightarrow> ('w \<Rightarrow> pods) \<Rightarrow> string set \<Rightarrow> 'w world \<times> (string \<times> string) set \<Rightarrow> bool" where
  "cluster_inv E st T s \<longleftrightarrow> api_server E st \<longrightarrow> inj_on GetReferenceKey T \<longrightarrow>
     sane T (st (ext (fst s))) \<and> (\<forall>(n, t) \<in> snd s. t \<in> T \<and> alive (st (ext (fst s))) (cfg_Namespace E) n t)"

text \<open>A step that loses at most \<open>X\<close> keeps the invariant when the publications that are left avoid \<open>X\<close>.\<close>

lemma cluster_inv_loses:
  assumes "cluster_inv E st T (w, pub)" "api_server E st \<Longrightarrow> inj_on GetReferenceKey T \<Longrightarrow> loses T X (st (ext w)) (st (ext w'))"
    and "pub' \<subseteq> pub" "\<And>n t. (n, t) \<in> pub' \<Longrightarrow> (cfg_Namespace E, n, t) \<notin> X"
  shows "cluster_inv E st T (w', pub')"
  using assms unfolding cluster_inv_def loses_def by fastforce

lemma loses_only_deleted_go: "only_deleted_go ps qs \<Longrightarrow> loses T {} ps qs"
  unfolding only_deleted_go_def loses_def sane_def alive_def by (metis option.distinct(1) option.inject)

lemma cluster_inv_step:
  assumes "cluster_inv E st T s" "cluster_step E C mountImage fuel D st T s s'"
  shows "cluster_inv E st T s'"
  using assms(2,1)
proof (induction rule: cluster_step.induct)
  case (publish s appInfo w s' n w' pub)
  have "loses T {} (st (ext w)) (st (ext w')) \<and> (sane T (st (ext w)) \<longrightarrow> alive (st (ext w')) (cfg_Namespace E) n (TargetPath s))"
    if "api_server E st" "inj_on GetReferenceKey T"
    using hwpD [OF hwp_dmount_locked [OF that publish(1,2)] publish(3)] by blast
  with publish(4) show ?case using publish(1) unfolding cluster_inv_def loses_def by fastforce
next
  case (publish_fails s appInfo w r w' pub)
  then show ?case
    by (intro cluster_inv_loses [where X = "{}", OF publish_fails(5)]) (use hwpD [OF hwp_dmount_locked] in blast)+
next
  case (unpublish t n w r w' pub)
  then show ?case
    by (intro cluster_inv_loses [where X = "{(cfg_Namespace E, n, t)}", OF unpublish(3)]) (use hwpD [OF hwp_umount_and_release] in blast)+
next
  case (check pod mit w r' w' pub)
  then show ?case
    by (intro cluster_inv_loses [where X = "dead_refs mit pod", OF check(4)])
      (use hwpD [OF hwp_check_annotations_locked] in \<open>auto simp: dead_refs_def\<close>)
next
  case (recreate pod w h w' pub)
  then show ?case
    by (intro cluster_inv_loses [where X = "{}", OF recreate(4)]) (use hwpD [OF hwp_wait_recreate] in blast)+
next
  case (outside w w' pub)
  then show ?case by (intro cluster_inv_loses [where X = "{}", OF outside(2)]) (auto intro: loses_only_deleted_go)
qed

interpretation cluster: invariant_system "cluster_init st T" "cluster_step E C mountImage fuel D st T" "cluster_inv E st T"
  for E C mountImage fuel D st T
proof
  show "cluster_init st T s \<Longrightarrow> cluster_inv E st T s" for s by (auto simp: cluster_init_def cluster_inv_def)
qed (rule cluster_inv_step)


section \<open>A cluster for witnesses\<close>

text \<open>An API server that holds the views of pods; a pod with a key twice in its annotations cannot be read.\<close>

definition stored_pod :: "string \<Rightarrow> string \<Rightarrow> pod_view \<Rightarrow> Pod" where
  "stored_pod ns n v = zero_Pod\<lparr>pod_Namespace := ns, pod_Name := n, pod_Annotations := Some (mp_annos v),
     pod_DeletionTimestamp := (if mp_deleting v then Some 0 else None)\<rparr>"

definition cluster_env :: "pods env" where
  "cluster_env = idle_env\<lparr>
     cfg_CSIPod := zero_Pod\<lparr>pod_Spec := zero_PodSpec\<lparr>Containers := [zero_Container]\<rparr>\<rparr>,
     k_pod_get := (\<lambda>ns n w. (case w (ns, n) of None \<Rightarrow> Err (ApiErr NotFound '''')
       | Some v \<Rightarrow> if wf_map (mp_annos v) then Ok (Some (stored_pod ns n v)) else Err (MsgErr ''decode''), w)),
     k_pod_create := (\<lambda>pod w. case w (pod_Namespace pod, pod_Name pod) of
         None \<Rightarrow> (Ok pod, w((pod_Namespace pod, pod_Name pod) \<mapsto> \<lparr>mp_annos = annos pod, mp_deleting = False\<rparr>))
       | Some _ \<Rightarrow> (Err (ApiErr AlreadyExists ''''), w)),
     k_pod_patch := (\<lambda>ns n d w. case w (ns, n) of
         None \<Rightarrow> (Some (ApiErr NotFound ''''), w)
       | Some v \<Rightarrow> (None, w((ns, n) \<mapsto> v\<lparr>mp_annos := patch_annos d (mp_annos v)\<rparr>))),
     k_pod_delete := (\<lambda>ns n w. case w (ns, n) of
         None \<Rightarrow> (Some (ApiErr NotFound ''''), w)
       | Some v \<Rightarrow> (None, w((ns, n) := None))),
     os_umount_lazy := (\<lambda>_ w. ((''not mounted'', Some (MsgErr ''exit status 32'')), w))\<rparr>"

lemma cluster_api_server: "api_server cluster_env (\<lambda>w. w)"
  unfolding api_server_def
  by (auto simp: cluster_env_def idle_env_def reads_pods_def patches_pods_def creates_pods_def deletes_pods_def other_calls_quiet_def
      quiet_call_def stored_pod_def pod_view_of_def annos_def IsNotFound_def zero_Pod_def split: option.splits)

definition cluster_setting :: DfsSetting where
  "cluster_setting = zero_DfsSetting\<lparr>Name := ''fs1'', UniqueId := ''v1'', TargetPath := ''/pods/a/mount'',
     Attr := Some (zero_PodAttr\<lparr>pa_Namespace := ''kube-system''\<rparr>)\<rparr>"

lemma metadata_no_refs [simp]: "GetReferenceKey t \<noteq> DingoFSID" "GetReferenceKey t \<noteq> UniqueIdKey"
  by (rule GetReferenceKey_neq_length, simp add: config_defs)+

lemma cluster_setting_plain: "plain_setting cluster_env sample_codec ''img'' T cluster_setting"
  unfolding plain_setting_def plain_pod_def
  by (simp add: genCommonPod_def GenPodAttrWithCfg_def cluster_setting_def zero_PodAttr_def genPodTemplate_def genMetadata_def
        ApplyConfigPatch_def GenMountPodPatch_def attr_of_def Let_def AddFinalizer_def annos_def
        genDfsVolumes_def sample_codec_def cluster_env_def idle_env_def
        zero_DfsSetting_def zero_MountPodPatch_def opt_list_def zero_Pod_def zero_PodSpec_def AList.update_conv'
        case_prod_unfold)


lemmas cluster_eval = hwp_def bindE_def run_call client_defs cluster_env_def idle_env_def Let_def case_prod_unfold

lemma cluster_pod_name:
  "hwp (\<lambda>w. w) ps (GenMountPodName cluster_env cluster_setting) (\<lambda>r qs. r = Ok ''dingofs-node1-v1-aaaaaa'' \<and> qs = ps)"
  by (simp add: GenMountPodName_def GenPodNameByUniqueId_def letterRunes_def cluster_setting_def eval_nat_numeral cluster_eval)

lemma cluster_new_pod:
  "hwp (\<lambda>w. w) ps (NewMountPod cluster_env sample_codec ''img'' (cluster_setting\<lparr>MountPath := mp, SecretName := sn\<rparr>) n)
     (\<lambda>r qs. \<exists>pod s'. r = Ok (pod, s') \<and> pod_Name pod = n \<and> qs = ps)"
  by (simp add: NewMountPod_def initFuseConfig_def genCommonPod_def GenPodAttrWithCfg_def cluster_setting_def zero_PodAttr_def
      genPodTemplate_def genMetadata_def ApplyConfigPatch_def GenMountPodPatch_def attr_of_def genDfsVolumes_def sample_codec_def
      zero_DfsSetting_def zero_MountPodPatch_def opt_list_def zero_Pod_def zero_PodSpec_def cluster_eval)

lemma cluster_create_pod:
  "ps (pod_Namespace pod, pod_Name pod) = None \<Longrightarrow> 6 \<le> length (pod_Name pod) \<Longrightarrow>
   hwp (\<lambda>w. w) ps (CreatePod cluster_env pod) (\<lambda>r qs. \<exists>x. r = Ok x)"
  by (simp add: CreatePod_def findAvailableNodePort_def createSerivce_def last_bytes_def cluster_eval)

lemma cluster_place_pod:
  "hwp (\<lambda>w. w) ps (place_pod cluster_env None pod) (\<lambda>p qs. pod_Name p = pod_Name pod \<and> pod_Namespace p = pod_Namespace pod \<and> qs = ps)"
  by (simp add: place_pod_def cluster_eval)

lemma cluster_secret: "hwp (\<lambda>w. w) ps (CreateOrUpdateSecret cluster_env sec) (\<lambda>r qs. r = Ok () \<and> qs = ps)"
  by (simp add: CreateOrUpdateSecret_def IsNotFound_def cluster_eval)

lemma cluster_dir: "hwp (\<lambda>w. w) ps (DoWithTimeoutR cluster_env (make_mount_dir cluster_env k p)) (\<lambda>r qs. r = Ok () \<and> qs = ps)"
  by (simp add: DoWithTimeoutR_def make_mount_dir_def cluster_eval)

lemma hwp_bindE_Ok: "hwp st ps m (\<lambda>r qs. \<exists>x. r = Ok x \<and> hwp st qs (f x) Q) \<Longrightarrow> hwp st ps (bindE m f) Q"
  by (rule hwp_bindE, erule hwp_mono) auto

lemma cluster_create_mount_pod:
  "6 \<le> length n \<Longrightarrow> hwp (\<lambda>w. w) Map.empty
     (create_mount_pod cluster_env sample_codec ''img'' n (cluster_setting\<lparr>MountPath := mp, SecretName := sn\<rparr>) None sec) (\<lambda>r qs. \<exists>x. r = Ok x)"
  unfolding create_mount_pod_def Let_def
  by (rule hwp_bindE_Ok, rule hwp_mono [OF cluster_new_pod])
    (auto intro!: hwp_bindE_Ok hwp_bind hwp_return hwp_mono [OF cluster_place_pod] hwp_mono [OF cluster_secret] hwp_mono [OF cluster_create_pod]
      simp: last_bytes_def)

lemma cluster_GetPod:
  "ps (ns, n) = None \<Longrightarrow> hwp (\<lambda>w. w) ps (GetPod cluster_env n ns) (\<lambda>r qs. r = Err (ApiErr NotFound '''') \<and> qs = ps)"
  by (simp add: cluster_eval)

lemma cluster_create_or_add:
  "6 \<le> length n \<Longrightarrow> hwp (\<lambda>w. w) Map.empty
     (create_or_add cluster_env sample_codec ''img'' 3 n (cluster_setting\<lparr>MountPath := mp, SecretName := sn\<rparr>) None sec) (\<lambda>r qs. \<exists>x. r = Ok x)"
  unfolding numeral_3_eq_3 create_or_add.simps
  by (rule hwp_bind, rule hwp_mono [OF cluster_GetPod]) (auto simp: IsNotFound_def intro: cluster_create_mount_pod)

lemma cluster_new_secret: "\<exists>sec. NewSecret (cluster_setting\<lparr>MountPath := mp, SecretName := sn\<rparr>) = Ok sec"
  by (simp add: NewSecret_def attr_of_def cluster_setting_def Let_def)

lemma cluster_createPodOrAddRef:
  "8 \<le> length n \<Longrightarrow> hwp (\<lambda>w. w) Map.empty (createPodOrAddRef cluster_env sample_codec ''img'' 3 n cluster_setting None) (\<lambda>r qs. \<exists>x. r = Ok x)"
  unfolding createPodOrAddRef_def Let_def
  using cluster_new_secret cluster_create_or_add
  by (auto intro!: hwp_bindE_Ok hwp_return hwp_mono [OF cluster_dir] simp: last_bytes_def)

lemma cluster_publishes:
  "hwp (\<lambda>w. w) Map.empty (dmount_locked cluster_env sample_codec ''img'' 3 None cluster_setting) (\<lambda>r qs. \<exists>x. r = Ok x)"
  unfolding dmount_locked_def
  by (auto intro!: hwp_bindE_Ok hwp_return hwp_mono [OF cluster_pod_name] hwp_mono [OF cluster_createPodOrAddRef])

section \<open>Properties\<close>

text \<open>C1: as long as a target is published, its mount pod lives and refers to it. From any cluster, whatever critical sections of
  publishing, of unpublishing, of the check of the annotations and of the creation of deleted pods follow each other, on copies of pods that may be out of date, a
  target whose publication succeeded has a pod that is not being deleted and carries its reference, until
  the target is unpublished or the reconciler finds its application pod gone.\<close>

theorem published_targets_have_mount_pods:
  assumes "api_server E st" and "inj_on GetReferenceKey T"
    and "reachable (cluster_init st T) (cluster_step E C mountImage fuel D st T) (w, pub)" and "(n, t) \<in> pub"
  shows "alive (st (ext w)) (cfg_Namespace E) n t"
  using cluster.reachable_inv [OF assms(3)] assms(1,2,4) by (auto simp: cluster_inv_def)

theorem published_targets_have_mount_pods_witness:
  "\<exists>n. alive (ext (snd (run_state (dmount_locked cluster_env sample_codec ''img'' 3 None cluster_setting) (idle_world Map.empty))))
     ''kube-system'' n ''/pods/a/mount''"
proof -
  let ?m = "dmount_locked cluster_env sample_codec ''img'' 3 None cluster_setting"
  have "\<exists>x. fst (run_state ?m (idle_world Map.empty)) = Ok x"
    using cluster_publishes [unfolded hwp_def, rule_format, of "idle_world Map.empty"] by (simp add: idle_world_def)
  then obtain s' n w where run: "run_state ?m (idle_world Map.empty) = (Ok (s', n), w)"
    by (cases "run_state ?m (idle_world Map.empty)") (auto split: result.splits)
  let ?T = "{''/pods/a/mount''}"
  have ns: "cfg_Namespace cluster_env = ''kube-system''" by (simp add: cluster_env_def idle_env_def)
  have t: "TargetPath cluster_setting = ''/pods/a/mount''" by (simp add: cluster_setting_def)
  let ?step = "cluster_step cluster_env sample_codec ''img'' 3 publish_driver (\<lambda>w. w) ?T"
  have init: "cluster_init (\<lambda>w. w) ?T (idle_world Map.empty, {})" by (simp add: cluster_init_def sane_def idle_world_def)
  have "?step (idle_world Map.empty, {}) (w, insert (n, TargetPath cluster_setting) {})"
    by (rule publish [OF _ cluster_setting_plain run]) (simp add: t)
  then have "reachable (cluster_init (\<lambda>w. w) ?T) ?step (w, {(n, ''/pods/a/mount'')})"
    unfolding t by (rule reach_step [rotated]) (rule reach_init, rule init)
  then have "alive (ext w) ''kube-system'' n ''/pods/a/mount''"
    using published_targets_have_mount_pods [OF cluster_api_server, of ?T] unfolding ns [symmetric] by blast
  then show ?thesis unfolding run by auto
qed


text \<open>C2: a target that is unpublished is released. When the section that unmounts a target and releases its pod
  succeeds, the pod does not refer to the target any more, and a pod that nothing refers to is gone or being deleted unless a
  delay of its deletion is set.\<close>

theorem unpublished_targets_are_released:
  assumes "api_server E st" and "inj_on GetReferenceKey T" and "t \<in> T" and "n \<noteq> []"
    and "run_state (umount_and_release E D t n) w = (Ok (), w')"
  shows "unreferenced (st (ext w')) (cfg_Namespace E) n t \<and> settled (st (ext w')) (cfg_Namespace E) n"
  using hwpD [OF hwp_release [OF assms(1-4)] assms(5)] by blast

definition release_pods :: pods where
  "release_pods = [(''kube-system'', ''dingofs-node1-v1-aaaaaa'') \<mapsto>
     \<lparr>mp_annos = [(GetReferenceKey ''/pods/a/mount'', ''/pods/a/mount'')], mp_deleting = False\<rparr>]"

lemma release_pods_run:
  "hwp (\<lambda>w. w) release_pods (umount_and_release cluster_env publish_driver ''/pods/a/mount'' ''dingofs-node1-v1-aaaaaa'') (\<lambda>r qs. r = Ok ())"
  by (simp add: umount_and_release_def UmountTarget_def release_pods_def publish_driver_def eval_nat_numeral DoWithTimeout_def del_ref_once_def DelPodAnnotation_def
    GetMountRef_def GetRef_def DUmount_def dumount_once_def ShouldDelay_def dumount_delete_def last_bytes_def stored_pod_def zero_Pod_def annos_def wf_map_def HasPrefix_def
    IsNotFound_def nothing_mounted_def cluster_eval)


theorem unpublished_targets_are_released_witness:
  "unreferenced (ext (snd (run_state (umount_and_release cluster_env publish_driver ''/pods/a/mount'' ''dingofs-node1-v1-aaaaaa'')
      (idle_world release_pods)))) ''kube-system'' ''dingofs-node1-v1-aaaaaa'' ''/pods/a/mount'' \<and>
   settled (ext (snd (run_state (umount_and_release cluster_env publish_driver ''/pods/a/mount'' ''dingofs-node1-v1-aaaaaa'')
      (idle_world release_pods)))) ''kube-system'' ''dingofs-node1-v1-aaaaaa''"
proof -
  let ?m = "umount_and_release cluster_env publish_driver ''/pods/a/mount'' ''dingofs-node1-v1-aaaaaa''"
  have "fst (run_state ?m (idle_world release_pods)) = Ok ()"
    using release_pods_run [unfolded hwp_def, rule_format, of "idle_world release_pods"] by (simp add: idle_world_def)
  then have run: "run_state ?m (idle_world release_pods) = (Ok (), snd (run_state ?m (idle_world release_pods)))"
    by (metis prod.collapse)
  have ns: "cfg_Namespace cluster_env = ''kube-system''" by (simp add: cluster_env_def idle_env_def)
  show ?thesis
    using unpublished_targets_are_released [OF cluster_api_server _ _ _ run, of "{''/pods/a/mount''}"] unfolding ns by simp
qed

text \<open>C10: a failed pod that is deployed again keeps only the references that the copy of the pod has which the handler was
  given. The copy is read before the lock of the pod is taken: a reference that was added to the pod in between is
  lost with the pod that held it.\<close>

theorem redeploy_drops_late_references:
  assumes "api_server E st" and "t \<notin> refs (annos pod)"
    and "run_state (handle E C fuel mit (if pending then podPending else podError) pod) w = (r, w')"
  shows "st (ext w') = st (ext w) \<or> \<not> alive (st (ext w')) (pod_Namespace pod) (pod_Name pod) t"
proof -
  have "run_state (resource_handler E fuel pod (if pending then noResult else requeue)) w = (r, w')"
    using assms(3) by (simp add: handle_def podErrorHandler_def podPendingHandler_def split: if_splits)
  from hwpD [OF hwp_resource_handler [OF assms(1)] this] assms(2) show ?thesis
    by (auto simp: redeployed_def Let_def alive_def deleted_from_def)
qed

definition failed_pod :: Pod where
  "failed_pod = zero_Pod\<lparr>pod_Name := ''dingofs-node1-v1-aaaaaa'', pod_Namespace := ''kube-system'',
     pod_Labels := [(PodHashLabelKey, ''h'')], pod_Annotations := Some [], pod_Phase := ''Failed'', pod_Reason := ''OutOfmemory'',
     pod_Spec := zero_PodSpec\<lparr>Containers := [zero_Container\<lparr>c_Requests := [(''memory'', 1)]\<rparr>]\<rparr>\<rparr>"

lemma failed_pod_run:
  "hwp (\<lambda>w. w) release_pods (redeploy cluster_env 3 failed_pod requeue) (\<lambda>r qs. qs \<noteq> release_pods)"
  by (simp add: redeploy_def numeral_3_eq_3 RemoveFinalizer_def failed_pod_def release_pods_def ignoreE_def mkrMp_def GetMountPathOfPod_def
     CreatePod_def findAvailableNodePort_def createSerivce_def last_bytes_def DeleteResourceOfPod_def copy_pod_def AddFinalizer_def zero_Pod_def
     zero_PodSpec_def zero_Container_def annos_def IsNotFound_def fun_eq_iff cluster_eval)

theorem redeploy_drops_late_references_witness:
  "alive (ext (idle_world release_pods)) ''kube-system'' ''dingofs-node1-v1-aaaaaa'' ''/pods/a/mount'' \<and>
   \<not> alive (ext (snd (run_state (handle cluster_env sample_codec 3 newMountInfoTable podError failed_pod) (idle_world release_pods))))
      ''kube-system'' ''dingofs-node1-v1-aaaaaa'' ''/pods/a/mount''"
proof -
  let ?m = "handle cluster_env sample_codec 3 newMountInfoTable podError failed_pod"
  have pod: "pod_Namespace failed_pod = ''kube-system''" "pod_Name failed_pod = ''dingofs-node1-v1-aaaaaa''" "refs (annos failed_pod) = {}"
    by (simp_all add: failed_pod_def annos_def refs_def)
  have "mget (pod_Labels failed_pod) PodHashLabelKey = ''h''" "IsPodResourceError failed_pod" "IsPodHasResource failed_pod"
    by (simp_all add: failed_pod_def mget_def config_defs IsPodResourceError_def IsPodHasResource_def zero_PodSpec_def)
  then have "hwp (\<lambda>w. w) release_pods ?m (\<lambda>r qs. qs \<noteq> release_pods)"
    by (auto simp: handle_def podErrorHandler_def resource_handler_def locked_def Let_def
        intro!: hwp_bind hwp_emit hwp_return hwp_mono [OF failed_pod_run])
  then have changed: "ext (snd (run_state ?m (idle_world release_pods))) \<noteq> release_pods"
    unfolding hwp_def by (simp add: idle_world_def)
  have "alive release_pods ''kube-system'' ''dingofs-node1-v1-aaaaaa'' ''/pods/a/mount''"
    by (simp add: release_pods_def alive_def refs_def)
  then show ?thesis
    using redeploy_drops_late_references [OF cluster_api_server, of "''/pods/a/mount''" failed_pod sample_codec 3 newMountInfoTable False "idle_world release_pods",
        OF _ prod.collapse [symmetric]] changed
    unfolding pod by (simp add: idle_world_def)
qed

end
