(* ===== verification/Spec2Isabelle.thy ===== *)
theory Spec2Isabelle
  imports Digest GoStrings Util Kube Client Config Paths Setting Resource MountTable Builder MountPods PodDriver
    FsTool Locks Provider ControllerService NodeService Frame Services Provisioner Fuse Controllers Startup Lookup CsiCommon
    Lifecycle
begin

text \<open>
  A verification development of dingofs-csi, the CSI driver of DingoFS for Kubernetes.

  \<^bold>\<open>The program.\<close> The driver runs twice in a cluster. As node plugin it publishes volumes: for each volume
  it creates a mount pod that runs the FUSE client, and bind mounts the directory of the volume into the
  application pods. The annotations of a mount pod count its references, one per target path; a mount pod
  without references is deleted, possibly after a delay, and a mount pod that died is created again
  and its bind mounts are repaired. As controller plugin the driver creates, expands and deletes directories of volumes with their
  quotas, and cleans up mount pods, jobs and secrets. Both talk to the API server through one client and to the
  file system through a command line tool.

  \<^bold>\<open>Method.\<close> Definitions are shallow translations of the Go functions and keep their names. Pure code is
  HOL functions. Code with effects is a state monad over \<open>world\<close> (theory \<open>Kube\<close>): the outside (API
  server, operating system, mount utilities, clock) is the record \<open>env\<close> of arbitrary functions on an arbitrary state,
  so theorems hold for every behaviour of the cluster between two calls; every call appends an event with
  its answer to a trace. Safety properties are statements \<open>wp trace m Q\<close> about the events and the
  result of a call from every state. A Go function that returns a value and an error has type \<open>'a result\<close>
  with the error, a run-time panic and the end of fuel as values of their own. Maps are association lists, in the
  order of one \<open>range\<close> loop; mutexes are events or, for the tables the services keep, fields of the state.

  \<^bold>\<open>Theories.\<close>
  \<^item> \<open>Prelude\<close>: errors, results, string maps, the logic \<open>wp\<close> and \<open>keeps\<close>, the locale \<open>invariant_system\<close> for
    transition systems. \<open>Locks\<close>: the locale \<open>try_lock\<close> of a table of locks that are tried, not waited
    for, with its transition system and mutual exclusion; interpreted on the target locks of \<open>node.go\<close>
    and on the volume locks of \<open>resource/volume.go\<close>.
  \<^item> \<open>GoStrings\<close>, \<open>Digest\<close>, \<open>Paths\<close>: the functions of \<open>strings\<close>, \<open>strconv\<close>, \<open>path\<close>, \<open>hash/fnv\<close> and \<open>crypto/sha256\<close> that the
    source uses. \<open>Util\<close>: \<open>pkg/util/util.go\<close>, \<open>dev_monitor.go\<close>, \<open>security/escape.go\<close>, with
    quoting proved against a model of how bash reads a word.
  \<^item> \<open>Kube\<close>, \<open>Client\<close>, \<open>Config\<close>: Kubernetes objects, the outside, \<open>k8sclient/client.go\<close>, \<open>config/config.go\<close>.
  \<^item> \<open>Setting\<close>, \<open>Resource\<close>, \<open>Builder\<close>: \<open>config/dfs_setting.go\<close>, \<open>util/resource\<close>, and the pods, jobs and secrets
    made by \<open>pkg/builder\<close>. Lemmas: parsing and printing of options, what a merged configuration keeps, the mount
    path a pod is made with is the one read back from its command.
  \<^item> \<open>MountPods\<close>: \<open>builder/mount.go\<close>, creation of mount pods, references and their removal. Lemmas: a successful mount has
    registered the target; only pods without references are deleted; adding and counting references refine a
    set of targets.
  \<^item> \<open>MountTable\<close>, \<open>PodDriver\<close>: \<open>controller/mountinfo.go\<close> and \<open>pod_driver.go\<close>. Lemmas: the table is the one a
    reference definition gives, references of living pods are kept, a recreated pod keeps its references, repairs touch only the broken
    targets; loops end when unmounting makes progress.
  \<^item> \<open>FsTool\<close>, \<open>Provider\<close>: \<open>util/fs_util.go\<close>, \<open>dingofs-driver/dingofs.go\<close> and \<open>volume.go\<close>.
    \<open>ControllerService\<close>, \<open>NodeService\<close>, \<open>Provisioner\<close>: \<open>controller.go\<close>, \<open>node.go\<close>, \<open>provisioner.go\<close>. \<open>Frame\<close> shows which
    tables a call can change, \<open>Services\<close> has the properties that span provider, mount pods and services: what a
    successful publish has done, that targets are exclusive and locks released, what an unpublish may delete.
  \<^item> \<open>Lifecycle\<close>: the life of mount pods across \<open>mount.go\<close>, \<open>dingofs.go\<close> and \<open>pod_driver.go\<close>. The predicate \<open>api_server\<close> states the
    documented laws of the API server on pods (what is read is what is there, a patch changes what it names, a name is taken once); \<open>hwp\<close> is a logic of the
    pods a call leaves. The critical sections of publishing, unpublishing, of the check of the annotations and of the creation of deleted pods are the steps of a
    system, an instance of \<open>invariant_system\<close>: a published target keeps a living mount pod that refers to it. An unpublished target is
    released, and deploying a failed pod again can drop a reference. A section is one step because it runs under the lock of the
    hash of its mount pod; sections of other pods change other pods.
  \<^item> \<open>Fuse\<close>: \<open>fuse/passfd.go\<close>, with a heap for the entries that goroutines share, a step relation and the invariant
    that every open descriptor has one owner.
  \<^item> \<open>Controllers\<close>: the controllers of \<open>pkg/controller\<close> with their event predicates, and the rounds of the polling
    reconciler.
  \<^item> \<open>Startup\<close>: \<open>cmd\<close>, \<open>cmd/app\<close>, \<open>driver.go\<close>, \<open>identity.go\<close>. The package variables of \<open>pkg/config\<close>, constants for the services, are
    a record that the start of each plugin fills from flags and environment, and \<open>with_config\<close> gives them to the services. Lemmas: a node
    plugin watches its pods in exactly one way, what the caches of the managers can hold, which pod the configuration
    ends up with.
  \<^item> \<open>Lookup\<close>: \<open>util/resource/namespace.go\<close>, \<open>GetVolumes\<close>, the client of the kubelet, the port of the metrics, the logger of a context and
    the calls that nothing makes. \<open>CsiCommon\<close>:
    \<open>pkg/csicommon\<close> and \<open>util/version.go\<close>.

  \<^bold>\<open>Fuel.\<close> Loops that wait for the cluster (a pod to be ready or gone), retry, or unmount until nothing is left have a fuel
  argument; running out is the value \<open>OutOfFuel\<close>, different from every answer. Safety properties hold for
  every fuel; termination is proved under a progress assumption on \<open>umount\<close>, with the fuel that is
  enough, and where the source has no bound a theorem shows the loop that does not end. Structural loops have no fuel. The
  polling reconciler, which never ends, is given by its first \<open>n\<close> rounds.

  \<^bold>\<open>Not modelled.\<close> The text of logs and the embedded script; the constructors that only store their arguments; the gRPC server and its registration; the parsing of flags, signals; TLS and HTTP
  below the client of the kubelet, whose answers are parameters; the queue of the controller runtime and the manager that owns it; JSON
  and YAML codecs, which are parameters (\<open>codec\<close>); the contents of files and sockets, which are answers of the outside. Goroutines are
  operations of their own that appear in the trace when they are started; interleavings are modelled where state is shared
  (lock tables, file descriptors, mount pods), each step being what runs under a lock. In the system of mount pods the lock of \<open>podReadyHandler\<close>,
  which is that of the name of the pod and not of its hash, excludes none of the steps; its deletion of a pod that does not answer
  is not a step.
\<close>

end
